(* ===== verification/Location_Prelude.thy ===== *)
theory Location_Prelude
  imports Complex_Main "HOL-Library.Word"
begin

text \<open>
  What every component of the location service shares: the error enumerations of
  \<^verbatim>\<open>include/location_errors.h\<close> and \<^verbatim>\<open>include/ServiceAgent.h\<close>, the handler names and
  types of \<^verbatim>\<open>include/Location.h\<close>, C string helpers, runs of a deterministic machine with
  their invariant rule, and the library's rule collections.
\<close>

unbundle bit_operations_syntax

subsection \<open>Rule collections\<close>

text \<open>
  \<open>svc_defs\<close> holds the definitions of handlers that case proofs unfold, \<open>svc_inv\<close> the
  preservation lemmas of the invariants, \<open>svc_frame\<close> the fields an operation leaves alone.
\<close>

named_theorems svc_defs "handler definitions unfolded by the case proofs"
named_theorems svc_inv "preservation lemmas"
named_theorems svc_frame "fields an operation does not change"

subsection \<open>Error enumerations\<close>

text \<open>\<^verbatim>\<open>ErrorCodes\<close>: what a position provider answers to a request.\<close>

datatype ErrorCodes =
    ERROR_NONE
  | ERROR_NOT_IMPLEMENTED
  | ERROR_TIMEOUT
  | ERROR_NETWORK_ERROR
  | ERROR_NOT_APPLICABLE_TO_THIS_HANDLER
  | ERROR_NOT_AVAILABLE
  | ERROR_WRONG_PARAMETER
  | ERROR_DUPLICATE_REQUEST
  | ERROR_REQUEST_INPROGRESS
  | ERROR_NOT_STARTED
  | ERROR_LICENSE_KEY_INVALID
  | ERROR_MUTLITHREAD

text \<open>The value the C enumeration gives each constant.\<close>

primrec error_num :: "ErrorCodes \<Rightarrow> int" where
  "error_num ERROR_NONE = 0"
| "error_num ERROR_NOT_IMPLEMENTED = 1"
| "error_num ERROR_TIMEOUT = 2"
| "error_num ERROR_NETWORK_ERROR = 3"
| "error_num ERROR_NOT_APPLICABLE_TO_THIS_HANDLER = 4"
| "error_num ERROR_NOT_AVAILABLE = 5"
| "error_num ERROR_WRONG_PARAMETER = 6"
| "error_num ERROR_DUPLICATE_REQUEST = 7"
| "error_num ERROR_REQUEST_INPROGRESS = 8"
| "error_num ERROR_NOT_STARTED = 9"
| "error_num ERROR_LICENSE_KEY_INVALID = 10"
| "error_num ERROR_MUTLITHREAD = 11"

text \<open>
  The second, anonymous enumeration of \<^verbatim>\<open>location_errors.h\<close>: plain integers in the code, since
  \<^verbatim>\<open>parseHTTPResponse\<close> mixes them with the first one.
\<close>

abbreviation (input) ERROR_NO_DATA :: int where "ERROR_NO_DATA \<equiv> 3"

text \<open>\<^verbatim>\<open>LocationErrorCode\<close>: what the service answers to its clients.\<close>

datatype LocationErrorCode =
    LOCATION_SUCCESS
  | LOCATION_TIME_OUT
  | LOCATION_POS_NOT_AVAILABLE
  | LOCATION_UNKNOWN_ERROR
  | LOCATION_GPS_UNAVAILABLE
  | LOCATION_LOCATION_OFF
  | LOCATION_PENDING_REQ
  | LOCATION_APP_BLACK_LISTED
  | LOCATION_START_FAILURE
  | LOCATION_STATE_UNKNOWN
  | LOCATION_INVALID_INPUT
  | LOCATION_DATA_CONNECTION_OFF
  | LOCATION_WIFI_CONNECTION_OFF
  | LOCATION_OUT_OF_MEM
  | LOCATION_GEOFENCE_TOO_MANY_GEOFENCE
  | LOCATION_GEOFENCE_ID_EXIST
  | LOCATION_GEOFENCE_ID_UNKNOWN
  | LOCATION_GEOFENCE_INVALID_TRANSITION
  | LOCATION_NOT_STARTED
  | LOCATION_MOCK_DISABLED
  | LOCATION_UNKNOWN_MOCK_PROVIDER
  | LOCATION_WSP_CONF_READ_FAILED
  | LOCATION_WSP_CONF_NAME_MISSING
  | LOCATION_WSP_CONF_APIKEY_MISSING
  | LOCATION_WSP_CONF_NO_SERVICES
  | LOCATION_WSP_CONF_NO_FEATURES
  | LOCATION_WSP_CONF_URL_MISSING
  | LOCATION_GPS_NYX_SOURCE_UNAVAILABLE

text \<open>All of them in declaration order; the position of a code is its C value.\<close>

definition all_loc_errors :: "LocationErrorCode list" where
  "all_loc_errors =
    [LOCATION_SUCCESS, LOCATION_TIME_OUT, LOCATION_POS_NOT_AVAILABLE, LOCATION_UNKNOWN_ERROR,
     LOCATION_GPS_UNAVAILABLE, LOCATION_LOCATION_OFF, LOCATION_PENDING_REQ,
     LOCATION_APP_BLACK_LISTED, LOCATION_START_FAILURE, LOCATION_STATE_UNKNOWN,
     LOCATION_INVALID_INPUT, LOCATION_DATA_CONNECTION_OFF, LOCATION_WIFI_CONNECTION_OFF,
     LOCATION_OUT_OF_MEM, LOCATION_GEOFENCE_TOO_MANY_GEOFENCE, LOCATION_GEOFENCE_ID_EXIST,
     LOCATION_GEOFENCE_ID_UNKNOWN, LOCATION_GEOFENCE_INVALID_TRANSITION, LOCATION_NOT_STARTED,
     LOCATION_MOCK_DISABLED, LOCATION_UNKNOWN_MOCK_PROVIDER, LOCATION_WSP_CONF_READ_FAILED,
     LOCATION_WSP_CONF_NAME_MISSING, LOCATION_WSP_CONF_APIKEY_MISSING,
     LOCATION_WSP_CONF_NO_SERVICES, LOCATION_WSP_CONF_NO_FEATURES,
     LOCATION_WSP_CONF_URL_MISSING, LOCATION_GPS_NYX_SOURCE_UNAVAILABLE]"

abbreviation (input) LOCATION_ERROR_MAX :: int where "LOCATION_ERROR_MAX \<equiv> 28"

fun index_of :: "'a \<Rightarrow> 'a list \<Rightarrow> nat" where
  "index_of x [] = 0"
| "index_of x (y # ys) = (if x = y then 0 else Suc (index_of x ys))"

definition loc_error_num :: "LocationErrorCode \<Rightarrow> int" where
  "loc_error_num e = int (index_of e all_loc_errors)"

lemma index_of_nth: "x \<in> set xs \<Longrightarrow> index_of x xs < length xs \<and> xs ! index_of x xs = x"
  by (induction xs) auto

lemma all_loc_errors_complete: "e \<in> set all_loc_errors"
  by (cases e) (simp_all add: all_loc_errors_def)

lemma length_all_loc_errors: "length all_loc_errors = 28"
  by (simp add: all_loc_errors_def)

lemma loc_error_num_range: "0 \<le> loc_error_num e \<and> loc_error_num e < LOCATION_ERROR_MAX"
  using index_of_nth [OF all_loc_errors_complete, of e]
  by (simp add: loc_error_num_def length_all_loc_errors)

lemma loc_error_nth: "all_loc_errors ! nat (loc_error_num e) = e"
  using index_of_nth [OF all_loc_errors_complete, of e] by (simp add: loc_error_num_def)

lemma loc_error_num_inj: "loc_error_num a = loc_error_num b \<Longrightarrow> a = b"
  by (metis loc_error_nth)

text \<open>C compares enumerators by value, so the codes are linearly ordered by it.\<close>

instantiation LocationErrorCode :: linorder
begin

definition less_eq_LocationErrorCode :: "LocationErrorCode \<Rightarrow> LocationErrorCode \<Rightarrow> bool" where
  "less_eq_LocationErrorCode a b \<longleftrightarrow> loc_error_num a \<le> loc_error_num b"

definition less_LocationErrorCode :: "LocationErrorCode \<Rightarrow> LocationErrorCode \<Rightarrow> bool" where
  "less_LocationErrorCode a b \<longleftrightarrow> loc_error_num a < loc_error_num b"

instance
  by standard
    (auto simp: less_eq_LocationErrorCode_def less_LocationErrorCode_def intro: loc_error_num_inj)

end

subsection \<open>Handlers\<close>

text \<open>\<^verbatim>\<open>HandlerTypes\<close> of \<^verbatim>\<open>include/Location.h\<close>, and the handler names of \<^verbatim>\<open>ServiceAgent.h\<close>.\<close>

datatype HandlerTypes = HANDLER_NETWORK | HANDLER_GPS | HANDLER_LBS | HANDLER_HYBRID | HANDLER_MAX

abbreviation (input) GPS :: string where "GPS \<equiv> ''gps''"
abbreviation (input) NETWORK :: string where "NETWORK \<equiv> ''network''"
abbreviation (input) HYBRID :: string where "HYBRID \<equiv> ''hybrid''"
abbreviation (input) PASSIVE :: string where "PASSIVE \<equiv> ''passive''"

text \<open>\<^verbatim>\<open>HandlerRequestType\<close> of \<^verbatim>\<open>include/HandlerRequestCommands.h\<close>.\<close>

datatype HandlerRequestType =
    UNKNOWN_CMD | POSITION_CMD | GPS_STATUS_CMD | NMEA_CMD | SATELITTE_CMD
  | SET_GPS_PARAMETERS_CMD | SEND_GPS_EXTRA_CMD | ADD_GEOFENCE_CMD | REMOVE_GEOFENCE_CMD
  | TIME_TO_FIRST_FIX | STOP_POSITION_CMD | STOP_NMEA_CMD | STOP_SATELITTE_CMD | STOP_GPS_CMD

text \<open>
  \<^verbatim>\<open>double\<close> is modelled by exact rational numbers: coordinates and accuracies are copied,
  compared, subtracted and scaled by constants. Rounding, infinities and NaN are not modelled.
\<close>

type_synonym double = rat

text \<open>\<^verbatim>\<open>PositionRequest\<close>: the request a client hands to a provider.\<close>

record PositionRequest =
  mProviderId :: string
  mRequestType :: HandlerRequestType
  mRequestParams :: string
  mGeofenceID :: int
  mGeofenceLatitude :: double
  mGeofenceRadius :: double
  mGeofenceLongitude :: double

definition position_request :: "string \<Rightarrow> HandlerRequestType \<Rightarrow> PositionRequest" where
  "position_request p t =
    \<lparr>mProviderId = p, mRequestType = t, mRequestParams = [], mGeofenceID = 0,
     mGeofenceLatitude = 0, mGeofenceRadius = 0, mGeofenceLongitude = 0\<rparr>"

lemma position_request_type [simp]: "mRequestType (position_request p t) = t"
  by (simp add: position_request_def)

text \<open>\<^verbatim>\<open>GeoLocation\<close>: the nine numbers a provider reports.\<close>

record GeoLocation =
  mLatitude :: double
  mLongitude :: double
  mAltitude :: double
  mHorAccuracy :: double
  mTimeStamp :: double
  mDirection :: double
  mClimb :: double
  mSpeed :: double
  mVertAccuracy :: double

definition geo_default :: GeoLocation where
  "geo_default =
    \<lparr>mLatitude = 0, mLongitude = 0, mAltitude = 0, mHorAccuracy = 0, mTimeStamp = 0,
     mDirection = 0, mClimb = 0, mSpeed = 0, mVertAccuracy = 0\<rparr>"

definition geo_location ::
  "double \<Rightarrow> double \<Rightarrow> double \<Rightarrow> double \<Rightarrow> double \<Rightarrow> double \<Rightarrow> double \<Rightarrow> double \<Rightarrow> double \<Rightarrow> GeoLocation" where
  "geo_location lat lon alt acc ts dir climb speed vacc =
    \<lparr>mLatitude = lat, mLongitude = lon, mAltitude = alt, mHorAccuracy = acc, mTimeStamp = ts,
     mDirection = dir, mClimb = climb, mSpeed = speed, mVertAccuracy = vacc\<rparr>"

subsection \<open>C strings\<close>

text \<open>
  A C string is the list of its bytes before the terminator. \<^verbatim>\<open>snprintf\<close> and \<^verbatim>\<open>g_strlcpy\<close> into
  a buffer of \<open>n\<close> bytes keep at most \<open>n - 1\<close> of them; \<^verbatim>\<open>strncmp\<close> against a literal of its
  length tests for a prefix; \<^verbatim>\<open>strchr\<close> finds the first occurrence.
\<close>

definition strlcpy :: "nat \<Rightarrow> string \<Rightarrow> string" where
  "strlcpy n s = take (n - 1) s"

lemma length_strlcpy: "0 < n \<Longrightarrow> length (strlcpy n s) < n"
  by (simp add: strlcpy_def)

fun has_prefix :: "string \<Rightarrow> string \<Rightarrow> bool" where
  "has_prefix [] s = True"
| "has_prefix (p # ps) [] = False"
| "has_prefix (p # ps) (c # cs) = (p = c \<and> has_prefix ps cs)"

lemma has_prefix_append: "has_prefix p s \<longleftrightarrow> (\<exists>r. s = p @ r)"
  by (induction p s rule: has_prefix.induct) auto

text \<open>\<^verbatim>\<open>strchr\<close>: the suffix after the first occurrence of the character, if there is one.\<close>

fun after_chr :: "char \<Rightarrow> string \<Rightarrow> string option" where
  "after_chr c [] = None"
| "after_chr c (d # ds) = (if d = c then Some ds else after_chr c ds)"

fun before_chr :: "char \<Rightarrow> string \<Rightarrow> string" where
  "before_chr c [] = []"
| "before_chr c (d # ds) = (if d = c then [] else d # before_chr c ds)"

lemma after_chr_split:
  "after_chr c s = Some r \<Longrightarrow> s = before_chr c s @ c # r \<and> c \<notin> set (before_chr c s)"
  by (induction s) (auto split: if_splits)

subsection \<open>Flag words\<close>

text \<open>\<^verbatim>\<open>if (w & b)\<close>; for the single-bit masks the code uses it is a bit test.\<close>

definition has_flag :: "'a::len word \<Rightarrow> 'a word \<Rightarrow> bool" where
  "has_flag w b \<longleftrightarrow> w AND b \<noteq> 0"

lemma has_flag_bit: "has_flag w (push_bit n 1) \<longleftrightarrow> bit w n"
  by (simp add: has_flag_def bit_iff_and_push_bit_not_eq_0)

lemma has_flag_iff_bit:
  "has_flag w 1 \<longleftrightarrow> bit w 0" "has_flag w 2 \<longleftrightarrow> bit w 1" "has_flag w 4 \<longleftrightarrow> bit w 2"
  "has_flag w 8 \<longleftrightarrow> bit w 3" "has_flag w 16 \<longleftrightarrow> bit w 4" "has_flag w 32 \<longleftrightarrow> bit w 5"
  using has_flag_bit [of w 0] has_flag_bit [of w 1] has_flag_bit [of w 2] has_flag_bit [of w 3]
    has_flag_bit [of w 4] has_flag_bit [of w 5]
  by (simp_all add: push_bit_eq_mult)

subsection \<open>Runs of a deterministic machine\<close>

text \<open>
  A component is a step function; its run is the fold of the step over the events. The
  invariant rule is proved once here and used by every component through an interpretation.
\<close>

locale step_invariant =
  fixes step :: "'e \<Rightarrow> 's \<Rightarrow> 's"
    and good :: "'s \<Rightarrow> bool"
    and allowed :: "'e \<Rightarrow> bool"
  assumes step_good: "good s \<Longrightarrow> allowed e \<Longrightarrow> good (step e s)"
begin

lemma run_good: "good s \<Longrightarrow> list_all allowed es \<Longrightarrow> good (fold step es s)"
  by (induction es arbitrary: s) (auto simp: step_good)

lemma run_prefix_good:
  assumes "good s" and "list_all allowed (es @ fs)"
  shows "good (fold step es s)"
  using assms by (auto intro: run_good)

end

text \<open>
  A machine that can run into undefined behaviour is made total on options: failing stays failed,
  and its invariants speak of the states that are there.
\<close>

definition opt_all :: "('s \<Rightarrow> bool) \<Rightarrow> 's option \<Rightarrow> bool" where
  "opt_all P os = (case os of None \<Rightarrow> True | Some s \<Rightarrow> P s)"

lemma opt_all_simps [simp]: "opt_all P None" "opt_all P (Some s) = P s"
  by (simp_all add: opt_all_def)

text \<open>The same with a start state: every reachable state satisfies the invariant.\<close>

locale machine = step_invariant +
  fixes start :: 's
  assumes start_good: "good start"
begin

lemma reachable_good: "list_all allowed es \<Longrightarrow> good (fold step es start)"
  by (rule run_good [OF start_good])

end

end
