(* ===== verification/Luna_Json.thy ===== *)
theory Luna_Json
  imports Location_Prelude
begin

text \<open>
  The libraries the service talks through, as parameters: the accessors of pbnjson the code
  calls on a parsed value (record \<open>pbnjson\<close>), the JSON the code builds (datatype \<open>jout\<close>), the
  messages of luna-service2 (record \<open>LSMessage\<close>) and its subscription catalogue (record \<open>bus\<close>
  with the laws \<open>bus_laws\<close> its documentation promises). The end of the theory has one concrete
  instance of each, which the witnesses use.
\<close>

subsection \<open>pbnjson\<close>

text \<open>
  \<open>jdom_parse schema payload\<close> is the value \<^verbatim>\<open>jdom_parse\<close> returns. The typed getters return the
  conversion result (\<open>True\<close> for \<^verbatim>\<open>CONV_OK\<close>) and the out-variable after the call, given its
  content before it; \<open>jstring_get\<close> is the \<^verbatim>\<open>m_str\<close> of the buffer, \<open>None\<close> for a null pointer.
\<close>

record 'j pbnjson =
  jdom_parse :: "string \<Rightarrow> string \<Rightarrow> 'j"
  jis_null :: "'j \<Rightarrow> bool"
  jis_valid :: "'j \<Rightarrow> bool"
  jis_object :: "'j \<Rightarrow> bool"
  jis_array :: "'j \<Rightarrow> bool"
  jis_string :: "'j \<Rightarrow> bool"
  jis_number :: "'j \<Rightarrow> bool"
  jis_boolean :: "'j \<Rightarrow> bool"
  jobject_get_exists :: "'j \<Rightarrow> string \<Rightarrow> 'j option"
  jarray_size :: "'j \<Rightarrow> nat"
  jarray_get :: "'j \<Rightarrow> nat \<Rightarrow> 'j"
  jboolean_get :: "'j \<Rightarrow> bool \<Rightarrow> bool \<times> bool"
  jnumber_get_i32 :: "'j \<Rightarrow> int \<Rightarrow> bool \<times> int"
  jnumber_get_i64 :: "'j \<Rightarrow> int \<Rightarrow> bool \<times> int"
  jnumber_get_f64 :: "'j \<Rightarrow> double \<Rightarrow> bool \<times> double"
  jstring_get :: "'j \<Rightarrow> string option"

abbreviation SCHEMA_ALL :: string where "SCHEMA_ALL \<equiv> ''{}''"

text \<open>
  The idiom \<^verbatim>\<open>if (jobject_get_exists(o, k, &v)) jboolean_get(v, &x);\<close>: the variable keeps its
  content when the field is missing.
\<close>

definition get_bool :: "'j pbnjson \<Rightarrow> 'j \<Rightarrow> string \<Rightarrow> bool \<Rightarrow> bool" where
  "get_bool J obj k x =
    (case jobject_get_exists J obj k of None \<Rightarrow> x | Some v \<Rightarrow> snd (jboolean_get J v x))"

definition get_i32 :: "'j pbnjson \<Rightarrow> 'j \<Rightarrow> string \<Rightarrow> int \<Rightarrow> int" where
  "get_i32 J obj k x =
    (case jobject_get_exists J obj k of None \<Rightarrow> x | Some v \<Rightarrow> snd (jnumber_get_i32 J v x))"

definition get_i64 :: "'j pbnjson \<Rightarrow> 'j \<Rightarrow> string \<Rightarrow> int \<Rightarrow> int" where
  "get_i64 J obj k x =
    (case jobject_get_exists J obj k of None \<Rightarrow> x | Some v \<Rightarrow> snd (jnumber_get_i64 J v x))"

definition get_f64 :: "'j pbnjson \<Rightarrow> 'j \<Rightarrow> string \<Rightarrow> double \<Rightarrow> double" where
  "get_f64 J obj k x =
    (case jobject_get_exists J obj k of None \<Rightarrow> x | Some v \<Rightarrow> snd (jnumber_get_f64 J v x))"

text \<open>
  \<^verbatim>\<open>if (jobject_get_exists(o, k, &v)) { b = jstring_get(v); p = g_strdup(b.m_str); }\<close>:
  \<^verbatim>\<open>g_strdup(NULL)\<close> is \<^verbatim>\<open>NULL\<close>.
\<close>

definition get_str :: "'j pbnjson \<Rightarrow> 'j \<Rightarrow> string \<Rightarrow> string option \<Rightarrow> string option" where
  "get_str J obj k x =
    (case jobject_get_exists J obj k of None \<Rightarrow> x | Some v \<Rightarrow> jstring_get J v)"

lemma get_missing [simp]:
  "jobject_get_exists J obj k = None \<Longrightarrow> get_bool J obj k b = b"
  "jobject_get_exists J obj k = None \<Longrightarrow> get_i32 J obj k i = i"
  "jobject_get_exists J obj k = None \<Longrightarrow> get_f64 J obj k d = d"
  "jobject_get_exists J obj k = None \<Longrightarrow> get_str J obj k s = s"
  by (simp_all add: get_bool_def get_i32_def get_f64_def get_str_def)

text \<open>
  JSON the code builds: \<^verbatim>\<open>jobject_create\<close> followed by \<^verbatim>\<open>jobject_put\<close>s is the list of its fields in
  the order they are put; \<open>ODup\<close> embeds a value the code received.
\<close>

datatype 'j jout =
    OBool bool
  | OInt int
  | OReal double
  | OStr string
  | OArr "'j jout list"
  | OObj "(string \<times> 'j jout) list"
  | ODup 'j

primrec ofields :: "'j jout \<Rightarrow> (string \<times> 'j jout) list" where
  "ofields (OBool b) = []"
| "ofields (OInt i) = []"
| "ofields (OReal r) = []"
| "ofields (OStr s) = []"
| "ofields (OArr xs) = []"
| "ofields (OObj fs) = fs"
| "ofields (ODup j) = []"

definition oget :: "'j jout \<Rightarrow> string \<Rightarrow> 'j jout option" where
  "oget r k = map_of (ofields r) k"

lemma oget_OObj [simp]: "oget (OObj fs) k = map_of fs k"
  by (simp add: oget_def)

subsection \<open>Luna service messages\<close>

text \<open>
  \<^verbatim>\<open>LSMessage\<close>: \<open>msg_id\<close> is the identity of the object (two pointers are equal when the ids
  are); the other fields are what its accessors return.
\<close>

record LSMessage =
  msg_id :: nat
  msg_method :: string
  msg_payload :: string
  msg_is_subscription :: bool
  msg_sender :: string

text \<open>A call the service makes with \<^verbatim>\<open>LSCall\<close> and friends: url and payload.\<close>

record LSOut =
  out_url :: string
  out_payload :: string

definition ls_out :: "string \<Rightarrow> string \<Rightarrow> LSOut" where
  "ls_out u p = \<lparr>out_url = u, out_payload = p\<rparr>"

subsection \<open>The subscription catalogue\<close>

text \<open>
  \<^verbatim>\<open>LSSubscriptionAdd\<close>, \<^verbatim>\<open>LSSubscriptionAcquire\<close> with its iterator, and
  \<^verbatim>\<open>LSSubscriptionRemove\<close> over a catalogue of type \<open>'c\<close>. Acquire gives the list the iterator
  walks over, \<open>None\<close> when it fails.
\<close>

record 'c bus =
  LSSubscriptionAdd :: "string \<Rightarrow> LSMessage \<Rightarrow> 'c \<Rightarrow> bool \<times> 'c"
  LSSubscriptionAcquire :: "string \<Rightarrow> 'c \<Rightarrow> LSMessage list option"
  LSSubscriptionRemove :: "string \<Rightarrow> LSMessage \<Rightarrow> 'c \<Rightarrow> 'c"

definition sublist_of :: "'c bus \<Rightarrow> string \<Rightarrow> 'c \<Rightarrow> LSMessage list" where
  "sublist_of B k c = (case LSSubscriptionAcquire B k c of None \<Rightarrow> [] | Some ms \<Rightarrow> ms)"

text \<open>
  What luna-service2 documents: a successful add appends the message under its key, a failed add
  changes nothing, a removal drops the message from its key; other keys are not affected.
\<close>

definition bus_laws :: "'c bus \<Rightarrow> bool" where
  "bus_laws B \<longleftrightarrow>
    (\<forall>k m c c'. LSSubscriptionAdd B k m c = (True, c') \<longrightarrow>
      sublist_of B k c' = sublist_of B k c @ [m] \<and> (\<forall>k'. k' \<noteq> k \<longrightarrow> sublist_of B k' c' = sublist_of B k' c)) \<and>
    (\<forall>k m c c'. LSSubscriptionAdd B k m c = (False, c') \<longrightarrow> (\<forall>k'. sublist_of B k' c' = sublist_of B k' c)) \<and>
    (\<forall>k m c. sublist_of B k (LSSubscriptionRemove B k m c) = filter (\<lambda>x. msg_id x \<noteq> msg_id m) (sublist_of B k c)) \<and>
    (\<forall>k m c k'. k' \<noteq> k \<longrightarrow> sublist_of B k' (LSSubscriptionRemove B k m c) = sublist_of B k' c)"

lemma bus_lawsD:
  assumes "bus_laws B"
  shows bus_add_ok: "LSSubscriptionAdd B k m c = (True, c') \<Longrightarrow> sublist_of B k c' = sublist_of B k c @ [m]"
    and bus_add_other: "LSSubscriptionAdd B k m c = (True, c') \<Longrightarrow> k' \<noteq> k \<Longrightarrow> sublist_of B k' c' = sublist_of B k' c"
    and bus_add_fail: "LSSubscriptionAdd B k m c = (False, c') \<Longrightarrow> sublist_of B k' c' = sublist_of B k' c"
    and bus_remove: "sublist_of B k (LSSubscriptionRemove B k m c) = filter (\<lambda>x. msg_id x \<noteq> msg_id m) (sublist_of B k c)"
    and bus_remove_other: "k' \<noteq> k \<Longrightarrow> sublist_of B k' (LSSubscriptionRemove B k m c) = sublist_of B k' c"
  using assms unfolding bus_laws_def by blast+

subsection \<open>Concrete instances\<close>

text \<open>
  A JSON tree with the accessors' documented results, parsed by looking the payload up in a
  table. Used by the witnesses only.
\<close>

datatype json =
    JNull
  | JBool bool
  | JInt int
  | JReal double
  | JStr string
  | JArr "json list"
  | JObj "(string \<times> json) list"

definition json_api :: "(string \<times> json) list \<Rightarrow> json pbnjson" where
  "json_api tbl =
    \<lparr>jdom_parse = (\<lambda>_ p. case map_of tbl p of None \<Rightarrow> JNull | Some j \<Rightarrow> j),
     jis_null = (\<lambda>j. case j of JNull \<Rightarrow> True | _ \<Rightarrow> False),
     jis_valid = (\<lambda>j. case j of JNull \<Rightarrow> False | _ \<Rightarrow> True),
     jis_object = (\<lambda>j. case j of JObj _ \<Rightarrow> True | _ \<Rightarrow> False),
     jis_array = (\<lambda>j. case j of JArr _ \<Rightarrow> True | _ \<Rightarrow> False),
     jis_string = (\<lambda>j. case j of JStr _ \<Rightarrow> True | _ \<Rightarrow> False),
     jis_number = (\<lambda>j. case j of JInt _ \<Rightarrow> True | JReal _ \<Rightarrow> True | _ \<Rightarrow> False),
     jis_boolean = (\<lambda>j. case j of JBool _ \<Rightarrow> True | _ \<Rightarrow> False),
     jobject_get_exists = (\<lambda>j k. case j of JObj fs \<Rightarrow> map_of fs k | _ \<Rightarrow> None),
     jarray_size = (\<lambda>j. case j of JArr xs \<Rightarrow> length xs | _ \<Rightarrow> 0),
     jarray_get = (\<lambda>j i. case j of JArr xs \<Rightarrow> (if i < length xs then xs ! i else JNull) | _ \<Rightarrow> JNull),
     jboolean_get = (\<lambda>j x. case j of JBool b \<Rightarrow> (True, b) | _ \<Rightarrow> (False, x)),
     jnumber_get_i32 = (\<lambda>j x. case j of JInt i \<Rightarrow> (True, i) | _ \<Rightarrow> (False, x)),
     jnumber_get_i64 = (\<lambda>j x. case j of JInt i \<Rightarrow> (True, i) | _ \<Rightarrow> (False, x)),
     jnumber_get_f64 = (\<lambda>j x. case j of JInt i \<Rightarrow> (True, of_int i) | JReal r \<Rightarrow> (True, r) | _ \<Rightarrow> (False, x)),
     jstring_get = (\<lambda>j. case j of JStr s \<Rightarrow> Some s | _ \<Rightarrow> None)\<rparr>"

text \<open>A catalogue as an association from keys to message lists, with adds that always succeed.\<close>

definition list_bus :: "(string \<Rightarrow> LSMessage list) bus" where
  "list_bus =
    \<lparr>LSSubscriptionAdd = (\<lambda>k m c. (True, c(k := c k @ [m]))),
     LSSubscriptionAcquire = (\<lambda>k c. Some (c k)),
     LSSubscriptionRemove = (\<lambda>k m c. c(k := filter (\<lambda>x. msg_id x \<noteq> msg_id m) (c k)))\<rparr>"

lemma list_bus_laws: "bus_laws list_bus"
  by (auto simp: bus_laws_def list_bus_def sublist_of_def)

end
