(* ===== verification/Schemas.thy ===== *)
theory Schemas
  imports Luna_Json
begin

text \<open>
  The schemas every request is validated against (\<^verbatim>\<open>include/LunaLocationServiceUtil.h\<close>, with the
  macros of \<^verbatim>\<open>include/JsonUtility.h\<close>, and the two of the mock methods in \<^verbatim>\<open>LocationService.cpp\<close>),
  what a JSON value that conforms to one looks like, and the interface of a pbnjson that validates.
\<close>

subsection \<open>The schema language\<close>

datatype jtype = T_string | T_number | T_integer | T_boolean

datatype num_opt = Minimum int | Maximum int | ExclusiveMinimum bool

text \<open>
  A constructor for each macro: \<open>PROP_OF\<close>, \<open>PROP_WITH_OPT\<close>, \<open>ENUM_PROP\<close> over strings or integers and
  \<open>STRICT_ENUM_ARRAY\<close> are what a property of the given name may hold; \<open>STRICT_SCHEMA\<close> has its
  properties and the required ones, \<open>OBJSCHEMA\<close> allows others.
\<close>

datatype schema =
    SCHEMA_ANY
  | PROP_OF jtype
  | PROP_WITH_OPT jtype "num_opt list"
  | ENUM_PROP "string list"
  | ENUM_PROP_INT "int list"
  | STRICT_ENUM_ARRAY "string list"
  | OBJSCHEMA "(string \<times> schema) list"
  | STRICT_SCHEMA "(string \<times> schema) list" "string list"

subsection \<open>What conforms\<close>

primrec json_number :: "json \<Rightarrow> double option" where
  "json_number JNull = None"
| "json_number (JBool b) = None"
| "json_number (JInt i) = Some (of_int i)"
| "json_number (JReal r) = Some r"
| "json_number (JStr s) = None"
| "json_number (JArr xs) = None"
| "json_number (JObj fs) = None"

definition has_type :: "jtype \<Rightarrow> json \<Rightarrow> bool" where
  "has_type t j =
    (case t of
       T_string \<Rightarrow> (case j of JStr _ \<Rightarrow> True | _ \<Rightarrow> False)
     | T_number \<Rightarrow> json_number j \<noteq> None
     | T_integer \<Rightarrow> (case j of JInt _ \<Rightarrow> True | _ \<Rightarrow> False)
     | T_boolean \<Rightarrow> (case j of JBool _ \<Rightarrow> True | _ \<Rightarrow> False))"

text \<open>An exclusive minimum makes the minimum beside it strict.\<close>

definition num_holds :: "num_opt list \<Rightarrow> double \<Rightarrow> num_opt \<Rightarrow> bool" where
  "num_holds opts x opt =
    (case opt of
       Minimum n \<Rightarrow> (if ExclusiveMinimum True \<in> set opts then x > of_int n else x \<ge> of_int n)
     | Maximum n \<Rightarrow> x \<le> of_int n
     | ExclusiveMinimum b \<Rightarrow> True)"

fun conforms :: "schema \<Rightarrow> json \<Rightarrow> bool" where
  "conforms SCHEMA_ANY j = True"
| "conforms (PROP_OF t) j = has_type t j"
| "conforms (PROP_WITH_OPT t opts) j =
    (has_type t j \<and> (case json_number j of None \<Rightarrow> False | Some x \<Rightarrow> list_all (num_holds opts x) opts))"
| "conforms (ENUM_PROP es) j = (case j of JStr s \<Rightarrow> s \<in> set es | _ \<Rightarrow> False)"
| "conforms (ENUM_PROP_INT es) j = (case j of JInt i \<Rightarrow> i \<in> set es | _ \<Rightarrow> False)"
| "conforms (STRICT_ENUM_ARRAY es) j =
    (case j of
       JArr xs \<Rightarrow> xs \<noteq> [] \<and> distinct xs \<and> list_all (\<lambda>x. case x of JStr s \<Rightarrow> s \<in> set es | _ \<Rightarrow> False) xs
     | _ \<Rightarrow> False)"
| "conforms (OBJSCHEMA ps) j =
    (case j of
       JObj fs \<Rightarrow> (\<forall>(k, S) \<in> set ps. case map_of fs k of None \<Rightarrow> True | Some v \<Rightarrow> conforms S v)
     | _ \<Rightarrow> False)"
| "conforms (STRICT_SCHEMA ps req) j =
    (case j of
       JObj fs \<Rightarrow> (\<forall>(k, S) \<in> set ps. case map_of fs k of None \<Rightarrow> True | Some v \<Rightarrow> conforms S v)
         \<and> list_all (\<lambda>k. k \<in> fst ` set fs) req \<and> list_all (\<lambda>(k, v). k \<in> fst ` set ps) fs
     | _ \<Rightarrow> False)"

lemma conforms_field:
  assumes "conforms (STRICT_SCHEMA ps req) j" and "map_of ps k = Some S"
  shows "\<exists>fs. j = JObj fs \<and> (k \<in> set req \<longrightarrow> map_of fs k \<noteq> None) \<and> (\<forall>v. map_of fs k = Some v \<longrightarrow> conforms S v)"
proof -
  obtain fs where fs: "j = JObj fs" "\<forall>(k, S) \<in> set ps. case map_of fs k of None \<Rightarrow> True | Some v \<Rightarrow> conforms S v"
    "list_all (\<lambda>k. k \<in> fst ` set fs) req"
    using assms(1) by (auto split: json.splits)
  have "k \<in> set req \<longrightarrow> map_of fs k \<noteq> None" using fs(3) by (auto simp: list_all_iff map_of_eq_None_iff)
  moreover have "\<forall>v. map_of fs k = Some v \<longrightarrow> conforms S v" using fs(2) map_of_SomeD [OF assms(2)] by fastforce
  ultimately show ?thesis using fs(1) by blast
qed

subsection \<open>The schemas of the methods\<close>

abbreviation (input) handlers :: schema where "handlers \<equiv> ENUM_PROP [GPS, NETWORK, PASSIVE, HYBRID]"

definition subscribe_schema :: schema where
  "subscribe_schema = STRICT_SCHEMA [(''subscribe'', PROP_OF T_boolean)] []"

definition JSCHEMA_GET_GOOGLE_GEOCODE_LOCATION :: schema where
  "JSCHEMA_GET_GOOGLE_GEOCODE_LOCATION =
    STRICT_SCHEMA
      [(''address'', PROP_OF T_string),
       (''components'', STRICT_SCHEMA
          [(''route'', PROP_OF T_string), (''locality'', PROP_OF T_string), (''administrative_area'', PROP_OF T_string),
           (''postal_code'', PROP_OF T_string), (''country'', PROP_OF T_string)] []),
       (''bounds'', STRICT_SCHEMA
          [(''southwestLat'', PROP_WITH_OPT T_number [Minimum (-90), Maximum 90]),
           (''southwestLon'', PROP_WITH_OPT T_number [Minimum (-180), Maximum 180]),
           (''northeastLat'', PROP_WITH_OPT T_number [Minimum (-90), Maximum 90]),
           (''northeastLon'', PROP_WITH_OPT T_number [Minimum (-180), Maximum 180])]
          [''southwestLat'', ''southwestLon'', ''northeastLat'', ''northeastLon'']),
       (''language'', PROP_OF T_string), (''region'', PROP_OF T_string)] []"

definition JSCHEMA_GET_GOOGLE_REVERSE_LOCATION :: schema where
  "JSCHEMA_GET_GOOGLE_REVERSE_LOCATION =
    STRICT_SCHEMA
      [(''latitude'', PROP_WITH_OPT T_number [Minimum (-90), Maximum 90]),
       (''longitude'', PROP_WITH_OPT T_number [Minimum (-180), Maximum 180]),
       (''language'', PROP_OF T_string),
       (''result_type'', STRICT_ENUM_ARRAY
          [''street_address'', ''route'', ''intersection'', ''political'', ''country'', ''administrative_area_level_1'',
           ''administrative_area_level_2'', ''administrative_area_level_3'', ''administrative_area_level_4'',
           ''administrative_area_level_5'', ''colloquial_area'', ''locality'', ''ward'', ''sublocality'', ''neighborhood'',
           ''premise'', ''subpremise'', ''postal_code'', ''natural_feature'', ''airport'', ''park'', ''point_of_interest'',
           ''floor'', ''establishment'', ''parking'', ''post_box'', ''postal_town'', ''room'', ''street_number'',
           ''bus_station'', ''train_station'', ''transit_station'']),
       (''location_type'', STRICT_ENUM_ARRAY [''ROOFTOP'', ''RANGE_INTERPOLATED'', ''GEOMETRIC_CENTER'', ''APPROXIMATE''])]
      [''latitude'', ''longitude'']"

definition JSCHEMA_GET_LOCATION_HANDLER_DETAILS :: schema where
  "JSCHEMA_GET_LOCATION_HANDLER_DETAILS = STRICT_SCHEMA [(''Handler'', handlers)] [''Handler'']"

definition JSCHEMA_GET_STATE :: schema where
  "JSCHEMA_GET_STATE = STRICT_SCHEMA [(''Handler'', handlers), (''subscribe'', PROP_OF T_boolean)] [''Handler'']"

definition JSCHEMA_SEND_EXTRA_COMMAND :: schema where
  "JSCHEMA_SEND_EXTRA_COMMAND = STRICT_SCHEMA [(''command'', PROP_OF T_string)] [''command'']"

definition JSCHEMA_SET_GPS_PARAMETERS :: schema where
  "JSCHEMA_SET_GPS_PARAMETERS =
    STRICT_SCHEMA [(''posmode'', ENUM_PROP_INT [0, 1, 2]), (''supladdress'', PROP_OF T_string),
      (''suplport'', PROP_OF T_integer), (''fixinterval'', PROP_OF T_integer)] []"

definition JSCHEMA_SET_STATE :: schema where
  "JSCHEMA_SET_STATE = STRICT_SCHEMA [(''Handler'', handlers), (''state'', PROP_OF T_boolean)] [''Handler'', ''state'']"

definition JSCHEMA_SET_NETWORK_PROVIDER :: schema where
  "JSCHEMA_SET_NETWORK_PROVIDER = STRICT_SCHEMA [(''provider'', ENUM_PROP [''beacondb'', ''google''])] [''provider'']"

definition JSCHEMA_ADD_GEOFENCE_AREA :: schema where
  "JSCHEMA_ADD_GEOFENCE_AREA =
    STRICT_SCHEMA
      [(''latitude'', PROP_WITH_OPT T_number [Minimum (-90), Maximum 90]),
       (''longitude'', PROP_WITH_OPT T_number [Minimum (-180), Maximum 180]),
       (''radius'', PROP_WITH_OPT T_number [Minimum 0, ExclusiveMinimum True]), (''subscribe'', PROP_OF T_boolean)]
      [''latitude'', ''longitude'', ''radius'']"

definition JSCHEMA_REMOVE_GEOFENCE_AREA :: schema where
  "JSCHEMA_REMOVE_GEOFENCE_AREA =
    STRICT_SCHEMA [(''geofenceid'', PROP_WITH_OPT T_integer [Minimum 0, ExclusiveMinimum True])] [''geofenceid'']"

definition JSCHEMA_PAUSE_GEOFENCE_AREA :: schema where
  "JSCHEMA_PAUSE_GEOFENCE_AREA = STRICT_SCHEMA [(''geofenceid'', PROP_OF T_integer)] [''geofenceid'']"

definition JSCHEMA_RESUME_GEOFENCE_AREA :: schema where
  "JSCHEMA_RESUME_GEOFENCE_AREA = STRICT_SCHEMA [(''geofenceid'', PROP_OF T_integer)] [''geofenceid'']"

definition JSCEHMA_GET_LOCATION_UPDATES :: schema where
  "JSCEHMA_GET_LOCATION_UPDATES =
    STRICT_SCHEMA
      [(''wakelock'', PROP_OF T_boolean), (''subscribe'', PROP_OF T_boolean),
       (''minimumInterval'', PROP_WITH_OPT T_integer [Minimum 0, Maximum 3600000]),
       (''minimumDistance'', PROP_WITH_OPT T_integer [Minimum 0, Maximum 60000]),
       (''responseTimeout'', PROP_WITH_OPT T_integer [Minimum 0, Maximum 720]), (''Handler'', handlers)] []"

definition JSCHEMA_GET_CACHED_POSITION :: schema where
  "JSCHEMA_GET_CACHED_POSITION =
    STRICT_SCHEMA [(''maximumAge'', PROP_WITH_OPT T_integer [Minimum 0, ExclusiveMinimum True]), (''Handler'', handlers)] []"

definition MOCK_STATE_SCHEMA :: schema where
  "MOCK_STATE_SCHEMA = STRICT_SCHEMA [(''name'', ENUM_PROP [''gps'', ''network''])] [''name'']"

definition MOCK_LOCATION_SCHEMA :: schema where
  "MOCK_LOCATION_SCHEMA =
    STRICT_SCHEMA
      [(''name'', ENUM_PROP [''gps'', ''network'']),
       (''location'', OBJSCHEMA [(''longitude'', PROP_OF T_number), (''latitude'', PROP_OF T_number)])]
      [''name'', ''location'']"

text \<open>The schema behind each name a handler validates with.\<close>

definition schema_of :: "string \<rightharpoonup> schema" where
  "schema_of = map_of
    [(SCHEMA_ALL, SCHEMA_ANY),
     (''JSCHEMA_GET_ALL_LOCATION_HANDLERS'', subscribe_schema),
     (''JSCHEMA_GET_GPS_SATELLITE_DATA'', subscribe_schema), (''JSCHEMA_GET_GPS_STATUS'', subscribe_schema),
     (''JSCHEMA_GET_NMEA_DATA'', subscribe_schema), (''JSCHEMA_GET_NFW_NOTIFICATIONS'', subscribe_schema),
     (''JSCHEMA_GET_NETWORK_PROVIDER'', subscribe_schema),
     (''JSCHEMA_GET_GOOGLE_GEOCODE_LOCATION'', JSCHEMA_GET_GOOGLE_GEOCODE_LOCATION),
     (''JSCHEMA_GET_GOOGLE_REVERSE_LOCATION'', JSCHEMA_GET_GOOGLE_REVERSE_LOCATION),
     (''JSCHEMA_GET_LOCATION_HANDLER_DETAILS'', JSCHEMA_GET_LOCATION_HANDLER_DETAILS),
     (''JSCHEMA_GET_STATE'', JSCHEMA_GET_STATE), (''JSCHEMA_SEND_EXTRA_COMMAND'', JSCHEMA_SEND_EXTRA_COMMAND),
     (''JSCHEMA_SET_GPS_PARAMETERS'', JSCHEMA_SET_GPS_PARAMETERS), (''JSCHEMA_SET_STATE'', JSCHEMA_SET_STATE),
     (''JSCHEMA_SET_NETWORK_PROVIDER'', JSCHEMA_SET_NETWORK_PROVIDER),
     (''JSCHEMA_ADD_GEOFENCE_AREA'', JSCHEMA_ADD_GEOFENCE_AREA), (''JSCHEMA_REMOVE_GEOFENCE_AREA'', JSCHEMA_REMOVE_GEOFENCE_AREA),
     (''JSCHEMA_PAUSE_GEOFENCE_AREA'', JSCHEMA_PAUSE_GEOFENCE_AREA), (''JSCHEMA_RESUME_GEOFENCE_AREA'', JSCHEMA_RESUME_GEOFENCE_AREA),
     (''JSCEHMA_GET_LOCATION_UPDATES'', JSCEHMA_GET_LOCATION_UPDATES),
     (''JSCHEMA_GET_CACHED_POSITION'', JSCHEMA_GET_CACHED_POSITION),
     (''MOCK_STATE_SCHEMA'', MOCK_STATE_SCHEMA), (''MOCK_LOCATION_SCHEMA'', MOCK_LOCATION_SCHEMA)]"

text \<open>What the schema of a name says of a field.\<close>

definition prop_of :: "string \<Rightarrow> string \<Rightarrow> schema option" where
  "prop_of name k = (case schema_of name of Some (STRICT_SCHEMA ps req) \<Rightarrow> map_of ps k | _ \<Rightarrow> None)"

definition requires :: "string \<Rightarrow> string \<Rightarrow> bool" where
  "requires name k \<longleftrightarrow> (case schema_of name of Some (STRICT_SCHEMA ps req) \<Rightarrow> k \<in> set req | _ \<Rightarrow> False)"

subsection \<open>A pbnjson that validates\<close>

text \<open>
  \<open>tree\<close> is the JSON value a parsed value stands for: the accessors agree with those of the tree, and
  what \<^verbatim>\<open>jdom_parse\<close> accepts under a schema conforms to it.
\<close>

locale json_tree =
  fixes J :: "'j pbnjson" and tree :: "'j \<Rightarrow> json"
  assumes null_tree: "jis_null J v \<longleftrightarrow> tree v = JNull"
    and field_tree: "map_option tree (jobject_get_exists J v k) = jobject_get_exists (json_api []) (tree v) k"
    and string_tree: "jstring_get J v = jstring_get (json_api []) (tree v)"
    and bool_tree: "jboolean_get J v b = jboolean_get (json_api []) (tree v) b"
    and real_tree: "json_number (tree v) = Some r \<Longrightarrow> jnumber_get_f64 J v x = (True, r)"
    and int_tree: "tree v = JInt i \<Longrightarrow> - (2 ^ 31) \<le> i \<Longrightarrow> i < 2 ^ 31 \<Longrightarrow> jnumber_get_i32 J v n = (True, i)"
    and validates: "schema_of name = Some S \<Longrightarrow> tree (jdom_parse J name p) \<noteq> JNull \<Longrightarrow> conforms S (tree (jdom_parse J name p))"
begin

lemma valid_field:
  assumes "prop_of name k = Some S" and "\<not> jis_null J (jdom_parse J name p)"
  shows "requires name k \<Longrightarrow> jobject_get_exists J (jdom_parse J name p) k \<noteq> None"
    and "jobject_get_exists J (jdom_parse J name p) k = Some v \<Longrightarrow> conforms S (tree v)"
proof -
  obtain ps req where S: "schema_of name = Some (STRICT_SCHEMA ps req)" "map_of ps k = Some S"
    using assms(1) by (auto simp: prop_of_def split: option.splits schema.splits)
  have c: "conforms (STRICT_SCHEMA ps req) (tree (jdom_parse J name p))" using validates [OF S(1)] assms(2) null_tree by simp
  obtain fs where fs: "tree (jdom_parse J name p) = JObj fs" "k \<in> set req \<longrightarrow> map_of fs k \<noteq> None"
    "\<forall>v. map_of fs k = Some v \<longrightarrow> conforms S v"
    using conforms_field [OF c S(2)] by blast
  have f: "map_option tree (jobject_get_exists J (jdom_parse J name p) k) = map_of fs k"
    using field_tree [of "jdom_parse J name p" k] by (simp add: fs(1) json_api_def)
  show "requires name k \<Longrightarrow> jobject_get_exists J (jdom_parse J name p) k \<noteq> None" using f fs(2) S(1) by (auto simp: requires_def)
  show "jobject_get_exists J (jdom_parse J name p) k = Some v \<Longrightarrow> conforms S (tree v)" using f fs(3) by simp
qed

lemma string_conforms: "conforms (PROP_OF T_string) (tree v) \<Longrightarrow> jstring_get J v \<noteq> None"
  by (auto simp: string_tree json_api_def has_type_def split: json.splits)

lemma enum_conforms: "conforms (ENUM_PROP es) (tree v) \<Longrightarrow> \<exists>s \<in> set es. jstring_get J v = Some s"
  by (auto simp: string_tree json_api_def split: json.splits)

lemma range_conforms:
  "conforms (PROP_WITH_OPT t opts) (tree v) \<Longrightarrow> \<exists>x. (\<forall>y. jnumber_get_f64 J v y = (True, x)) \<and> list_all (num_holds opts x) opts"
  using real_tree by (auto split: option.splits)

lemma int_conforms:
  assumes "conforms (PROP_WITH_OPT T_integer [Minimum a, Maximum b]) (tree v)" and "- (2 ^ 31) \<le> a" and "b < 2 ^ 31"
  shows "\<exists>i. a \<le> i \<and> i \<le> b \<and> jnumber_get_i32 J v n = (True, i)"
  using assms int_tree [of v] by (auto simp: has_type_def num_holds_def split: json.splits)

end

text \<open>The instance of the examples: a table of payloads, checked against the schema they are parsed with.\<close>

definition json_checked :: "(string \<times> json) list \<Rightarrow> json pbnjson" where
  "json_checked tbl = (json_api tbl)\<lparr>jdom_parse := (\<lambda>n p. case (schema_of n, map_of tbl p) of
     (Some S, Some j) \<Rightarrow> if conforms S j then j else JNull | (None, Some j) \<Rightarrow> j | _ \<Rightarrow> JNull)\<rparr>"

interpretation checked: json_tree "json_checked tbl" "\<lambda>j. j" for tbl
  by unfold_locales (auto simp: json_checked_def json_api_def option.map_ident split: option.splits json.splits if_splits)

end
