(* ===== verification/Life_Cycle.thy ===== *)
theory Life_Cycle
  imports Luna_Json
begin

text \<open>
  The power client of \<^verbatim>\<open>src/lunaIpc/LifeCycleMonitor.cpp\<close>: registration with the sleep service
  (identify, then wakeLockRegister) and the reference-counted wake lock. \<open>ls\<close> says which
  \<^verbatim>\<open>LSCall\<close>s succeed; \<open>lc_calls\<close> is the list of those attempted. The reference count is an
  unbounded integer; that it stays within the code's \<^verbatim>\<open>int\<close> is part of \<open>setWakeLock_refines\<close>.
\<close>

record LifeCycleMonitor =
  m_suspendService :: bool
  m_suspendMonitorId :: "string option"
  m_registeredWakeLock :: bool
  m_setWakeLock :: bool
  m_refWakeLock :: int
  lc_calls :: "LSOut list"

definition lc_init :: LifeCycleMonitor where
  "lc_init =
    \<lparr>m_suspendService = False, m_suspendMonitorId = None, m_registeredWakeLock = False,
     m_setWakeLock = False, m_refWakeLock = 0, lc_calls = []\<rparr>"

text \<open>The \<^verbatim>\<open>%s\<close> of a null pointer prints \<^verbatim>\<open>(null)\<close>; payloads are cut to 255 characters.\<close>

definition pct_s :: "string option \<Rightarrow> string" where
  "pct_s s = (case s of None \<Rightarrow> ''(null)'' | Some t \<Rightarrow> t)"

definition quot :: string where "quot = [CHR 0x22]"

definition setWakeLock_payload :: "string option \<Rightarrow> bool \<Rightarrow> string" where
  "setWakeLock_payload cid lock =
    strlcpy 256 (''{'' @ quot @ ''clientId'' @ quot @ '':'' @ quot @ pct_s cid @ quot @ '','' @ quot
      @ ''isWakeup'' @ quot @ '':'' @ (if lock then ''true'' else ''false'') @ ''}'')"

definition register_payload :: "string option \<Rightarrow> string" where
  "register_payload cid =
    strlcpy 256 (''{'' @ quot @ ''register'' @ quot @ '':true,'' @ quot @ ''clientId'' @ quot @ '':''
      @ quot @ pct_s cid @ quot @ ''}'')"

definition identify_payload :: string where
  "identify_payload =
    strlcpy 256 (''{'' @ quot @ ''subscribe'' @ quot @ '':true,'' @ quot @ ''clientName'' @ quot @ '':''
      @ quot @ ''location-suspend'' @ quot @ ''}'')"

abbreviation url_setWakeLock :: string where
  "url_setWakeLock \<equiv> ''luna://com.webos.service.sleep/com/webos/service/power/setWakeLock''"

abbreviation url_identify :: string where
  "url_identify \<equiv> ''luna://com.webos.service.power/com/webos/service/power/identify''"

abbreviation url_wakeLockRegister :: string where
  "url_wakeLockRegister \<equiv> ''luna://com.webos.service.sleep/com/webos/service/power/wakeLockRegister''"

subsection \<open>Operations\<close>

definition registerSuspendMonitor :: "bool \<Rightarrow> bool \<Rightarrow> LifeCycleMonitor \<Rightarrow> bool \<times> LifeCycleMonitor" where
  "registerSuspendMonitor service registered s =
    (if \<not> service then (False, s) else (registered, s\<lparr>m_suspendService := True\<rparr>))"

definition lc_callService :: "(LSOut \<Rightarrow> bool) \<Rightarrow> string \<Rightarrow> string \<Rightarrow> LifeCycleMonitor \<Rightarrow> bool \<times> LifeCycleMonitor" where
  "lc_callService ls url payload s =
    (let c = ls_out url payload in (ls c, s\<lparr>lc_calls := lc_calls s @ [c]\<rparr>))"

definition setWakeLock :: "(LSOut \<Rightarrow> bool) \<Rightarrow> bool \<Rightarrow> bool \<Rightarrow> LifeCycleMonitor \<Rightarrow> LifeCycleMonitor" where
  "setWakeLock ls lock force s =
    (if \<not> m_registeredWakeLock s then s
     else
       let s1 = (if lock then s\<lparr>m_refWakeLock := m_refWakeLock s + 1\<rparr>
                 else s\<lparr>m_refWakeLock := (if m_refWakeLock s - 1 < 0 then 0 else m_refWakeLock s - 1)\<rparr>)
       in if m_setWakeLock s1 = lock then s1
          else
            let s2 = (if \<not> lock \<and> force then s1\<lparr>m_refWakeLock := 0\<rparr> else s1)
            in if \<not> lock \<and> m_refWakeLock s2 > 0 then s2
               else
                 let (ok, s3) = lc_callService ls url_setWakeLock
                                  (setWakeLock_payload (m_suspendMonitorId s2) lock) s2
                 in if ok then s3\<lparr>m_setWakeLock := lock\<rparr> else s3)"

definition cbPowerdUp :: "(LSOut \<Rightarrow> bool) \<Rightarrow> bool \<Rightarrow> LifeCycleMonitor \<Rightarrow> LifeCycleMonitor" where
  "cbPowerdUp ls up s =
    (if up then snd (lc_callService ls url_identify identify_payload s)
     else s\<lparr>m_registeredWakeLock := False, m_setWakeLock := False, m_refWakeLock := 0\<rparr>)"

definition cbIdentify :: "'j pbnjson \<Rightarrow> (LSOut \<Rightarrow> bool) \<Rightarrow> string \<Rightarrow> LifeCycleMonitor \<Rightarrow> LifeCycleMonitor" where
  "cbIdentify J ls payload s =
    (let parsed = jdom_parse J SCHEMA_ALL payload
     in if jis_null J parsed then s
        else
          let subscribed = get_bool J parsed ''subscribed'' False;
              s1 = s\<lparr>m_suspendMonitorId := get_str J parsed ''clientId'' None\<rparr>
          in if \<not> subscribed \<or> m_suspendMonitorId s1 = None then s1
             else if \<not> m_registeredWakeLock s1
             then snd (lc_callService ls url_wakeLockRegister
                        (register_payload (m_suspendMonitorId s1)) s1)
             else s1)"

definition cbRegisterWakeLock :: "'j pbnjson \<Rightarrow> string \<Rightarrow> LifeCycleMonitor \<Rightarrow> LifeCycleMonitor" where
  "cbRegisterWakeLock J payload s =
    (let parsed = jdom_parse J SCHEMA_ALL payload
     in if jis_null J parsed then s
        else if get_bool J parsed ''returnValue'' False
        then s\<lparr>m_registeredWakeLock := True\<rparr>
        else s)"

text \<open>The destructor releases the lock by force.\<close>

definition lc_destroy :: "(LSOut \<Rightarrow> bool) \<Rightarrow> LifeCycleMonitor \<Rightarrow> LifeCycleMonitor" where
  "lc_destroy ls s = setWakeLock ls False True s"

subsection \<open>The machine\<close>

text \<open>One event per entry point; every event carries the oracle of its \<^verbatim>\<open>LSCall\<close>s.\<close>

datatype lc_event =
    LcRegister bool bool
  | LcWakeLock "LSOut \<Rightarrow> bool" bool bool
  | LcPowerd "LSOut \<Rightarrow> bool" bool
  | LcIdentify "LSOut \<Rightarrow> bool" string
  | LcRegistered string

primrec lc_step :: "'j pbnjson \<Rightarrow> lc_event \<Rightarrow> LifeCycleMonitor \<Rightarrow> LifeCycleMonitor" where
  "lc_step J (LcRegister service ok) s = snd (registerSuspendMonitor service ok s)"
| "lc_step J (LcWakeLock ls lock force) s = setWakeLock ls lock force s"
| "lc_step J (LcPowerd ls up) s = cbPowerdUp ls up s"
| "lc_step J (LcIdentify ls payload) s = cbIdentify J ls payload s"
| "lc_step J (LcRegistered payload) s = cbRegisterWakeLock J payload s"

text \<open>The invariant that needs no luck: counts are not negative and a held lock is registered.\<close>

definition lc_good :: "LifeCycleMonitor \<Rightarrow> bool" where
  "lc_good s \<longleftrightarrow>
    0 \<le> m_refWakeLock s \<and> (m_setWakeLock s \<longrightarrow> m_registeredWakeLock s)
    \<and> (m_refWakeLock s \<noteq> 0 \<longrightarrow> m_registeredWakeLock s)"

text \<open>The calls of an event all succeed.\<close>

primrec lc_no_failure :: "lc_event \<Rightarrow> bool" where
  "lc_no_failure (LcRegister service ok) = True"
| "lc_no_failure (LcWakeLock ls lock force) = (\<forall>p. ls (ls_out url_setWakeLock p))"
| "lc_no_failure (LcPowerd ls up) = True"
| "lc_no_failure (LcIdentify ls payload) = True"
| "lc_no_failure (LcRegistered payload) = True"

definition lc_exact :: "LifeCycleMonitor \<Rightarrow> bool" where
  "lc_exact s \<longleftrightarrow> lc_good s \<and> (m_setWakeLock s \<longleftrightarrow> 0 < m_refWakeLock s)"

lemmas lc_defs = setWakeLock_def cbPowerdUp_def cbIdentify_def cbRegisterWakeLock_def
  registerSuspendMonitor_def lc_callService_def Let_def

lemma lc_good_step [svc_inv]: "lc_good s \<Longrightarrow> lc_good (lc_step J e s)"
  by (cases e) (auto simp: lc_good_def lc_defs split: if_splits)

lemma lc_exact_step [svc_inv]: "lc_exact s \<Longrightarrow> lc_no_failure e \<Longrightarrow> lc_exact (lc_step J e s)"
  by (cases e) (auto simp: lc_exact_def lc_good_def lc_defs split: if_splits)

lemma lc_init_exact: "lc_exact lc_init" "lc_good lc_init"
  by (simp_all add: lc_exact_def lc_good_def lc_init_def)

interpretation lc_any: machine "lc_step J" lc_good "\<lambda>_. True" lc_init for J :: "'j pbnjson"
  by unfold_locales (simp_all add: svc_inv lc_init_exact)

interpretation lc_lucky: machine "lc_step J" lc_exact lc_no_failure lc_init for J :: "'j pbnjson"
  by unfold_locales (simp_all add: svc_inv lc_init_exact)

subsection \<open>Abstract specification\<close>

text \<open>
  A wake lock is a counter: what a client sees is the number of outstanding requests, and the
  device is kept awake while it is positive.
\<close>

definition wakelock_spec :: "bool \<Rightarrow> bool \<Rightarrow> nat \<Rightarrow> nat" where
  "wakelock_spec lock force n = (if lock then Suc n else if force then 0 else n - 1)"

definition lc_abs :: "LifeCycleMonitor \<Rightarrow> nat" where
  "lc_abs s = nat (m_refWakeLock s)"

lemma setWakeLock_refines_aux:
  assumes "lc_exact s" "m_registeredWakeLock s" "\<forall>p. ls (ls_out url_setWakeLock p)"
  shows "lc_abs (setWakeLock ls lock force s) = wakelock_spec lock force (lc_abs s)"
    and "m_setWakeLock (setWakeLock ls lock force s) \<longleftrightarrow> 0 < wakelock_spec lock force (lc_abs s)"
  using assms by (auto simp: lc_exact_def lc_good_def lc_defs lc_abs_def wakelock_spec_def split: if_splits)

text \<open>The counter over a run: it counts for a registered client only, and a power service that goes away forgets it.\<close>

definition register_accepted :: "'j pbnjson \<Rightarrow> string \<Rightarrow> bool" where
  "register_accepted J payload \<longleftrightarrow>
    \<not> jis_null J (jdom_parse J SCHEMA_ALL payload) \<and> get_bool J (jdom_parse J SCHEMA_ALL payload) ''returnValue'' False"

primrec wakelock_run :: "'j pbnjson \<Rightarrow> lc_event \<Rightarrow> bool \<times> nat \<Rightarrow> bool \<times> nat" where
  "wakelock_run J (LcRegister service ok) c = c"
| "wakelock_run J (LcWakeLock ls lock force) c = (fst c, if fst c then wakelock_spec lock force (snd c) else snd c)"
| "wakelock_run J (LcPowerd ls up) c = (if up then c else (False, 0))"
| "wakelock_run J (LcIdentify ls payload) c = c"
| "wakelock_run J (LcRegistered payload) c = (fst c \<or> register_accepted J payload, snd c)"

lemma lc_step_refines:
  assumes "lc_exact s" and "lc_no_failure e"
  shows "(m_registeredWakeLock (lc_step J e s), lc_abs (lc_step J e s)) = wakelock_run J e (m_registeredWakeLock s, lc_abs s)"
proof (cases e)
  case (LcWakeLock ls lock force)
  then show ?thesis
    using assms setWakeLock_refines_aux(1) [of s ls lock force] by (cases "m_registeredWakeLock s") (auto simp: lc_defs)
qed (use assms in \<open>auto simp: lc_defs lc_abs_def register_accepted_def\<close>)

lemma lc_run_refines:
  assumes "list_all lc_no_failure es" and "lc_exact s"
  shows "fold (wakelock_run J) es (m_registeredWakeLock s, lc_abs s)
    = (m_registeredWakeLock (fold (lc_step J) es s), lc_abs (fold (lc_step J) es s))"
  using assms by (induction es arbitrary: s) (auto simp: lc_step_refines [symmetric] lc_exact_step)

lemma lc_run_count: "snd (fold (wakelock_run J) es c) \<le> snd c + length es"
proof (induction es arbitrary: c)
  case (Cons e es)
  have "snd (wakelock_run J e c) \<le> Suc (snd c)" by (cases e) (auto simp: wakelock_spec_def)
  then show ?case using Cons.IH [of "wakelock_run J e c"] by simp
qed simp

lemma setWakeLock_calls:
  "\<exists>cs. lc_calls (setWakeLock ls lock force s) = lc_calls s @ cs \<and> length cs \<le> 1
     \<and> (cs = [] \<longrightarrow> m_setWakeLock (setWakeLock ls lock force s) = m_setWakeLock s)"
  by (auto simp: lc_defs)

subsection \<open>Properties\<close>

text \<open>
  After any sequence of events in which the power service accepts the \<^verbatim>\<open>setWakeLock\<close> calls,
  the wake lock is held exactly while the reference count is positive.
\<close>

theorem wakelock_held_iff_referenced:
  assumes "list_all lc_no_failure es"
  shows "m_setWakeLock (fold (lc_step J) es lc_init) \<longleftrightarrow> 0 < m_refWakeLock (fold (lc_step J) es lc_init)"
  using lc_lucky.reachable_good [OF assms, of J] by (simp add: lc_exact_def)

definition lc_demo_api :: "json pbnjson" where
  "lc_demo_api = json_api
    [(''id'', JObj [(''subscribed'', JBool True), (''clientId'', JStr ''c1'')]),
     (''ok'', JObj [(''returnValue'', JBool True)])]"

definition lc_demo :: "lc_event list" where
  "lc_demo =
    [LcRegister True True, LcPowerd (\<lambda>_. True) True, LcIdentify (\<lambda>_. True) ''id'', LcRegistered ''ok'',
     LcWakeLock (\<lambda>_. True) True False, LcWakeLock (\<lambda>_. True) True False,
     LcWakeLock (\<lambda>_. True) False False]"

lemma lc_demo_run:
  "m_refWakeLock (fold (lc_step lc_demo_api) lc_demo lc_init) = 1"
  by (simp add: lc_demo_def lc_demo_api_def json_api_def lc_defs lc_init_def get_bool_def get_str_def)

theorem wakelock_held_iff_referenced_witness:
  "m_setWakeLock (fold (lc_step lc_demo_api) lc_demo lc_init)"
  using wakelock_held_iff_referenced [of lc_demo lc_demo_api] lc_demo_run
  by (simp add: lc_demo_def)

text \<open>
  Whatever the power service answers, in every reachable state the reference count is not
  negative, and a positive count or a held lock implies that the client is registered.
\<close>

theorem wakelock_reachable_good:
  "0 \<le> m_refWakeLock (fold (lc_step J) es lc_init)
   \<and> (m_setWakeLock (fold (lc_step J) es lc_init) \<or> m_refWakeLock (fold (lc_step J) es lc_init) \<noteq> 0
      \<longrightarrow> m_registeredWakeLock (fold (lc_step J) es lc_init))"
  using lc_any.reachable_good [of es J, unfolded lc_good_def] by (simp add: list_all_iff)

theorem wakelock_reachable_good_witness:
  "m_registeredWakeLock (fold (lc_step lc_demo_api) lc_demo lc_init)"
  using wakelock_reachable_good [of lc_demo_api lc_demo] lc_demo_run by simp

text \<open>
  C7: \<^verbatim>\<open>LifeCycleMonitor\<close> refines a counter of wake lock requests: in a run of fewer than 2^31 events in which
  the power service accepts every \<^verbatim>\<open>setWakeLock\<close> call, the registration and the count are those of the
  counter, the device is kept awake exactly while the counter is positive, and the count stays within a C
  \<^verbatim>\<open>int\<close>. (After a call that fails the lock and the count may disagree, see \<open>failed_release_is_retried\<close>.)
\<close>

theorem setWakeLock_refines:
  assumes "list_all lc_no_failure es" and "length es < 2 ^ 31"
  shows "let s = fold (lc_step J) es lc_init; (registered, n) = fold (wakelock_run J) es (False, 0)
    in m_registeredWakeLock s = registered \<and> m_refWakeLock s = int n \<and> (m_setWakeLock s \<longleftrightarrow> 0 < n)
     \<and> 0 \<le> m_refWakeLock s \<and> m_refWakeLock s < 2 ^ 31"
  using lc_run_refines [OF assms(1), of lc_init J] lc_lucky.reachable_good [OF assms(1), of J] assms(2) lc_init_exact
    lc_run_count [of J es "(False, 0)"]
  by (auto simp: lc_exact_def lc_good_def lc_abs_def lc_init_def case_prod_unfold Let_def)

theorem setWakeLock_refines_witness:
  "m_refWakeLock (fold (lc_step lc_demo_api) (lc_demo @ [LcWakeLock (\<lambda>_. True) True False]) lc_init) = 2"
proof -
  let ?es = "lc_demo @ [LcWakeLock (\<lambda>_. True) True False]"
  have ok: "list_all lc_no_failure ?es" "length ?es < 2 ^ 31" by (simp_all add: lc_demo_def)
  have c: "fold (wakelock_run lc_demo_api) ?es (False, 0) = (True, 2)"
    by (simp add: lc_demo_def lc_demo_api_def json_api_def register_accepted_def wakelock_spec_def get_bool_def)
  show ?thesis
    using setWakeLock_refines [OF ok, of lc_demo_api] unfolding c Let_def prod.case by (simp only: of_nat_numeral)
qed

text \<open>
  A failed release is retried: when the last reference is dropped and the call to the power
  service fails, the lock stays held with a zero count, and the next release calls again.
\<close>

theorem failed_release_is_retried:
  assumes "m_registeredWakeLock s" and "m_setWakeLock s" and "m_refWakeLock s \<le> 1"
    and "\<not> ls (ls_out url_setWakeLock (setWakeLock_payload (m_suspendMonitorId s) False))"
    and "s1 = setWakeLock ls False forced s"
  shows "m_setWakeLock s1 \<and> m_refWakeLock s1 = 0
    \<and> lc_calls (setWakeLock ls' False forced' s1)
       = lc_calls s1 @ [ls_out url_setWakeLock (setWakeLock_payload (m_suspendMonitorId s) False)]"
  using assms by (auto simp: lc_defs)

theorem failed_release_is_retried_witness:
  "m_setWakeLock (setWakeLock (\<lambda>_. False) False False
     (lc_init\<lparr>m_registeredWakeLock := True, m_setWakeLock := True, m_refWakeLock := 1\<rparr>))"
  by (rule failed_release_is_retried [OF _ _ _ _ refl, THEN conjunct1]) simp_all

end
