(* ===== verification/Mock.thy ===== *)
theory Mock
  imports Luna_Json
begin

text \<open>
  The mock location facility: the provider chain of \<^verbatim>\<open>src/mock/MockLocation.c\<close>, the GPS mock of
  \<^verbatim>\<open>GpsMockLocation.c\<close> and the network mock of \<^verbatim>\<open>NetworkMockLocation.c\<close> (its state changes
  and its request reader; sockets and the thread are the environment). Flags are 32-bit words as
  in the code. Calling a callback that was never installed is \<open>None\<close>.
\<close>

subsection \<open>Data\<close>

abbreviation (input) MOCKLOC_FLAG_ENABLED :: "32 word" where "MOCKLOC_FLAG_ENABLED \<equiv> 1"
abbreviation (input) MOCKLOC_FLAG_STARTED :: "32 word" where "MOCKLOC_FLAG_STARTED \<equiv> 2"
abbreviation (input) MOCKLOC_FLAG_DISABLE_AFTER_STOP :: "32 word" where "MOCKLOC_FLAG_DISABLE_AFTER_STOP \<equiv> 4"
abbreviation (input) MOCKLOC_FLAG_FINALIZE :: "32 word" where "MOCKLOC_FLAG_FINALIZE \<equiv> 8"

record MockLoc =
  speed :: double
  longitude :: double
  latitude :: double
  altitude :: double
  horizontalAccuracy :: double
  verticalAccuracy :: double
  heading :: double
  timestamp :: int
  loc_flag :: "32 word"

abbreviation (input) LOCATION_SPEED_BIT :: "32 word" where "LOCATION_SPEED_BIT \<equiv> 1"
abbreviation (input) LOCATION_ALTITUDE_BIT :: "32 word" where "LOCATION_ALTITUDE_BIT \<equiv> 2"
abbreviation (input) LOCATION_HORIZONTAL_ACCURACY_BIT :: "32 word" where "LOCATION_HORIZONTAL_ACCURACY_BIT \<equiv> 4"
abbreviation (input) LOCATION_VERTICAL_ACCURACY_BIT :: "32 word" where "LOCATION_VERTICAL_ACCURACY_BIT \<equiv> 8"
abbreviation (input) LOCATION_HEADING_BIT :: "32 word" where "LOCATION_HEADING_BIT \<equiv> 16"
abbreviation (input) LOCATION_TIMESTAMP_BIT :: "32 word" where "LOCATION_TIMESTAMP_BIT \<equiv> 32"

text \<open>
  A provider: its name, the function installed in \<^verbatim>\<open>location\<close>, and its flags. The chain
  \<^verbatim>\<open>mock_location_provider\<close> is the list of providers in \<^verbatim>\<open>next\<close> order.
\<close>

datatype mock_sink = GPS_SINK | NETWORK_SINK

record MockProvider =
  mp_name :: string
  mp_location :: "mock_sink option"
  mp_flag :: "32 word"

text \<open>
  \<open>delivered\<close> records the calls of the \<^verbatim>\<open>location\<close> callbacks in order: the sink and its argument,
  \<open>None\<close> for the null location of \<^verbatim>\<open>finalize_mock_location\<close>.
\<close>

record MockState =
  mock_location_provider :: "MockProvider list"
  delivered :: "(mock_sink \<times> MockLoc option) list"

definition mock_init :: MockState where
  "mock_init =
    \<lparr>mock_location_provider =
       [\<lparr>mp_name = ''gps'', mp_location = None, mp_flag = 0\<rparr>,
        \<lparr>mp_name = ''network'', mp_location = None, mp_flag = 0\<rparr>],
     delivered = []\<rparr>"

subsection \<open>The chain\<close>

fun get_mock_location_provider :: "string \<Rightarrow> MockProvider list \<Rightarrow> MockProvider option" where
  "get_mock_location_provider name [] = None"
| "get_mock_location_provider name (mlp # next) =
    (if mp_name mlp = name then Some mlp else get_mock_location_provider name next)"

text \<open>Writing through the pointer the lookup returned.\<close>

fun put_mock_location_provider :: "MockProvider \<Rightarrow> MockProvider list \<Rightarrow> MockProvider list" where
  "put_mock_location_provider p [] = []"
| "put_mock_location_provider p (mlp # next) =
    (if mp_name mlp = mp_name p then p # next else mlp # put_mock_location_provider p next)"

lemma get_mock_name: "get_mock_location_provider n ps = Some p \<Longrightarrow> mp_name p = n"
  by (induction ps) (auto split: if_splits)

lemma get_put_mock [simp]:
  "get_mock_location_provider n (put_mock_location_provider p ps) =
    (if n = mp_name p then (if get_mock_location_provider n ps = None then None else Some p)
     else get_mock_location_provider n ps)"
  by (induction ps) auto

lemma names_put_mock [simp]: "List.map mp_name (put_mock_location_provider p ps) = List.map mp_name ps"
  by (induction ps) auto

definition provider_set_state :: "bool \<Rightarrow> 32 word \<Rightarrow> 32 word" where
  "provider_set_state state f =
    (if state then f OR MOCKLOC_FLAG_ENABLED
     else if has_flag f MOCKLOC_FLAG_STARTED then f OR MOCKLOC_FLAG_DISABLE_AFTER_STOP
     else f AND NOT MOCKLOC_FLAG_ENABLED)"

definition set_mock_location_state :: "string \<Rightarrow> bool \<Rightarrow> MockState \<Rightarrow> LocationErrorCode \<times> MockState" where
  "set_mock_location_state name state s =
    (case get_mock_location_provider name (mock_location_provider s) of
       None \<Rightarrow> (LOCATION_UNKNOWN_MOCK_PROVIDER, s)
     | Some mlp \<Rightarrow>
         (LOCATION_SUCCESS,
          s\<lparr>mock_location_provider :=
              put_mock_location_provider (mlp\<lparr>mp_flag := provider_set_state state (mp_flag mlp)\<rparr>)
                (mock_location_provider s)\<rparr>))"

text \<open>\<open>None\<close>: the provider is started but no callback was installed.\<close>

definition set_mock_location :: "string \<Rightarrow> MockLoc \<Rightarrow> MockState \<Rightarrow> (LocationErrorCode \<times> MockState) option" where
  "set_mock_location name loc s =
    (case get_mock_location_provider name (mock_location_provider s) of
       None \<Rightarrow> Some (LOCATION_UNKNOWN_MOCK_PROVIDER, s)
     | Some mlp \<Rightarrow>
         if has_flag (mp_flag mlp) MOCKLOC_FLAG_ENABLED then
           if has_flag (mp_flag mlp) MOCKLOC_FLAG_STARTED then
             (case mp_location mlp of
                None \<Rightarrow> None
              | Some sink \<Rightarrow> Some (LOCATION_SUCCESS, s\<lparr>delivered := delivered s @ [(sink, Some loc)]\<rparr>))
           else Some (LOCATION_NOT_STARTED, s)
         else Some (LOCATION_MOCK_DISABLED, s))"

definition start_mock_location :: "MockProvider \<Rightarrow> LocationErrorCode \<times> MockProvider" where
  "start_mock_location mlp =
    (if has_flag (mp_flag mlp) MOCKLOC_FLAG_ENABLED
     then (LOCATION_SUCCESS, mlp\<lparr>mp_flag := mp_flag mlp OR MOCKLOC_FLAG_STARTED\<rparr>)
     else (LOCATION_MOCK_DISABLED, mlp))"

definition stop_mock_location :: "MockProvider \<Rightarrow> LocationErrorCode \<times> MockProvider" where
  "stop_mock_location mlp =
    (if has_flag (mp_flag mlp) MOCKLOC_FLAG_ENABLED then
       let f = mp_flag mlp AND NOT MOCKLOC_FLAG_STARTED;
           f' = (if has_flag f MOCKLOC_FLAG_DISABLE_AFTER_STOP then f AND NOT MOCKLOC_FLAG_ENABLED else f)
       in (LOCATION_SUCCESS, mlp\<lparr>mp_flag := f'\<rparr>)
     else (LOCATION_MOCK_DISABLED, mlp))"

definition finalize_mock_location :: "MockState \<Rightarrow> MockState" where
  "finalize_mock_location s =
    s\<lparr>mock_location_provider :=
        List.map (\<lambda>mlp. mlp\<lparr>mp_flag := mp_flag mlp OR MOCKLOC_FLAG_FINALIZE\<rparr>) (mock_location_provider s),
      delivered := delivered s
        @ concat (List.map (\<lambda>mlp. case mp_location mlp of None \<Rightarrow> [] | Some k \<Rightarrow> [(k, None)])
            (mock_location_provider s))\<rparr>"

subsection \<open>The GPS mock\<close>

text \<open>
  The nyx location a mock location becomes. The bits of \<^verbatim>\<open>nyx_gps_location_t.flags\<close> are
  constants of the nyx headers, hence a parameter.
\<close>

record nyx_location_bits =
  NYX_GPS_LOCATION_HAS_LAT_LONG :: "16 word"
  NYX_GPS_LOCATION_HAS_ALTITUDE :: "16 word"
  NYX_GPS_LOCATION_HAS_SPEED :: "16 word"
  NYX_GPS_LOCATION_HAS_BEARING :: "16 word"
  NYX_GPS_LOCATION_HAS_ACCURACY :: "16 word"
  NYX_GPS_LOCATION_HAS_VERTICAL_ACCURACY :: "16 word"

record nyx_gps_location =
  ngl_flags :: "16 word"
  ngl_latitude :: double
  ngl_longitude :: double
  ngl_altitude :: double
  ngl_speed :: double
  ngl_bearing :: double
  ngl_accuracy :: double
  ngl_vertical_accuracy :: double
  ngl_timestamp :: int

definition gps_mock_location :: "nyx_location_bits \<Rightarrow> MockLoc option \<Rightarrow> nyx_gps_location option" where
  "gps_mock_location N arg =
    (case arg of None \<Rightarrow> None
     | Some loc \<Rightarrow>
       let g0 = \<lparr>ngl_flags = NYX_GPS_LOCATION_HAS_LAT_LONG N, ngl_latitude = latitude loc,
                 ngl_longitude = longitude loc, ngl_altitude = 0, ngl_speed = 0, ngl_bearing = 0,
                 ngl_accuracy = 0, ngl_vertical_accuracy = 0, ngl_timestamp = 0\<rparr>;
           g1 = (if has_flag (loc_flag loc) LOCATION_ALTITUDE_BIT
                 then g0\<lparr>ngl_altitude := altitude loc, ngl_flags := ngl_flags g0 OR NYX_GPS_LOCATION_HAS_ALTITUDE N\<rparr> else g0);
           g2 = (if has_flag (loc_flag loc) LOCATION_SPEED_BIT
                 then g1\<lparr>ngl_speed := speed loc, ngl_flags := ngl_flags g1 OR NYX_GPS_LOCATION_HAS_SPEED N\<rparr> else g1);
           g3 = (if has_flag (loc_flag loc) LOCATION_HEADING_BIT
                 then g2\<lparr>ngl_bearing := heading loc, ngl_flags := ngl_flags g2 OR NYX_GPS_LOCATION_HAS_BEARING N\<rparr> else g2);
           g4 = (if has_flag (loc_flag loc) LOCATION_HORIZONTAL_ACCURACY_BIT
                 then g3\<lparr>ngl_accuracy := horizontalAccuracy loc, ngl_flags := ngl_flags g3 OR NYX_GPS_LOCATION_HAS_ACCURACY N\<rparr> else g3);
           g5 = (if has_flag (loc_flag loc) LOCATION_VERTICAL_ACCURACY_BIT
                 then g4\<lparr>ngl_vertical_accuracy := verticalAccuracy loc, ngl_flags := ngl_flags g4 OR NYX_GPS_LOCATION_HAS_VERTICAL_ACCURACY N\<rparr> else g4)
       in Some (if has_flag (loc_flag loc) LOCATION_TIMESTAMP_BIT
                then g5\<lparr>ngl_timestamp := timestamp loc\<rparr> else g5))"

definition with_provider ::
  "string \<Rightarrow> (MockProvider \<Rightarrow> LocationErrorCode \<times> MockProvider) \<Rightarrow> MockState \<Rightarrow> LocationErrorCode \<times> MockState" where
  "with_provider name f s =
    (case get_mock_location_provider name (mock_location_provider s) of
       None \<Rightarrow> (LOCATION_UNKNOWN_MOCK_PROVIDER, s)
     | Some mlp \<Rightarrow>
         let (e, p) = f mlp
         in (e, s\<lparr>mock_location_provider := put_mock_location_provider p (mock_location_provider s)\<rparr>))"

text \<open>
  \<^verbatim>\<open>gps_mock_init\<close>, \<^verbatim>\<open>gps_mock_start\<close>, \<^verbatim>\<open>gps_mock_stop\<close> replace the nyx functions of that name:
  \<open>nyx\<close> is the result of the real call, which is made only when the mock does not serve it (the
  boolean says whether it was made).
\<close>

definition gps_mock_init :: "MockState \<Rightarrow> MockState" where
  "gps_mock_init s = snd (with_provider ''gps'' (\<lambda>p. (LOCATION_SUCCESS, p\<lparr>mp_location := Some GPS_SINK\<rparr>)) s)"

definition gps_mock_start :: "bool \<Rightarrow> MockState \<Rightarrow> (bool \<times> bool) \<times> MockState" where
  "gps_mock_start nyx s =
    (let (e, s') = with_provider ''gps'' start_mock_location s
     in if e = LOCATION_SUCCESS then ((True, False), s') else ((nyx, True), s'))"

definition gps_mock_stop :: "bool \<Rightarrow> MockState \<Rightarrow> (bool \<times> bool) \<times> MockState" where
  "gps_mock_stop nyx s =
    (let (e, s') = with_provider ''gps'' stop_mock_location s
     in if e = LOCATION_SUCCESS then ((True, False), s') else ((nyx, True), s'))"

subsection \<open>The network mock\<close>

text \<open>
  Choosing the url: the local mock server when the network mock is enabled (started on first
  use, which installs the callback), the given url otherwise.
\<close>

definition network_location_provider_url :: "string \<Rightarrow> string \<Rightarrow> bool \<times> MockState \<Rightarrow> string \<times> bool \<times> MockState" where
  "network_location_provider_url port url = (\<lambda>(server, s).
    let (e, s1) = with_provider ''network'' start_mock_location s
    in if e = LOCATION_SUCCESS then
         let s2 = (if \<not> server
                   then snd (with_provider ''network'' (\<lambda>p. (LOCATION_SUCCESS, p\<lparr>mp_location := Some NETWORK_SINK\<rparr>)) s1)
                   else s1)
         in (''http://127.0.0.1:'' @ port @ ''/nlp?'', True, s2)
       else (url, server, s1))"

text \<open>
  The request reader looks for the empty line that ends an HTTP header with an index into the
  pattern; \<open>None\<close> stands for the index \<open>-1\<close> that ends the loop. After a mismatch it starts over
  at the next byte.
\<close>

definition CRLFCRLF :: string where
  "CRLFCRLF = [CHR 0x0D, CHR 0x0A, CHR 0x0D, CHR 0x0A]"

fun match_chunk :: "nat \<Rightarrow> string \<Rightarrow> nat option" where
  "match_chunk p [] = Some p"
| "match_chunk p (c # cs) =
    (if c = CRLFCRLF ! p then (if 3 \<le> p then None else match_chunk (Suc p) cs)
     else match_chunk 0 cs)"

fun read_request :: "nat \<Rightarrow> string list \<Rightarrow> nat option" where
  "read_request p [] = Some p"
| "read_request p (b # bs) =
    (if b = [] then Some p
     else case match_chunk p b of None \<Rightarrow> None | Some p' \<Rightarrow> read_request p' bs)"


subsection \<open>The mock machine\<close>

datatype mock_event =
    MockSet string bool
  | MockLocate string MockLoc
  | MockGpsInit
  | MockGpsStart bool
  | MockGpsStop bool
  | MockNetUrl string string bool
  | MockNetStop
  | MockFinalize

definition mock_step :: "mock_event \<Rightarrow> MockState \<Rightarrow> MockState" where
  "mock_step e s =
    (case e of
       MockSet name state \<Rightarrow> snd (set_mock_location_state name state s)
     | MockLocate name loc \<Rightarrow> (case set_mock_location name loc s of None \<Rightarrow> s | Some (_, s') \<Rightarrow> s')
     | MockGpsInit \<Rightarrow> gps_mock_init s
     | MockGpsStart nyx \<Rightarrow> snd (gps_mock_start nyx s)
     | MockGpsStop nyx \<Rightarrow> snd (gps_mock_stop nyx s)
     | MockNetUrl port url server \<Rightarrow> snd (snd (network_location_provider_url port url (server, s)))
     | MockNetStop \<Rightarrow> snd (with_provider ''network'' stop_mock_location s)
     | MockFinalize \<Rightarrow> finalize_mock_location s)"

text \<open>A started provider is enabled: a disable request is deferred while the provider runs.\<close>

definition flag_good :: "32 word \<Rightarrow> bool" where
  "flag_good f \<longleftrightarrow> (has_flag f MOCKLOC_FLAG_STARTED \<longrightarrow> has_flag f MOCKLOC_FLAG_ENABLED)"

definition mock_good :: "MockState \<Rightarrow> bool" where
  "mock_good s \<longleftrightarrow> list_all (\<lambda>p. flag_good (mp_flag p)) (mock_location_provider s)"

lemma flag_good_set_state [svc_inv]: "flag_good f \<Longrightarrow> flag_good (provider_set_state b f)"
  by (simp add: flag_good_def provider_set_state_def has_flag_iff_bit bit_simps)

lemma flag_good_start [svc_inv]: "flag_good (mp_flag p) \<Longrightarrow> flag_good (mp_flag (snd (start_mock_location p)))"
  by (auto simp: flag_good_def start_mock_location_def has_flag_iff_bit bit_simps)

lemma flag_good_stop [svc_inv]: "flag_good (mp_flag p) \<Longrightarrow> flag_good (mp_flag (snd (stop_mock_location p)))"
  by (auto simp: flag_good_def stop_mock_location_def has_flag_iff_bit bit_simps Let_def)

lemma flag_good_finalize [svc_inv]: "flag_good f \<Longrightarrow> flag_good (f OR MOCKLOC_FLAG_FINALIZE)"
  by (simp add: flag_good_def has_flag_iff_bit bit_simps)

lemma start_name [simp]: "mp_name (snd (start_mock_location p)) = mp_name p"
  by (simp add: start_mock_location_def)

lemma stop_name [simp]: "mp_name (snd (stop_mock_location p)) = mp_name p"
  by (simp add: stop_mock_location_def Let_def)

lemma all_put_mock:
  "list_all P ps \<Longrightarrow> P p \<Longrightarrow> list_all P (put_mock_location_provider p ps)"
  by (induction ps) auto

lemma all_get_mock: "list_all P ps \<Longrightarrow> get_mock_location_provider n ps = Some p \<Longrightarrow> P p"
  by (induction ps) (auto split: if_splits)

lemma mock_good_with_provider:
  assumes "mock_good s" and "\<And>p. flag_good (mp_flag p) \<Longrightarrow> flag_good (mp_flag (snd (f p)))"
  shows "mock_good (snd (with_provider n f s))"
  using assms all_get_mock [of "\<lambda>p. flag_good (mp_flag p)" "mock_location_provider s" n]
  by (auto simp: mock_good_def with_provider_def split: option.split prod.split intro!: all_put_mock)
    (metis snd_conv)

lemma gps_start_state [simp]: "snd (gps_mock_start nyx s) = snd (with_provider ''gps'' start_mock_location s)"
  by (simp add: gps_mock_start_def split: prod.split)

lemma gps_stop_state [simp]: "snd (gps_mock_stop nyx s) = snd (with_provider ''gps'' stop_mock_location s)"
  by (simp add: gps_mock_stop_def split: prod.split)

lemma net_url_state:
  "snd (snd (network_location_provider_url port url (server, s))) =
    (let t = snd (with_provider ''network'' start_mock_location s)
     in if fst (with_provider ''network'' start_mock_location s) = LOCATION_SUCCESS \<and> \<not> server
        then snd (with_provider ''network'' (\<lambda>p. (LOCATION_SUCCESS, p\<lparr>mp_location := Some NETWORK_SINK\<rparr>)) t)
        else t)"
  by (simp add: network_location_provider_url_def split: prod.split)

lemma mock_good_step [svc_inv]: "mock_good s \<Longrightarrow> mock_good (mock_step e s)"
proof (induction e)
  case (MockSet name state)
  then show ?case
    using all_get_mock [of "\<lambda>p. flag_good (mp_flag p)" "mock_location_provider s" name]
    by (auto simp: mock_step_def set_mock_location_state_def mock_good_def split: option.split
        intro!: all_put_mock flag_good_set_state)
next
  case (MockLocate name loc)
  then show ?case
    by (auto simp: mock_step_def set_mock_location_def mock_good_def split: option.split)
next
  case MockFinalize
  then show ?case
    by (simp add: mock_step_def mock_good_def finalize_mock_location_def list_all_iff flag_good_finalize)
next
  case (MockNetUrl port url server)
  then show ?case
    by (simp add: mock_step_def net_url_state Let_def mock_good_with_provider flag_good_start)
qed (simp_all add: mock_step_def gps_mock_init_def mock_good_with_provider flag_good_start flag_good_stop)

lemma mock_good_init: "mock_good mock_init"
  by (simp add: mock_good_def mock_init_def flag_good_def has_flag_iff_bit)

interpretation mock_m: machine mock_step mock_good "\<lambda>_. True" mock_init
  by unfold_locales (simp_all add: svc_inv mock_good_init)

subsection \<open>Sessions of the GPS mock\<close>

definition gps_flag :: "MockState \<Rightarrow> 32 word" where
  "gps_flag s = (case get_mock_location_provider ''gps'' (mock_location_provider s) of
     None \<Rightarrow> 0 | Some p \<Rightarrow> mp_flag p)"

lemma mp_in_get: "get_mock_location_provider n ps = Some p \<Longrightarrow> p \<in> set ps"
  by (induction ps) (auto split: if_splits)

lemma gps_flag_with_provider:
  assumes "\<And>p. mp_name (snd (f p)) = mp_name p"
  shows "gps_flag (snd (with_provider n f s)) =
    (if n = ''gps'' then
       (case get_mock_location_provider ''gps'' (mock_location_provider s) of
          None \<Rightarrow> 0 | Some p \<Rightarrow> mp_flag (snd (f p)))
     else gps_flag s)"
proof (cases "get_mock_location_provider n (mock_location_provider s)")
  case None
  then show ?thesis by (auto simp: gps_flag_def with_provider_def)
next
  case (Some p)
  have "mp_name (snd (f p)) = n" using assms [of p] get_mock_name [OF Some] by simp
  then show ?thesis using Some by (auto simp: gps_flag_def with_provider_def split_beta)
qed

lemma get_mock_map:
  assumes "\<And>p. mp_name (f p) = mp_name p"
  shows "get_mock_location_provider n (List.map f ps) = map_option f (get_mock_location_provider n ps)"
  using assms by (induction ps) auto

text \<open>What each event does to the flags of the gps provider.\<close>

definition gps_flag_step :: "mock_event \<Rightarrow> 32 word \<Rightarrow> 32 word" where
  "gps_flag_step e f =
    (case e of
       MockSet n b \<Rightarrow> if n = ''gps'' then provider_set_state b f else f
     | MockGpsStart nyx \<Rightarrow> if has_flag f MOCKLOC_FLAG_ENABLED then f OR MOCKLOC_FLAG_STARTED else f
     | MockGpsStop nyx \<Rightarrow>
         if has_flag f MOCKLOC_FLAG_ENABLED then
           (if has_flag f MOCKLOC_FLAG_DISABLE_AFTER_STOP
            then (f AND NOT MOCKLOC_FLAG_STARTED) AND NOT MOCKLOC_FLAG_ENABLED
            else f AND NOT MOCKLOC_FLAG_STARTED)
         else f
     | MockFinalize \<Rightarrow> f OR MOCKLOC_FLAG_FINALIZE
     | _ \<Rightarrow> f)"

definition has_gps :: "MockState \<Rightarrow> bool" where
  "has_gps s \<longleftrightarrow> ''gps'' \<in> set (List.map mp_name (mock_location_provider s))"

lemma has_gps_get: "has_gps s \<Longrightarrow> \<exists>p. get_mock_location_provider ''gps'' (mock_location_provider s) = Some p"
proof -
  have "x \<in> set (List.map mp_name ps) \<Longrightarrow> \<exists>p. get_mock_location_provider x ps = Some p" for x ps
    by (induction ps) auto
  then show "has_gps s \<Longrightarrow> ?thesis" by (simp add: has_gps_def)
qed

lemma names_with_provider:
  "(\<And>p. mp_name (snd (f p)) = mp_name p) \<Longrightarrow>
    List.map mp_name (mock_location_provider (snd (with_provider n f s))) = List.map mp_name (mock_location_provider s)"
  by (simp add: with_provider_def split: option.split prod.split)

lemma has_gps_step [svc_inv]: "has_gps (mock_step e s) = has_gps s"
proof -
  have "List.map mp_name (mock_location_provider (mock_step e s)) = List.map mp_name (mock_location_provider s)"
    by (cases e) (simp_all add: mock_step_def gps_mock_init_def names_with_provider net_url_state Let_def
        set_mock_location_state_def set_mock_location_def finalize_mock_location_def split: option.split)
  then show ?thesis by (simp only: has_gps_def)
qed

lemma flag_keeps_deferred:
  "has_flag (f AND NOT MOCKLOC_FLAG_STARTED) MOCKLOC_FLAG_DISABLE_AFTER_STOP
    = has_flag f MOCKLOC_FLAG_DISABLE_AFTER_STOP"
  by (simp add: has_flag_iff_bit bit_simps)

lemma gps_flag_mock_step:
  assumes "has_gps s"
  shows "gps_flag (mock_step e s) = gps_flag_step e (gps_flag s)"
proof -
  obtain p where p: "get_mock_location_provider ''gps'' (mock_location_provider s) = Some p"
    using has_gps_get [OF assms] by blast
  then have n: "mp_name p = ''gps''" by (rule get_mock_name)
  have stop: "mp_flag (snd (stop_mock_location p)) = gps_flag_step (MockGpsStop True) (mp_flag p)"
    using flag_keeps_deferred [of "mp_flag p"]
    by (simp add: stop_mock_location_def gps_flag_step_def Let_def)
  have gf: "gps_flag s = mp_flag p" by (simp add: gps_flag_def p)
  show ?thesis
  proof (cases e)
    case (MockSet m b)
    then show ?thesis
      using p n by (auto simp: mock_step_def set_mock_location_state_def gps_flag_def gps_flag_step_def
          split: option.split dest: get_mock_name)
  next
    case (MockLocate m l)
    then show ?thesis
      by (simp add: mock_step_def set_mock_location_def gps_flag_step_def gps_flag_def split: option.split)
  next
    case MockFinalize
    then show ?thesis
      using p by (simp add: mock_step_def gps_flag_def finalize_mock_location_def get_mock_map gps_flag_step_def)
  qed (use p stop gf in \<open>simp_all add: mock_step_def gps_mock_init_def gps_flag_with_provider
      net_url_state Let_def gps_flag_step_def start_mock_location_def\<close>)
qed

definition gps_session :: "MockState \<Rightarrow> bool" where
  "gps_session s \<longleftrightarrow> has_gps s \<and> has_flag (gps_flag s) MOCKLOC_FLAG_STARTED
    \<and> has_flag (gps_flag s) MOCKLOC_FLAG_ENABLED"

definition gps_deferred :: "MockState \<Rightarrow> bool" where
  "gps_deferred s \<longleftrightarrow> has_gps s \<and> has_flag (gps_flag s) MOCKLOC_FLAG_DISABLE_AFTER_STOP"

primrec not_gps_stop :: "mock_event \<Rightarrow> bool" where
  "not_gps_stop (MockSet n b) = True"
| "not_gps_stop (MockLocate n l) = True"
| "not_gps_stop MockGpsInit = True"
| "not_gps_stop (MockGpsStart x) = True"
| "not_gps_stop (MockGpsStop x) = False"
| "not_gps_stop (MockNetUrl a b c) = True"
| "not_gps_stop MockNetStop = True"
| "not_gps_stop MockFinalize = True"

interpretation gps_ses: step_invariant mock_step gps_session not_gps_stop
proof
  fix s e assume "gps_session s" "not_gps_stop e"
  then show "gps_session (mock_step e s)"
    by (cases e) (auto simp: gps_session_def has_gps_step gps_flag_mock_step gps_flag_step_def
        provider_set_state_def has_flag_iff_bit bit_simps)
qed

interpretation gps_def: step_invariant mock_step gps_deferred "\<lambda>_. True"
proof
  fix s e assume "gps_deferred s"
  then show "gps_deferred (mock_step e s)"
    by (cases e) (auto simp: gps_deferred_def has_gps_step gps_flag_mock_step gps_flag_step_def
        provider_set_state_def has_flag_iff_bit bit_simps)
qed

lemma gps_session_start:
  assumes "fst (gps_mock_start nyx s) = (True, False)"
  shows "gps_session (snd (gps_mock_start nyx s))"
proof -
  obtain p where p: "get_mock_location_provider ''gps'' (mock_location_provider s) = Some p"
    using assms by (auto simp: gps_mock_start_def with_provider_def split: option.splits prod.splits)
  then have en: "has_flag (mp_flag p) MOCKLOC_FLAG_ENABLED" and n: "mp_name p = ''gps''"
    using assms get_mock_name [OF p]
    by (auto simp: gps_mock_start_def with_provider_def start_mock_location_def split: if_splits)
  have "has_gps s"
    using p by (metis (no_types, lifting) get_mock_name get_mock_location_provider.simps has_gps_def
        image_eqI list.set_map mp_in_get)
  then show ?thesis
    using p en n by (simp add: gps_session_def gps_flag_with_provider start_mock_location_def
        has_gps_def names_with_provider has_flag_iff_bit bit_simps)
qed

subsection \<open>The request reader\<close>

lemma match_chunk_append:
  "match_chunk p (xs @ ys) = (case match_chunk p xs of None \<Rightarrow> None | Some q \<Rightarrow> match_chunk q ys)"
  by (induction p xs rule: match_chunk.induct) auto

lemma match_chunk_bound: "match_chunk p cs = Some q \<Longrightarrow> p \<le> 3 \<Longrightarrow> q \<le> 3"
  by (induction p cs rule: match_chunk.induct) (auto split: if_splits)

lemma take_CRLFCRLF: "p \<le> 3 \<Longrightarrow> take (Suc p) CRLFCRLF = take p CRLFCRLF @ [CRLFCRLF ! p]"
  by (rule take_Suc_conv_app_nth) (simp add: CRLFCRLF_def)

lemma match_chunk_sound:
  "match_chunk p cs = None \<Longrightarrow> p \<le> 3 \<Longrightarrow> \<exists>a b. take p CRLFCRLF @ cs = a @ CRLFCRLF @ b"
proof (induction p cs rule: match_chunk.induct)
  case (2 p c cs)
  show ?case
  proof (cases "c = CRLFCRLF ! p")
    case hit: True
    then have eq: "take p CRLFCRLF @ c # cs = take (Suc p) CRLFCRLF @ cs"
      using 2 take_CRLFCRLF by simp
    show ?thesis
    proof (cases "3 \<le> p")
      case True
      then have "take (Suc p) CRLFCRLF = CRLFCRLF" by (simp add: CRLFCRLF_def)
      then show ?thesis unfolding eq by (metis append_Nil)
    next
      case False
      then show ?thesis unfolding eq using 2 hit by simp
    qed
  next
    case False
    then obtain a b where "cs = a @ CRLFCRLF @ b" using 2 by auto
    then show ?thesis by (metis append_Cons append_assoc)
  qed
qed simp

lemma read_request_concat:
  "[] \<notin> set bs \<Longrightarrow> read_request p bs = match_chunk p (concat bs)"
  by (induction bs arbitrary: p) (auto simp: match_chunk_append split: option.split)

subsection \<open>Properties\<close>

text \<open>
  C29: a GPS session the mock serves ends in the mock: after a start it answered, whatever is
  enabled, disabled or injected meanwhile, the stop is answered by the mock and never reaches the
  receiver, which was never started.
\<close>

theorem mock_session_stays_in_mock:
  assumes "fst (gps_mock_start nyx s) = (True, False)" and "list_all not_gps_stop es"
  shows "fst (gps_mock_stop nyx' (fold mock_step es (snd (gps_mock_start nyx s)))) = (True, False)"
proof -
  let ?t = "fold mock_step es (snd (gps_mock_start nyx s))"
  have "gps_session ?t"
    using gps_ses.run_good [OF gps_session_start [OF assms(1)] assms(2)] .
  then have en: "has_flag (gps_flag ?t) MOCKLOC_FLAG_ENABLED" and g: "has_gps ?t"
    by (simp_all add: gps_session_def)
  obtain p where "get_mock_location_provider ''gps'' (mock_location_provider ?t) = Some p"
    using has_gps_get [OF g] by blast
  then show ?thesis
    using en by (simp add: gps_flag_def gps_mock_stop_def with_provider_def stop_mock_location_def Let_def)
qed

definition mock_demo :: MockState where
  "mock_demo = snd (set_mock_location_state ''gps'' True (gps_mock_init mock_init))"

lemmas mock_eval = mock_demo_def mock_init_def set_mock_location_state_def gps_mock_init_def
  with_provider_def gps_mock_start_def gps_mock_stop_def start_mock_location_def
  stop_mock_location_def provider_set_state_def has_flag_def mock_step_def

theorem mock_session_stays_in_mock_witness:
  "fst (gps_mock_stop False (fold mock_step [MockSet ''gps'' False] (snd (gps_mock_start False mock_demo)))) = (True, False)"
  by (rule mock_session_stays_in_mock) (simp_all add: mock_eval)

text \<open>
  A disable deferred by a running session is never forgotten: once
  \<^verbatim>\<open>MOCKLOC_FLAG_DISABLE_AFTER_STOP\<close> is set no operation clears it, so after any later events,
  enabling included, the next stop of an enabled mock disables it again.
\<close>

theorem deferred_disable_is_sticky:
  assumes "has_gps s" and "has_flag (gps_flag s) MOCKLOC_FLAG_DISABLE_AFTER_STOP"
  shows "has_flag (gps_flag (fold mock_step es s)) MOCKLOC_FLAG_DISABLE_AFTER_STOP
    \<and> \<not> has_flag (gps_flag (mock_step (MockGpsStop nyx) (fold mock_step es s))) MOCKLOC_FLAG_ENABLED"
proof -
  have "gps_deferred (fold mock_step es s)"
    using gps_def.run_good [of s es] assms by (simp add: gps_deferred_def list_all_iff)
  then show ?thesis
    by (auto simp: gps_deferred_def gps_flag_mock_step gps_flag_step_def has_flag_iff_bit bit_simps)
qed

definition mock_demo_deferred :: MockState where
  "mock_demo_deferred = snd (set_mock_location_state ''gps'' False (snd (gps_mock_start True mock_demo)))"

theorem deferred_disable_is_sticky_witness:
  "\<not> has_flag (gps_flag (mock_step (MockGpsStop True)
     (fold mock_step [MockGpsStop True, MockSet ''gps'' True, MockGpsStart True] mock_demo_deferred))) MOCKLOC_FLAG_ENABLED"
  by (rule deferred_disable_is_sticky [THEN conjunct2])
    (simp_all add: mock_demo_deferred_def mock_eval has_gps_def gps_flag_def)

text \<open>
  In every reachable state of the mock facility a started provider is enabled.
\<close>

theorem mock_started_implies_enabled:
  assumes "p \<in> set (mock_location_provider (fold mock_step es mock_init))"
    and "has_flag (mp_flag p) MOCKLOC_FLAG_STARTED"
  shows "has_flag (mp_flag p) MOCKLOC_FLAG_ENABLED"
  using mock_m.reachable_good [of es] assms by (auto simp: mock_good_def flag_good_def list_all_iff)

theorem mock_started_implies_enabled_witness:
  "has_flag (3::32 word) MOCKLOC_FLAG_ENABLED"
  using mock_started_implies_enabled
    [of "\<lparr>mp_name = ''gps'', mp_location = Some GPS_SINK, mp_flag = 3\<rparr>"
        "[MockGpsInit, MockSet ''gps'' True, MockGpsStart True]"]
  by (simp add: mock_eval)

text \<open>
  The request reader of the network mock does not depend on how the bytes are split into
  reads, and stops only when the request contains an empty line.
\<close>

theorem read_request_finds_empty_line:
  assumes "[] \<notin> set bs" and "read_request 0 bs = None"
  shows "\<exists>a b. concat bs = a @ CRLFCRLF @ b"
  using match_chunk_sound [of 0 "concat bs"] assms by (simp add: read_request_concat)

theorem read_request_finds_empty_line_witness:
  "\<exists>a b. concat [''GET'' @ [CHR 0x0D], [CHR 0x0A, CHR 0x0D, CHR 0x0A]] = a @ CRLFCRLF @ b"
  by (rule read_request_finds_empty_line) (simp_all add: CRLFCRLF_def)

text \<open>
  The reader misses an empty line that follows a lone carriage return, because it does not
  look at the mismatched byte again.
\<close>

lemma read_request_misses:
  "read_request 0 [CHR 0x0D # CRLFCRLF] = Some 2"
  by (simp add: CRLFCRLF_def)

end
