(* ===== verification/Gps_Config.thy ===== *)
theory Gps_Config
  imports Location_Prelude
begin

text \<open>
  The GPS configuration: the key/value reader of \<^verbatim>\<open>src/handler/position/gps/gps_cfg.cpp\<close> and the
  parameter table and defaults of \<^verbatim>\<open>GPSServiceConfig.cpp\<close>. A file is the list of its
  characters. \<^verbatim>\<open>fgets\<close>, \<^verbatim>\<open>strtok_r\<close>, \<^verbatim>\<open>atoi\<close> and \<^verbatim>\<open>strtol\<close> are modelled by what the C library
  documents; numbers outside the range of \<^verbatim>\<open>int\<close>, undefined there, are reduced modulo 2^32.
  \<^verbatim>\<open>unsigned long\<close> has 64 bits and is stored little-endian.
\<close>

abbreviation (input) GPS_MAX_PARAM_STRING :: nat where "GPS_MAX_PARAM_STRING \<equiv> 80"
abbreviation (input) GPS_MAX_PARAM_LINE :: nat where "GPS_MAX_PARAM_LINE \<equiv> 80"

abbreviation (input) newline :: char where "newline \<equiv> CHR 0x0A"
abbreviation (input) eqsign :: char where "eqsign \<equiv> CHR 0x3D"

subsection \<open>The C library's string functions\<close>

definition isspace :: "char \<Rightarrow> bool" where
  "isspace c \<longleftrightarrow> c \<in> {CHR 0x20, CHR 0x09, CHR 0x0A, CHR 0x0B, CHR 0x0C, CHR 0x0D}"

text \<open>\<open>fgets n s\<close>: at most \<open>n\<close> characters, up to and including a newline, and the rest.\<close>

fun fgets :: "nat \<Rightarrow> string \<Rightarrow> string \<times> string" where
  "fgets 0 s = ([], s)"
| "fgets (Suc n) [] = ([], [])"
| "fgets (Suc n) (c # cs) =
    (if c = newline then ([c], cs) else let (l, r) = fgets n cs in (c # l, r))"

lemma fgets_length: "fgets n s = (l, r) \<Longrightarrow> length l + length r = length s"
  by (induction n s arbitrary: l r rule: fgets.induct) (auto split: if_splits prod.splits)

lemma fgets_progress: "s \<noteq> [] \<Longrightarrow> length (snd (fgets (Suc n) s)) < length s"
  using fgets_length [of n "tl s"] by (cases s) (auto split: prod.split)

lemma fgets_bound: "length (fst (fgets n s)) \<le> n"
  by (induction n s rule: fgets.induct) (auto split: prod.split)

text \<open>\<open>strtok s\<close>: skip leading separators, then the token and what follows its separator.\<close>

definition strtok :: "string \<Rightarrow> (string \<times> string) option" where
  "strtok s =
    (let t = dropWhile (\<lambda>c. c = eqsign) s
     in if t = [] then None
        else Some (takeWhile (\<lambda>c. c \<noteq> eqsign) t, drop 1 (dropWhile (\<lambda>c. c \<noteq> eqsign) t)))"

definition digit_of :: "char \<Rightarrow> nat option" where
  "digit_of c =
    (let n = of_char c :: nat
     in if 48 \<le> n \<and> n \<le> 57 then Some (n - 48)
        else if 97 \<le> n \<and> n \<le> 102 then Some (n - 87)
        else if 65 \<le> n \<and> n \<le> 70 then Some (n - 55)
        else None)"

fun digits_val :: "nat \<Rightarrow> int \<Rightarrow> string \<Rightarrow> int" where
  "digits_val b acc [] = acc"
| "digits_val b acc (c # cs) =
    (case digit_of c of
       None \<Rightarrow> acc
     | Some d \<Rightarrow> if d < b then digits_val b (acc * int b + int d) cs else acc)"

definition strtol :: "nat \<Rightarrow> string \<Rightarrow> int" where
  "strtol b s =
    (case dropWhile isspace s of
       [] \<Rightarrow> 0
     | c # cs \<Rightarrow>
         if c = CHR ''-'' then - digits_val b 0 cs
         else if c = CHR ''+'' then digits_val b 0 cs
         else digits_val b 0 (c # cs))"

subsection \<open>Trimming\<close>

text \<open>
  The scan of \<^verbatim>\<open>trim_spaces\<close>: whether a non-space was seen, what has been written, and the
  prefix of it \<^verbatim>\<open>last_nonspace\<close> points behind. Without any non-space the string stays as it is.
\<close>

fun trim_scan :: "bool \<Rightarrow> string \<Rightarrow> string option \<Rightarrow> string \<Rightarrow> string option" where
  "trim_scan first w l [] = l"
| "trim_scan first w l (c # cs) =
    (let first' = (first \<or> \<not> isspace c)
     in if first' then
          let w' = w @ [c] in trim_scan first' w' (if \<not> isspace c then Some w' else l) cs
        else trim_scan first' w l cs)"

definition trim_spaces :: "string \<Rightarrow> string" where
  "trim_spaces s = (case trim_scan False [] None s of None \<Rightarrow> s | Some t \<Rightarrow> t)"

definition strip :: "string \<Rightarrow> string" where
  "strip s = rev (dropWhile isspace (rev (dropWhile isspace s)))"

lemma trim_scan_rest:
  "trim_scan True w l cs =
    (if list_all isspace cs then l else Some (w @ rev (dropWhile isspace (rev cs))))"
proof (induction cs arbitrary: w l)
  case (Cons c cs)
  then show ?case
    by (auto simp: Let_def list_all_iff dropWhile_append dropWhile_eq_Nil_conv)
qed simp

lemma trim_scan_start:
  "trim_scan False [] None s = (if list_all isspace s then None else Some (strip s))"
proof (induction s)
  case (Cons c cs)
  then show ?case
    by (auto simp: Let_def trim_scan_rest strip_def list_all_iff dropWhile_append dropWhile_eq_Nil_conv)
qed simp

subsection \<open>Configuration entries\<close>

record GPSServiceConfig =
  mSUPLVer :: "64 word"
  mSUPLHost :: string
  mSUPLPort :: "64 word"
  mXtraServer1 :: string
  mXtraServer2 :: string
  mXtraServer3 :: string
  mNTPServer1 :: string
  mNTPServer2 :: string
  mNTPServer3 :: string
  mVENDOR :: string
  mLgeTlsMode :: "64 word"
  mLgeGPSPositionMode :: "64 word"
  mChipsetID :: string

text \<open>\<^verbatim>\<open>gps_param_v_type\<close>; the floating value is read only by \<^verbatim>\<open>'f'\<close> entries, which no table has.\<close>

record gps_param_v =
  param_name :: string
  param_str_value :: string
  param_int_value :: int

datatype param_ptr =
    PStr "string \<Rightarrow> GPSServiceConfig \<Rightarrow> GPSServiceConfig"
  | PNum "(64 word \<Rightarrow> 64 word) \<Rightarrow> GPSServiceConfig \<Rightarrow> GPSServiceConfig"

text \<open>\<^verbatim>\<open>*((int *) p) = v\<close> through a pointer to an \<^verbatim>\<open>unsigned long\<close>: its low four bytes.\<close>

definition store_int :: "int \<Rightarrow> 64 word \<Rightarrow> 64 word" where
  "store_int v old = word_of_int ((uint old div 2 ^ 32) * 2 ^ 32 + v mod 2 ^ 32)"

definition gps_set_config_entry ::
  "string \<times> param_ptr \<Rightarrow> gps_param_v \<Rightarrow> GPSServiceConfig \<Rightarrow> GPSServiceConfig" where
  "gps_set_config_entry entry v cfg =
    (if fst entry = param_name v then
       (case snd entry of
          PStr put \<Rightarrow>
            if param_str_value v = ''NULL'' then put [] cfg
            else put (strlcpy GPS_MAX_PARAM_STRING (param_str_value v)) cfg
        | PNum put \<Rightarrow> put (store_int (param_int_value v)) cfg)
     else cfg)"

definition int_value :: "string \<Rightarrow> int" where
  "int_value s =
    (case s of
       a # b # r \<Rightarrow> if a = CHR ''0'' \<and> (b = CHR ''x'' \<or> b = CHR ''X'') then strtol 16 r else strtol 10 s
     | _ \<Rightarrow> strtol 10 s)"

definition parse_line :: "string \<Rightarrow> gps_param_v option" where
  "parse_line l =
    (case strtok l of
       None \<Rightarrow> None
     | Some (name, rest) \<Rightarrow>
         (case strtok rest of
            None \<Rightarrow> None
          | Some (val, _) \<Rightarrow>
              let v = trim_spaces val
              in Some \<lparr>param_name = trim_spaces name, param_str_value = v, param_int_value = int_value v\<rparr>))"

definition apply_line :: "(string \<times> param_ptr) list \<Rightarrow> string \<Rightarrow> GPSServiceConfig \<Rightarrow> GPSServiceConfig" where
  "apply_line tbl l cfg =
    (case parse_line l of
       None \<Rightarrow> cfg
     | Some v \<Rightarrow> fold (\<lambda>e. gps_set_config_entry e v) tbl cfg)"

function read_lines :: "(string \<times> param_ptr) list \<Rightarrow> string \<Rightarrow> GPSServiceConfig \<Rightarrow> GPSServiceConfig" where
  "read_lines tbl s cfg =
    (if s = [] then cfg
     else read_lines tbl (snd (fgets (GPS_MAX_PARAM_LINE - 1) s))
            (apply_line tbl (fst (fgets (GPS_MAX_PARAM_LINE - 1) s)) cfg))"
  by pat_completeness auto
termination
proof (relation "measure (\<lambda>(tbl, s, cfg). length s)", goal_cases)
  case (2 tbl s cfg)
  then show ?case using fgets_progress [of s 78] by simp
qed simp

declare read_lines.simps [simp del]

definition gps_read_conf ::
  "string option \<Rightarrow> (string \<times> param_ptr) list \<Rightarrow> GPSServiceConfig \<Rightarrow> GPSServiceConfig" where
  "gps_read_conf file tbl cfg = (case file of None \<Rightarrow> cfg | Some s \<Rightarrow> read_lines tbl s cfg)"

subsection \<open>The service's table and defaults\<close>

definition loadDefaults :: "64 word \<Rightarrow> GPSServiceConfig" where
  "loadDefaults ms_based =
    \<lparr>mSUPLVer = 0x20000, mSUPLHost = ''supl.google.com'', mSUPLPort = 7276,
     mXtraServer1 = ''https://xtra2.gpsonextra.net/xtra2.bin'',
     mXtraServer2 = ''https://xtra3.gpsonextra.net/xtra2.bin'',
     mXtraServer3 = ''https://xtra1.gpsonextra.net/xtra2.bin'',
     mNTPServer1 = ''time.gpsonextra.net'', mNTPServer2 = ''asia.pool.ntp.org'',
     mNTPServer3 = ''0.kr.pool.ntp.org'', mVENDOR = ''undefined'', mLgeTlsMode = 0,
     mLgeGPSPositionMode = ms_based, mChipsetID = ''Main''\<rparr>"

definition gps_cfg_parameter_table :: "(string \<times> param_ptr) list" where
  "gps_cfg_parameter_table =
    [(''SUPL_VER'', PNum mSUPLVer_update),
     (''SUPL_HOST'', PStr (\<lambda>s. mSUPLHost_update (\<lambda>_. s))),
     (''SUPL_PORT'', PNum mSUPLPort_update),
     (''XTRA_SERVER_1'', PStr (\<lambda>s. mXtraServer1_update (\<lambda>_. s))),
     (''XTRA_SERVER_2'', PStr (\<lambda>s. mXtraServer2_update (\<lambda>_. s))),
     (''XTRA_SERVER_3'', PStr (\<lambda>s. mXtraServer3_update (\<lambda>_. s))),
     (''NTP_SERVER_1'', PStr (\<lambda>s. mNTPServer1_update (\<lambda>_. s))),
     (''NTP_SERVER_2'', PStr (\<lambda>s. mNTPServer2_update (\<lambda>_. s))),
     (''NTP_SERVER_3'', PStr (\<lambda>s. mNTPServer3_update (\<lambda>_. s))),
     (''VENDOR'', PStr (\<lambda>s. mVENDOR_update (\<lambda>_. s))),
     (''LGE_TLS_MODE'', PNum mLgeTlsMode_update),
     (''LGE_GPS_POSITION_MODE'', PNum mLgeGPSPositionMode_update),
     (''CHIPSET_ID'', PStr (\<lambda>s. mChipsetID_update (\<lambda>_. s)))]"

definition loadConfigFile :: "string option \<Rightarrow> GPSServiceConfig \<Rightarrow> GPSServiceConfig" where
  "loadConfigFile file cfg = gps_read_conf file gps_cfg_parameter_table cfg"

definition gps_service_config :: "64 word \<Rightarrow> string option \<Rightarrow> GPSServiceConfig" where
  "gps_service_config ms_based file = loadConfigFile file (loadDefaults ms_based)"

subsection \<open>Bounds of the string fields\<close>

definition cfg_strings :: "GPSServiceConfig \<Rightarrow> string list" where
  "cfg_strings c = [mSUPLHost c, mXtraServer1 c, mXtraServer2 c, mXtraServer3 c, mNTPServer1 c,
     mNTPServer2 c, mNTPServer3 c, mVENDOR c, mChipsetID c]"

definition cfg_fits :: "GPSServiceConfig \<Rightarrow> bool" where
  "cfg_fits c \<longleftrightarrow> (\<forall>s \<in> set (cfg_strings c). length s < GPS_MAX_PARAM_STRING)"

lemma set_entry_fits:
  assumes "cfg_fits c" and "e \<in> set gps_cfg_parameter_table"
  shows "cfg_fits (gps_set_config_entry e v c)"
proof -
  have len: "length (strlcpy 80 s) < 80" for s by (rule length_strlcpy) simp
  show ?thesis
    using assms len [of "param_str_value v"]
    by (auto simp: gps_cfg_parameter_table_def gps_set_config_entry_def cfg_fits_def cfg_strings_def)
qed

lemma fold_entries_fits:
  "set es \<subseteq> set gps_cfg_parameter_table \<Longrightarrow> cfg_fits c \<Longrightarrow> cfg_fits (fold (\<lambda>e. gps_set_config_entry e v) es c)"
  by (induction es arbitrary: c) (auto simp: set_entry_fits)

lemma apply_line_fits [svc_inv]: "cfg_fits c \<Longrightarrow> cfg_fits (apply_line gps_cfg_parameter_table l c)"
  by (simp add: apply_line_def fold_entries_fits split: option.split)

lemma read_lines_Nil [simp]: "read_lines tbl [] c = c"
  by (simp add: read_lines.simps)

lemma read_lines_step:
  "s \<noteq> [] \<Longrightarrow> read_lines tbl s c =
    read_lines tbl (snd (fgets 79 s)) (apply_line tbl (fst (fgets 79 s)) c)"
  by (simp add: read_lines.simps [of tbl s c])

lemma read_lines_fits: "cfg_fits c \<Longrightarrow> cfg_fits (read_lines gps_cfg_parameter_table s c)"
proof (induction "length s" arbitrary: s c rule: less_induct)
  case less
  show ?case
  proof (cases "s = []")
    case False
    then have "length (snd (fgets 79 s)) < length s" using fgets_progress [of s 78] by simp
    then show ?thesis
      using less False by (simp add: read_lines_step apply_line_fits)
  qed (simp add: less)
qed

lemma fgets_line:
  "newline \<notin> set l \<Longrightarrow> length l < n \<Longrightarrow> fgets n (l @ newline # rest) = (l @ [newline], rest)"
proof (induction l arbitrary: n)
  case Nil
  then show ?case by (cases n) auto
next
  case (Cons c cs)
  then show ?case by (cases n) auto
qed

lemma strtok_pair:
  assumes "n \<noteq> []" and "eqsign \<notin> set n"
  shows "strtok (n @ eqsign # r) = Some (n, r)" and "strtok n = Some (n, [])"
proof -
  have "hd n \<noteq> eqsign" using assms by (metis hd_in_set)
  then have d: "dropWhile (\<lambda>c. c = eqsign) (n @ r') = n @ r'" for r'
    using assms(1) by (cases n) auto
  have t: "takeWhile (\<lambda>c. c \<noteq> eqsign) n = n" "dropWhile (\<lambda>c. c \<noteq> eqsign) n = []"
    using assms(2) by (auto simp: takeWhile_eq_all_conv dropWhile_eq_Nil_conv)
  have ne: "\<forall>x\<in>set n. x \<noteq> eqsign" using assms(2) by auto
  show "strtok (n @ eqsign # r) = Some (n, r)"
    using d [of "eqsign # r"] assms(1) ne
    by (simp add: strtok_def Let_def takeWhile_append2 dropWhile_append2 ne t)
  show "strtok n = Some (n, [])"
    using d [of "[]"] assms(1) by (simp add: strtok_def Let_def t)
qed

lemma trim_spaces_strip: "trim_spaces s = (if list_all isspace s then s else strip s)"
  by (simp add: trim_spaces_def trim_scan_start)

lemma strip_core:
  assumes "h \<noteq> []" and "\<not> isspace (hd h)" and "\<not> isspace (last h)" and "list_all isspace sp"
  shows "trim_spaces (h @ sp) = h"
proof -
  have "\<not> list_all isspace (h @ sp)" using assms by (cases h) auto
  moreover have "dropWhile isspace (h @ sp) = h @ sp" using assms by (cases h) auto
  moreover have "dropWhile isspace (rev sp @ rev h) = rev h"
    using assms by (cases h rule: rev_cases) (auto simp: list_all_iff dropWhile_append)
  ultimately show ?thesis by (auto simp: trim_spaces_strip strip_def)
qed

lemma table_chars:
  "list_all (\<lambda>(n, p). n \<noteq> [] \<and> list_all (\<lambda>c. c \<noteq> eqsign \<and> \<not> isspace c) n) gps_cfg_parameter_table"
  by code_simp

lemma table_names:
  assumes "(n, p) \<in> set gps_cfg_parameter_table"
  shows "n \<noteq> []" and "eqsign \<notin> set n" and "newline \<notin> set n" and "trim_spaces n = n"
proof -
  have ne: "n \<noteq> []" and c: "\<And>c. c \<in> set n \<Longrightarrow> c \<noteq> eqsign \<and> \<not> isspace c"
    using table_chars assms by (auto simp: list_all_iff)
  show "n \<noteq> []" and "eqsign \<notin> set n" using ne c by auto
  show "newline \<notin> set n" using c by (auto simp: isspace_def)
  show "trim_spaces n = n" using strip_core [of n "[]"] ne c by simp
qed

lemma set_entry_str [simp]:
  "param_str_value v \<noteq> ''NULL'' \<Longrightarrow> gps_set_config_entry (param_name v, PStr put) v c
    = put (strlcpy GPS_MAX_PARAM_STRING (param_str_value v)) c"
  by (simp add: gps_set_config_entry_def)

lemma set_entry_other [simp]: "fst e \<noteq> param_name v \<Longrightarrow> gps_set_config_entry e v c = c"
  by (simp add: gps_set_config_entry_def)

lemma fold_other_names:
  "n \<notin> fst ` set es \<Longrightarrow> param_name v = n \<Longrightarrow> fold (\<lambda>e. gps_set_config_entry e v) es c = c"
  by (induction es arbitrary: c) auto

lemma fold_one_name:
  assumes "distinct (List.map fst es)" and "(n, PStr put) \<in> set es" and "param_name v = n"
    and "param_str_value v \<noteq> ''NULL''"
  shows "fold (\<lambda>e. gps_set_config_entry e v) es c = put (strlcpy GPS_MAX_PARAM_STRING (param_str_value v)) c"
  using assms
proof (induction es arbitrary: c)
  case (Cons e es)
  show ?case
  proof (cases "e = (n, PStr put)")
    case True
    then show ?thesis
      using Cons.prems fold_other_names [of n es v] by auto
  next
    case False
    then have "(n, PStr put) \<in> set es" using Cons.prems by simp
    then have "fst e \<noteq> n" using Cons.prems by force
    then show ?thesis
      using Cons \<open>(n, PStr put) \<in> set es\<close> by auto
  qed
qed simp

lemma table_distinct: "distinct (List.map fst gps_cfg_parameter_table)"
  by code_simp

lemmas table_lookup = fold_one_name [OF table_distinct]

subsection \<open>Properties\<close>

text \<open>
  C36: whatever the configuration file holds, every string of the GPS configuration fits its
  80-byte field with its terminator.
\<close>

theorem config_strings_fit: "cfg_fits (gps_service_config ms_based file)"
proof -
  have "cfg_fits (loadDefaults ms_based)"
    by (simp add: cfg_fits_def cfg_strings_def loadDefaults_def)
  then show ?thesis
    by (simp add: gps_service_config_def loadConfigFile_def gps_read_conf_def read_lines_fits
        split: option.split)
qed

text \<open>
  \<^verbatim>\<open>trim_spaces\<close> removes the white space at both ends of a string, except that a string of
  nothing but white space is left as it is.
\<close>

theorem trim_spaces_correct:
  "trim_spaces s = (if list_all isspace s then s
     else rev (dropWhile isspace (rev (dropWhile isspace s))))"
  by (simp add: trim_spaces_strip strip_def)

text \<open>
  A line \<open>NAME=value\<close> for a string parameter of the table, short enough for the line
  buffer, sets exactly that parameter to the value, and reading goes on behind the line.
\<close>

theorem config_line_sets_parameter:
  assumes "(n, PStr put) \<in> set gps_cfg_parameter_table"
    and "h \<noteq> []" and "\<not> isspace (hd h)" and "\<not> isspace (last h)"
    and "eqsign \<notin> set h" and "newline \<notin> set h" and "h \<noteq> ''NULL''"
    and "length n + length h < 78"
  shows "read_lines gps_cfg_parameter_table (n @ eqsign # h @ newline # rest) c
    = read_lines gps_cfg_parameter_table rest (put h c)"
proof -
  let ?l = "n @ eqsign # h"
  note nm = table_names [OF assms(1)]
  have f: "fgets 79 (?l @ newline # rest) = (?l @ [newline], rest)"
    using assms nm by (intro fgets_line) auto
  have "strtok (h @ [newline]) = Some (h @ [newline], [])"
    using assms by (intro strtok_pair) auto
  moreover have "trim_spaces (h @ [newline]) = h"
    using assms by (intro strip_core) (auto simp: isspace_def)
  ultimately have "parse_line (?l @ [newline]) =
      Some \<lparr>param_name = n, param_str_value = h, param_int_value = int_value h\<rparr>"
    using nm strtok_pair(1) [of n "h @ [newline]"] by (simp add: parse_line_def Let_def)
  then have "apply_line gps_cfg_parameter_table (?l @ [newline]) c = put h c"
    using table_lookup [OF assms(1), of "\<lparr>param_name = n, param_str_value = h, param_int_value = int_value h\<rparr>"] assms
    by (simp add: apply_line_def strlcpy_def)
  then show ?thesis
    using f read_lines_step [of "?l @ newline # rest"] by simp
qed

theorem config_line_sets_parameter_witness:
  "read_lines gps_cfg_parameter_table (''SUPL_HOST=h.org'' @ [newline]) (loadDefaults 1)
    = (loadDefaults 1)\<lparr>mSUPLHost := ''h.org''\<rparr>"
  using config_line_sets_parameter
    [of "''SUPL_HOST''" "\<lambda>s. mSUPLHost_update (\<lambda>_. s)" "''h.org''" "[]" "loadDefaults 1"]
  by (simp add: gps_cfg_parameter_table_def isspace_def)

text \<open>A value with an equals sign is cut at it, as \<^verbatim>\<open>strtok_r\<close> is asked for a third token only.\<close>

lemma config_value_cut:
  "map_option param_str_value (parse_line ''XTRA_SERVER_1=http://x?a=b'') = Some ''http://x?a''"
  by (simp add: parse_line_def strtok_def trim_spaces_strip strip_def isspace_def Let_def)

end
