(* ===== verification/Ntp.thy ===== *)
theory Ntp
  imports Gps_Config
begin

text \<open>
  The SNTP client of \<^verbatim>\<open>src/handler/position/gps/NtpClient.cpp\<close>. The sockets, the resolver and
  the clocks are the environment (record \<open>ntp_env\<close>); a received packet is given by its two
  timestamps as they are on the wire, which a little-endian host swaps. \<open>opened\<close> and \<open>closed\<close>
  count the sockets, \<open>completed\<close> is the list of the calls of \<^verbatim>\<open>onRequestCompleted\<close>.
\<close>

datatype NtpErrors = NTP_NONE | ALREADY_DOWNLOADING | CONNECTION_PROBLEM

datatype NtpDownloadState = NTPPENDINGNETWORK | NTPDOWNLOADING | NTPIDLE

record NTPData =
  NtpTime :: int
  NtpTimeReference :: int
  RoundTripTime :: int

record NtpClient =
  ntp_status :: NtpDownloadState
  ntp_config :: "GPSServiceConfig option"
  completed :: "(NtpErrors \<times> NTPData option) list"
  ntp_threads :: nat
  opened :: nat
  closed :: nat

definition ntp_init :: NtpClient where
  "ntp_init = \<lparr>ntp_status = NTPIDLE, ntp_config = None, completed = [], ntp_threads = 0, opened = 0, closed = 0\<rparr>"

text \<open>
  One attempt: whether \<^verbatim>\<open>socket\<close>, \<^verbatim>\<open>gethostbyname\<close> and \<^verbatim>\<open>connect\<close> succeed, the length
  \<^verbatim>\<open>recvfrom\<close> returns, the packet's transmit and receive words, and the two clock readings.
\<close>

record ntp_env =
  ne_socket :: "nat \<Rightarrow> bool"
  ne_gethostbyname :: "string \<Rightarrow> bool"
  ne_connect :: "string \<Rightarrow> bool"
  ne_recvfrom :: "nat \<Rightarrow> int"
  ne_transmit :: "nat \<Rightarrow> 32 word"
  ne_receive :: "nat \<Rightarrow> 32 word"
  ne_requestTicks :: "nat \<Rightarrow> int"
  ne_responseTicks :: "nat \<Rightarrow> int"

abbreviation (input) NTP_EPOCH :: "32 word" where "NTP_EPOCH \<equiv> 2208988800"

definition ntohl :: "32 word \<Rightarrow> 32 word" where
  "ntohl w = push_bit 24 (take_bit 8 w) OR push_bit 16 (take_bit 8 (drop_bit 8 w))
    OR push_bit 8 (take_bit 8 (drop_bit 16 w)) OR take_bit 8 (drop_bit 24 w)"

text \<open>
  The packet as it is declared: its fields with their sizes. A C compiler aligns each to its size.
\<close>

definition ntp_packet :: "(string \<times> nat) list" where
  "ntp_packet =
    [(''modeVNli'', 1), (''stratum'', 1), (''poll'', 1), (''precision'', 1), (''rootDelay'', 4), (''rootDispersion'', 4),
     (''referenceIdentifier'', 4), (''referenceTimeStampSecs'', 4), (''referenceTimeStampFreq'', 4),
     (''originateTimeStampSecs'', 4), (''originateTimeStampFreq'', 4), (''receiveTimeStampSeqs'', 4),
     (''receiveTimeStampFreq'', 4), (''transmitTimeStampSecs'', 4), (''transmitTimeStampFreq'', 4)]"

fun field_offsets :: "nat \<Rightarrow> (string \<times> nat) list \<Rightarrow> (string \<times> nat) list" where
  "field_offsets n [] = []"
| "field_offsets n ((f, sz) # fs) =
    (let off = (n + sz - 1) div sz * sz in (f, off) # field_offsets (off + sz) fs)"

text \<open>
  \<^verbatim>\<open>int\<close> keeps the low 32 bits of the 64-bit difference. The seconds since 1970 go through a
  \<^verbatim>\<open>time_t\<close> of 64 bits; one of 32 bits would make them negative from 2038 on, as a comment in the code says.
\<close>

definition ntp_data :: "ntp_env \<Rightarrow> nat \<Rightarrow> NTPData" where
  "ntp_data E i =
    (let sec = uint (ntohl (ne_transmit E i) - NTP_EPOCH)
     in \<lparr>NtpTime = sec * 1000, NtpTimeReference = ne_responseTicks E i,
         RoundTripTime = sint (word_of_int (ne_responseTicks E i - ne_requestTicks E i
           - uint (ne_transmit E i - ne_receive E i)) :: 32 word)\<rparr>)"

definition ntp_servers :: "GPSServiceConfig \<Rightarrow> string list" where
  "ntp_servers c = filter (\<lambda>s. s \<noteq> []) [mNTPServer1 c, mNTPServer2 c, mNTPServer3 c]"

definition onCompleted :: "NtpErrors \<Rightarrow> NTPData option \<Rightarrow> NtpClient \<Rightarrow> NtpClient" where
  "onCompleted e d s = s\<lparr>completed := completed s @ [(e, d)]\<rparr>"

text \<open>The server loop; the second argument is \<^verbatim>\<open>nextserverindex\<close>.\<close>

fun ntp_loop :: "ntp_env \<Rightarrow> nat \<Rightarrow> string list \<Rightarrow> NtpClient \<Rightarrow> NtpClient" where
  "ntp_loop E i [] s = (onCompleted CONNECTION_PROBLEM None s)\<lparr>ntp_status := NTPIDLE\<rparr>"
| "ntp_loop E i (srv # rest) s =
    (if \<not> ne_socket E i then onCompleted CONNECTION_PROBLEM None (s\<lparr>ntp_status := NTPIDLE\<rparr>)
     else
       let s1 = s\<lparr>opened := Suc (opened s)\<rparr>
       in if ne_gethostbyname E srv \<and> ne_connect E srv \<and> ne_recvfrom E i > 0
          then let s2 = onCompleted NTP_NONE (Some (ntp_data E i)) s1
               in s2\<lparr>closed := Suc (closed s2), ntp_status := NTPIDLE\<rparr>
          else ntp_loop E (Suc i) rest (s1\<lparr>closed := Suc (closed s1)\<rparr>))"

definition ntpDownloadThread :: "ntp_env \<Rightarrow> NtpClient \<Rightarrow> NtpClient option" where
  "ntpDownloadThread E s =
    (case ntp_config s of
       None \<Rightarrow> None
     | Some cfg \<Rightarrow>
         let servers = ntp_servers cfg
         in if servers = [] then Some (onCompleted CONNECTION_PROBLEM None (s\<lparr>ntp_status := NTPIDLE\<rparr>))
            else Some (ntp_loop E 0 servers s))"

definition ntp_start :: "GPSServiceConfig option \<Rightarrow> bool \<Rightarrow> bool \<Rightarrow> NtpClient \<Rightarrow> bool \<times> NtpClient" where
  "ntp_start config callback thread_ok s =
    (if config = None \<or> \<not> callback then (False, s)
     else if ntp_status s = NTPDOWNLOADING then (True, s)
     else
       let s1 = s\<lparr>ntp_config := config, ntp_status := NTPDOWNLOADING\<rparr>
       in if \<not> thread_ok then (False, onCompleted CONNECTION_PROBLEM None (s1\<lparr>ntp_status := NTPIDLE\<rparr>))
          else (True, s1\<lparr>ntp_threads := Suc (ntp_threads s1)\<rparr>))"

subsection \<open>Lemmas\<close>

definition ntp_answers :: "ntp_env \<Rightarrow> nat \<Rightarrow> string \<Rightarrow> bool" where
  "ntp_answers E i srv \<longleftrightarrow> ne_gethostbyname E srv \<and> ne_connect E srv \<and> ne_recvfrom E i > 0"

text \<open>The first attempt that answers before a socket cannot be made.\<close>

fun first_answer :: "ntp_env \<Rightarrow> nat \<Rightarrow> string list \<Rightarrow> nat option" where
  "first_answer E i [] = None"
| "first_answer E i (srv # rest) =
    (if \<not> ne_socket E i then None else if ntp_answers E i srv then Some i
     else first_answer E (Suc i) rest)"

definition ntp_result :: "ntp_env \<Rightarrow> string list \<Rightarrow> NtpErrors \<times> NTPData option" where
  "ntp_result E servers =
    (case first_answer E 0 servers of
       None \<Rightarrow> (CONNECTION_PROBLEM, None)
     | Some i \<Rightarrow> (NTP_NONE, Some (ntp_data E i)))"

lemma onCompleted_fields [simp]:
  "completed (onCompleted e d s) = completed s @ [(e, d)]"
  "ntp_status (onCompleted e d s) = ntp_status s"
  "opened (onCompleted e d s) = opened s" "closed (onCompleted e d s) = closed s"
  "ntp_threads (onCompleted e d s) = ntp_threads s"
  by (simp_all add: onCompleted_def)

lemma ntp_loop_status: "ntp_status (ntp_loop E i servers s) = NTPIDLE"
  by (induction E i servers s rule: ntp_loop.induct) (simp_all add: Let_def)

lemma ntp_loop_sockets:
  "opened s = closed s \<Longrightarrow> opened (ntp_loop E i servers s) = closed (ntp_loop E i servers s)"
  by (induction E i servers s rule: ntp_loop.induct) (simp_all add: Let_def)

lemma ntp_loop_completed:
  "completed (ntp_loop E i servers s) = completed s
    @ [case first_answer E i servers of None \<Rightarrow> (CONNECTION_PROBLEM, None)
       | Some k \<Rightarrow> (NTP_NONE, Some (ntp_data E k))]"
  by (induction E i servers s rule: ntp_loop.induct) (simp_all add: Let_def ntp_answers_def)

lemma bit_ntohl:
  "bit (ntohl w) n \<longleftrightarrow> n < 32 \<and> bit w (8 * (3 - n div 8) + n mod 8)"
proof -
  consider "n < 8" | "8 \<le> n \<and> n < 16" | "16 \<le> n \<and> n < 24" | "24 \<le> n \<and> n < 32" | "32 \<le> n"
    by linarith
  then show ?thesis
  proof cases
    case 1
    then show ?thesis by (simp add: ntohl_def bit_simps add.commute)
  next
    case 2
    then have "n div 8 = 1" "n mod 8 = n - 8" by presburger+
    then show ?thesis using 2 by (auto simp: ntohl_def bit_simps)
  next
    case 3
    then have "n div 8 = 2" "n mod 8 = n - 16" by presburger+
    then show ?thesis using 3 by (auto simp: ntohl_def bit_simps)
  next
    case 4
    then have "n div 8 = 3" "n mod 8 = n - 24" by presburger+
    then show ?thesis using 4 by (auto simp: ntohl_def bit_simps)
  next
    case 5
    then show ?thesis by (simp add: bit_word.rep_eq)
  qed
qed

lemma ntohl_ntohl: "ntohl (ntohl w) = w"
proof (rule bit_word_eqI)
  fix n assume "n < LENGTH(32)"
  then have n: "n < 32" by simp
  let ?m = "8 * (3 - n div 8) + n mod 8"
  have d: "n div 8 \<le> 3" using n by linarith
  have "?m div 8 = 3 - n div 8" "?m mod 8 = n mod 8" by simp_all
  moreover have "8 * (n div 8) + n mod 8 = n" by simp
  moreover have "?m < 32" using n by presburger
  ultimately show "bit (ntohl (ntohl w)) n = bit w n"
    using n d by (simp add: bit_ntohl)
qed

subsection \<open>Properties\<close>

text \<open>
  C32: a download, however the network behaves, ends idle, closes every socket it opens, and
  reports exactly once: the time of the first server that answers, or a connection problem.
\<close>

theorem ntp_completes_once:
  assumes "ntp_config s = Some cfg" and "opened s = closed s"
  shows "\<exists>s'. ntpDownloadThread E s = Some s' \<and> ntp_status s' = NTPIDLE \<and> opened s' = closed s'
    \<and> completed s' = completed s @ [ntp_result E (ntp_servers cfg)]"
  using assms
  by (auto simp: ntpDownloadThread_def Let_def ntp_loop_status ntp_loop_sockets ntp_loop_completed
      ntp_result_def)

definition ntp_demo_env :: ntp_env where
  "ntp_demo_env = \<lparr>ne_socket = (\<lambda>i. i < 2), ne_gethostbyname = (\<lambda>s. s \<noteq> ''time.gpsonextra.net''),
     ne_connect = (\<lambda>_. True), ne_recvfrom = (\<lambda>_. 48), ne_transmit = (\<lambda>_. ntohl (NTP_EPOCH + 86400)),
     ne_receive = (\<lambda>_. 0), ne_requestTicks = (\<lambda>_. 5), ne_responseTicks = (\<lambda>_. 25)\<rparr>"

theorem ntp_completes_once_witness:
  "\<exists>s'. ntpDownloadThread ntp_demo_env (ntp_init\<lparr>ntp_config := Some (loadDefaults 1)\<rparr>) = Some s'
    \<and> completed s' = [ntp_result ntp_demo_env (ntp_servers (loadDefaults 1))]"
  using ntp_completes_once [of "ntp_init\<lparr>ntp_config := Some (loadDefaults 1)\<rparr>" "loadDefaults 1" ntp_demo_env]
  by (auto simp: ntp_init_def)

text \<open>
  C33: the injected time is the server's: for every Unix time that fits 32 bits, a server that
  sends it in NTP seconds in network byte order yields it in milliseconds, also after the NTP
  seconds wrap in 2036.
\<close>

theorem ntp_time_round_trip:
  assumes "ne_transmit E i = ntohl (word_of_int unix + NTP_EPOCH)" and "0 \<le> unix" and "unix < 2 ^ 32"
  shows "NtpTime (ntp_data E i) = unix * 1000"
  using assms by (simp add: ntp_data_def Let_def ntohl_ntohl uint_word_of_int take_bit_int_eq_self)

theorem ntp_time_round_trip_witness:
  "NtpTime (ntp_data (ntp_demo_env\<lparr>ne_transmit := \<lambda>_. ntohl (word_of_int 3000000000 + NTP_EPOCH)\<rparr>) 1) = 3000000000000"
  using ntp_time_round_trip [of "ntp_demo_env\<lparr>ne_transmit := \<lambda>_. ntohl (word_of_int 3000000000 + NTP_EPOCH)\<rparr>" 1 3000000000]
  by simp

text \<open>
  The round trip time subtracts two words of the packet in network byte order, so a server that
  answers within one second can be reported as millions of seconds away.
\<close>

lemma ntp_round_trip_wrong:
  "RoundTripTime (ntp_data (ntp_demo_env\<lparr>ne_transmit := \<lambda>_. ntohl 1, ne_receive := \<lambda>_. ntohl 0\<rparr>) 1) = 20 - 2 ^ 24"
  by code_simp

end
