(* ===== verification/Http.thy ===== *)
theory Http
  imports Location_Prelude
begin

text \<open>
  HTTP over the loc_http library: the task record the code reads, the XTRA download of
  \<^verbatim>\<open>src/handler/position/gps/XtraDownload.cpp\<close> and the transaction table of
  \<^verbatim>\<open>src/utils/NetworkRequestManager.cpp\<close>. What the library does to a task is a parameter.
\<close>

record HttpReqTask =
  responseData :: "string option"
  responseSize :: nat
  curlResultOk :: bool
  httpResponseCode :: int

abbreviation (input) HTTP_STATUS_CODE_SUCCESS :: int where "HTTP_STATUS_CODE_SUCCESS \<equiv> 200"

definition empty_task :: HttpReqTask where
  "empty_task = \<lparr>responseData = None, responseSize = 0, curlResultOk = True, httpResponseCode = 0\<rparr>"

subsection \<open>XTRA download\<close>

definition dropResponse :: "'m HttpReqTask_scheme \<Rightarrow> 'm HttpReqTask_scheme" where
  "dropResponse t = t\<lparr>responseData := None, responseSize := 0\<rparr>"

definition isCompleteXtraResponse :: "'m HttpReqTask_scheme \<Rightarrow> bool" where
  "isCompleteXtraResponse t =
    (if \<not> curlResultOk t then False
     else if httpResponseCode t \<noteq> HTTP_STATUS_CODE_SUCCESS then False
     else if responseData t = None \<or> responseSize t = 0 then False
     else True)"

text \<open>
  \<open>prep\<close> and \<open>add\<close> are \<^verbatim>\<open>loc_http_task_prepare_connection\<close> and the synchronous
  \<^verbatim>\<open>loc_http_add_request\<close> for a server: the result and the task afterwards, which may have more
  fields than the code reads.
\<close>

record 'm xtra_library =
  xh_prep :: "string \<Rightarrow> 'm HttpReqTask_scheme \<Rightarrow> bool \<times> 'm HttpReqTask_scheme"
  xh_add :: "string \<Rightarrow> 'm HttpReqTask_scheme \<Rightarrow> bool \<times> 'm HttpReqTask_scheme"

type_synonym xtra_http = "unit xtra_library"

fun fetch_loop :: "'m xtra_library \<Rightarrow> string list \<Rightarrow> 'm HttpReqTask_scheme \<Rightarrow> bool \<times> 'm HttpReqTask_scheme" where
  "fetch_loop H [] t = (False, t)"
| "fetch_loop H (srv # rest) t =
    (let (ok1, t1) = xh_prep H srv t
     in if ok1 then
          let (ok2, t2) = xh_add H srv t1
          in if ok2 \<and> isCompleteXtraResponse t2 then (True, t2)
             else fetch_loop H rest (dropResponse t2)
        else fetch_loop H rest (dropResponse t1))"

definition fetchXtraData ::
  "'m xtra_library \<Rightarrow> 'm HttpReqTask_scheme option \<Rightarrow> string list \<Rightarrow> bool \<times> 'm HttpReqTask_scheme option" where
  "fetchXtraData H task servers =
    (case task of None \<Rightarrow> (False, None) | Some t \<Rightarrow> let (r, t') = fetch_loop H servers t in (r, Some t'))"

text \<open>The outcome of one server on a task whose response was dropped.\<close>

definition xtra_attempt :: "'m xtra_library \<Rightarrow> string \<Rightarrow> 'm HttpReqTask_scheme \<Rightarrow> bool" where
  "xtra_attempt H srv t \<longleftrightarrow>
    fst (xh_prep H srv t) \<and> fst (xh_add H srv (snd (xh_prep H srv t)))
    \<and> isCompleteXtraResponse (snd (xh_add H srv (snd (xh_prep H srv t))))"

lemma complete_response:
  "isCompleteXtraResponse t \<longleftrightarrow>
    curlResultOk t \<and> httpResponseCode t = 200 \<and> (\<exists>d. responseData t = Some d) \<and> 0 < responseSize t"
  by (auto simp: isCompleteXtraResponse_def)

lemma fetch_loop_Cons:
  "fetch_loop H (srv # rest) t =
    (let (ok1, t1) = xh_prep H srv t; (ok2, t2) = xh_add H srv t1
     in if xtra_attempt H srv t then (True, t2)
        else fetch_loop H rest (dropResponse (if ok1 then t2 else t1)))"
  by (simp add: Let_def case_prod_unfold xtra_attempt_def)

lemma fetch_loop_true: "fst (fetch_loop H servers t) \<Longrightarrow> isCompleteXtraResponse (snd (fetch_loop H servers t))"
proof (induction servers arbitrary: t)
  case (Cons srv rest)
  then show ?case
    using xtra_attempt_def [of H srv t]
    by (cases "xtra_attempt H srv t")
      (auto simp: fetch_loop_Cons Let_def case_prod_unfold simp del: fetch_loop.simps)
qed simp

lemma fetch_loop_false:
  "\<not> fst (fetch_loop H servers t) \<Longrightarrow>
    (servers = [] \<and> snd (fetch_loop H servers t) = t)
    \<or> (responseData (snd (fetch_loop H servers t)) = None \<and> responseSize (snd (fetch_loop H servers t)) = 0)"
proof (induction servers arbitrary: t)
  case (Cons srv rest)
  have d: "responseData (dropResponse x) = None" "responseSize (dropResponse x) = 0" for x :: "'a HttpReqTask_scheme"
    by (simp_all add: dropResponse_def)
  obtain x where x: "fetch_loop H (srv # rest) t = fetch_loop H rest (dropResponse x)"
    using Cons.prems by (cases "xtra_attempt H srv t")
      (auto simp: fetch_loop_Cons Let_def case_prod_unfold simp del: fetch_loop.simps)
  then show ?case
    using Cons.IH [of "dropResponse x"] Cons.prems d by auto
qed simp

subsection \<open>Transactions\<close>

text \<open>
  A task is identified by its address; \<open>httpRequestList\<close> is the code's map from tasks to clients
  (an entry may hold a null client), \<open>live\<close> the tasks created and not destroyed.
\<close>

record NetworkRequestManager =
  nrm_active :: bool
  httpRequestList :: "nat \<rightharpoonup> nat option"
  live :: "nat set"
  posted :: "(nat \<times> string \<times> string option) list"
  handled :: "(nat \<times> nat) list"

definition nrm_init :: NetworkRequestManager where
  "nrm_init = \<lparr>nrm_active = False, httpRequestList = (\<lambda>_. None), live = {}, posted = [], handled = []\<rparr>"

definition nrm_start :: "NetworkRequestManager \<Rightarrow> NetworkRequestManager" where
  "nrm_start s = s\<lparr>nrm_active := True\<rparr>"

definition nrm_deInit :: "NetworkRequestManager \<Rightarrow> NetworkRequestManager" where
  "nrm_deInit s = (if \<not> nrm_active s then s else s\<lparr>nrm_active := False\<rparr>)"

text \<open>\<open>task\<close> is the address \<^verbatim>\<open>loc_create_http_task\<close> returns, \<open>None\<close> when it fails.\<close>

definition initiateTransaction ::
  "nat option \<Rightarrow> bool \<Rightarrow> bool \<Rightarrow> string \<Rightarrow> nat option \<Rightarrow> string option \<Rightarrow> NetworkRequestManager
    \<Rightarrow> ErrorCodes \<times> NetworkRequestManager" where
  "initiateTransaction task prep_ok add_ok url client post s =
    (if \<not> nrm_active s then (ERROR_MUTLITHREAD, s)
     else case task of
       None \<Rightarrow> (ERROR_NETWORK_ERROR, s)
     | Some t \<Rightarrow>
         if \<not> prep_ok then (ERROR_NETWORK_ERROR, s)
         else if \<not> add_ok then (ERROR_NETWORK_ERROR, s)
         else (ERROR_NONE,
               s\<lparr>httpRequestList := (httpRequestList s)(t \<mapsto> client), live := insert t (live s),
                 posted := posted s @ [(t, url, post)]\<rparr>))"

definition clearTransaction :: "nat \<Rightarrow> NetworkRequestManager \<Rightarrow> NetworkRequestManager" where
  "clearTransaction t s =
    s\<lparr>httpRequestList := (httpRequestList s)(t := None), live := live s - {t}\<rparr>"

text \<open>\<^verbatim>\<open>httpRequestList[task]\<close> creates a null entry when there is none.\<close>

definition handleDataCb :: "nat option \<Rightarrow> bool \<Rightarrow> NetworkRequestManager \<Rightarrow> NetworkRequestManager" where
  "handleDataCb task user s =
    (case task of
       None \<Rightarrow> s
     | Some t \<Rightarrow>
         if \<not> user then s
         else
           let client = (case httpRequestList s t of None \<Rightarrow> None | Some c \<Rightarrow> c);
               s1 = (if httpRequestList s t = None
                     then s\<lparr>httpRequestList := (httpRequestList s)(t \<mapsto> None)\<rparr> else s)
           in (case client of
                 Some c \<Rightarrow> s1\<lparr>handled := handled s1 @ [(t, c)]\<rparr>
               | None \<Rightarrow> clearTransaction t s1))"

text \<open>Every table entry is a live task and every live task has an entry.\<close>

definition nrm_good :: "NetworkRequestManager \<Rightarrow> bool" where
  "nrm_good s \<longleftrightarrow> dom (httpRequestList s) = live s"

datatype nrm_event =
    NrmStart | NrmStop
  | NrmInitiate "nat option" bool bool string "nat option" "string option"
  | NrmData "nat option" bool
  | NrmClear nat

primrec nrm_step :: "nrm_event \<Rightarrow> NetworkRequestManager \<Rightarrow> NetworkRequestManager" where
  "nrm_step NrmStart s = nrm_start s"
| "nrm_step NrmStop s = nrm_deInit s"
| "nrm_step (NrmInitiate t a b u c p) s = snd (initiateTransaction t a b u c p s)"
| "nrm_step (NrmData t u) s = handleDataCb t u s"
| "nrm_step (NrmClear t) s = clearTransaction t s"

lemma nrm_good_step [svc_inv]: "nrm_good s \<Longrightarrow> nrm_good (nrm_step e s)"
  by (cases e) (auto simp: nrm_good_def nrm_start_def nrm_deInit_def initiateTransaction_def
      handleDataCb_def clearTransaction_def Let_def split: option.splits if_splits)

interpretation nrm_m: machine nrm_step nrm_good "\<lambda>_. True" nrm_init
  by unfold_locales (simp_all add: svc_inv, simp add: nrm_good_def nrm_init_def)

subsection \<open>Properties\<close>

text \<open>
  C35: a successful XTRA download returns a complete response (transfer succeeded, status 200, some
  data); a failed one over a non-empty server list leaves no response data behind.
\<close>

theorem fetchXtraData_outcome:
  assumes "servers \<noteq> []" and "fetchXtraData H (Some t) servers = (r, Some t')"
  shows "if r then curlResultOk t' \<and> httpResponseCode t' = 200 \<and> (\<exists>d. responseData t' = Some d) \<and> 0 < responseSize t'
         else responseData t' = None \<and> responseSize t' = 0"
  using assms fetch_loop_true [of H servers t] fetch_loop_false [of H servers t]
  by (cases "fetch_loop H servers t") (auto simp: fetchXtraData_def complete_response)

definition http_demo :: xtra_http where
  "http_demo = \<lparr>xh_prep = (\<lambda>_ t. (True, t)),
     xh_add = (\<lambda>srv t. (True, t\<lparr>responseData := Some ''partial'', responseSize := 7,
       httpResponseCode := (if srv = ''b'' then 200 else 404)\<rparr>))\<rparr>"

theorem fetchXtraData_outcome_witness:
  "responseData (the (snd (fetchXtraData http_demo (Some empty_task) [''a'', ''c'']))) = None"
  using fetchXtraData_outcome [of "[''a'', ''c'']" http_demo empty_task False]
  by (simp add: fetchXtraData_def http_demo_def empty_task_def isCompleteXtraResponse_def dropResponse_def)

text \<open>
  In every reachable state of the request manager the table and the live tasks agree, so a
  response finds its client exactly when its task was accepted and not cleared since.
\<close>

theorem transactions_tracked:
  "dom (httpRequestList (fold nrm_step es nrm_init)) = live (fold nrm_step es nrm_init)"
  using nrm_m.reachable_good [of es] by (simp add: nrm_good_def list_all_iff)

end
