(* ===== verification/Gps_State.thy ===== *)
theory Gps_State
  imports Luna_Json Mock Ntp Http
begin

text \<open>
  The state of the GPS provider (\<^verbatim>\<open>include/GPSPositionProvider.h\<close>,
  \<^verbatim>\<open>include/GPSNyxInterface.h\<close>) and the calls it makes on the nyx HAL. The HAL is the
  environment: \<open>ge_nyx\<close> is what each call answers, and every call is recorded in \<open>nyx_calls\<close>.
  The constants of the nyx headers are the record \<open>nyx_consts\<close>. Callbacks to the location
  service are recorded in \<open>callbacks\<close>; calling them through a null callback pointer is \<open>None\<close>.
\<close>

subsection \<open>The nyx HAL\<close>

datatype nyx_error = NYX_ERROR_NONE | NYX_ERROR_NOT_IMPLEMENTED | NYX_ERROR_INVALID_VALUE | NYX_ERROR_OTHER int

record nyx_consts =
  NYX_GPS_CAPABILITY_SCHEDULING :: "32 word"
  NYX_GPS_CAPABILITY_MSB :: "32 word"
  NYX_GPS_CAPABILITY_MSA :: "32 word"
  NYX_GPS_POSITION_MODE_STANDALONE :: "32 word"
  NYX_GPS_POSITION_MODE_MS_BASED :: "32 word"
  NYX_GPS_POSITION_MODE_MS_ASSISTED :: "32 word"
  NYX_GPS_POSITION_RECURRENCE_PERIODIC :: "32 word"
  NYX_GEOFENCER_ENTERED :: "32 word"
  NYX_GEOFENCER_EXITED :: "32 word"
  NYX_GEOFENCER_UNCERTAIN :: "32 word"
  NYX_GPS_MAX_SVS :: nat
  NYX_GPS_DEBUG_DATA_MAXLEN :: nat
  NYX_APN_IPV4 :: int
  NYX_APN_IPV6 :: int
  NYX_APN_IPV4V6 :: int

text \<open>Values of the HAL's constants for the witnesses; the other theorems hold for any.\<close>

definition nyx_demo_consts :: nyx_consts where
  "nyx_demo_consts =
    \<lparr>NYX_GPS_CAPABILITY_SCHEDULING = 1, NYX_GPS_CAPABILITY_MSB = 2, NYX_GPS_CAPABILITY_MSA = 4,
     NYX_GPS_POSITION_MODE_STANDALONE = 0, NYX_GPS_POSITION_MODE_MS_BASED = 1,
     NYX_GPS_POSITION_MODE_MS_ASSISTED = 2, NYX_GPS_POSITION_RECURRENCE_PERIODIC = 0,
     NYX_GEOFENCER_ENTERED = 1, NYX_GEOFENCER_EXITED = 2, NYX_GEOFENCER_UNCERTAIN = 4,
     NYX_GPS_MAX_SVS = 32, NYX_GPS_DEBUG_DATA_MAXLEN = 4096,
     NYX_APN_IPV4 = 0, NYX_APN_IPV6 = 1, NYX_APN_IPV4V6 = 2\<rparr>"

datatype nyx_call =
    NyxDeviceOpen string
  | NyxInit
  | NyxSetNfwCallback
  | NyxInitXtraClient "string list" "string list"
  | NyxCleanup
  | NyxStopXtraClient
  | NyxDeviceClose
  | NyxStart
  | NyxStop
  | NyxSetPositionMode "32 word" "32 word" "32 word" "32 word" "32 word"
  | NyxSetServer string int
  | NyxDataConnOpen string int
  | NyxDataConnClosed
  | NyxDataConnFailed
  | NyxInjectXtraData string
  | NyxInjectTime int int int
  | NyxInjectExtraCmd string
  | NyxUpdateNetworkAvailability bool string
  | NyxUpdateNetworkState bool int bool
  | NyxDeleteAidingData
  | NyxDownloadNtpTime
  | NyxDownloadXtraData
  | NyxAddGeofence int double double double "32 word" "32 word" int int
  | NyxRemoveGeofence int
  | NyxPauseGeofence int
  | NyxResumeGeofence int "32 word"
  | NyxGetDebugData nat

subsection \<open>Satellites\<close>

record SatelliteInfo =
  si_prn :: int
  si_snr :: double
  si_elevation :: double
  si_azimuth :: double
  si_used :: bool
  si_hasalmanac :: bool
  si_hasephemeris :: bool

record Satellite =
  num_satellite_used :: nat
  visible_satellites_count :: nat
  sat_used :: "SatelliteInfo list"

definition zero_sat :: SatelliteInfo where
  "zero_sat = \<lparr>si_prn = 0, si_snr = 0, si_elevation = 0, si_azimuth = 0, si_used = False,
     si_hasalmanac = False, si_hasephemeris = False\<rparr>"

definition satellite_create :: "nat \<Rightarrow> Satellite" where
  "satellite_create n = \<lparr>num_satellite_used = 0, visible_satellites_count = n, sat_used = replicate n zero_sat\<rparr>"

definition update_satellite_used_in_fix_count :: "Satellite \<Rightarrow> Satellite" where
  "update_satellite_used_in_fix_count s =
    s\<lparr>num_satellite_used := fold (\<lambda>i n. if si_used (sat_used s ! i) then Suc n else n)
       [0..<visible_satellites_count s] 0\<rparr>"

text \<open>\<open>None\<close>: a write outside the array.\<close>

definition set_satellite_details :: "nat \<Rightarrow> SatelliteInfo \<Rightarrow> Satellite \<Rightarrow> Satellite option" where
  "set_satellite_details i info s =
    (if i < length (sat_used s)
     then Some (update_satellite_used_in_fix_count (s\<lparr>sat_used := (sat_used s)[i := info]\<rparr>))
     else None)"

subsection \<open>Callbacks to the service\<close>

datatype GPSStatus = GPS_STATUS_ERROR | GPS_STATUS_UNAVAILABLE | GPS_STATUS_ACQUIRING | GPS_STATUS_AVAILABLE

text \<open>\<^verbatim>\<open>nyx_gps_nfw_notification_t\<close>: who asked the modem for the location.\<close>

record nfw_notification =
  proxy_app_package_name :: string
  protocol_stack :: int
  other_protocol_stack_name :: string
  nfw_requestor :: int
  requestor_id :: string
  response_type :: int
  in_emergency_mode :: bool
  is_cached_location :: bool

datatype gps_cb =
    CbLocation GeoLocation ErrorCodes HandlerTypes
  | CbGpsStatus GPSStatus
  | CbSatellite Satellite
  | CbNmea int string nat
  | CbNfw nfw_notification
  | CbGeofenceAdd int int
  | CbGeofenceRemove int int
  | CbGeofenceBreach int int int double double

subsection \<open>The provider's state\<close>

abbreviation (input) DATA_CONNECTION_IDLE :: nat where "DATA_CONNECTION_IDLE \<equiv> 0"
abbreviation (input) DATA_CONNECTION_OPEN :: nat where "DATA_CONNECTION_OPEN \<equiv> 1"
abbreviation (input) DATA_CONNECTION_CLOSED :: nat where "DATA_CONNECTION_CLOSED \<equiv> 2"
abbreviation (input) DATA_CONNECTION_FAILED :: nat where "DATA_CONNECTION_FAILED \<equiv> 3"
abbreviation (input) DEFAULT_FIX_INTERVAL :: "32 word" where "DEFAULT_FIX_INTERVAL \<equiv> 1000"
abbreviation (input) GPS_UPDATE_INTERVAL_MAX :: nat where "GPS_UPDATE_INTERVAL_MAX \<equiv> 720"

text \<open>\<^verbatim>\<open>ProviderStateFlags\<close>; \<^verbatim>\<open>mAPIProgressFlag\<close> is an \<^verbatim>\<open>int\<close>, kept as its 32 bits.\<close>

abbreviation (input) PROGRESS_NONE :: "32 word" where "PROGRESS_NONE \<equiv> 0"
abbreviation (input) NMEA_GET_DATA_ON :: "32 word" where "NMEA_GET_DATA_ON \<equiv> 4"
abbreviation (input) SATELLITE_GET_DATA_ON :: "32 word" where "SATELLITE_GET_DATA_ON \<equiv> 8"
abbreviation (input) LOCATION_UPDATES_ON :: "32 word" where "LOCATION_UPDATES_ON \<equiv> 16"

datatype GPSThreadActionEType =
    ACTION_NONE | ACTION_QUIT | ACTION_OPEN_ATL | ACTION_CLOSE_ATL | ACTION_FAIL_ATL
  | ACTION_NI_NOTIFY | ACTION_XTRA_DATA | ACTION_XTRA_TIME | ACTION_NLP_RESPONSE
  | ACTION_PHONE_CONTEXT_UPDATE

datatype DownloadStateEType = PENDINGNETWORK | DOWNLOADING | IDLE

record NetworkInfo =
  ni_available :: bool
  ni_apn :: string
  ni_bearerType :: int

definition network_info_init :: NetworkInfo where
  "network_info_init = \<lparr>ni_available = False, ni_apn = [], ni_bearerType = 0\<rparr>"

text \<open>The request state: what the commands of \<^verbatim>\<open>processRequest\<close> work on.\<close>

record GpsCore =
  mEnabled :: bool
  mClientCallBacks :: bool
  mGPSStatus :: GPSStatus
  mEngineStarted :: bool
  mGEngineCapabilities :: "32 word"
  mPositionMode :: "32 word"
  mFixInterval :: "32 word"
  mGeofenceStatus :: int
  mGpsParamModified :: bool
  mAPIProgressFlag :: "32 word"
  mPosTimer :: nat

record GpsTtff =
  mFixRequestTime :: int
  mLastFixTime :: int
  mTTFFState :: bool
  mTTFF :: int

text \<open>What the GPS thread and the assistance callbacks share.\<close>

record GpsThread =
  mGPSDataConnectionState :: nat
  mGPSThreadAction :: GPSThreadActionEType
  gps_thread_quit :: bool
  mNetworkInfo :: NetworkInfo
  mXtraData :: string
  mXtraTime :: "int \<times> int \<times> int"
  mDownloadXtraDataStatus :: DownloadStateEType
  mDownloadNtpDataStatus :: DownloadStateEType
  mXtraDefault :: bool
  xtra_threads :: nat
  xtra_task :: "HttpReqTask option"
  ntp_client :: NtpClient

record GpsDataNet =
  mNyxReady :: bool
  mDataNetworkKnown :: bool
  mDataNetworkConnected :: bool
  mDataNetworkType :: int
  mDataNetworkSent :: bool
  mSentDataNetworkConnected :: bool
  mSentDataNetworkType :: int

text \<open>
  Loggers and the CEP calculator belong to a third-party library: created or not, and for the
  calculator its reference position and count. \<open>log_calls\<close> lists what the loggers are told.
\<close>

datatype log_call =
    LogStart string "string option"
  | LogStop string
  | LogFeed string string
  | LogCepUpdate double double

record GpsLog =
  mCEPLogEnable :: bool
  mNMEALogEnable :: bool
  mNMEALogger :: bool
  mCEPLogger :: bool
  mAnonymousLogger :: bool
  mCEPCalculator :: "(double \<times> double \<times> int) option"
  log_calls :: "log_call list"

record GPSPositionProvider =
  core :: GpsCore
  ttff :: GpsTtff
  thrd :: GpsThread
  dnet :: GpsDataNet
  logs :: GpsLog
  mLocationAcc :: "double \<times> double"
  mGPSConf :: GPSServiceConfig
  gps_mock :: MockState
  nyx_calls :: "nyx_call list"
  callbacks :: "gps_cb list"
  timers :: "nat list"
  stored :: "GeoLocation list"
  wan_connects :: nat
  wan_disconnects :: nat

definition core_init :: "GPSServiceConfig \<Rightarrow> GpsCore" where
  "core_init cfg = \<lparr>mEnabled = False, mClientCallBacks = False, mGPSStatus = GPS_STATUS_UNAVAILABLE,
     mEngineStarted = False, mGEngineCapabilities = 0x27, mPositionMode = ucast (mLgeGPSPositionMode cfg),
     mFixInterval = DEFAULT_FIX_INTERVAL, mGeofenceStatus = 0, mGpsParamModified = False,
     mAPIProgressFlag = PROGRESS_NONE, mPosTimer = 0\<rparr>"

definition ttff_init :: GpsTtff where
  "ttff_init = \<lparr>mFixRequestTime = 0, mLastFixTime = 0, mTTFFState = False, mTTFF = 0\<rparr>"

definition thrd_init :: GpsThread where
  "thrd_init = \<lparr>mGPSDataConnectionState = DATA_CONNECTION_IDLE, mGPSThreadAction = ACTION_NONE,
     gps_thread_quit = False, mNetworkInfo = network_info_init, mXtraData = [], mXtraTime = (0, 0, 0),
     mDownloadXtraDataStatus = IDLE, mDownloadNtpDataStatus = IDLE, mXtraDefault = False,
     xtra_threads = 0, xtra_task = None, ntp_client = ntp_init\<rparr>"

definition dnet_init :: GpsDataNet where
  "dnet_init = \<lparr>mNyxReady = False, mDataNetworkKnown = False, mDataNetworkConnected = False,
     mDataNetworkType = 0, mDataNetworkSent = False, mSentDataNetworkConnected = False,
     mSentDataNetworkType = 0\<rparr>"

definition logs_init :: GpsLog where
  "logs_init = \<lparr>mCEPLogEnable = False, mNMEALogEnable = False, mNMEALogger = False,
     mCEPLogger = False, mAnonymousLogger = False, mCEPCalculator = None, log_calls = []\<rparr>"

definition gps_init :: "GPSServiceConfig \<Rightarrow> GPSPositionProvider" where
  "gps_init cfg =
    \<lparr>core = core_init cfg, ttff = ttff_init, thrd = thrd_init, dnet = dnet_init, logs = logs_init,
     mLocationAcc = (0, 0), mGPSConf = cfg, gps_mock = mock_init, nyx_calls = [], callbacks = [],
     timers = [], stored = [], wan_connects = 0, wan_disconnects = 0\<rparr>"

subsection \<open>The environment of an event\<close>

text \<open>
  What the world answers while one event is handled: the HAL, the clocks (\<open>None\<close> when
  \<^verbatim>\<open>gettimeofday\<close> or \<^verbatim>\<open>clock_gettime\<close> fails), the next timer source id, thread creation, and
  whether the WAN service is up.
\<close>

record gps_env =
  ge_consts :: nyx_consts
  ge_nyx :: "nyx_call \<Rightarrow> nyx_error"
  ge_now :: "int option"
  ge_boottime :: "int option"
  ge_timer :: nat
  ge_thread_ok :: bool
  ge_wan_up :: bool

text \<open>One call on the HAL.\<close>

definition nyx :: "gps_env \<Rightarrow> nyx_call \<Rightarrow> GPSPositionProvider \<Rightarrow> nyx_error \<times> GPSPositionProvider" where
  "nyx E c s = (ge_nyx E c, s\<lparr>nyx_calls := nyx_calls s @ [c]\<rparr>)"

text \<open>Field updates inside the nested records.\<close>

abbreviation upd_core :: "(GpsCore \<Rightarrow> GpsCore) \<Rightarrow> GPSPositionProvider \<Rightarrow> GPSPositionProvider" where
  "upd_core f s \<equiv> s\<lparr>core := f (core s)\<rparr>"

abbreviation upd_ttff :: "(GpsTtff \<Rightarrow> GpsTtff) \<Rightarrow> GPSPositionProvider \<Rightarrow> GPSPositionProvider" where
  "upd_ttff f s \<equiv> s\<lparr>ttff := f (ttff s)\<rparr>"

abbreviation upd_thrd :: "(GpsThread \<Rightarrow> GpsThread) \<Rightarrow> GPSPositionProvider \<Rightarrow> GPSPositionProvider" where
  "upd_thrd f s \<equiv> s\<lparr>thrd := f (thrd s)\<rparr>"

abbreviation upd_dnet :: "(GpsDataNet \<Rightarrow> GpsDataNet) \<Rightarrow> GPSPositionProvider \<Rightarrow> GPSPositionProvider" where
  "upd_dnet f s \<equiv> s\<lparr>dnet := f (dnet s)\<rparr>"

abbreviation upd_logs :: "(GpsLog \<Rightarrow> GpsLog) \<Rightarrow> GPSPositionProvider \<Rightarrow> GPSPositionProvider" where
  "upd_logs f s \<equiv> s\<lparr>logs := f (logs s)\<rparr>"

definition log_it :: "log_call \<Rightarrow> GPSPositionProvider \<Rightarrow> GPSPositionProvider" where
  "log_it c s = upd_logs (\<lambda>l. l\<lparr>log_calls := log_calls l @ [c]\<rparr>) s"

text \<open>\<^verbatim>\<open>getCallback()->f(...)\<close>, and the same behind a null check.\<close>

definition call_back :: "gps_cb \<Rightarrow> GPSPositionProvider \<Rightarrow> GPSPositionProvider option" where
  "call_back c s = (if mClientCallBacks (core s) then Some (s\<lparr>callbacks := callbacks s @ [c]\<rparr>) else None)"

definition call_back_checked :: "gps_cb \<Rightarrow> GPSPositionProvider \<Rightarrow> GPSPositionProvider" where
  "call_back_checked c s = (if mClientCallBacks (core s) then s\<lparr>callbacks := callbacks s @ [c]\<rparr> else s)"

lemma nyx_core [simp]: "core (snd (nyx E c s)) = core s" "ttff (snd (nyx E c s)) = ttff s"
  "thrd (snd (nyx E c s)) = thrd s" "dnet (snd (nyx E c s)) = dnet s" "logs (snd (nyx E c s)) = logs s"
  "gps_mock (snd (nyx E c s)) = gps_mock s" "callbacks (snd (nyx E c s)) = callbacks s"
  "mGPSConf (snd (nyx E c s)) = mGPSConf s" "nyx_calls (snd (nyx E c s)) = nyx_calls s @ [c]"
  "timers (snd (nyx E c s)) = timers s" "stored (snd (nyx E c s)) = stored s"
  "fst (nyx E c s) = ge_nyx E c"
  by (simp_all add: nyx_def)

lemma log_it_fields [simp]: "core (log_it c s) = core s" "ttff (log_it c s) = ttff s"
  "thrd (log_it c s) = thrd s" "dnet (log_it c s) = dnet s" "nyx_calls (log_it c s) = nyx_calls s"
  "gps_mock (log_it c s) = gps_mock s" "callbacks (log_it c s) = callbacks s"
  "mGPSConf (log_it c s) = mGPSConf s" "timers (log_it c s) = timers s" "stored (log_it c s) = stored s"
  by (simp_all add: log_it_def)

lemma call_back_checked_fields [simp]: "core (call_back_checked c s) = core s"
  "ttff (call_back_checked c s) = ttff s" "thrd (call_back_checked c s) = thrd s"
  "dnet (call_back_checked c s) = dnet s" "nyx_calls (call_back_checked c s) = nyx_calls s"
  by (simp_all add: call_back_checked_def)

lemma call_back_Some:
  "call_back c s = Some s' \<longleftrightarrow> mClientCallBacks (core s) \<and> s' = s\<lparr>callbacks := callbacks s @ [c]\<rparr>"
  by (auto simp: call_back_def)

end
