(* ===== verification/Gps_Provider.thy ===== *)
theory Gps_Provider
  imports Gps_State
begin

text \<open>
  The commands of \<^verbatim>\<open>src/handler/position/gps/GPSPositionProvider.cpp\<close> and the HAL wrappers of
  \<^verbatim>\<open>GPSNyxInterface.cpp\<close> they use: the message table, the extra commands, engine start and
  stop, and the request state machine \<open>processRequest\<close>.
\<close>

subsection \<open>HAL wrappers\<close>

abbreviation (input) GPS_PLAUSIBLE_TIME_MS :: int where "GPS_PLAUSIBLE_TIME_MS \<equiv> 1577836800000"
abbreviation (input) GPS_SYSTEM_TIME_UNCERTAINTY_MS :: int where "GPS_SYSTEM_TIME_UNCERTAINTY_MS \<equiv> 1000"

definition injectExtraTime ::
  "gps_env \<Rightarrow> int \<Rightarrow> int \<Rightarrow> int \<Rightarrow> GPSPositionProvider \<Rightarrow> nyx_error \<times> GPSPositionProvider" where
  "injectExtraTime E utc tref unc s =
    nyx E (NyxInjectTime utc tref unc) (upd_thrd (\<lambda>t. t\<lparr>mDownloadNtpDataStatus := IDLE\<rparr>) s)"

definition injectSystemTime :: "gps_env \<Rightarrow> GPSPositionProvider \<Rightarrow> GPSPositionProvider" where
  "injectSystemTime E s =
    (case ge_now E of
       None \<Rightarrow> s
     | Some utc \<Rightarrow>
         if utc < GPS_PLAUSIBLE_TIME_MS then s
         else snd (injectExtraTime E utc (case ge_boottime E of None \<Rightarrow> 0 | Some b \<Rightarrow> b)
                     GPS_SYSTEM_TIME_UNCERTAINTY_MS s))"

text \<open>
  \<^verbatim>\<open>nyx_gps_start\<close> and \<^verbatim>\<open>nyx_gps_stop\<close> are the mock's functions (\<^verbatim>\<open>MockLocation.h\<close>
  redefines the names): the HAL is called only when the mock does not serve the request.
\<close>

definition mocked ::
  "gps_env \<Rightarrow> nyx_call \<Rightarrow> (bool \<Rightarrow> MockState \<Rightarrow> (bool \<times> bool) \<times> MockState) \<Rightarrow> GPSPositionProvider
    \<Rightarrow> nyx_error \<times> GPSPositionProvider" where
  "mocked E c f s =
    (let ((ok, real), m) = f (ge_nyx E c = NYX_ERROR_NONE) (gps_mock s);
         s1 = s\<lparr>gps_mock := m\<rparr>
     in if real then nyx E c s1 else (NYX_ERROR_NONE, s1))"

definition startGPS :: "gps_env \<Rightarrow> GPSPositionProvider \<Rightarrow> nyx_error \<times> GPSPositionProvider" where
  "startGPS E s = mocked E NyxStart gps_mock_start (injectSystemTime E s)"

definition stopGPS :: "gps_env \<Rightarrow> GPSPositionProvider \<Rightarrow> nyx_error \<times> GPSPositionProvider" where
  "stopGPS E s = mocked E NyxStop gps_mock_stop s"

definition setPositionMode ::
  "gps_env \<Rightarrow> 32 word \<Rightarrow> 32 word \<Rightarrow> 32 word \<Rightarrow> GPSPositionProvider \<Rightarrow> nyx_error \<times> GPSPositionProvider" where
  "setPositionMode E m rec interval s = nyx E (NyxSetPositionMode m rec interval 0 0) s"

definition setServerInfo :: "gps_env \<Rightarrow> string \<Rightarrow> int \<Rightarrow> GPSPositionProvider \<Rightarrow> nyx_error \<times> GPSPositionProvider" where
  "setServerInfo E host port s = nyx E (NyxSetServer host port) s"

text \<open>Wrappers of one call; the type of a data connection is always \<^verbatim>\<open>NYX_AGPS_TYPE_SUPL\<close>.\<close>

definition dataConnectionOpen :: "gps_env \<Rightarrow> NetworkInfo \<Rightarrow> GPSPositionProvider \<Rightarrow> nyx_error \<times> GPSPositionProvider" where
  "dataConnectionOpen E ni s = nyx E (NyxDataConnOpen (ni_apn ni) (ni_bearerType ni)) s"

definition dataConnectionClosed :: "gps_env \<Rightarrow> GPSPositionProvider \<Rightarrow> nyx_error \<times> GPSPositionProvider" where
  "dataConnectionClosed E s = nyx E NyxDataConnClosed s"

definition dataConnectionFailed :: "gps_env \<Rightarrow> GPSPositionProvider \<Rightarrow> nyx_error \<times> GPSPositionProvider" where
  "dataConnectionFailed E s = nyx E NyxDataConnFailed s"

definition injectExtraData :: "gps_env \<Rightarrow> string \<Rightarrow> GPSPositionProvider \<Rightarrow> nyx_error \<times> GPSPositionProvider" where
  "injectExtraData E v s = nyx E (NyxInjectXtraData v) s"

definition injectExtraCommand :: "gps_env \<Rightarrow> string \<Rightarrow> GPSPositionProvider \<Rightarrow> nyx_error \<times> GPSPositionProvider" where
  "injectExtraCommand E v s = nyx E (NyxInjectExtraCmd v) s"

definition updateNetworkAvailablity :: "gps_env \<Rightarrow> NetworkInfo \<Rightarrow> GPSPositionProvider \<Rightarrow> nyx_error \<times> GPSPositionProvider" where
  "updateNetworkAvailablity E ni s = nyx E (NyxUpdateNetworkAvailability (ni_available ni) (ni_apn ni)) s"

definition hal_updateNetworkState ::
  "gps_env \<Rightarrow> bool \<Rightarrow> int \<Rightarrow> bool \<Rightarrow> GPSPositionProvider \<Rightarrow> nyx_error \<times> GPSPositionProvider" where
  "hal_updateNetworkState E up type roaming s = nyx E (NyxUpdateNetworkState up type roaming) s"

definition deleteAidingData :: "gps_env \<Rightarrow> GPSPositionProvider \<Rightarrow> nyx_error \<times> GPSPositionProvider" where
  "deleteAidingData E s = nyx E NyxDeleteAidingData s"

lemmas hal_wrappers [simp] = dataConnectionOpen_def dataConnectionClosed_def dataConnectionFailed_def injectExtraData_def
  injectExtraCommand_def updateNetworkAvailablity_def hal_updateNetworkState_def deleteAidingData_def

definition getDebugData :: "gps_env \<Rightarrow> bool \<Rightarrow> bool \<Rightarrow> nat \<Rightarrow> GPSPositionProvider \<Rightarrow> nyx_error \<times> GPSPositionProvider" where
  "getDebugData E handle dest len s =
    (if \<not> handle \<or> \<not> dest \<or> len = 0 then (NYX_ERROR_INVALID_VALUE, s) else nyx E (NyxGetDebugData len) s)"

definition geofenceAdd ::
  "gps_env \<Rightarrow> int \<Rightarrow> double \<Rightarrow> double \<Rightarrow> double \<Rightarrow> GPSPositionProvider \<Rightarrow> bool \<times> GPSPositionProvider" where
  "geofenceAdd E i lat lon radius s =
    (let K = ge_consts E;
         (rc, s1) = nyx E (NyxAddGeofence i lat lon radius (NYX_GEOFENCER_UNCERTAIN K)
           (NYX_GEOFENCER_ENTERED K OR NYX_GEOFENCER_EXITED K OR NYX_GEOFENCER_UNCERTAIN K) 60000 0) s
     in (rc = NYX_ERROR_NONE, s1))"

definition geofenceRemove :: "gps_env \<Rightarrow> int \<Rightarrow> GPSPositionProvider \<Rightarrow> bool \<times> GPSPositionProvider" where
  "geofenceRemove E i s = (let (rc, s1) = nyx E (NyxRemoveGeofence i) s in (rc = NYX_ERROR_NONE, s1))"

definition geofencePause :: "gps_env \<Rightarrow> int \<Rightarrow> GPSPositionProvider \<Rightarrow> bool \<times> GPSPositionProvider" where
  "geofencePause E i s = (let (rc, s1) = nyx E (NyxPauseGeofence i) s in (rc = NYX_ERROR_NONE, s1))"

definition geofenceResume :: "gps_env \<Rightarrow> int \<Rightarrow> GPSPositionProvider \<Rightarrow> bool \<times> GPSPositionProvider" where
  "geofenceResume E i s =
    (let K = ge_consts E;
         (rc, s1) = nyx E (NyxResumeGeofence i
           (NYX_GEOFENCER_ENTERED K OR NYX_GEOFENCER_EXITED K OR NYX_GEOFENCER_UNCERTAIN K)) s
     in (rc = NYX_ERROR_NONE, s1))"

subsection \<open>Capabilities and parameters\<close>

definition hasCapability :: "GpsCore \<Rightarrow> 32 word \<Rightarrow> bool" where
  "hasCapability c cap \<longleftrightarrow> has_flag (mGEngineCapabilities c) cap"

definition capable_interval :: "nyx_consts \<Rightarrow> GpsCore \<Rightarrow> 32 word \<Rightarrow> 32 word" where
  "capable_interval K c interval =
    (if \<not> hasCapability c (NYX_GPS_CAPABILITY_SCHEDULING K) then DEFAULT_FIX_INTERVAL else interval)"

definition capable_mode :: "nyx_consts \<Rightarrow> GpsCore \<Rightarrow> 32 word \<Rightarrow> 32 word" where
  "capable_mode K c m =
    (if m = NYX_GPS_POSITION_MODE_MS_BASED K then
       (if hasCapability c (NYX_GPS_CAPABILITY_MSB K) then NYX_GPS_POSITION_MODE_MS_BASED K
        else NYX_GPS_POSITION_MODE_STANDALONE K)
     else if m = NYX_GPS_POSITION_MODE_MS_ASSISTED K then
       (if hasCapability c (NYX_GPS_CAPABILITY_MSA K) then NYX_GPS_POSITION_MODE_MS_ASSISTED K
        else NYX_GPS_POSITION_MODE_STANDALONE K)
     else NYX_GPS_POSITION_MODE_STANDALONE K)"

definition setPosModeWithCapability ::
  "gps_env \<Rightarrow> 32 word \<Rightarrow> 32 word \<Rightarrow> 32 word \<Rightarrow> GPSPositionProvider \<Rightarrow> GPSPositionProvider" where
  "setPosModeWithCapability E m rec interval s =
    snd (setPositionMode E (capable_mode (ge_consts E) (core s) m) rec
           (capable_interval (ge_consts E) (core s) interval) s)"

definition setGpsParameters ::
  "gps_env \<Rightarrow> 32 word \<Rightarrow> 32 word \<Rightarrow> 32 word \<Rightarrow> string \<Rightarrow> int \<Rightarrow> GPSPositionProvider \<Rightarrow> GPSPositionProvider" where
  "setGpsParameters E m rec interval host port s =
    setPosModeWithCapability E m rec interval (snd (setServerInfo E host port s))"

text \<open>The configured mode and port, converted to the parameter types.\<close>

abbreviation conf_mode :: "GPSPositionProvider \<Rightarrow> 32 word" where
  "conf_mode s \<equiv> ucast (mLgeGPSPositionMode (mGPSConf s))"

definition conf_port :: "GPSPositionProvider \<Rightarrow> int" where
  "conf_port s = sint (ucast (mSUPLPort (mGPSConf s)) :: 32 word)"

abbreviation rec_periodic :: "gps_env \<Rightarrow> 32 word" where
  "rec_periodic E \<equiv> NYX_GPS_POSITION_RECURRENCE_PERIODIC (ge_consts E)"

subsection \<open>Engine start and stop\<close>

definition handleGpsEnable :: "gps_env \<Rightarrow> GPSPositionProvider \<Rightarrow> bool \<times> GPSPositionProvider" where
  "handleGpsEnable E s =
    (if mEngineStarted (core s) then (True, s)
     else
       let (rc, s1) = startGPS E s
       in if rc \<noteq> NYX_ERROR_NONE then (False, s1)
          else
            let s2 = (if mNMEALogEnable (logs s1) then log_it (LogStart ''nmea'' (Some ''nmea'')) s1 else s1);
                s3 = (if mCEPLogEnable (logs s2) then log_it (LogStart ''cep'' (Some ''cep'')) s2 else s2)
            in (True, upd_core (\<lambda>c. c\<lparr>mEngineStarted := True\<rparr>) s3))"

text \<open>The CEP report the code feeds to its logger is one opaque text here.\<close>

definition handleGpsDisable :: "gps_env \<Rightarrow> GPSPositionProvider \<Rightarrow> bool \<times> GPSPositionProvider" where
  "handleGpsDisable E s =
    (if \<not> mEngineStarted (core s) then (True, s)
     else
       let s1 = (if mGpsParamModified (core s) then
                   upd_core (\<lambda>c. c\<lparr>mPositionMode := conf_mode s, mFixInterval := DEFAULT_FIX_INTERVAL,
                                     mGpsParamModified := False\<rparr>)
                     (setGpsParameters E (conf_mode s) (rec_periodic E) DEFAULT_FIX_INTERVAL
                        (mSUPLHost (mGPSConf s)) (conf_port s) s)
                 else s);
           (rc, s2) = stopGPS E s1
       in if rc \<noteq> NYX_ERROR_NONE then (False, s2)
          else
            let s3 = (if mNMEALogEnable (logs s2) then log_it (LogStop ''nmea'') s2 else s2);
                s4 = (if mCEPLogEnable (logs s3)
                      then log_it (LogStop ''cep'') (log_it (LogFeed ''cep'' ''report'') s3) else s3)
            in (True, upd_core (\<lambda>c. c\<lparr>mEngineStarted := False\<rparr>) s4))"

definition handlePeriodicUpdates :: "gps_env \<Rightarrow> GPSPositionProvider \<Rightarrow> bool \<times> GPSPositionProvider" where
  "handlePeriodicUpdates E s =
    (True, setPosModeWithCapability E (mPositionMode (core s)) (rec_periodic E) (mFixInterval (core s)) s)"

subsection \<open>Assistance requests\<close>

definition gpsRequestUtcTimeCb :: "gps_env \<Rightarrow> GPSPositionProvider \<Rightarrow> GPSPositionProvider" where
  "gpsRequestUtcTimeCb E s =
    (let s1 = injectSystemTime E s
     in if mDownloadNtpDataStatus (thrd s1) = DOWNLOADING then s1
        else
          let s2 = upd_thrd (\<lambda>t. t\<lparr>mDownloadNtpDataStatus := DOWNLOADING\<rparr>) s1
          in if mXtraDefault (thrd s2) then
               (let n0 = ntp_client (thrd s2);
                    (_, n) = ntp_start (Some (mGPSConf s2)) True (ge_thread_ok E) n0;
                    s3 = upd_thrd (\<lambda>t. t\<lparr>ntp_client := n\<rparr>) s2
                in if length (completed n) > length (completed n0)
                   then upd_thrd (\<lambda>t. t\<lparr>mDownloadNtpDataStatus := IDLE\<rparr>) s3 else s3)
             else snd (nyx E NyxDownloadNtpTime s2))"

definition gpsXtraDownloadRequestCb :: "gps_env \<Rightarrow> GPSPositionProvider \<Rightarrow> GPSPositionProvider" where
  "gpsXtraDownloadRequestCb E s =
    (if mDownloadXtraDataStatus (thrd s) = DOWNLOADING then s
     else if mXtraDefault (thrd s) then
       (if ge_thread_ok E then upd_thrd (\<lambda>t. t\<lparr>xtra_threads := Suc (xtra_threads t)\<rparr>) s else s)
     else snd (nyx E NyxDownloadXtraData (upd_thrd (\<lambda>t. t\<lparr>mDownloadXtraDataStatus := DOWNLOADING\<rparr>) s)))"

definition handleForceTimeInjection :: "gps_env \<Rightarrow> GPSPositionProvider \<Rightarrow> bool \<times> GPSPositionProvider" where
  "handleForceTimeInjection E s = (True, gpsRequestUtcTimeCb E s)"

definition handleForceXtraInjection :: "gps_env \<Rightarrow> GPSPositionProvider \<Rightarrow> bool \<times> GPSPositionProvider" where
  "handleForceXtraInjection E s =
    (True, if mDownloadXtraDataStatus (thrd s) = IDLE then gpsXtraDownloadRequestCb E s else s)"

definition handleDeleteAidingData :: "gps_env \<Rightarrow> GPSPositionProvider \<Rightarrow> bool \<times> GPSPositionProvider" where
  "handleDeleteAidingData E s = (let (rc, s1) = deleteAidingData E s in (rc = NYX_ERROR_NONE, s1))"

subsection \<open>Loggers\<close>

definition handleEnableNMEALog :: "GPSPositionProvider \<Rightarrow> bool \<times> GPSPositionProvider" where
  "handleEnableNMEALog s = (True, upd_logs (\<lambda>l. l\<lparr>mNMEALogger := True, mNMEALogEnable := True\<rparr>) s)"

definition handleDisableNMEALog :: "GPSPositionProvider \<Rightarrow> bool \<times> GPSPositionProvider" where
  "handleDisableNMEALog s = (True, upd_logs (\<lambda>l. l\<lparr>mNMEALogEnable := False\<rparr>) s)"

text \<open>
  The parser of \<open>enable_cep_log:<lat>,<lon>,<count>\<close>. \<open>strtod\<close> is \<^verbatim>\<open>g_ascii_strtod\<close>. The cursor
  \<^verbatim>\<open>cep_values\<close> points at a separator; the text behind it is the second component.
\<close>

abbreviation (input) comma :: char where "comma \<equiv> CHR 0x2C"
abbreviation (input) colon :: char where "colon \<equiv> CHR 0x3A"

definition cep_field :: "(string \<Rightarrow> double) \<Rightarrow> string \<Rightarrow> double \<times> string" where
  "cep_field strtod rest =
    (case after_chr comma rest of
       None \<Rightarrow> (0, rest)
     | Some rest' \<Rightarrow> (strtod (take 255 (before_chr comma rest)), rest'))"

definition cep_parse :: "(string \<Rightarrow> double) \<Rightarrow> string \<Rightarrow> double \<times> double \<times> int" where
  "cep_parse strtod s =
    (case after_chr colon s of
       None \<Rightarrow> (0, 0, 0)
     | Some r0 \<Rightarrow>
         let (lat, r1) = cep_field strtod r0; (lon, r2) = cep_field strtod r1
         in (lat, lon, strtol 10 (strlcpy 256 r2)))"

definition handleCEPLog :: "(string \<Rightarrow> double) \<Rightarrow> string option \<Rightarrow> GPSPositionProvider \<Rightarrow> bool \<times> GPSPositionProvider" where
  "handleCEPLog strtod data s =
    (case data of
       None \<Rightarrow> (False, s)
     | Some v \<Rightarrow>
         let (lat, lon, count) = cep_parse strtod v;
             s1 = (if 0 \<noteq> lat \<and> 0 \<noteq> lon then upd_logs (\<lambda>l. l\<lparr>mCEPCalculator := Some (lat, lon, count)\<rparr>) s else s)
         in (True, upd_logs (\<lambda>l. l\<lparr>mCEPLogger := True, mCEPLogEnable := True\<rparr>) s1))"

definition handleDisableCEPLog :: "GPSPositionProvider \<Rightarrow> bool \<times> GPSPositionProvider" where
  "handleDisableCEPLog s = (True, upd_logs (\<lambda>l. l\<lparr>mCEPLogEnable := False\<rparr>) s)"

definition handleStartAnonymousLog :: "string \<Rightarrow> GPSPositionProvider \<Rightarrow> bool \<times> GPSPositionProvider" where
  "handleStartAnonymousLog v s =
    (let title = (case after_chr colon v of None \<Rightarrow> [] | Some r \<Rightarrow> take 255 r);
         s1 = upd_logs (\<lambda>l. l\<lparr>mAnonymousLogger := True\<rparr>) s
     in (True, log_it (LogStart ''anonymous'' (if title = [] then None else Some title)) s1))"

definition handleStopAnonymousLog :: "GPSPositionProvider \<Rightarrow> bool \<times> GPSPositionProvider" where
  "handleStopAnonymousLog s = (True, log_it (LogStop ''anonymous'') s)"

definition handleWriteAnonymousData :: "string \<Rightarrow> GPSPositionProvider \<Rightarrow> bool \<times> GPSPositionProvider" where
  "handleWriteAnonymousData v s =
    (True, case after_chr colon v of
       None \<Rightarrow> s
     | Some r \<Rightarrow> log_it (LogFeed ''anonymous'' (take (length v - length ''write_anonymous_data:'') r)) s)"

definition handleExtraCommand ::
  "gps_env \<Rightarrow> (string \<Rightarrow> double) \<Rightarrow> string \<Rightarrow> GPSPositionProvider \<Rightarrow> bool \<times> GPSPositionProvider" where
  "handleExtraCommand E strtod v s =
    (if v = ''force_time_injection'' then handleForceTimeInjection E s
     else if v = ''force_xtra_injection'' then handleForceXtraInjection E s
     else if v = ''delete_aiding_data'' then handleDeleteAidingData E s
     else if v = ''enable_nmea_log'' then handleEnableNMEALog s
     else if v = ''disable_nmea_log'' then handleDisableNMEALog s
     else if has_prefix ''enable_cep_log:'' v then handleCEPLog strtod (Some v) s
     else if v = ''disable_cep_log'' then handleDisableCEPLog s
     else if has_prefix ''start_anonymous_log:'' v then handleStartAnonymousLog v s
     else if v = ''stop_anonymous_log'' then handleStopAnonymousLog s
     else if has_prefix ''write_anonymous_data:'' v then handleWriteAnonymousData v s
     else if has_prefix ''lge.gps.extracmd'' v then
       (let (rc, s1) = injectExtraCommand E v s in (rc = NYX_ERROR_NONE, s1))
     else (False, s))"

definition handleSetGpsParameterCommand ::
  "gps_env \<Rightarrow> 'j pbnjson \<Rightarrow> string option \<Rightarrow> GPSPositionProvider \<Rightarrow> bool \<times> GPSPositionProvider" where
  "handleSetGpsParameterCommand E J data s =
    (case data of
       None \<Rightarrow> (False, s)
     | Some v \<Rightarrow>
         let obj = jdom_parse J SCHEMA_ALL v
         in if jis_null J obj then (False, s)
            else
              let pos_mode = word_of_int (get_i32 J obj ''posmode'' (sint (conf_mode s))) :: 32 word;
                  fix_interval = word_of_int (get_i32 J obj ''fixinterval'' 1000) :: 32 word;
                  supl_host = (case jobject_get_exists J obj ''supladdress'' of
                      None \<Rightarrow> strlcpy 256 (mSUPLHost (mGPSConf s))
                    | Some j \<Rightarrow> (case jstring_get J j of None \<Rightarrow> [] | Some h \<Rightarrow> strlcpy 256 h));
                  supl_port = get_i32 J obj ''suplport'' (conf_port s);
                  s1 = setGpsParameters E pos_mode (rec_periodic E) fix_interval supl_host supl_port s
              in (True, upd_core (\<lambda>c. c\<lparr>mPositionMode := pos_mode, mFixInterval := fix_interval,
                                         mGpsParamModified := True\<rparr>) s1))"

subsection \<open>The message table\<close>

text \<open>
  The handlers take a \<^verbatim>\<open>void *\<close>; the four things the code passes are the constructors. The
  table is the code's map from command numbers to handlers.
\<close>

datatype cmd_data = DataNull | DataString string | DataRequest PositionRequest | DataId int

type_synonym gps_handler = "cmd_data \<Rightarrow> GPSPositionProvider \<Rightarrow> bool \<times> GPSPositionProvider"

definition handleAddGeofenceCommand :: "gps_env \<Rightarrow> gps_handler" where
  "handleAddGeofenceCommand E d s =
    (case d of
       DataRequest r \<Rightarrow> geofenceAdd E (mGeofenceID r) (mGeofenceLatitude r) (mGeofenceLongitude r) (mGeofenceRadius r) s
     | _ \<Rightarrow> (False, s))"

definition handleRemoveGeofenceCommand :: "gps_env \<Rightarrow> gps_handler" where
  "handleRemoveGeofenceCommand E d s = (case d of DataId i \<Rightarrow> geofenceRemove E i s | _ \<Rightarrow> (False, s))"

definition data_string :: "cmd_data \<Rightarrow> string option" where
  "data_string d = (case d of DataString v \<Rightarrow> Some v | _ \<Rightarrow> None)"

abbreviation (input) COMMAND_GPS_ENABLE :: nat where "COMMAND_GPS_ENABLE \<equiv> 1"
abbreviation (input) COMMAND_GPS_DISABLE :: nat where "COMMAND_GPS_DISABLE \<equiv> 2"
abbreviation (input) COMMAND_GPS_PERIODIC_UPDATE :: nat where "COMMAND_GPS_PERIODIC_UPDATE \<equiv> 3"
abbreviation (input) COMMAND_EXTRA_COMMAND :: nat where "COMMAND_EXTRA_COMMAND \<equiv> 4"
abbreviation (input) COMMAND_SET_GPS_PARAMETER :: nat where "COMMAND_SET_GPS_PARAMETER \<equiv> 5"
abbreviation (input) COMMAND_ADD_GEOFENCE :: nat where "COMMAND_ADD_GEOFENCE \<equiv> 6"
abbreviation (input) COMMAND_REMOVE_GEOFENCE :: nat where "COMMAND_REMOVE_GEOFENCE \<equiv> 7"

definition mGpsFunctionTable ::
  "gps_env \<Rightarrow> 'j pbnjson \<Rightarrow> (string \<Rightarrow> double) \<Rightarrow> (nat \<times> gps_handler) list" where
  "mGpsFunctionTable E J strtod =
    [(COMMAND_GPS_ENABLE, \<lambda>_. handleGpsEnable E),
     (COMMAND_GPS_DISABLE, \<lambda>_. handleGpsDisable E),
     (COMMAND_GPS_PERIODIC_UPDATE, \<lambda>_. handlePeriodicUpdates E),
     (COMMAND_EXTRA_COMMAND, \<lambda>d. handleExtraCommand E strtod (case data_string d of None \<Rightarrow> [] | Some v \<Rightarrow> v)),
     (COMMAND_SET_GPS_PARAMETER, \<lambda>d. handleSetGpsParameterCommand E J (data_string d)),
     (COMMAND_ADD_GEOFENCE, handleAddGeofenceCommand E),
     (COMMAND_REMOVE_GEOFENCE, handleRemoveGeofenceCommand E)]"

text \<open>
  \<^verbatim>\<open>HandlerBase\<close>: a registration asserts that the number is free. The constructor's registrations
  give the table above.
\<close>

definition RegisterMessageHandler :: "nat \<Rightarrow> gps_handler \<Rightarrow> (nat \<times> gps_handler) list \<Rightarrow> (nat \<times> gps_handler) list option" where
  "RegisterMessageHandler op h tbl = (if map_of tbl op \<noteq> None then None else Some (tbl @ [(op, h)]))"

fun RegisterMessageHandlers :: "(nat \<times> gps_handler) list \<Rightarrow> (nat \<times> gps_handler) list \<Rightarrow> (nat \<times> gps_handler) list option" where
  "RegisterMessageHandlers [] tbl = Some tbl"
| "RegisterMessageHandlers ((op, h) # hs) tbl =
    (case RegisterMessageHandler op h tbl of None \<Rightarrow> None | Some t \<Rightarrow> RegisterMessageHandlers hs t)"

definition UnregisterMessages :: "(nat \<times> gps_handler) list \<Rightarrow> (nat \<times> gps_handler) list" where
  "UnregisterMessages tbl = []"

definition IsMsgSupported :: "(nat \<times> gps_handler) list \<Rightarrow> nat \<Rightarrow> bool" where
  "IsMsgSupported tbl op = (map_of tbl op \<noteq> None)"

lemma registration_is_table: "RegisterMessageHandlers (mGpsFunctionTable E J strtod) [] = Some (mGpsFunctionTable E J strtod)"
  by (simp add: mGpsFunctionTable_def RegisterMessageHandler_def)

lemma registration_succeeds_iff:
  "RegisterMessageHandlers hs tbl \<noteq> None \<longleftrightarrow> distinct (List.map fst hs) \<and> (\<forall>op \<in> fst ` set hs. map_of tbl op = None)"
  by (induction hs tbl rule: RegisterMessageHandlers.induct)
    (auto simp: RegisterMessageHandler_def map_add_def split: option.splits if_splits)

definition HandleMessage :: "(nat \<times> gps_handler) list \<Rightarrow> nat \<Rightarrow> gps_handler" where
  "HandleMessage tbl op d s = (if IsMsgSupported tbl op then the (map_of tbl op) d s else (False, s))"

definition processCommand ::
  "gps_env \<Rightarrow> 'j pbnjson \<Rightarrow> (string \<Rightarrow> double) \<Rightarrow> nat \<Rightarrow> cmd_data \<Rightarrow> GPSPositionProvider \<Rightarrow> bool \<times> GPSPositionProvider" where
  "processCommand E J strtod op d s = HandleMessage (mGpsFunctionTable E J strtod) op d s"

lemma processCommand_simps [simp]:
  "processCommand E J strtod 1 d s = handleGpsEnable E s"
  "processCommand E J strtod (Suc 0) d s = handleGpsEnable E s"
  "processCommand E J strtod 2 d s = handleGpsDisable E s"
  "processCommand E J strtod 3 d s = handlePeriodicUpdates E s"
  "processCommand E J strtod 4 (DataString v) s = handleExtraCommand E strtod v s"
  "processCommand E J strtod 5 (DataString v) s = handleSetGpsParameterCommand E J (Some v) s"
  "processCommand E J strtod 6 d s = handleAddGeofenceCommand E d s"
  "processCommand E J strtod 7 d s = handleRemoveGeofenceCommand E d s"
  by (simp_all add: processCommand_def HandleMessage_def IsMsgSupported_def mGpsFunctionTable_def data_string_def)

subsection \<open>Requests\<close>

definition gps_enable :: "GPSPositionProvider \<Rightarrow> GPSPositionProvider" where
  "gps_enable s = (if \<not> mEnabled (core s) then upd_core (\<lambda>c. c\<lparr>mEnabled := True\<rparr>) s else s)"

definition gps_setCallback :: "bool \<Rightarrow> GPSPositionProvider \<Rightarrow> GPSPositionProvider" where
  "gps_setCallback cb s = upd_core (\<lambda>c. c\<lparr>mClientCallBacks := cb\<rparr>) s"

definition gps_disable :: "GPSPositionProvider \<Rightarrow> GPSPositionProvider" where
  "gps_disable s =
    (if mEnabled (core s) then upd_core (\<lambda>c. c\<lparr>mEnabled := False\<rparr>) (gps_setCallback False s) else s)"

definition requestGpsEngineStart ::
  "gps_env \<Rightarrow> 'j pbnjson \<Rightarrow> (string \<Rightarrow> double) \<Rightarrow> GPSPositionProvider \<Rightarrow> ErrorCodes \<times> GPSPositionProvider" where
  "requestGpsEngineStart E J strtod s =
    (let (ok1, s1) = processCommand E J strtod COMMAND_GPS_PERIODIC_UPDATE DataNull s
     in if \<not> ok1 then (ERROR_NOT_AVAILABLE, s1)
        else
          let (ok2, s2) = processCommand E J strtod COMMAND_GPS_ENABLE DataNull s1
          in if \<not> ok2 then (ERROR_NOT_AVAILABLE, s2) else (ERROR_NONE, s2))"

definition set_progress :: "32 word \<Rightarrow> GPSPositionProvider \<Rightarrow> GPSPositionProvider" where
  "set_progress b s = upd_core (\<lambda>c. c\<lparr>mAPIProgressFlag := mAPIProgressFlag c OR b\<rparr>) s"

definition clear_progress :: "32 word \<Rightarrow> GPSPositionProvider \<Rightarrow> GPSPositionProvider" where
  "clear_progress b s = upd_core (\<lambda>c. c\<lparr>mAPIProgressFlag := mAPIProgressFlag c AND NOT b\<rparr>) s"

text \<open>\<^verbatim>\<open>if (mPosTimer) { g_source_remove(mPosTimer); mPosTimer = 0; }\<close>\<close>

definition remove_pos_timer :: "GPSPositionProvider \<Rightarrow> GPSPositionProvider" where
  "remove_pos_timer s =
    (if mPosTimer (core s) \<noteq> 0
     then upd_core (\<lambda>c. c\<lparr>mPosTimer := 0\<rparr>) (s\<lparr>timers := remove1 (mPosTimer (core s)) (timers s)\<rparr>)
     else s)"

definition add_pos_timer :: "gps_env \<Rightarrow> GPSPositionProvider \<Rightarrow> GPSPositionProvider" where
  "add_pos_timer E s =
    (if mPosTimer (core s) = 0
     then upd_core (\<lambda>c. c\<lparr>mPosTimer := ge_timer E\<rparr>) (s\<lparr>timers := timers s @ [ge_timer E]\<rparr>)
     else s)"

text \<open>The common end of the stop commands: the engine stops with the last request.\<close>

definition stop_if_unused ::
  "gps_env \<Rightarrow> 'j pbnjson \<Rightarrow> (string \<Rightarrow> double) \<Rightarrow> GPSPositionProvider \<Rightarrow> ErrorCodes \<times> GPSPositionProvider" where
  "stop_if_unused E J strtod s =
    (if mAPIProgressFlag (core s) = 0 \<and> mEngineStarted (core s) then
       let (ok, s1) = processCommand E J strtod COMMAND_GPS_DISABLE DataNull s
       in if \<not> ok then (ERROR_NOT_AVAILABLE, s1) else (ERROR_NONE, s1)
     else (ERROR_NONE, s))"

text \<open>\<^verbatim>\<open>gettimeofday\<close> in milliseconds; the code ignores its result.\<close>

definition now_ms :: "gps_env \<Rightarrow> int" where
  "now_ms E = (case ge_now E of None \<Rightarrow> 0 | Some t \<Rightarrow> t)"

definition gps_processRequest ::
  "gps_env \<Rightarrow> 'j pbnjson \<Rightarrow> (string \<Rightarrow> double) \<Rightarrow> PositionRequest \<Rightarrow> GPSPositionProvider
    \<Rightarrow> ErrorCodes \<times> GPSPositionProvider" where
  "gps_processRequest E J strtod r s =
    (if \<not> mEnabled (core s) then (ERROR_NOT_STARTED, s)
     else case mRequestType r of
       POSITION_CMD \<Rightarrow>
         if has_flag (mAPIProgressFlag (core s)) LOCATION_UPDATES_ON then (ERROR_DUPLICATE_REQUEST, s)
         else
           let s1 = (if \<not> mTTFFState (ttff s) then upd_ttff (\<lambda>t. t\<lparr>mFixRequestTime := now_ms E\<rparr>) s else s);
               (ret, s2) = requestGpsEngineStart E J strtod s1
           in if ret = ERROR_NONE then (ret, set_progress LOCATION_UPDATES_ON (add_pos_timer E s2)) else (ret, s2)
     | NMEA_CMD \<Rightarrow>
         if has_flag (mAPIProgressFlag (core s)) NMEA_GET_DATA_ON then (ERROR_DUPLICATE_REQUEST, s)
         else
           let (ret, s1) = requestGpsEngineStart E J strtod s
           in if ret = ERROR_NONE then (ret, set_progress NMEA_GET_DATA_ON s1) else (ret, s1)
     | SATELITTE_CMD \<Rightarrow>
         if has_flag (mAPIProgressFlag (core s)) SATELLITE_GET_DATA_ON then (ERROR_DUPLICATE_REQUEST, s)
         else
           let (ret, s1) = requestGpsEngineStart E J strtod s
           in if ret = ERROR_NONE then (ret, set_progress SATELLITE_GET_DATA_ON s1) else (ret, s1)
     | SET_GPS_PARAMETERS_CMD \<Rightarrow>
         let (ok, s1) = processCommand E J strtod COMMAND_SET_GPS_PARAMETER (DataString (mRequestParams r)) s
         in if \<not> ok then (ERROR_NOT_AVAILABLE, s1) else (ERROR_NONE, s1)
     | SEND_GPS_EXTRA_CMD \<Rightarrow>
         let (ok, s1) = processCommand E J strtod COMMAND_EXTRA_COMMAND (DataString (mRequestParams r)) s
         in if \<not> ok then (ERROR_NOT_AVAILABLE, s1) else (ERROR_NONE, s1)
     | ADD_GEOFENCE_CMD \<Rightarrow>
         let (ok, s1) = processCommand E J strtod COMMAND_ADD_GEOFENCE (DataRequest r) s
         in if \<not> ok then (ERROR_NOT_AVAILABLE, s1) else (ERROR_NONE, s1)
     | REMOVE_GEOFENCE_CMD \<Rightarrow>
         let (ok, s1) = processCommand E J strtod COMMAND_REMOVE_GEOFENCE (DataId (mGeofenceID r)) s
         in if \<not> ok then (ERROR_NOT_AVAILABLE, s1) else (ERROR_NONE, s1)
     | STOP_GPS_CMD \<Rightarrow>
         if mEngineStarted (core s) then
           let (ok, s1) = processCommand E J strtod COMMAND_GPS_DISABLE DataNull s
           in if \<not> ok then (ERROR_NOT_AVAILABLE, s1)
              else (ERROR_NONE, remove_pos_timer (upd_core (\<lambda>c. c\<lparr>mAPIProgressFlag := 0\<rparr>) s1))
         else (ERROR_NONE, s)
     | STOP_NMEA_CMD \<Rightarrow> stop_if_unused E J strtod (clear_progress NMEA_GET_DATA_ON s)
     | STOP_SATELITTE_CMD \<Rightarrow> stop_if_unused E J strtod (clear_progress SATELLITE_GET_DATA_ON s)
     | STOP_POSITION_CMD \<Rightarrow>
         stop_if_unused E J strtod
           (upd_ttff (\<lambda>t. t\<lparr>mTTFFState := False, mFixRequestTime := 0, mLastFixTime := 0, mTTFF := 0\<rparr>)
             (clear_progress LOCATION_UPDATES_ON (remove_pos_timer s)))
     | _ \<Rightarrow> (ERROR_NONE, s))"

text \<open>The timer source: it is removed when it returns, but \<^verbatim>\<open>mPosTimer\<close> keeps its id.\<close>

definition gpsTimeoutCb :: "GPSPositionProvider \<Rightarrow> GPSPositionProvider option" where
  "gpsTimeoutCb s =
    (let s1 = s\<lparr>timers := remove1 (mPosTimer (core s)) (timers s)\<rparr>
     in if has_flag (mAPIProgressFlag (core s)) LOCATION_UPDATES_ON
        then call_back (CbLocation geo_default ERROR_TIMEOUT HANDLER_GPS) s1
        else Some s1)"

definition getTimeToFirstFixValue :: "GPSPositionProvider \<Rightarrow> int \<times> GPSPositionProvider" where
  "getTimeToFirstFixValue s =
    (let t = ttff s;
         t' = (if mLastFixTime t > mFixRequestTime t then t\<lparr>mTTFF := mLastFixTime t - mFixRequestTime t\<rparr> else t)
     in (mTTFF t', s\<lparr>ttff := t'\<rparr>))"

subsection \<open>The data network\<close>

definition sendDataNetworkLocked :: "gps_env \<Rightarrow> GPSPositionProvider \<Rightarrow> GPSPositionProvider" where
  "sendDataNetworkLocked E s =
    (let d = dnet s
     in if \<not> mNyxReady d \<or> \<not> mDataNetworkKnown d then s
        else if mDataNetworkSent d \<and> mSentDataNetworkConnected d = mDataNetworkConnected d
             \<and> mSentDataNetworkType d = mDataNetworkType d then s
        else
          let (rc, s1) = hal_updateNetworkState E (mDataNetworkConnected d) (mDataNetworkType d) False s
          in if rc = NYX_ERROR_NONE \<or> rc = NYX_ERROR_NOT_IMPLEMENTED
             then upd_dnet (\<lambda>d. d\<lparr>mDataNetworkSent := True, mSentDataNetworkConnected := mDataNetworkConnected d,
                                  mSentDataNetworkType := mDataNetworkType d\<rparr>) s1
             else s1)"

definition updateDataNetwork :: "gps_env \<Rightarrow> bool \<Rightarrow> int \<Rightarrow> GPSPositionProvider \<Rightarrow> GPSPositionProvider" where
  "updateDataNetwork E up type s =
    sendDataNetworkLocked E
      (upd_dnet (\<lambda>d. d\<lparr>mDataNetworkKnown := True, mDataNetworkConnected := up, mDataNetworkType := type\<rparr>) s)"

definition updateNetworkState :: "gps_env \<Rightarrow> NetworkInfo \<Rightarrow> GPSPositionProvider \<Rightarrow> GPSPositionProvider" where
  "updateNetworkState E ni s =
    (let cur = mNetworkInfo (thrd s)
     in if ni_available ni \<and> \<not> ni_available cur then
          let cur' = \<lparr>ni_available = True, ni_apn = (if ni_apn ni \<noteq> [] then ni_apn ni else ni_apn cur),
                      ni_bearerType = ni_bearerType ni\<rparr>;
              s1 = upd_thrd (\<lambda>t. t\<lparr>mNetworkInfo := cur'\<rparr>) s;
              s2 = snd (updateNetworkAvailablity E cur' s1)
          in if mGPSDataConnectionState (thrd s2) = DATA_CONNECTION_IDLE
                \<or> mGPSDataConnectionState (thrd s2) = DATA_CONNECTION_FAILED
             then upd_thrd (\<lambda>t. t\<lparr>mGPSThreadAction := ACTION_OPEN_ATL\<rparr>) s2
             else s2
        else if \<not> ni_available ni \<and> ni_available cur then
          let s1 = upd_thrd (\<lambda>t. t\<lparr>mNetworkInfo := cur\<lparr>ni_available := False\<rparr>\<rparr>) s
          in if mGPSDataConnectionState (thrd s1) = DATA_CONNECTION_OPEN
             then upd_thrd (\<lambda>t. t\<lparr>mGPSThreadAction := ACTION_CLOSE_ATL\<rparr>) s1
             else s1
        else s)"

end
