(* ===== verification/Net_Backend.thy ===== *)
theory Net_Backend
  imports Luna_Json
begin

text \<open>
  The geolocation servers: \<^verbatim>\<open>src/handler/position/network/NetworkLocationBackend.cpp\<close>. The
  base64 decoders of glib and loc-utils are parameters.
\<close>

datatype NetworkLocationBackend = BeaconDB | Google

definition parseNetworkLocationBackend :: "string option \<Rightarrow> NetworkLocationBackend" where
  "parseNetworkLocationBackend name = (if name = Some ''google'' then Google else BeaconDB)"

definition networkLocationBackendName :: "NetworkLocationBackend \<Rightarrow> string" where
  "networkLocationBackendName b = (if b = Google then ''google'' else ''beacondb'')"

definition networkLocationBackendUrl :: "NetworkLocationBackend \<Rightarrow> string" where
  "networkLocationBackendUrl b =
    (if b = Google then ''https://www.googleapis.com/geolocation/v1/geolocate?key=%s''
     else ''https://api.beacondb.net/v1/geolocate'')"

definition kGeolocateHeaders :: "string list" where
  "kGeolocateHeaders =
    [''Accept: application/json'', ''Content-Type: application/json'', ''charsets: utf-8'',
     ''User-Agent: LuneOS com.webos.service.location'']"

definition char_in :: "char \<Rightarrow> char \<Rightarrow> char \<Rightarrow> bool" where
  "char_in a c b \<longleftrightarrow> (of_char a :: nat) \<le> of_char c \<and> (of_char c :: nat) \<le> of_char b"

definition isKeyChar :: "char \<Rightarrow> bool" where
  "isKeyChar c \<longleftrightarrow> char_in (CHR ''A'') c (CHR ''Z'') \<or> char_in (CHR ''a'') c (CHR ''z'')
    \<or> char_in (CHR ''0'') c (CHR ''9'') \<or> c = CHR ''-'' \<or> c = CHR ''_''"

definition isSpaceChar :: "char \<Rightarrow> bool" where
  "isSpaceChar c \<longleftrightarrow> c = CHR 0x20 \<or> c = CHR 0x09 \<or> c = CHR 0x0A \<or> c = CHR 0x0D"

text \<open>\<^verbatim>\<open>strstr(template, "%s")\<close>: what stands before and after the first slot.\<close>

fun find_slot :: "string \<Rightarrow> (string \<times> string) option" where
  "find_slot [] = None"
| "find_slot [c] = None"
| "find_slot (c # d # r) =
    (if c = CHR ''%'' \<and> d = CHR ''s'' then Some ([], r)
     else map_option (\<lambda>(p, q). (c # p, q)) (find_slot (d # r)))"

definition trim_key :: "string \<Rightarrow> string" where
  "trim_key k = rev (dropWhile isSpaceChar (rev (dropWhile isSpaceChar k)))"

text \<open>\<open>None\<close> is the result \<^verbatim>\<open>false\<close>, which leaves \<^verbatim>\<open>out\<close> empty.\<close>

definition buildGeolocateUrl :: "string option \<Rightarrow> string option \<Rightarrow> nat \<Rightarrow> string option" where
  "buildGeolocateUrl urlTemplate apiKey outSize =
    (if outSize = 0 then None
     else case urlTemplate of
       None \<Rightarrow> None
     | Some t \<Rightarrow>
         (case find_slot t of
            None \<Rightarrow> if length t \<ge> outSize then None else Some t
          | Some (pre, post) \<Rightarrow>
              (case apiKey of
                 None \<Rightarrow> None
               | Some k \<Rightarrow>
                   let key = trim_key k
                   in if key = [] then None
                      else if \<not> list_all isKeyChar key then None
                      else let url = pre @ key @ post
                           in if length url \<ge> outSize then None else Some url)))"

text \<open>The two key formats of the configuration file.\<close>

record base64 =
  g_base64_decode :: "string \<Rightarrow> string"
  locSecurityBase64DecodeData :: "string \<Rightarrow> string option"

abbreviation (input) NUL :: char where "NUL \<equiv> CHR 0x00"

definition decodeStandardBase64 :: "base64 \<Rightarrow> string \<Rightarrow> string option" where
  "decodeStandardBase64 B encoded =
    (let raw = g_base64_decode B encoded in if raw = [] then None else Some (before_chr NUL raw))"

definition geolocationKeyFromConfig :: "base64 \<Rightarrow> 'j pbnjson \<Rightarrow> string option \<Rightarrow> string option" where
  "geolocationKeyFromConfig B J content =
    (case content of
       None \<Rightarrow> None
     | Some c \<Rightarrow>
         if c = [] then None
         else
           let parsed = jdom_parse J SCHEMA_ALL c
           in if \<not> jis_null J parsed \<and> jis_object J parsed then
                let encoded = (case jobject_get_exists J parsed ''apiKey'' of
                      None \<Rightarrow> []
                    | Some k \<Rightarrow> if jis_string J k then (case jstring_get J k of None \<Rightarrow> [] | Some s \<Rightarrow> s) else [])
                in if encoded = [] then None else decodeStandardBase64 B encoded
              else if length c \<ge> 1000 then None
              else (case locSecurityBase64DecodeData B c of
                      None \<Rightarrow> None
                    | Some d \<Rightarrow> if before_chr NUL d = [] then None else Some (before_chr NUL d)))"

subsection \<open>Lemmas\<close>

lemma parse_backend_name [simp]: "parseNetworkLocationBackend (Some (networkLocationBackendName b)) = b"
  by (cases b) (simp_all add: parseNetworkLocationBackend_def networkLocationBackendName_def)

lemma find_slot_split: "find_slot t = Some (p, q) \<Longrightarrow> t = p @ ''%s'' @ q"
  by (induction t arbitrary: p q rule: find_slot.induct) (auto split: if_splits)

lemma beacon_has_no_slot [simp]: "find_slot (networkLocationBackendUrl BeaconDB) = None"
  by (simp add: networkLocationBackendUrl_def)

lemma google_slot [simp]:
  "find_slot (networkLocationBackendUrl Google) = Some (''https://www.googleapis.com/geolocation/v1/geolocate?key='', [])"
  by (simp add: networkLocationBackendUrl_def)

lemma trim_key_split: "\<exists>a b. k = a @ trim_key k @ b \<and> list_all isSpaceChar a \<and> list_all isSpaceChar b"
proof -
  let ?r = "dropWhile isSpaceChar k"
  have "rev ?r = takeWhile isSpaceChar (rev ?r) @ dropWhile isSpaceChar (rev ?r)" by simp
  then have "?r = trim_key k @ rev (takeWhile isSpaceChar (rev ?r))"
    unfolding trim_key_def by (metis rev_append rev_rev_ident)
  then have "k = takeWhile isSpaceChar k @ trim_key k @ rev (takeWhile isSpaceChar (rev ?r))"
    by (metis takeWhile_dropWhile_id)
  then show ?thesis
    by (metis list_all_iff set_rev set_takeWhileD)
qed

end
