(* ===== verification/Provider_Interface.thy ===== *)
theory Provider_Interface
  imports Location_Prelude
begin

text \<open>
  \<^verbatim>\<open>include/PositionProviderInterface.h\<close> as an interface: what the location service relies on
  from every provider. The GPS and the network provider are its two interpretations.
\<close>

locale position_provider =
  fixes is_enabled :: "'s \<Rightarrow> bool"
    and process :: "'r \<Rightarrow> 's \<Rightarrow> ErrorCodes \<times> 's"
    and enable :: "'s \<Rightarrow> 's"
    and disable :: "'s \<Rightarrow> 's"
  assumes disabled_rejects: "\<not> is_enabled s \<Longrightarrow> process r s = (ERROR_NOT_STARTED, s)"
    and enable_enables: "is_enabled (enable s)"
    and disable_disables: "\<not> is_enabled (disable s)"
begin

lemma disabled_inert: "\<not> is_enabled s \<Longrightarrow> fold (\<lambda>r t. snd (process r t)) rs s = s"
  by (induction rs) (auto simp: disabled_rejects)

lemma after_disable:
  "process r (fold (\<lambda>r t. snd (process r t)) rs (disable s)) = (ERROR_NOT_STARTED, disable s)"
  by (simp add: disabled_inert disable_disables disabled_rejects)

end

end
