(* ===== verification/Net_Provider.thy ===== *)
theory Net_Provider
  imports Net_Backend Http Mock Provider_Interface
begin

text \<open>
  The network position provider: \<^verbatim>\<open>src/handler/position/network/NetworkPositionProvider.cpp\<close>
  and the scan data it is fed by \<^verbatim>\<open>NetworkData.cpp\<close>. A \<^verbatim>\<open>GHashTable\<close> is an association list
  with distinct keys, in the order of insertion. The order in which the iterator visits the keys
  is another one, which only shows in the array of access points that is posted, modelled in the order of the
  list, and in the log, modelled in any order (\<^theory_text>\<open>Net_Log\<close>). Calls on the bus, timers, posts and callbacks are recorded in the state.
\<close>

subsection \<open>State\<close>

record NetworkPositionData =
  nwGeolocationKey :: "string option"
  cellInfo :: "string option"
  curCellid :: int
  lastLatitude :: double
  lastLongitude :: double
  lastAccuracy :: double
  lastTimeStamp :: int
  wifiAccessPointsList :: "(string \<times> int) list option"
  lastAps :: "(string \<times> int) list option"

definition resetData :: "NetworkPositionData \<Rightarrow> NetworkPositionData" where
  "resetData d = d\<lparr>lastLatitude := 0, lastLongitude := 0, lastAccuracy := 0, lastTimeStamp := 0,
     lastAps := None, wifiAccessPointsList := None, cellInfo := None, curCellid := 0\<rparr>"

definition position_data_init :: NetworkPositionData where
  "position_data_init = \<lparr>nwGeolocationKey = None, cellInfo = None, curCellid = 0, lastLatitude = 0,
     lastLongitude = 0, lastAccuracy = 0, lastTimeStamp = 0, wifiAccessPointsList = None, lastAps = None\<rparr>"

text \<open>Registrations: the two service-status cookies and the two subscription tokens.\<close>

record NetRegs =
  mTelephonyCookie :: bool
  mWifiCookie :: bool
  mCellInfoReq :: bool
  mWifiInfoReq :: bool

datatype net_cb = NetLocation GeoLocation ErrorCodes

record NetworkPositionProvider =
  np_enabled :: bool
  np_callback :: bool
  mwifiStatus :: bool
  mtelephonyPowerd :: bool
  mConnectivityStatus :: bool
  mProcessRequestInProgress :: bool
  mMockRequestInProgress :: bool
  misFirstCellResponse :: bool
  mTimeoutId :: nat
  mFixBackend :: NetworkLocationBackend
  sBackend :: "NetworkLocationBackend option"
  mPositionData :: NetworkPositionData
  regs :: NetRegs
  net_mock :: "bool \<times> MockState"
  http :: NetworkRequestManager
  net_calls :: "(string \<times> string) list"
  net_timers :: "nat list"
  net_callbacks :: "net_cb list"
  net_stored :: "GeoLocation list"

definition np_init :: NetworkPositionProvider where
  "np_init =
    \<lparr>np_enabled = False, np_callback = False, mwifiStatus = False, mtelephonyPowerd = False,
     mConnectivityStatus = False, mProcessRequestInProgress = False, mMockRequestInProgress = False,
     misFirstCellResponse = True, mTimeoutId = 0, mFixBackend = BeaconDB, sBackend = None,
     mPositionData = position_data_init,
     regs = \<lparr>mTelephonyCookie = False, mWifiCookie = False, mCellInfoReq = False, mWifiInfoReq = False\<rparr>,
     net_mock = (False, mock_init), http = nrm_start nrm_init, net_calls = [], net_timers = [], net_callbacks = [],
     net_stored = []\<rparr>"

text \<open>
  The environment of an event: JSON, the serialiser, the key file, the stored backend name, the
  clock, the next timer id, the outcome of the HTTP calls and of the calls on the bus, by what they call.
\<close>

record 'j net_env =
  ne_json :: "'j pbnjson"
  ne_tostring :: "'j jout \<Rightarrow> string"
  ne_base64 :: base64
  ne_keyfile :: "string option"
  ne_prefs :: "string option"
  ne_now :: int
  ne_timer :: nat
  ne_port :: string
  ne_task :: "nat option"
  ne_prep_ok :: bool
  ne_add_ok :: bool
  ne_bus_ok :: "string \<Rightarrow> bool"
  ne_cancel_ok :: bool

abbreviation upd_pd :: "(NetworkPositionData \<Rightarrow> NetworkPositionData) \<Rightarrow> NetworkPositionProvider \<Rightarrow> NetworkPositionProvider" where
  "upd_pd f s \<equiv> s\<lparr>mPositionData := f (mPositionData s)\<rparr>"

abbreviation upd_regs :: "(NetRegs \<Rightarrow> NetRegs) \<Rightarrow> NetworkPositionProvider \<Rightarrow> NetworkPositionProvider" where
  "upd_regs f s \<equiv> s\<lparr>regs := f (regs s)\<rparr>"

definition net_call_back :: "net_cb \<Rightarrow> NetworkPositionProvider \<Rightarrow> NetworkPositionProvider" where
  "net_call_back c s = (if np_callback s then s\<lparr>net_callbacks := net_callbacks s @ [c]\<rparr> else s)"

subsection \<open>Backend and key\<close>

definition currentBackend :: "'j net_env \<Rightarrow> NetworkPositionProvider \<Rightarrow> NetworkLocationBackend \<times> NetworkPositionProvider" where
  "currentBackend E s =
    (case sBackend s of
       Some b \<Rightarrow> (b, s)
     | None \<Rightarrow> let b = parseNetworkLocationBackend (ne_prefs E) in (b, s\<lparr>sBackend := Some b\<rparr>))"

definition setCurrentBackend :: "NetworkLocationBackend \<Rightarrow> NetworkPositionProvider \<Rightarrow> NetworkPositionProvider" where
  "setCurrentBackend b s = s\<lparr>sBackend := Some b\<rparr>"

definition readApiKey :: "'j net_env \<Rightarrow> string option" where
  "readApiKey E = (case ne_keyfile E of None \<Rightarrow> None | Some c \<Rightarrow> geolocationKeyFromConfig (ne_base64 E) (ne_json E) (Some c))"

definition np_enable :: "'j net_env \<Rightarrow> NetworkPositionProvider \<Rightarrow> NetworkPositionProvider" where
  "np_enable E s =
    (if np_enabled s then s
     else (upd_pd (\<lambda>d. d\<lparr>nwGeolocationKey := readApiKey E\<rparr>) s)\<lparr>np_enabled := True\<rparr>)"

definition np_disable :: "NetworkPositionProvider \<Rightarrow> NetworkPositionProvider" where
  "np_disable s =
    (if np_enabled s
     then s\<lparr>net_timers := remove1 (mTimeoutId s) (net_timers s), np_callback := False, np_enabled := False,
            mTimeoutId := 0\<rparr>
     else s)"

definition np_setCallback :: "bool \<Rightarrow> NetworkPositionProvider \<Rightarrow> NetworkPositionProvider" where
  "np_setCallback cb s = s\<lparr>np_callback := cb\<rparr>"

subsection \<open>Query data\<close>

text \<open>The loop over the towers: the first registered one decides; \<open>state\<close> persists between rounds.\<close>

fun cell_loop :: "'j pbnjson \<Rightarrow> 'j \<Rightarrow> 'j list \<Rightarrow> bool \<Rightarrow> int \<Rightarrow> bool \<times> int" where
  "cell_loop J towers [] state cur = (False, cur)"
| "cell_loop J towers (t # ts) state cur =
    (case jobject_get_exists J t ''registered'' of
       None \<Rightarrow> if state then (False, cur) else cell_loop J towers ts state cur
     | Some r \<Rightarrow>
         let state' = snd (jboolean_get J r state)
         in if state' then
              (case jobject_get_exists J t ''cellId'' of
                 None \<Rightarrow> (False, cur)
               | Some i \<Rightarrow>
                   let cid = snd (jnumber_get_i32 J i 0)
                   in if cid \<noteq> cur then (True, cid) else (False, cur))
            else cell_loop J towers ts state' cur)"

text \<open>The fields to add to the request object, if the cell changed, and the state.\<close>

definition parseCellData ::
  "'j pbnjson \<Rightarrow> NetworkPositionProvider \<Rightarrow> (string \<times> 'j jout) list option \<times> NetworkPositionProvider" where
  "parseCellData J s =
    (case cellInfo (mPositionData s) of
       None \<Rightarrow> (None, s)
     | Some info \<Rightarrow>
         let parsed = jdom_parse J SCHEMA_ALL info
         in if jis_null J parsed then (None, s)
            else (case jobject_get_exists J parsed ''cellTowers'' of
                None \<Rightarrow> (None, s)
              | Some arr \<Rightarrow>
                  if \<not> jis_array J arr then (None, s)
                  else
                    let (changed, cid) = cell_loop J arr (List.map (jarray_get J arr) [0..<jarray_size J arr]) False
                                           (curCellid (mPositionData s));
                        s1 = upd_pd (\<lambda>d. d\<lparr>curCellid := cid\<rparr>) s
                    in (if changed then Some [(''cellTowers'', ODup arr)] else None, s1)))"

text \<open>\<^verbatim>\<open>g_hash_table_lookup\<close> of a value that is 0 cannot be told from a missing one.\<close>

definition ht_lookup :: "(string \<times> int) list \<Rightarrow> string \<Rightarrow> int" where
  "ht_lookup t k = (case map_of t k of None \<Rightarrow> 0 | Some v \<Rightarrow> v)"

definition signal_change_sum :: "(string \<times> int) list \<Rightarrow> (string \<times> int) list \<Rightarrow> int" where
  "signal_change_sum old new =
    (\<Sum>(k, v)\<leftarrow>new. if ht_lookup old k \<noteq> 0 then abs (v - ht_lookup old k) else abs v)
    + (\<Sum>(k, v)\<leftarrow>old. if ht_lookup new k = 0 then abs v else 0)"

definition vanished_count :: "(string \<times> int) list \<Rightarrow> (string \<times> int) list \<Rightarrow> nat" where
  "vanished_count old new = length (filter (\<lambda>(k, v). ht_lookup new k = 0) old)"

abbreviation (input) SIGNAL_CHANGE_THRESHOLD :: int where "SIGNAL_CHANGE_THRESHOLD \<equiv> 20"

definition avg_exceeds :: "(string \<times> int) list \<Rightarrow> (string \<times> int) list \<Rightarrow> bool" where
  "avg_exceeds old new \<longleftrightarrow>
    signal_change_sum old new > SIGNAL_CHANGE_THRESHOLD * int (length new + vanished_count old new)"

definition wifi_json :: "(string \<times> int) list \<Rightarrow> 'j jout" where
  "wifi_json aps = OArr (List.map (\<lambda>(k, v). OObj [(''macAddress'', OStr k), (''signalStrength'', OInt v)]) aps)"

definition parseWifiData :: "NetworkPositionProvider \<Rightarrow> (string \<times> 'j jout) list option \<times> NetworkPositionProvider" where
  "parseWifiData s =
    (case wifiAccessPointsList (mPositionData s) of
       None \<Rightarrow> (None, s)
     | Some aps \<Rightarrow>
         if length aps < 2 then (None, s)
         else
           let isFirst = (lastAps (mPositionData s) = None);
               old = (case lastAps (mPositionData s) of None \<Rightarrow> [] | Some t \<Rightarrow> t)
           in if isFirst \<or> avg_exceeds old aps
              then (Some [(''wifiAccessPoints'', wifi_json aps)], upd_pd (\<lambda>d. d\<lparr>lastAps := Some aps\<rparr>) s)
              else (None, s))"

definition createCellQuery :: "'j pbnjson \<Rightarrow> NetworkPositionProvider \<Rightarrow> 'j jout option \<times> NetworkPositionProvider" where
  "createCellQuery J s = (let (f, s1) = parseCellData J s in (map_option OObj f, s1))"

definition createWifiQuery :: "NetworkPositionProvider \<Rightarrow> 'j jout option \<times> NetworkPositionProvider" where
  "createWifiQuery s = (let (f, s1) = parseWifiData s in (map_option OObj f, s1))"

definition createCellWifiCombinedQuery :: "'j pbnjson \<Rightarrow> NetworkPositionProvider \<Rightarrow> 'j jout option \<times> NetworkPositionProvider" where
  "createCellWifiCombinedQuery J s =
    (let (f1, s1) = parseCellData J s; (f2, s2) = parseWifiData s1
     in (if f1 = None \<and> f2 = None then None
         else Some (OObj ((case f1 of None \<Rightarrow> [] | Some x \<Rightarrow> x) @ (case f2 of None \<Rightarrow> [] | Some x \<Rightarrow> x))), s2))"

subsection \<open>Posting\<close>

abbreviation (input) URL_LENGTH :: nat where "URL_LENGTH \<equiv> 256"
abbreviation (input) this_client :: nat where "this_client \<equiv> 1"

definition networkPostQuery ::
  "'j net_env \<Rightarrow> string option \<Rightarrow> string option \<Rightarrow> NetworkPositionProvider \<Rightarrow> bool \<times> NetworkPositionProvider" where
  "networkPostQuery E postData apiKey s =
    (let (backend, s1) = currentBackend E s;
         (urlTemplate, m) = network_location_provider_url (ne_port E) (networkLocationBackendUrl backend) (net_mock s1);
         s2 = s1\<lparr>net_mock := m\<rparr>
     in (case buildGeolocateUrl (Some urlTemplate) apiKey URL_LENGTH of
           None \<Rightarrow> (False, s2)
         | Some url \<Rightarrow>
             let (err, h) = initiateTransaction (ne_task E) (ne_prep_ok E) (ne_add_ok E) url (Some this_client) postData (http s2)
             in (err = ERROR_NONE, s2\<lparr>http := h\<rparr>)))"

definition triggerPostQuery :: "'j net_env \<Rightarrow> NetworkPositionProvider \<Rightarrow> bool \<times> NetworkPositionProvider" where
  "triggerPostQuery E s =
    (let (post, s1) =
           (if \<not> mwifiStatus s \<and> mtelephonyPowerd s then createCellQuery (ne_json E) s
            else if \<not> mtelephonyPowerd s \<and> mwifiStatus s then createWifiQuery s
            else if mwifiStatus s \<and> mtelephonyPowerd s then createCellWifiCombinedQuery (ne_json E) s
            else (None, s))
     in (case post of
           None \<Rightarrow> (False, s1)
         | Some j \<Rightarrow> networkPostQuery E (Some (ne_tostring E j)) (nwGeolocationKey (mPositionData s1)) s1))"

definition onUpdateCellData :: "'j net_env \<Rightarrow> string \<Rightarrow> NetworkPositionProvider \<Rightarrow> NetworkPositionProvider" where
  "onUpdateCellData E cell s =
    (let s1 = upd_pd (\<lambda>d. d\<lparr>cellInfo := Some cell\<rparr>) s
     in if misFirstCellResponse s1 \<and> \<not> mwifiStatus s1
        then snd (triggerPostQuery E (s1\<lparr>misFirstCellResponse := False\<rparr>)) else s1)"

definition onUpdateWifiData :: "'j net_env \<Rightarrow> (string \<times> int) list \<Rightarrow> NetworkPositionProvider \<Rightarrow> NetworkPositionProvider" where
  "onUpdateWifiData E aps s =
    snd (triggerPostQuery E (upd_pd (\<lambda>d. d\<lparr>wifiAccessPointsList := Some aps\<rparr>) s))"

subsection \<open>Scan data\<close>

text \<open>
  \<^verbatim>\<open>NetworkData\<close>. The table and the variables \<^verbatim>\<open>bssId\<close>, \<^verbatim>\<open>signalLevel\<close> and \<^verbatim>\<open>rng\<close> live
  across the loops. An access point without a \<^verbatim>\<open>bssid\<close> string makes the code insert the previous
  pointer, which the table owns and frees, or a null pointer: \<open>None\<close>.
\<close>

definition ht_insert :: "string \<Rightarrow> int \<Rightarrow> (string \<times> int) list \<Rightarrow> (string \<times> int) list" where
  "ht_insert k v t = (if k \<in> fst ` set t then List.map (\<lambda>(a, b). if a = k then (a, v) else (a, b)) t else t @ [(k, v)])"

fun bss_loop :: "'j pbnjson \<Rightarrow> 'j list \<Rightarrow> int \<Rightarrow> (string \<times> int) list \<Rightarrow> (int \<times> (string \<times> int) list) option" where
  "bss_loop J [] sig t = Some (sig, t)"
| "bss_loop J (b # bs) sig t =
    (case jobject_get_exists J b ''bssid'' of
       None \<Rightarrow> None
     | Some k \<Rightarrow>
         (case jstring_get J k of
            None \<Rightarrow> None
          | Some key \<Rightarrow>
              let sig' = get_i32 J b ''signal'' sig
              in bss_loop J bs sig' (ht_insert key sig' t)))"

fun networks_loop :: "'j pbnjson \<Rightarrow> 'j list \<Rightarrow> bool \<Rightarrow> int \<Rightarrow> (string \<times> int) list \<Rightarrow> (string \<times> int) list option" where
  "networks_loop J [] rng sig t = Some t"
| "networks_loop J (n # ns) rng sig t =
    (case jobject_get_exists J n ''networkInfo'' of
       None \<Rightarrow> networks_loop J ns rng sig t
     | Some info \<Rightarrow>
         (case jobject_get_exists J info ''available'' of
            None \<Rightarrow> networks_loop J ns rng sig t
          | Some av \<Rightarrow>
              let rng' = snd (jboolean_get J av rng)
              in if \<not> rng' then networks_loop J ns rng' sig t
                 else (case jobject_get_exists J info ''bssInfo'' of
                     None \<Rightarrow> networks_loop J ns rng' sig t
                   | Some arr \<Rightarrow>
                       (case bss_loop J (List.map (jarray_get J arr) [0..<jarray_size J arr]) sig t of
                          None \<Rightarrow> None
                        | Some (sig', t') \<Rightarrow> networks_loop J ns rng' sig' t'))))"

definition wifiAccessPointsCb :: "'j net_env \<Rightarrow> string \<Rightarrow> NetworkPositionProvider \<Rightarrow> NetworkPositionProvider option" where
  "wifiAccessPointsCb E payload s =
    (let J = ne_json E; parsed = jdom_parse J SCHEMA_ALL payload
     in if jis_null J parsed then Some s
        else (case jobject_get_exists J parsed ''foundNetworks'' of
            None \<Rightarrow> Some s
          | Some arr \<Rightarrow>
              (case networks_loop J (List.map (jarray_get J arr) [0..<jarray_size J arr]) False 0 [] of
                 None \<Rightarrow> None
               | Some t \<Rightarrow> Some (onUpdateWifiData E t s))))"

definition cellDataCb :: "'j net_env \<Rightarrow> string \<Rightarrow> NetworkPositionProvider \<Rightarrow> NetworkPositionProvider" where
  "cellDataCb E payload s =
    (let J = ne_json E; parsed = jdom_parse J SCHEMA_ALL payload
     in if jis_null J parsed then s
        else (case jobject_get_exists J parsed ''errorCode'' of
            None \<Rightarrow> s
          | Some ec \<Rightarrow>
              if snd (jnumber_get_i32 J ec 0) \<noteq> 0 then s
              else (case jobject_get_exists J parsed ''data'' of
                  None \<Rightarrow> s
                | Some d \<Rightarrow> onUpdateCellData E (ne_tostring E (ODup d)) s)))"

abbreviation GET_NETWORKS :: string where "GET_NETWORKS \<equiv> ''luna://com.webos.service.wifi/getNetworks''"
abbreviation CELL_INFO :: string where "CELL_INFO \<equiv> ''luna://com.webos.service.telephony/getCellInfo''"

definition registerForWifiAccessPoints :: "'j net_env \<Rightarrow> NetworkPositionProvider \<Rightarrow> NetworkPositionProvider" where
  "registerForWifiAccessPoints E s = (if ne_bus_ok E GET_NETWORKS then upd_regs (\<lambda>r. r\<lparr>mWifiInfoReq := True\<rparr>) s else s)"

definition registerForCellInfo :: "'j net_env \<Rightarrow> NetworkPositionProvider \<Rightarrow> NetworkPositionProvider" where
  "registerForCellInfo E s = (if ne_bus_ok E CELL_INFO then upd_regs (\<lambda>r. r\<lparr>mCellInfoReq := True\<rparr>) s else s)"

definition unregisterForWifiAccessPoints :: "'j net_env \<Rightarrow> NetworkPositionProvider \<Rightarrow> bool \<times> NetworkPositionProvider" where
  "unregisterForWifiAccessPoints E s =
    (if mWifiInfoReq (regs s)
     then if \<not> ne_cancel_ok E then (False, s) else (True, upd_regs (\<lambda>r. r\<lparr>mWifiInfoReq := False\<rparr>) s)
     else (True, s))"

definition unregisterForCellInfo :: "'j net_env \<Rightarrow> NetworkPositionProvider \<Rightarrow> bool \<times> NetworkPositionProvider" where
  "unregisterForCellInfo E s =
    (if mCellInfoReq (regs s)
     then if \<not> ne_cancel_ok E then (False, s) else (True, upd_regs (\<lambda>r. r\<lparr>mCellInfoReq := False\<rparr>) s)
     else (True, s))"

text \<open>
  The watches of the two services. \<^verbatim>\<open>unregisterServiceStatus\<close> forgets the cookie whether or not the
  bus accepts the cancellation. \<^verbatim>\<open>lunaServiceCall\<close> keeps a trace; its callback \<^verbatim>\<open>scanCb\<close> only logs.
\<close>

abbreviation WIFI_SERVICE :: string where "WIFI_SERVICE \<equiv> ''com.webos.service.wifi''"
abbreviation TELEPHONY_SERVICE :: string where "TELEPHONY_SERVICE \<equiv> ''com.webos.service.telephony''"
abbreviation SCAN_METHOD :: string where "SCAN_METHOD \<equiv> ''luna://com.webos.service.wifi/scan''"
abbreviation SCAN_PAYLOAD :: string where "SCAN_PAYLOAD \<equiv> ''{}''"

datatype net_cookie = TelephonyCookie | WifiCookie

primrec has_cookie :: "net_cookie \<Rightarrow> NetRegs \<Rightarrow> bool" where
  "has_cookie TelephonyCookie r = mTelephonyCookie r"
| "has_cookie WifiCookie r = mWifiCookie r"

primrec put_cookie :: "net_cookie \<Rightarrow> bool \<Rightarrow> NetRegs \<Rightarrow> NetRegs" where
  "put_cookie TelephonyCookie b r = r\<lparr>mTelephonyCookie := b\<rparr>"
| "put_cookie WifiCookie b r = r\<lparr>mWifiCookie := b\<rparr>"

definition registerServiceStatus ::
  "'j net_env \<Rightarrow> string \<Rightarrow> net_cookie \<Rightarrow> NetworkPositionProvider \<Rightarrow> bool \<times> NetworkPositionProvider" where
  "registerServiceStatus E service cookie s =
    (if ne_bus_ok E service then (True, upd_regs (put_cookie cookie True) s) else (False, s))"

definition unregisterServiceStatus :: "'j net_env \<Rightarrow> net_cookie \<Rightarrow> NetworkPositionProvider \<Rightarrow> bool \<times> NetworkPositionProvider" where
  "unregisterServiceStatus E cookie s =
    (if \<not> has_cookie cookie (regs s) then (False, s) else (ne_cancel_ok E, upd_regs (put_cookie cookie False) s))"

definition lunaServiceCall :: "'j net_env \<Rightarrow> string \<Rightarrow> string \<Rightarrow> NetworkPositionProvider \<Rightarrow> bool \<times> NetworkPositionProvider" where
  "lunaServiceCall E uri payload s = (ne_bus_ok E uri, s\<lparr>net_calls := net_calls s @ [(uri, payload)]\<rparr>)"

definition wifiServiceStatusUpdate :: "'j net_env \<Rightarrow> bool \<Rightarrow> NetworkPositionProvider \<Rightarrow> NetworkPositionProvider" where
  "wifiServiceStatusUpdate E up s = (if up \<and> mProcessRequestInProgress s then registerForWifiAccessPoints E s else s)"

definition telephonyServiceStatusUpdate :: "'j net_env \<Rightarrow> bool \<Rightarrow> NetworkPositionProvider \<Rightarrow> NetworkPositionProvider" where
  "telephonyServiceStatusUpdate E up s = (if up \<and> mProcessRequestInProgress s then registerForCellInfo E s else s)"

definition serviceStatusCb :: "'j net_env \<Rightarrow> string option \<Rightarrow> bool \<Rightarrow> NetworkPositionProvider \<Rightarrow> bool \<times> NetworkPositionProvider" where
  "serviceStatusCb E serviceName up s =
    (case serviceName of
       None \<Rightarrow> (False, s)
     | Some v \<Rightarrow>
         (True, if v = WIFI_SERVICE then wifiServiceStatusUpdate E up s
                else if v = TELEPHONY_SERVICE then telephonyServiceStatusUpdate E up s else s))"

subsection \<open>Replies and requests\<close>

definition last_fix :: "NetworkPositionData \<Rightarrow> GeoLocation" where
  "last_fix d = geo_location (lastLatitude d) (lastLongitude d) (-1) (lastAccuracy d) (of_int (lastTimeStamp d)) (-1) (-1) (-1) (-1)"

text \<open>
  \<^verbatim>\<open>parseHTTPResponse\<close>: the error number and the three out-variables. A missing field is the null
  value \<^verbatim>\<open>jobject_get\<close> returns, from which no number converts.
\<close>

definition field_f64 :: "'j pbnjson \<Rightarrow> 'j option \<Rightarrow> string \<Rightarrow> double \<Rightarrow> bool \<times> double" where
  "field_f64 J obj k x =
    (case obj of
       None \<Rightarrow> (False, x)
     | Some p \<Rightarrow> (case jobject_get_exists J p k of None \<Rightarrow> (False, x) | Some v \<Rightarrow> jnumber_get_f64 J v x))"

definition parseHTTPResponse :: "'j pbnjson \<Rightarrow> string option \<Rightarrow> int \<times> double \<times> double \<times> double" where
  "parseHTTPResponse J body =
    (case body of
       None \<Rightarrow> (ERROR_NO_DATA, 0, 0, 0)
     | Some b \<Rightarrow>
         let parsed = jdom_parse J SCHEMA_ALL b
         in if jis_null J parsed then (ERROR_NO_DATA, 0, 0, 0)
            else (case jobject_get_exists J parsed ''error'' of
                Some e \<Rightarrow> (get_i32 J e ''code'' ERROR_NO_DATA, 0, 0, 0)
              | None \<Rightarrow>
                  let loc = jobject_get_exists J parsed ''location'';
                      (ok1, lat) = field_f64 J loc ''lat'' 0
                  in if \<not> ok1 then (ERROR_NO_DATA, lat, 0, 0)
                     else
                       let (ok2, lng) = field_f64 J loc ''lng'' 0
                       in if \<not> ok2 then (ERROR_NO_DATA, lat, lng, 0)
                          else
                            let (ok3, acc) = field_f64 J (Some parsed) ''accuracy'' 0
                            in (0, lat, lng, if ok3 then acc else 0)))"

definition network_fix :: "'j net_env \<Rightarrow> double \<Rightarrow> double \<Rightarrow> double \<Rightarrow> GeoLocation" where
  "network_fix E lat lng acc = geo_location lat lng (-1) acc (of_int (ne_now E)) (-1) (-1) (-1) (-1)"

text \<open>
  \<open>net_stored\<close> is the trace of the positions given to \<^verbatim>\<open>set_store_position\<close> for the file of this provider
  (\<^theory_text>\<open>Stored_Position\<close> says what it writes); the callback gets the same numbers.
\<close>

definition handleResponse :: "'j net_env \<Rightarrow> nat option \<Rightarrow> HttpReqTask \<Rightarrow> NetworkPositionProvider \<Rightarrow> NetworkPositionProvider" where
  "handleResponse E task k s =
    (case task of
       None \<Rightarrow> s
     | Some t \<Rightarrow>
         let s1 = s\<lparr>http := clearTransaction t (http s)\<rparr>
         in if httpResponseCode k = HTTP_STATUS_CODE_SUCCESS then
              let (response, lat, lng, acc) = parseHTTPResponse (ne_json E) (responseData k);
                  d = mPositionData s1
              in if response \<noteq> 0 then s1
                 else if lat = lastLatitude d \<and> lng = lastLongitude d \<and> acc = lastAccuracy d
                 then upd_pd (\<lambda>d. d\<lparr>lastTimeStamp := ne_now E\<rparr>) s1
                 else
                   let (b, s2) = currentBackend E s1;
                       s3 = (upd_pd (\<lambda>d. d\<lparr>lastLatitude := lat, lastLongitude := lng, lastAccuracy := acc,
                                           lastTimeStamp := ne_now E\<rparr>) s2)
                          \<lparr>mFixBackend := b, net_stored := net_stored s2 @ [network_fix E lat lng acc]\<rparr>
                   in net_call_back (NetLocation (network_fix E lat lng acc) ERROR_NONE) s3
            else net_call_back (NetLocation (geo_location 0 0 (-1) 0 (of_int (ne_now E)) (-1) (-1) (-1) (-1)) ERROR_NETWORK_ERROR) s1)"

text \<open>The 60 second timer; it calls back through the callback pointer unchecked.\<close>

definition networkUpdateCallback :: "'j net_env \<Rightarrow> NetworkPositionProvider \<Rightarrow> NetworkPositionProvider option" where
  "networkUpdateCallback E s =
    (if \<not> mConnectivityStatus s then
       (if np_callback s then Some (net_call_back (NetLocation (last_fix (mPositionData s)) ERROR_NETWORK_ERROR) s) else None)
     else if mwifiStatus s then Some (snd (lunaServiceCall E SCAN_METHOD SCAN_PAYLOAD s))
     else if mtelephonyPowerd s then Some (snd (triggerPostQuery E s))
     else Some s)"

definition network_mocked :: "NetworkPositionProvider \<Rightarrow> bool" where
  "network_mocked s =
    (case get_mock_location_provider ''network'' (mock_location_provider (snd (net_mock s))) of
       None \<Rightarrow> False | Some mlp \<Rightarrow> has_flag (mp_flag mlp) MOCKLOC_FLAG_ENABLED)"

definition np_processRequest :: "'j net_env \<Rightarrow> PositionRequest \<Rightarrow> NetworkPositionProvider \<Rightarrow> ErrorCodes \<times> NetworkPositionProvider" where
  "np_processRequest E r s =
    (if \<not> np_enabled s then (ERROR_NOT_STARTED, s)
     else case mRequestType r of
       POSITION_CMD \<Rightarrow>
         (if network_mocked s then
               let (ok, s1) = networkPostQuery E None (Some []) s
               in if \<not> ok then (ERROR_NETWORK_ERROR, s1) else (ERROR_NONE, s1\<lparr>mMockRequestInProgress := True\<rparr>)
             else if mProcessRequestInProgress s then
               (if np_callback s \<and> lastTimeStamp (mPositionData s) > 0 then
                  let (b, s1) = currentBackend E s
                  in if mFixBackend s1 = b
                     then (ERROR_NONE, net_call_back (NetLocation (last_fix (mPositionData s1)) ERROR_NONE) s1)
                     else (ERROR_NONE, s1)
                else (ERROR_NONE, s))
             else
               let (b, s1) = currentBackend E s;
                   s2 = (if b = Google \<and> nwGeolocationKey (mPositionData s1) = None
                         then upd_pd (\<lambda>d. d\<lparr>nwGeolocationKey := readApiKey E\<rparr>) s1 else s1)
               in if b = Google \<and> nwGeolocationKey (mPositionData s2) = None
                  then (ERROR_LICENSE_KEY_INVALID, s2)
                  else (ERROR_NONE,
                    (snd (registerServiceStatus E WIFI_SERVICE WifiCookie
                       (snd (registerServiceStatus E TELEPHONY_SERVICE TelephonyCookie
                         ((snd (lunaServiceCall E SCAN_METHOD SCAN_PAYLOAD s2))\<lparr>mProcessRequestInProgress := True\<rparr>)))))
                      \<lparr>mTimeoutId := ne_timer E, net_timers := net_timers s2 @ [ne_timer E]\<rparr>))
     | STOP_POSITION_CMD \<Rightarrow>
         (if mMockRequestInProgress s then
            (ERROR_NONE, upd_pd resetData (s\<lparr>mMockRequestInProgress := False\<rparr>))
          else if \<not> mProcessRequestInProgress s then (ERROR_NOT_STARTED, s)
          else
            let s1 = s\<lparr>mProcessRequestInProgress := False\<rparr>;
                s2 = snd (unregisterServiceStatus E TelephonyCookie (snd (unregisterServiceStatus E WifiCookie
                       (snd (unregisterForCellInfo E (snd (unregisterForWifiAccessPoints E s1)))))));
                s3 = (if mTimeoutId s2 \<noteq> 0
                      then s2\<lparr>net_timers := remove1 (mTimeoutId s2) (net_timers s2), mTimeoutId := 0\<rparr> else s2)
            in (ERROR_NONE, (upd_pd resetData s3)\<lparr>misFirstCellResponse := True\<rparr>))
     | _ \<Rightarrow> (ERROR_NONE, s))"

subsection \<open>Notifications\<close>

definition np_Handle_WifiNotification :: "bool \<Rightarrow> NetworkPositionProvider \<Rightarrow> NetworkPositionProvider" where
  "np_Handle_WifiNotification st s = s\<lparr>mwifiStatus := st\<rparr>"

definition np_Handle_ConnectivityNotification :: "bool \<Rightarrow> NetworkPositionProvider \<Rightarrow> NetworkPositionProvider" where
  "np_Handle_ConnectivityNotification st s = s\<lparr>mConnectivityStatus := st\<rparr>"

definition np_Handle_TelephonyNotification :: "bool \<Rightarrow> NetworkPositionProvider \<Rightarrow> NetworkPositionProvider" where
  "np_Handle_TelephonyNotification st s =
    (let s1 = s\<lparr>mtelephonyPowerd := st\<rparr>
     in if \<not> st then upd_pd (\<lambda>d. d\<lparr>cellInfo := None, curCellid := 0\<rparr>) s1 else s1)"

end
