(* ===== verification/C_Numbers.thy ===== *)
theory C_Numbers
  imports Gps_Config
begin

text \<open>
  Numbers as the C library prints and reads them: \<^verbatim>\<open>%d\<close> and \<^verbatim>\<open>%.nf\<close>, \<^verbatim>\<open>g_ascii_strtoll\<close>, and what
  \<^verbatim>\<open>g_ascii_strtod\<close> promises on the texts \<^verbatim>\<open>printf\<close> produces (\<open>strtod_ok\<close>).
\<close>

subsection \<open>Printing\<close>

definition digit_chr :: "nat \<Rightarrow> char" where
  "digit_chr d = char_of (48 + d)"

fun dec_nat :: "nat \<Rightarrow> string" where
  "dec_nat n = (if n < 10 then [digit_chr n] else dec_nat (n div 10) @ [digit_chr (n mod 10)])"

declare dec_nat.simps [simp del]

definition pct_d :: "int \<Rightarrow> string" where
  "pct_d i = (if i < 0 then CHR ''-'' # dec_nat (nat (- i)) else dec_nat (nat i))"

text \<open>Rounding to nearest, ties to even, the mode \<^verbatim>\<open>printf\<close> rounds in.\<close>

definition round_even :: "double \<Rightarrow> int" where
  "round_even x =
    (let f = \<lfloor>x\<rfloor>; d = x - of_int f
     in if d < 1/2 then f else if d > 1/2 then f + 1 else if even f then f else f + 1)"

text \<open>\<open>n\<close> digits, with leading zeros.\<close>

primrec pad_dec :: "nat \<Rightarrow> nat \<Rightarrow> string" where
  "pad_dec 0 k = []"
| "pad_dec (Suc n) k = pad_dec n (k div 10) @ [digit_chr (k mod 10)]"

definition printf_f :: "nat \<Rightarrow> double \<Rightarrow> string" where
  "printf_f n x =
    (let k = nat (round_even (abs x * 10 ^ n))
     in (if x < 0 then ''-'' else []) @ dec_nat (k div 10 ^ n) @ ''.'' @ pad_dec n (k mod 10 ^ n))"

subsection \<open>Reading\<close>

text \<open>\<^verbatim>\<open>g_ascii_strtoll(s, NULL, 10)\<close> saturates.\<close>

definition g_ascii_strtoll :: "string \<Rightarrow> int" where
  "g_ascii_strtoll s = max (- (2 ^ 63)) (min (2 ^ 63 - 1) (strtol 10 s))"

text \<open>
  \<^verbatim>\<open>g_ascii_strtod\<close> is a parameter; on a plain decimal it yields the number the text denotes.
\<close>

definition is_digits :: "string \<Rightarrow> bool" where
  "is_digits s \<longleftrightarrow> s \<noteq> [] \<and> list_all (\<lambda>c. 48 \<le> (of_char c :: nat) \<and> (of_char c :: nat) \<le> 57) s"

definition dec_value :: "string \<Rightarrow> string \<Rightarrow> double" where
  "dec_value i f = of_int (digits_val 10 0 i) + of_int (digits_val 10 0 f) / 10 ^ length f"

definition strtod_ok :: "(string \<Rightarrow> double) \<Rightarrow> bool" where
  "strtod_ok strtod \<longleftrightarrow>
    (\<forall>i f. is_digits i \<longrightarrow> is_digits f \<longrightarrow>
      strtod (i @ ''.'' @ f) = dec_value i f \<and> strtod (''-'' @ i @ ''.'' @ f) = - dec_value i f)"

subsection \<open>Lemmas\<close>

lemma of_char_digit [simp]: "d < 10 \<Longrightarrow> (of_char (digit_chr d) :: nat) = 48 + d"
  by (simp add: digit_chr_def)

lemma digit_of_digit [simp]: "d < 10 \<Longrightarrow> digit_of (digit_chr d) = Some d"
  by (simp add: digit_of_def)

lemma is_digits_append: "is_digits a \<Longrightarrow> is_digits b \<Longrightarrow> is_digits (a @ b)"
  by (simp add: is_digits_def)

lemma is_digits_one [simp]: "d < 10 \<Longrightarrow> is_digits [digit_chr d]"
  by (simp add: is_digits_def)

lemma is_digits_dec [simp]: "is_digits (dec_nat n)"
proof (induction n rule: dec_nat.induct)
  case (1 n)
  then show ?case
    by (subst dec_nat.simps) (simp add: is_digits_append)
qed

lemma is_digits_pad [simp]: "0 < n \<Longrightarrow> is_digits (pad_dec n k)"
proof (induction n arbitrary: k)
  case (Suc n)
  then show ?case by (cases "n = 0") (simp_all add: is_digits_append)
qed simp

lemma length_pad [simp]: "length (pad_dec n k) = n"
  by (induction n arbitrary: k) simp_all

lemma digit_of_digits:
  assumes "48 \<le> (of_char c :: nat)" and "(of_char c :: nat) \<le> 57"
  shows "digit_of c = Some (of_char c - 48) \<and> (of_char c :: nat) - 48 < 10"
  using assms by (simp add: digit_of_def)

lemma digits_val_append:
  "list_all (\<lambda>c. 48 \<le> (of_char c :: nat) \<and> (of_char c :: nat) \<le> 57) a \<Longrightarrow>
    digits_val 10 acc (a @ b) = digits_val 10 (digits_val 10 acc a) b"
  by (induction a arbitrary: acc) (auto dest: digit_of_digits)

lemma digits_val_snoc:
  "is_digits a \<Longrightarrow> d < 10 \<Longrightarrow> digits_val 10 acc (a @ [digit_chr d]) = digits_val 10 acc a * 10 + int d"
  by (simp add: is_digits_def digits_val_append)

lemma length_dec_nat: "n < 10 ^ m \<Longrightarrow> 0 < m \<Longrightarrow> length (dec_nat n) \<le> m"
proof (induction m arbitrary: n)
  case (Suc m)
  show ?case
  proof (cases "n < 10")
    case False
    then have "n div 10 < 10 ^ m" "0 < m"
      using Suc.prems by (cases m; simp add: less_mult_imp_div_less mult.commute)+
    then show ?thesis using Suc.IH [of "n div 10"] False by (subst dec_nat.simps) simp
  qed (subst dec_nat.simps, simp)
qed simp

lemma digits_val_dec [simp]: "digits_val 10 0 (dec_nat n) = int n"
proof (induction n rule: dec_nat.induct)
  case (1 n)
  show ?case
  proof (cases "n < 10")
    case True
    then show ?thesis by (subst dec_nat.simps) simp
  next
    case False
    then have "digits_val 10 0 (dec_nat n) = int (n div 10) * 10 + int (n mod 10)"
      using 1 by (subst dec_nat.simps) (simp add: digits_val_snoc)
    then show ?thesis by (simp add: zdiv_int zmod_int)
  qed
qed

lemma digits_val_pad: "0 < n \<Longrightarrow> k < 10 ^ n \<Longrightarrow> digits_val 10 0 (pad_dec n k) = int k"
proof (induction n arbitrary: k)
  case (Suc n)
  show ?case
  proof (cases "n = 0")
    case False
    have "k div 10 < 10 ^ n" using Suc.prems(2) by (simp add: less_mult_imp_div_less mult.commute)
    then have "digits_val 10 0 (pad_dec n (k div 10)) = int (k div 10)" using Suc.IH False by simp
    then show ?thesis using False by (simp add: digits_val_snoc zdiv_int zmod_int)
  qed (use Suc.prems in simp)
qed simp

lemma dec_nat_head: "\<exists>c cs. dec_nat n = c # cs \<and> 48 \<le> (of_char c :: nat) \<and> (of_char c :: nat) \<le> 57"
  using is_digits_dec [of n] unfolding is_digits_def by (cases "dec_nat n") auto

lemma digit_not_space:
  "48 \<le> (of_char c :: nat) \<Longrightarrow> \<not> isspace c \<and> c \<noteq> CHR ''-'' \<and> c \<noteq> CHR ''+''"
  by (auto simp: isspace_def)

lemma strtol_pct_d: "strtol 10 (pct_d i) = i"
proof -
  obtain c cs where n: "dec_nat (nat i) = c # cs" "48 \<le> (of_char c :: nat)" using dec_nat_head by blast
  have "\<not> isspace (CHR ''-'')" by (simp add: isspace_def)
  then show ?thesis
    using digit_not_space [OF n(2)] digits_val_dec [of "nat i"] n(1)
    by (simp add: strtol_def pct_d_def del: digits_val.simps)
qed

lemma strtoll_pct_d: "- (2 ^ 63) \<le> i \<Longrightarrow> i < 2 ^ 63 \<Longrightarrow> g_ascii_strtoll (pct_d i) = i"
  by (simp add: g_ascii_strtoll_def strtol_pct_d)

lemma round_even_near: "\<bar>of_int (round_even x) - x\<bar> \<le> 1/2"
proof -
  have "0 \<le> x - of_int \<lfloor>x\<rfloor>" "x - of_int \<lfloor>x\<rfloor> < 1" by linarith+
  then show ?thesis by (auto simp: round_even_def Let_def)
qed

lemma round_even_nonneg: "0 \<le> x \<Longrightarrow> 0 \<le> round_even x"
  by (simp add: round_even_def Let_def)

text \<open>The number \<^verbatim>\<open>%.nf\<close> prints.\<close>

definition dec_round :: "nat \<Rightarrow> double \<Rightarrow> double" where
  "dec_round n x = (if x < 0 then -1 else 1) * of_int (round_even (abs x * 10 ^ n)) / 10 ^ n"

lemma dec_round_near: "\<bar>dec_round n x - x\<bar> \<le> 1 / (2 * 10 ^ n)"
proof -
  have p: "(0::double) < 10 ^ n" by simp
  have "\<bar>of_int (round_even (\<bar>x\<bar> * 10 ^ n)) - \<bar>x\<bar> * 10 ^ n\<bar> / 10 ^ n \<le> 1/2 / (10 ^ n :: double)"
    using round_even_near by (rule divide_right_mono) simp
  also have "\<bar>of_int (round_even (\<bar>x\<bar> * 10 ^ n)) - \<bar>x\<bar> * 10 ^ n\<bar> / 10 ^ n
      = \<bar>of_int (round_even (\<bar>x\<bar> * 10 ^ n)) / 10 ^ n - \<bar>x\<bar>\<bar>"
    using p by (simp add: field_simps abs_divide flip: abs_mult)
  also have "\<dots> = \<bar>dec_round n x - x\<bar>"
    using abs_minus_cancel [of "of_int (round_even (- (x * 10 ^ n))) / 10 ^ n + x"]
    by (simp add: dec_round_def del: abs_minus_cancel)
  finally show ?thesis by simp
qed

lemma strtod_printf:
  assumes "strtod_ok strtod" and "0 < n"
  shows "strtod (printf_f n x) = dec_round n x"
proof -
  define k where "k = nat (round_even (abs x * 10 ^ n))"
  have k: "round_even (abs x * 10 ^ n) = int k" using round_even_nonneg [of "abs x * 10 ^ n"] by (simp add: k_def)
  have v: "dec_value (dec_nat (k div 10 ^ n)) (pad_dec n (k mod 10 ^ n)) = of_nat k / 10 ^ n"
  proof -
    have "dec_value (dec_nat (k div 10 ^ n)) (pad_dec n (k mod 10 ^ n))
        = of_nat (k div 10 ^ n) + of_nat (k mod 10 ^ n) / 10 ^ n"
      using assms(2) by (simp add: dec_value_def digits_val_pad)
    also have "\<dots> = of_nat (k div 10 ^ n * 10 ^ n + k mod 10 ^ n) / 10 ^ n"
      by (simp add: add_divide_distrib del: div_mult_mod_eq)
    finally show ?thesis by (simp only: div_mult_mod_eq)
  qed
  show ?thesis
    using assms v unfolding strtod_ok_def
    by (simp add: printf_f_def dec_round_def k flip: k_def)
qed

text \<open>A \<^verbatim>\<open>strtod\<close> for plain decimals.\<close>

definition dec_strtod :: "string \<Rightarrow> double" where
  "dec_strtod s =
    (let neg = (case s of [] \<Rightarrow> False | c # _ \<Rightarrow> c = CHR ''-''); t = (if neg then tl s else s);
         v = dec_value (takeWhile (\<lambda>c. c \<noteq> CHR ''.'') t) (drop 1 (dropWhile (\<lambda>c. c \<noteq> CHR ''.'') t))
     in if neg then - v else v)"

lemma dec_strtod_ok: "strtod_ok dec_strtod"
  unfolding strtod_ok_def
proof (intro allI impI)
  fix i f :: string assume i: "is_digits i" and f: "is_digits f"
  have "c \<noteq> CHR ''.''" if "c \<in> set i" for c using i that by (auto simp: is_digits_def list_all_iff)
  then have "takeWhile (\<lambda>c. c \<noteq> CHR ''.'') (i @ ''.'' @ f) = i" "dropWhile (\<lambda>c. c \<noteq> CHR ''.'') (i @ ''.'' @ f) = ''.'' @ f"
    by (simp_all add: takeWhile_append2 dropWhile_append2)
  moreover obtain c cs where "i = c # cs" "c \<noteq> CHR ''-''"
    using i digit_not_space by (cases i) (auto simp: is_digits_def)
  ultimately show "dec_strtod (i @ ''.'' @ f) = dec_value i f \<and> dec_strtod (''-'' @ i @ ''.'' @ f) = - dec_value i f"
    by (simp add: dec_strtod_def)
qed

end
