(* ===== verification/Stored_Position.thy ===== *)
theory Stored_Position
  imports C_Numbers
begin

text \<open>
  The preference files of \<^verbatim>\<open>src/utils/db_util.cpp\<close> and the cached position kept in them by
  \<^verbatim>\<open>src/utils/Gps_stored_data.cpp\<close>. libxml2 is a parameter (record \<open>libxml\<close>) with the laws
  \<open>libxml_ok\<close>; \<open>'d\<close> are its documents and \<open>'f\<close> the contents of a file. A pointer argument
  is an option.
\<close>

subsection \<open>libxml2\<close>

text \<open>
  \<open>xml_children\<close> lists the children of the root element, each with its name and what
  \<^verbatim>\<open>xmlNodeListGetString\<close> returns for it; \<open>xmlNewDoc\<close> also stands for making the root;
  \<open>xmlSaveFormatFileEnc\<close> yields whether it succeeded and the file afterwards.
\<close>

record ('d, 'f) libxml =
  xmlReadFile :: "'f \<Rightarrow> 'd option"
  xmlDocGetRootElement :: "'d \<Rightarrow> bool"
  xml_children :: "'d \<Rightarrow> (string \<times> string option) list"
  xmlNewDoc :: "string \<Rightarrow> 'd option"
  xmlNewChild :: "string \<Rightarrow> string \<Rightarrow> 'd \<Rightarrow> 'd option"
  xmlUnlinkNode :: "nat \<Rightarrow> 'd \<Rightarrow> 'd"
  xmlSaveFormatFileEnc :: "'d \<Rightarrow> 'f option \<Rightarrow> bool \<times> 'f option"

text \<open>
  What libxml2 documents: a child is appended after its siblings, with a text that needs no
  escaping as its content; a document reads back as it was saved, except for the white space
  the formatting inserts as text nodes.
\<close>

definition plain :: "string \<Rightarrow> bool" where
  "plain v \<longleftrightarrow> v \<noteq> [] \<and> list_all (\<lambda>c. 32 < (of_char c :: nat) \<and> (of_char c :: nat) < 127 \<and> c \<noteq> CHR 0x26 \<and> c \<noteq> CHR ''<'') v"

abbreviation elements :: "(string \<times> string option) list \<Rightarrow> (string \<times> string option) list" where
  "elements ns \<equiv> filter (\<lambda>n. fst n \<noteq> ''text'') ns"

definition libxml_ok :: "('d, 'f) libxml \<Rightarrow> bool" where
  "libxml_ok X \<longleftrightarrow>
    (\<forall>t d. xmlNewDoc X t = Some d \<longrightarrow> xmlDocGetRootElement X d \<and> xml_children X d = []) \<and>
    (\<forall>k v d d'. plain v \<longrightarrow> xmlNewChild X k v d = Some d' \<longrightarrow>
      xmlDocGetRootElement X d' = xmlDocGetRootElement X d \<and> xml_children X d' = xml_children X d @ [(k, Some v)]) \<and>
    (\<forall>i d. i < length (xml_children X d) \<longrightarrow> xmlDocGetRootElement X (xmlUnlinkNode X i d) = xmlDocGetRootElement X d \<and>
      xml_children X (xmlUnlinkNode X i d) = take i (xml_children X d) @ drop (Suc i) (xml_children X d)) \<and>
    (\<forall>d f. fst (xmlSaveFormatFileEnc X d f) \<longrightarrow>
      (\<exists>c d'. snd (xmlSaveFormatFileEnc X d f) = Some c \<and> xmlReadFile X c = Some d' \<and>
        xmlDocGetRootElement X d' = xmlDocGetRootElement X d \<and>
        elements (xml_children X d') = elements (xml_children X d)))"

subsection \<open>db_util\<close>

datatype DbErrorCodes =
    SUCCESS | IO_ERROR | NULL_VALUE | KEY_NOT_FOUND | PREFERENCE_NOT_FOUND | INVALID_KEY
  | INIT_ERROR | FILE_EXIST_ERROR | UNKNOWN_ERROR

record 'd DBHandle =
  doc :: "'d option"
  fileName :: "string option"

type_synonym 'f files = "string \<rightharpoonup> 'f"

definition handle_zero :: "'d DBHandle" where
  "handle_zero = \<lparr>doc = None, fileName = None\<rparr>"

definition openPreference ::
  "('d, 'f) libxml \<Rightarrow> 'f files \<Rightarrow> string option \<Rightarrow> 'd DBHandle option \<Rightarrow> DbErrorCodes \<times> 'd DBHandle option" where
  "openPreference X fs filename handle =
    (case (handle, filename) of
       (Some h, Some n) \<Rightarrow>
         let h1 = h\<lparr>fileName := Some n, doc := (case fs n of None \<Rightarrow> None | Some c \<Rightarrow> xmlReadFile X c)\<rparr>
         in (case doc h1 of
               None \<Rightarrow> (IO_ERROR, Some h1)
             | Some d \<Rightarrow> if \<not> xmlDocGetRootElement X d then (IO_ERROR, Some (h1\<lparr>doc := None\<rparr>)) else (SUCCESS, Some h1))
     | _ \<Rightarrow> (NULL_VALUE, handle))"

definition closePreference :: "'d DBHandle \<Rightarrow> 'd DBHandle" where
  "closePreference h = (if doc h \<noteq> None then h\<lparr>doc := None\<rparr> else h)"

text \<open>\<open>get\<close> of the source: the result code, the string handed out, the handle.\<close>

definition pref_get ::
  "('d, 'f) libxml \<Rightarrow> 'f files \<Rightarrow> 'd DBHandle option \<Rightarrow> string option \<Rightarrow> DbErrorCodes \<times> string option \<times> 'd DBHandle option" where
  "pref_get X fs handle keyVal =
    (case (handle, keyVal) of
       (Some h, Some k) \<Rightarrow>
         let ownDoc = (doc h = None);
             (ret, oh) = (if ownDoc then openPreference X fs (fileName h) (Some h) else (SUCCESS, Some h))
         in (case oh of
               None \<Rightarrow> (ret, None, None)
             | Some h1 \<Rightarrow>
                 if ret \<noteq> SUCCESS then (ret, None, Some h1)
                 else (case doc h1 of
                         None \<Rightarrow> (IO_ERROR, None, Some h1)
                       | Some d \<Rightarrow>
                           if \<not> xmlDocGetRootElement X d then (IO_ERROR, None, Some (if ownDoc then closePreference h1 else h1))
                           else
                             let result = (case map_of (xml_children X d) k of None \<Rightarrow> None | Some r \<Rightarrow> r);
                                 h2 = (if ownDoc then closePreference h1 else h1)
                             in (if result = None then KEY_NOT_FOUND else SUCCESS, result, Some h2)))
     | _ \<Rightarrow> (NULL_VALUE, None, handle))"

definition pref_put ::
  "('d, 'f) libxml \<Rightarrow> 'd DBHandle option \<Rightarrow> string option \<Rightarrow> string \<Rightarrow> DbErrorCodes \<times> 'd DBHandle option" where
  "pref_put X handle key v =
    (case key of
       None \<Rightarrow> (NULL_VALUE, handle)
     | Some k \<Rightarrow>
         (case handle of
            None \<Rightarrow> (INIT_ERROR, None)
          | Some h \<Rightarrow>
              (case doc h of
                 None \<Rightarrow> (INIT_ERROR, Some h)
               | Some d \<Rightarrow>
                   if \<not> xmlDocGetRootElement X d then (INIT_ERROR, Some h)
                   else (case xmlNewChild X k v d of
                           None \<Rightarrow> (UNKNOWN_ERROR, Some h)
                         | Some d' \<Rightarrow> (SUCCESS, Some (h\<lparr>doc := Some d'\<rparr>))))))"

definition pref_commit ::
  "('d, 'f) libxml \<Rightarrow> 'd DBHandle option \<Rightarrow> 'f files \<Rightarrow> DbErrorCodes \<times> 'd DBHandle option \<times> 'f files" where
  "pref_commit X handle fs =
    (case handle of
       None \<Rightarrow> (INIT_ERROR, None, fs)
     | Some h \<Rightarrow>
         (case (fileName h, doc h) of
            (Some n, Some d) \<Rightarrow>
              let (ok, c) = xmlSaveFormatFileEnc X d (fs n)
              in (if ok then SUCCESS else IO_ERROR, Some (closePreference h), fs(n := c))
          | _ \<Rightarrow> (INIT_ERROR, Some h, fs)))"

text \<open>The loop of \<open>deleteKey\<close>: the remaining children, the first of them at index \<open>i\<close>.\<close>

primrec unlink_key :: "('d, 'f) libxml \<Rightarrow> string \<Rightarrow> nat \<Rightarrow> (string \<times> string option) list \<Rightarrow> 'd \<Rightarrow> 'd" where
  "unlink_key X k i [] d = d"
| "unlink_key X k i (n # ns) d =
    (if fst n = k then unlink_key X k i ns (xmlUnlinkNode X i d) else unlink_key X k (Suc i) ns d)"

definition deleteKey ::
  "('d, 'f) libxml \<Rightarrow> 'f files \<Rightarrow> 'd DBHandle option \<Rightarrow> string option \<Rightarrow> DbErrorCodes \<times> 'd DBHandle option \<times> 'f files" where
  "deleteKey X fs handle keyVal =
    (case (handle, keyVal) of
       (Some h, Some k) \<Rightarrow>
         let h0 = closePreference h;
             (ret, oh) = openPreference X fs (fileName h0) (Some h0)
         in if ret \<noteq> SUCCESS then (ret, oh, fs)
            else pref_commit X
                   (map_option (\<lambda>h1. h1\<lparr>doc := map_option (\<lambda>d. unlink_key X k 0 (xml_children X d) d) (doc h1)\<rparr>) oh) fs
     | _ \<Rightarrow> (NULL_VALUE, handle, fs))"

definition isFileExists :: "'f files \<Rightarrow> string option \<Rightarrow> bool" where
  "isFileExists fs fname = (case fname of None \<Rightarrow> False | Some n \<Rightarrow> fs n \<noteq> None)"

definition createPreference ::
  "('d, 'f) libxml \<Rightarrow> 'f files \<Rightarrow> string option \<Rightarrow> 'd DBHandle option \<Rightarrow> string option \<Rightarrow> bool
    \<Rightarrow> DbErrorCodes \<times> 'd DBHandle option" where
  "createPreference X fs filename handle title enablecheck =
    (case (handle, title, filename) of
       (Some h, Some t, Some n) \<Rightarrow>
         if enablecheck \<and> isFileExists fs (Some n) then (FILE_EXIST_ERROR, handle)
         else (case xmlNewDoc X t of
                 None \<Rightarrow> (UNKNOWN_ERROR, handle)
               | Some d \<Rightarrow> (SUCCESS, Some (h\<lparr>doc := Some d, fileName := Some n\<rparr>)))
     | _ \<Rightarrow> (NULL_VALUE, handle))"

text \<open>The result of \<^verbatim>\<open>remove\<close> is handed out as it is: 0, or -1 when there is no such file.\<close>

definition deletePreference :: "'f files \<Rightarrow> string option \<Rightarrow> (DbErrorCodes + int) \<times> 'f files" where
  "deletePreference fs filename =
    (case filename of
       None \<Rightarrow> (Inl NULL_VALUE, fs)
     | Some n \<Rightarrow> (Inr (if fs n = None then - 1 else 0), fs(n := None)))"

subsection \<open>The stored position\<close>

record Position =
  p_timestamp :: int
  p_latitude :: double
  p_longitude :: double
  p_altitude :: double
  p_speed :: double
  p_direction :: double
  p_climb :: double

record Accuracy =
  horizAccuracy :: double
  vertAccuracy :: double

definition position_zero :: Position where
  "position_zero = \<lparr>p_timestamp = 0, p_latitude = 0, p_longitude = 0, p_altitude = 0, p_speed = 0, p_direction = 0, p_climb = 0\<rparr>"

definition accuracy_zero :: Accuracy where
  "accuracy_zero = \<lparr>horizAccuracy = 0, vertAccuracy = 0\<rparr>"

abbreviation (input) MAX_LEN :: nat where "MAX_LEN \<equiv> 64"

text \<open>The keys in the order they are put, with what \<^verbatim>\<open>snprintf\<close> leaves in the buffer.\<close>

definition stored_fields :: "Position \<Rightarrow> Accuracy \<Rightarrow> (string \<times> string) list" where
  "stored_fields p a =
    List.map (\<lambda>(k, v). (k, strlcpy MAX_LEN v))
      [(''timestamp'', pct_d (p_timestamp p)), (''latitude'', printf_f 7 (p_latitude p)),
       (''longitude'', printf_f 7 (p_longitude p)), (''altitude'', printf_f 7 (p_altitude p)),
       (''speed'', printf_f 6 (p_speed p)), (''direction'', printf_f 7 (p_direction p)),
       (''hor_accuracy'', printf_f 6 (horizAccuracy a)), (''ver_accuracy'', printf_f 6 (vertAccuracy a))]"

text \<open>The climb of the position is not an argument of the function and is not stored.\<close>

definition set_store_position ::
  "('d, 'f) libxml \<Rightarrow> Position \<Rightarrow> Accuracy \<Rightarrow> string option \<Rightarrow> 'f files \<Rightarrow> 'f files" where
  "set_store_position X p a path fs =
    (if path = None then fs
     else
       let (ret, h) = createPreference X fs path (Some handle_zero) (Some ''Location'') False
       in if ret \<noteq> SUCCESS then fs
          else
            let h1 = fold (\<lambda>(k, v) h. snd (pref_put X h (Some k) v)) (stored_fields p a) h
            in snd (snd (pref_commit X h1 fs)))"

text \<open>The keys in the order they are read, with the variable each of them fills.\<close>

definition read_steps :: "(string \<Rightarrow> double) \<Rightarrow> (string \<times> (string \<Rightarrow> Position \<times> Accuracy \<Rightarrow> Position \<times> Accuracy)) list" where
  "read_steps strtod =
    [(''timestamp'', \<lambda>v (p, a). (p\<lparr>p_timestamp := g_ascii_strtoll v\<rparr>, a)),
     (''latitude'', \<lambda>v (p, a). (p\<lparr>p_latitude := strtod v\<rparr>, a)),
     (''longitude'', \<lambda>v (p, a). (p\<lparr>p_longitude := strtod v\<rparr>, a)),
     (''altitude'', \<lambda>v (p, a). (p\<lparr>p_altitude := strtod v\<rparr>, a)),
     (''hor_accuracy'', \<lambda>v (p, a). (p, a\<lparr>horizAccuracy := strtod v\<rparr>)),
     (''ver_accuracy'', \<lambda>v (p, a). (p, a\<lparr>vertAccuracy := strtod v\<rparr>)),
     (''speed'', \<lambda>v (p, a). (p\<lparr>p_speed := strtod v\<rparr>, a)),
     (''direction'', \<lambda>v (p, a). (p\<lparr>p_direction := strtod v\<rparr>, a))]"

text \<open>\<^verbatim>\<open>read_int64\<close> and \<^verbatim>\<open>read_double\<close> joined by \<open>||\<close>: the first key that cannot be read ends the reading.\<close>

primrec read_all ::
  "('d, 'f) libxml \<Rightarrow> 'f files \<Rightarrow> 'd DBHandle option \<Rightarrow> (string \<times> (string \<Rightarrow> 'a \<Rightarrow> 'a)) list \<Rightarrow> 'a \<Rightarrow> ErrorCodes \<times> 'a" where
  "read_all X fs h [] x = (ERROR_NONE, x)"
| "read_all X fs h (s # ss) x =
    (case pref_get X fs h (Some (fst s)) of
       (ret, result, h') \<Rightarrow>
         (case result of
            None \<Rightarrow> (ERROR_NOT_AVAILABLE, x)
          | Some v \<Rightarrow> if ret \<noteq> SUCCESS then (ERROR_NOT_AVAILABLE, x) else read_all X fs h' ss (snd s v x)))"

definition get_stored_position ::
  "('d, 'f) libxml \<Rightarrow> (string \<Rightarrow> double) \<Rightarrow> 'f files \<Rightarrow> string option \<Rightarrow> Position \<times> Accuracy
    \<Rightarrow> ErrorCodes \<times> Position \<times> Accuracy" where
  "get_stored_position X strtod fs path out =
    (if path = None then (ERROR_NOT_AVAILABLE, out)
     else
       let (ret, h) = openPreference X fs path (Some handle_zero)
       in if ret \<noteq> SUCCESS then (ERROR_NOT_AVAILABLE, out) else read_all X fs h (read_steps strtod) out)"

subsection \<open>Lemmas\<close>

lemma libxml_okD:
  assumes "libxml_ok X"
  shows xml_new: "xmlNewDoc X t = Some d \<Longrightarrow> xmlDocGetRootElement X d \<and> xml_children X d = []"
    and xml_child: "plain v \<Longrightarrow> xmlNewChild X k v d = Some d' \<Longrightarrow>
      xmlDocGetRootElement X d' = xmlDocGetRootElement X d \<and> xml_children X d' = xml_children X d @ [(k, Some v)]"
    and xml_unlink: "i < length (xml_children X d) \<Longrightarrow> xmlDocGetRootElement X (xmlUnlinkNode X i d) = xmlDocGetRootElement X d
      \<and> xml_children X (xmlUnlinkNode X i d) = take i (xml_children X d) @ drop (Suc i) (xml_children X d)"
  using assms unfolding libxml_ok_def by blast+

lemma xml_save:
  assumes "libxml_ok X" and "xmlSaveFormatFileEnc X d f = (True, f')"
  obtains c d' where "f' = Some c" "xmlReadFile X c = Some d'" "xmlDocGetRootElement X d' = xmlDocGetRootElement X d"
    "elements (xml_children X d') = elements (xml_children X d)"
proof -
  have "fst (xmlSaveFormatFileEnc X d f) \<longrightarrow>
      (\<exists>c d'. snd (xmlSaveFormatFileEnc X d f) = Some c \<and> xmlReadFile X c = Some d' \<and>
        xmlDocGetRootElement X d' = xmlDocGetRootElement X d \<and>
        elements (xml_children X d') = elements (xml_children X d))"
    using assms(1) unfolding libxml_ok_def by blast
  then show thesis using that assms(2) by auto
qed

lemma elements_lookup: "k \<noteq> ''text'' \<Longrightarrow> map_of (elements ns) k = map_of ns k"
  by (induction ns) auto

lemma unlink_key_children:
  assumes "libxml_ok X" and "drop i (xml_children X d) = ns"
  shows "xml_children X (unlink_key X k i ns d) = take i (xml_children X d) @ filter (\<lambda>n. fst n \<noteq> k) ns
    \<and> xmlDocGetRootElement X (unlink_key X k i ns d) = xmlDocGetRootElement X d"
  using assms(2)
proof (induction ns arbitrary: i d)
  case Nil
  then show ?case by simp
next
  case (Cons n ns)
  have i: "i < length (xml_children X d)" using Cons.prems by (cases "i < length (xml_children X d)") simp_all
  have "xml_children X d ! i # drop (Suc i) (xml_children X d) = n # ns" using Cons_nth_drop_Suc [OF i] Cons.prems by simp
  then have n: "xml_children X d ! i = n" and r: "drop (Suc i) (xml_children X d) = ns" by simp_all
  show ?case
  proof (cases "fst n = k")
    case True
    note u = xml_unlink [OF assms(1) i]
    have "drop i (xml_children X (xmlUnlinkNode X i d)) = ns" using u i r by simp
    then show ?thesis using Cons.IH [of i "xmlUnlinkNode X i d"] u i True by simp
  next
    case False
    have "take (Suc i) (xml_children X d) = take i (xml_children X d) @ [n]" using i n by (simp add: take_Suc_conv_app_nth)
    then show ?thesis using Cons.IH [OF r] False by simp
  qed
qed

lemma pref_get_open:
  "doc h = Some d \<Longrightarrow> xmlDocGetRootElement X d \<Longrightarrow>
    pref_get X fs (Some h) (Some k) =
      (let r = (case map_of (xml_children X d) k of None \<Rightarrow> None | Some r \<Rightarrow> r)
       in (if r = None then KEY_NOT_FOUND else SUCCESS, r, Some h))"
  by (simp add: pref_get_def Let_def)

text \<open>Reading from an open document depends on its elements alone.\<close>

lemma read_all_open:
  assumes "doc h = Some d" and "xmlDocGetRootElement X d"
  shows "read_all X fs (Some h) ss x =
    (case ss of [] \<Rightarrow> (ERROR_NONE, x)
     | s # ss' \<Rightarrow> (case map_of (xml_children X d) (fst s) of
         Some (Some v) \<Rightarrow> read_all X fs (Some h) ss' (snd s v x)
       | _ \<Rightarrow> (ERROR_NOT_AVAILABLE, x)))"
  using assms by (cases ss) (auto simp: pref_get_open Let_def split: option.splits)

definition alloc_ok :: "('d, 'f) libxml \<Rightarrow> bool" where
  "alloc_ok X \<longleftrightarrow> (\<forall>t. xmlNewDoc X t \<noteq> None) \<and> (\<forall>k v d. xmlNewChild X k v d \<noteq> None) \<and> (\<forall>d f. fst (xmlSaveFormatFileEnc X d f))"

lemma put_all:
  assumes "libxml_ok X" and "alloc_ok X" and "doc h = Some d" and "xmlDocGetRootElement X d" and "list_all (plain \<circ> snd) kvs"
  shows "\<exists>d'. fold (\<lambda>(k, v) h. snd (pref_put X h (Some k) v)) kvs (Some h) = Some (h\<lparr>doc := Some d'\<rparr>)
    \<and> xmlDocGetRootElement X d' \<and> xml_children X d' = xml_children X d @ List.map (\<lambda>(k, v). (k, Some v)) kvs"
  using assms(3-5)
proof (induction kvs arbitrary: h d)
  case Nil
  then show ?case by (intro exI [of _ d]) simp
next
  case (Cons kv kvs)
  obtain k v where kv: "kv = (k, v)" by (cases kv)
  obtain d1 where d1: "xmlNewChild X k v d = Some d1" using assms(2) unfolding alloc_ok_def by blast
  note c = xml_child [OF assms(1) _ d1]
  from Cons.IH [of "h\<lparr>doc := Some d1\<rparr>" d1] Cons.prems c obtain d' where
    "fold (\<lambda>(k, v) h. snd (pref_put X h (Some k) v)) kvs (Some (h\<lparr>doc := Some d1\<rparr>)) = Some (h\<lparr>doc := Some d'\<rparr>)"
    "xmlDocGetRootElement X d'" "xml_children X d' = xml_children X d1 @ List.map (\<lambda>(k, v). (k, Some v)) kvs"
    by (auto simp: kv)
  then show ?case using Cons.prems c d1 by (intro exI [of _ d']) (simp add: kv pref_put_def)
qed

text \<open>The texts are plain and survive the buffer when they fit.\<close>

lemma digit_plain: "is_digits s \<Longrightarrow> plain s"
  by (auto simp: is_digits_def plain_def list_all_iff)

lemma plain_append: "plain a \<Longrightarrow> plain b \<Longrightarrow> plain (a @ b)"
  by (simp add: plain_def)

lemma plain_pct_d [simp]: "plain (pct_d i)"
  using digit_plain [OF is_digits_dec] plain_append [of "''-''"] by (auto simp: pct_d_def plain_def)

lemma plain_printf [simp]:
  assumes "0 < n" shows "plain (printf_f n x)"
proof -
  have "plain (dec_nat i @ ''.'' @ pad_dec n j)" for i j
    using digit_plain [OF is_digits_dec] digit_plain [OF is_digits_pad [OF assms]]
    by (intro plain_append) (simp_all add: plain_def)
  then show ?thesis using plain_append [of "''-''"] by (auto simp: printf_f_def Let_def plain_def)
qed

lemma plain_strlcpy: "plain v \<Longrightarrow> 1 < n \<Longrightarrow> plain (strlcpy n v)"
  unfolding plain_def strlcpy_def list_all_iff using in_set_takeD [of _ "n - 1" v] by (simp add: take_eq_Nil)

lemma strlcpy_fits: "length v < n \<Longrightarrow> strlcpy n v = v"
  by (simp add: strlcpy_def)

lemma stored_plain: "list_all (plain \<circ> snd) (stored_fields p a)"
  by (simp add: stored_fields_def plain_strlcpy)

text \<open>What a store leaves in its file.\<close>

lemma stored_file:
  assumes "libxml_ok X" and "alloc_ok X"
  shows "\<exists>c d. set_store_position X p a (Some n) fs = fs(n \<mapsto> c) \<and> xmlReadFile X c = Some d \<and> xmlDocGetRootElement X d
    \<and> (\<forall>k. k \<noteq> ''text'' \<longrightarrow> map_of (xml_children X d) k = map_option Some (map_of (stored_fields p a) k))"
proof -
  obtain d0 where d0: "xmlNewDoc X ''Location'' = Some d0" using assms(2) unfolding alloc_ok_def by blast
  define h :: "'a DBHandle" where "h = handle_zero\<lparr>doc := Some d0, fileName := Some n\<rparr>"
  have h: "doc h = Some d0" "fileName h = Some n" by (simp_all add: h_def)
  note n0 = xml_new [OF assms(1) d0]
  from put_all [OF assms h(1) _ stored_plain] n0 obtain d1 where
    d1: "fold (\<lambda>(k, v) h. snd (pref_put X h (Some k) v)) (stored_fields p a) (Some h) = Some (h\<lparr>doc := Some d1\<rparr>)"
      "xmlDocGetRootElement X d1" "xml_children X d1 = List.map (\<lambda>(k, v). (k, Some v)) (stored_fields p a)"
    by auto
  obtain ok c' where s: "xmlSaveFormatFileEnc X d1 (fs n) = (ok, c')" by (cases "xmlSaveFormatFileEnc X d1 (fs n)")
  have "ok" using assms(2) s unfolding alloc_ok_def by (metis fst_conv)
  with s have "xmlSaveFormatFileEnc X d1 (fs n) = (True, c')" by simp
  from xml_save [OF assms(1) this] obtain c d where
    c: "c' = Some c" "xmlReadFile X c = Some d" "xmlDocGetRootElement X d = xmlDocGetRootElement X d1"
      "elements (xml_children X d) = elements (xml_children X d1)" .
  have "set_store_position X p a (Some n) fs = fs(n \<mapsto> c)"
    using d0 d1(1) h s c(1) by (simp add: set_store_position_def createPreference_def pref_commit_def h_def Let_def)
  moreover have "map_of (xml_children X d) k = map_option Some (map_of (stored_fields p a) k)" if "k \<noteq> ''text''" for k
  proof -
    have "map_of (xml_children X d) k = map_of (xml_children X d1) k" using c(4) that by (metis elements_lookup)
    also have "\<dots> = map_option Some (map_of (stored_fields p a) k)"
      unfolding d1(3) by (simp add: map_of_map)
    finally show ?thesis .
  qed
  ultimately show ?thesis using c(2,3) d1(2) by blast
qed

text \<open>Ordinary numbers fit the buffer.\<close>

lemma pct_d_fits:
  assumes "- (2 ^ 63) \<le> i" and "i < 2 ^ 63" shows "length (pct_d i) < MAX_LEN"
proof -
  have "length (dec_nat (nat (abs i))) \<le> 19" using assms by (intro length_dec_nat) simp_all
  then show ?thesis by (auto simp: pct_d_def)
qed

lemma length_printf:
  "length (printf_f n x) = (if x < 0 then 2 else 1) + length (dec_nat (nat (round_even (\<bar>x\<bar> * 10 ^ n)) div 10 ^ n)) + n"
  unfolding printf_f_def Let_def length_append length_pad by (cases "x < 0") simp_all

lemma printf_fits:
  assumes "\<bar>x\<bar> \<le> 10 ^ 40" and "n \<le> 7" shows "length (printf_f n x) < MAX_LEN"
proof -
  define k where "k = round_even (\<bar>x\<bar> * 10 ^ n)"
  have "of_int k \<le> \<bar>x\<bar> * 10 ^ n + 1/2"
    using round_even_near [of "\<bar>x\<bar> * 10 ^ n"] unfolding k_def by linarith
  also have "\<dots> \<le> 10 ^ 40 * 10 ^ n + 1/2" using assms(1) by (simp add: mult_right_mono)
  also have "\<dots> < of_int (10 ^ 41 * 10 ^ n)"
  proof -
    have "10 ^ 40 * y + 1/2 < 10 ^ 41 * y" if "1 \<le> y" for y :: double using that by simp
    from this [of "10 ^ n"] show ?thesis by simp
  qed
  finally have "k < 10 ^ 41 * 10 ^ n" by (simp only: of_int_less_iff)
  moreover have "0 \<le> k" by (simp add: k_def round_even_nonneg)
  ultimately have "nat k < nat (10 ^ 41 * 10 ^ n)" by (subst nat_less_eq_zless) simp_all
  then have "nat k < 10 ^ 41 * 10 ^ n" by (simp add: nat_mult_distrib nat_power_eq)
  then have "nat k div 10 ^ n < 10 ^ 41" by (simp add: less_mult_imp_div_less)
  then have "length (dec_nat (nat k div 10 ^ n)) \<le> 41" by (intro length_dec_nat) simp_all
  then show ?thesis using assms(2) unfolding length_printf k_def [symmetric] by (cases "x < 0") simp_all
qed

subsection \<open>Properties\<close>

definition stored_again :: "Position \<Rightarrow> Accuracy \<Rightarrow> Position \<Rightarrow> Position \<times> Accuracy" where
  "stored_again p a p0 =
    (p0\<lparr>p_timestamp := p_timestamp p, p_latitude := dec_round 7 (p_latitude p), p_longitude := dec_round 7 (p_longitude p),
       p_altitude := dec_round 7 (p_altitude p), p_speed := dec_round 6 (p_speed p), p_direction := dec_round 7 (p_direction p)\<rparr>,
     \<lparr>horizAccuracy = dec_round 6 (horizAccuracy a), vertAccuracy = dec_round 6 (vertAccuracy a)\<rparr>)"

definition storable :: "Position \<Rightarrow> Accuracy \<Rightarrow> bool" where
  "storable p a \<longleftrightarrow> - (2 ^ 63) \<le> p_timestamp p \<and> p_timestamp p < 2 ^ 63 \<and>
    (\<forall>x \<in> {p_latitude p, p_longitude p, p_altitude p, p_speed p, p_direction p, horizAccuracy a, vertAccuracy a}. \<bar>x\<bar> \<le> 10 ^ 40)"

lemma stored_fields_fit:
  "storable p a \<Longrightarrow> stored_fields p a =
    [(''timestamp'', pct_d (p_timestamp p)), (''latitude'', printf_f 7 (p_latitude p)),
     (''longitude'', printf_f 7 (p_longitude p)), (''altitude'', printf_f 7 (p_altitude p)),
     (''speed'', printf_f 6 (p_speed p)), (''direction'', printf_f 7 (p_direction p)),
     (''hor_accuracy'', printf_f 6 (horizAccuracy a)), (''ver_accuracy'', printf_f 6 (vertAccuracy a))]"
  by (simp add: stored_fields_def storable_def strlcpy_fits pct_d_fits printf_fits)

lemma read_step:
  assumes "doc h = Some d" and "xmlDocGetRootElement X d" and "map_of (xml_children X d) k = Some (Some v)"
  shows "read_all X fs (Some h) ((k, f) # ss) x = read_all X fs (Some h) ss (f v x)"
  by (subst read_all_open [OF assms(1,2)]) (simp add: assms(3))

lemma stored_reads_back:
  assumes "libxml_ok X" and "alloc_ok X" and "strtod_ok strtod" and "storable p a"
  shows "get_stored_position X strtod (set_store_position X p a (Some n) fs) (Some n) (p0, a0) = (ERROR_NONE, stored_again p a p0)"
proof -
  obtain c d where c: "set_store_position X p a (Some n) fs = fs(n \<mapsto> c)" "xmlReadFile X c = Some d" "xmlDocGetRootElement X d"
    and l: "\<And>k. k \<noteq> ''text'' \<Longrightarrow> map_of (xml_children X d) k = map_option Some (map_of (stored_fields p a) k)"
    using stored_file [OF assms(1,2)] by blast
  define h where "h = handle_zero\<lparr>fileName := Some n, doc := Some d\<rparr>"
  have h: "doc h = Some d" by (simp add: h_def)
  have o: "openPreference X (fs(n \<mapsto> c)) (Some n) (Some handle_zero) = (SUCCESS, Some h)"
    using c(2,3) by (simp add: openPreference_def h_def)
  note r = read_step [OF h c(3)]
  have "map_of (xml_children X d) ''timestamp'' = Some (Some (pct_d (p_timestamp p)))"
    "map_of (xml_children X d) ''latitude'' = Some (Some (printf_f 7 (p_latitude p)))"
    "map_of (xml_children X d) ''longitude'' = Some (Some (printf_f 7 (p_longitude p)))"
    "map_of (xml_children X d) ''altitude'' = Some (Some (printf_f 7 (p_altitude p)))"
    "map_of (xml_children X d) ''hor_accuracy'' = Some (Some (printf_f 6 (horizAccuracy a)))"
    "map_of (xml_children X d) ''ver_accuracy'' = Some (Some (printf_f 6 (vertAccuracy a)))"
    "map_of (xml_children X d) ''speed'' = Some (Some (printf_f 6 (p_speed p)))"
    "map_of (xml_children X d) ''direction'' = Some (Some (printf_f 7 (p_direction p)))"
    by (simp_all add: l stored_fields_fit [OF assms(4)])
  note r = this [THEN r]
  show ?thesis
    using assms(4)
    by (simp add: c(1) get_stored_position_def o read_steps_def r stored_again_def strtod_printf [OF assms(3)] strtoll_pct_d storable_def
      del: read_all.simps(2))
qed

text \<open>
  C18: storing a position and reading the file again succeeds and gives the same timestamp, and
  every number as rounded to the digits it is printed with: a coordinate is off by at most half
  a unit in the seventh place. The climb, which is not stored, is left as it was.
\<close>

theorem stored_position_round_trip:
  assumes "libxml_ok X" and "alloc_ok X" and "strtod_ok strtod" and "storable p a"
  shows "get_stored_position X strtod (set_store_position X p a (Some n) fs) (Some n) (p0, a0) = (ERROR_NONE, stored_again p a p0)
    \<and> \<bar>p_latitude (fst (stored_again p a p0)) - p_latitude p\<bar> \<le> 1 / (2 * 10 ^ 7)
    \<and> \<bar>p_longitude (fst (stored_again p a p0)) - p_longitude p\<bar> \<le> 1 / (2 * 10 ^ 7)"
proof (intro conjI)
  show "get_stored_position X strtod (set_store_position X p a (Some n) fs) (Some n) (p0, a0) = (ERROR_NONE, stored_again p a p0)"
    by (rule stored_reads_back [OF assms])
  have r: "p_latitude (fst (stored_again p a p0)) = dec_round 7 (p_latitude p)"
    "p_longitude (fst (stored_again p a p0)) = dec_round 7 (p_longitude p)"
    by (simp_all add: stored_again_def)
  show "\<bar>p_latitude (fst (stored_again p a p0)) - p_latitude p\<bar> \<le> 1 / (2 * 10 ^ 7)"
    and "\<bar>p_longitude (fst (stored_again p a p0)) - p_longitude p\<bar> \<le> 1 / (2 * 10 ^ 7)"
    unfolding r by (rule dec_round_near)+
qed

text \<open>A libxml2 whose files are its documents.\<close>

definition list_xml :: "((string \<times> string option) list, (string \<times> string option) list) libxml" where
  "list_xml =
    \<lparr>xmlReadFile = Some, xmlDocGetRootElement = (\<lambda>_. True), xml_children = (\<lambda>d. d), xmlNewDoc = (\<lambda>_. Some []),
     xmlNewChild = (\<lambda>k v d. Some (d @ [(k, if v = [] then None else Some v)])),
     xmlUnlinkNode = (\<lambda>i d. take i d @ drop (Suc i) d), xmlSaveFormatFileEnc = (\<lambda>d f. (True, Some d))\<rparr>"

lemma list_xml_ok: "libxml_ok list_xml" "alloc_ok list_xml"
  by (auto simp: libxml_ok_def alloc_ok_def list_xml_def plain_def)

lemma stored_position_round_trip_witness:
  "get_stored_position list_xml dec_strtod
     (set_store_position list_xml (position_zero\<lparr>p_timestamp := 1757577600123, p_latitude := 523702157 / 10 ^ 7,
        p_longitude := - (48951679123 / 10 ^ 10)\<rparr>) (accuracy_zero\<lparr>horizAccuracy := 12\<rparr>) (Some ''gps.xml'') Map.empty)
     (Some ''gps.xml'') (position_zero, accuracy_zero)
   = (ERROR_NONE, position_zero\<lparr>p_timestamp := 1757577600123, p_latitude := 523702157 / 10 ^ 7,
        p_longitude := - (48951679 / 10 ^ 7)\<rparr>, accuracy_zero\<lparr>horizAccuracy := 12\<rparr>)"
proof -
  let ?p = "position_zero\<lparr>p_timestamp := 1757577600123, p_latitude := 523702157 / 10 ^ 7,
        p_longitude := - (48951679123 / 10 ^ 10)\<rparr>" and ?a = "accuracy_zero\<lparr>horizAccuracy := 12\<rparr>"
  have "storable ?p ?a" by (simp add: storable_def position_zero_def accuracy_zero_def)
  moreover have "\<lfloor>48951679123 / 1000 :: double\<rfloor> = 48951679" by (simp add: floor_eq_iff)
  then have "stored_again ?p ?a position_zero = (position_zero\<lparr>p_timestamp := 1757577600123, p_latitude := 523702157 / 10 ^ 7,
        p_longitude := - (48951679 / 10 ^ 7)\<rparr>, ?a)"
    by (simp add: stored_again_def position_zero_def accuracy_zero_def dec_round_def round_even_def Let_def)
  ultimately show ?thesis
    using stored_position_round_trip [OF list_xml_ok dec_strtod_ok, of ?p ?a "''gps.xml''" Map.empty position_zero accuracy_zero]
    by simp
qed

text \<open>
  A stored position is read exactly when its file parses, has a root and holds a non-empty
  text for each of the eight keys; in every other case the reader says so.
\<close>

theorem stored_position_readable_iff:
  "fst (get_stored_position X strtod fs path out) = ERROR_NONE \<longleftrightarrow>
    (\<exists>n c d. path = Some n \<and> fs n = Some c \<and> xmlReadFile X c = Some d \<and> xmlDocGetRootElement X d \<and>
      list_all (\<lambda>k. \<exists>v. map_of (xml_children X d) k = Some (Some v))
        [''timestamp'', ''latitude'', ''longitude'', ''altitude'', ''hor_accuracy'', ''ver_accuracy'', ''speed'', ''direction''])"
proof -
  have all: "fst (read_all X fs (Some h) ss x) = ERROR_NONE
      \<longleftrightarrow> list_all (\<lambda>k. \<exists>v. map_of (xml_children X d) k = Some (Some v)) (List.map fst ss)"
    if "doc h = Some d" "xmlDocGetRootElement X d" for h d and ss :: "(string \<times> (string \<Rightarrow> 'c \<Rightarrow> 'c)) list" and x
    using that
  proof (induction ss arbitrary: x)
    case (Cons s ss)
    then show ?case by (subst read_all_open [OF that]) (auto split: option.split)
  qed simp
  show ?thesis
    by (cases path)
      (auto simp: get_stored_position_def openPreference_def Let_def all read_steps_def
        simp del: read_all.simps(2) split: option.splits if_splits)
qed

text \<open>A put appends: the value a key had before is still the one found.\<close>

lemma put_keeps_first_value:
  assumes "libxml_ok X" and "doc h = Some d" and "xmlDocGetRootElement X d" and "map_of (xml_children X d) k = Some (Some old)" and "plain v"
    and "pref_put X (Some h) (Some k) v = (SUCCESS, Some h')"
  shows "fst (snd (pref_get X fs (Some h') (Some k))) = Some old"
proof -
  obtain d' where d': "xmlNewChild X k v d = Some d'" "h' = h\<lparr>doc := Some d'\<rparr>"
    using assms(2,3,6) by (auto simp: pref_put_def split: option.splits)
  have c: "xmlDocGetRootElement X d'" "xml_children X d' = xml_children X d @ [(k, Some v)]"
    using xml_child [OF assms(1,5) d'(1)] assms(3) by simp_all
  have "doc h' = Some d'" by (simp add: d'(2))
  from pref_get_open [OF this c(1)] show ?thesis using assms(4) by (simp add: c(2) Let_def)
qed

lemma map_of_filter_key: "map_of (filter (\<lambda>x. fst x \<noteq> k) xs) k' = (if k' = k then None else map_of xs k')"
  by (induction xs) auto

text \<open>Deleting a key removes all its values and nothing else.\<close>

lemma delete_key_deletes:
  assumes "libxml_ok X" and "fs n = Some c" and "xmlReadFile X c = Some d" and "xmlDocGetRootElement X d" and "alloc_ok X"
    and "k' \<noteq> ''text''" and "deleteKey X fs (Some (handle_zero\<lparr>fileName := Some n\<rparr>)) (Some k) = (ret, oh, fs')"
  shows "ret = SUCCESS \<and> fst (snd (pref_get X fs' oh (Some k'))) =
    (if k' = k then None else case map_of (xml_children X d) k' of None \<Rightarrow> None | Some r \<Rightarrow> r)"
proof -
  let ?d = "unlink_key X k 0 (xml_children X d) d"
  have u: "xml_children X ?d = filter (\<lambda>x. fst x \<noteq> k) (xml_children X d)" "xmlDocGetRootElement X ?d"
    using unlink_key_children [OF assms(1), of 0 d] assms(4) by simp_all
  obtain ok c' where s: "xmlSaveFormatFileEnc X ?d (Some c) = (ok, c')" by (cases "xmlSaveFormatFileEnc X ?d (Some c)")
  have ok: "ok" using assms(5) s unfolding alloc_ok_def by (metis fst_conv)
  with s have "xmlSaveFormatFileEnc X ?d (Some c) = (True, c')" by simp
  from xml_save [OF assms(1) this] obtain c1 d1 where
    c1: "c' = Some c1" "xmlReadFile X c1 = Some d1" "xmlDocGetRootElement X d1 = xmlDocGetRootElement X ?d"
      "elements (xml_children X d1) = elements (xml_children X ?d)" .
  have "map_of (xml_children X d1) k' = map_of (xml_children X ?d) k'" using c1(4) assms(6) by (metis elements_lookup)
  also have "\<dots> = (if k' = k then None else map_of (xml_children X d) k')"
    by (simp only: u(1) map_of_filter_key)
  finally have l: "map_of (xml_children X d1) k' = (if k' = k then None else map_of (xml_children X d) k')" .
  have "ret = SUCCESS" "oh = Some \<lparr>doc = None, fileName = Some n\<rparr>" "fs' = fs(n \<mapsto> c1)"
    using assms(2-4,7) s ok c1(1)
    by (auto simp: deleteKey_def openPreference_def pref_commit_def closePreference_def handle_zero_def)
  then show ?thesis
    using c1(2,3) u(2) l by (simp add: pref_get_def openPreference_def Let_def closePreference_def)
qed

end
