(* ===== verification/Geocoding.thy ===== *)
theory Geocoding
  imports C_Numbers Luna_Json Http
begin

text \<open>
  Geocoding through a web service: the configuration file
  (\<^verbatim>\<open>WSPConfigurationFileParser.cpp\<close>), the provider object that reads it
  (\<^verbatim>\<open>LocationWebServiceProvider.cpp\<close>), the requests and their responses
  (\<^verbatim>\<open>MapServicesImpl.cpp\<close>) and the query strings the service builds from a client's request
  (\<^verbatim>\<open>LocationService::getReverseGeocodeData\<close>, \<^verbatim>\<open>getGeocodeData\<close>). The parsed file, the
  base64 decoder and the HTTP library are parameters.
\<close>

subsection \<open>The configuration file\<close>

datatype WspConfStateCode =
    WSP_CONF_SUCCESS | WSP_CONF_READ_FAILED | WSP_CONF_NAME_MISSING | WSP_CONF_APIKEY_MISSING
  | WSP_CONF_NO_SERVICES | WSP_CONF_NO_FEATURES | WSP_CONF_URL_MISSING

datatype FeatureType = NO_FEATURE_SUPPORTED | GEO_CODE | REVERSE_GEOCODE | SEARCH | TIMEZONE | DISTANCE

text \<open>
  \<^verbatim>\<open>mSupportedFeatureList\<close> and \<^verbatim>\<open>mSupportedFeaturesKeyUrlMap\<close> are read with \<^verbatim>\<open>operator[]\<close>,
  which gives the empty string for a missing key: they are total functions.
\<close>

record WSPConfigurationFileParser =
  wspName :: string
  apiKey :: string
  mSupportedFeaturesKeyUrlMap :: "string \<Rightarrow> string"
  mSupportedFeatureList :: "FeatureType \<Rightarrow> string"

definition getUrl :: "WSPConfigurationFileParser \<Rightarrow> FeatureType \<Rightarrow> string" where
  "getUrl c t = mSupportedFeaturesKeyUrlMap c (mSupportedFeatureList c t)"

definition isSupported :: "WSPConfigurationFileParser \<Rightarrow> FeatureType \<Rightarrow> bool" where
  "isSupported c t \<longleftrightarrow> length (mSupportedFeatureList c t) \<noteq> 0"

text \<open>\<^verbatim>\<open>JValue::asString\<close> is the empty string for a value that is not a string.\<close>

definition as_string :: "'j pbnjson \<Rightarrow> 'j \<Rightarrow> string" where
  "as_string J v = (case jstring_get J v of None \<Rightarrow> [] | Some s \<Rightarrow> s)"

definition jarray_elems :: "'j pbnjson \<Rightarrow> 'j \<Rightarrow> 'j list" where
  "jarray_elems J a = List.map (jarray_get J a) [0..<jarray_size J a]"

text \<open>The loops over the features of a service and over the services, with their early returns.\<close>

primrec wsp_features ::
  "'j pbnjson \<Rightarrow> string \<Rightarrow> 'j list \<Rightarrow> (string \<Rightarrow> string) \<Rightarrow> WspConfStateCode + (string \<Rightarrow> string)" where
  "wsp_features J url [] m = Inr m"
| "wsp_features J url (f # fs) m =
    (let n = as_string J f in if n = [] then Inl WSP_CONF_NO_FEATURES else wsp_features J url fs (m(n := url)))"

definition wsp_service ::
  "'j pbnjson \<Rightarrow> 'j \<Rightarrow> (string \<Rightarrow> string) \<Rightarrow> WspConfStateCode + (string \<Rightarrow> string)" where
  "wsp_service J srv m =
    (case jobject_get_exists J srv ''url'' of
       None \<Rightarrow> Inl WSP_CONF_URL_MISSING
     | Some u \<Rightarrow>
         let url = as_string J u
         in if url = [] then Inl WSP_CONF_URL_MISSING
            else case jobject_get_exists J srv ''features'' of
              None \<Rightarrow> Inl WSP_CONF_NO_FEATURES
            | Some fl \<Rightarrow>
                if \<not> jis_array J fl \<or> jarray_size J fl = 0 then Inl WSP_CONF_NO_FEATURES
                else wsp_features J url (jarray_elems J fl) m)"

primrec wsp_services ::
  "'j pbnjson \<Rightarrow> 'j list \<Rightarrow> (string \<Rightarrow> string) \<Rightarrow> WspConfStateCode + (string \<Rightarrow> string)" where
  "wsp_services J [] m = Inr m"
| "wsp_services J (v # vs) m =
    (case wsp_service J v m of Inl e \<Rightarrow> Inl e | Inr m' \<Rightarrow> wsp_services J vs m')"

text \<open>
  The features that are listed are registered under their enumerator; every url in the map is
  non-empty, so a name is in the map exactly when its url is.
\<close>

definition register_features :: "(string \<Rightarrow> string) \<Rightarrow> FeatureType \<Rightarrow> string" where
  "register_features m t =
    (let name = (case t of
         GEO_CODE \<Rightarrow> ''geocode'' | REVERSE_GEOCODE \<Rightarrow> ''reverseGeocode'' | SEARCH \<Rightarrow> ''search''
       | TIMEZONE \<Rightarrow> ''timezone'' | DISTANCE \<Rightarrow> ''distance'' | NO_FEATURE_SUPPORTED \<Rightarrow> [])
     in if m name = [] then [] else name)"

definition parseFile :: "'j pbnjson \<Rightarrow> 'j \<Rightarrow> WspConfStateCode + WSPConfigurationFileParser" where
  "parseFile J rt =
    (if jis_null J rt then Inl WSP_CONF_READ_FAILED
     else if \<not> jis_valid J rt then Inl WSP_CONF_READ_FAILED
     else case jobject_get_exists J rt ''wpsName'' of
       None \<Rightarrow> Inl WSP_CONF_NAME_MISSING
     | Some nv \<Rightarrow>
         if as_string J nv = [] then Inl WSP_CONF_NAME_MISSING
         else case jobject_get_exists J rt ''apiKey'' of
           None \<Rightarrow> Inl WSP_CONF_APIKEY_MISSING
         | Some kv \<Rightarrow>
             if as_string J kv = [] then Inl WSP_CONF_APIKEY_MISSING
             else case jobject_get_exists J rt ''services'' of
               None \<Rightarrow> Inl WSP_CONF_NO_SERVICES
             | Some sv \<Rightarrow>
                 if \<not> jis_array J sv \<or> jarray_size J sv = 0 then Inl WSP_CONF_NO_SERVICES
                 else case wsp_services J (jarray_elems J sv) (\<lambda>_. []) of
                   Inl e \<Rightarrow> Inl e
                 | Inr m \<Rightarrow>
                     Inr \<lparr>wspName = as_string J nv, apiKey = as_string J kv,
                          mSupportedFeaturesKeyUrlMap = m, mSupportedFeatureList = register_features m\<rparr>)"

subsection \<open>The provider object\<close>

text \<open>
  \<open>confFile\<close> is the parser that was kept; \<open>configurationData\<close> the one the static
  \<^verbatim>\<open>MapServicesImpl\<close> captured when it was first used (\<open>None\<close> before); \<open>lbs_messages\<close> the client
  message each HTTP task carries.
\<close>

record LocationWebServiceProvider =
  confFile :: "WSPConfigurationFileParser option"
  configurationData :: "WSPConfigurationFileParser option option"
  mNetReqMgr :: NetworkRequestManager
  lbs_messages :: "nat \<rightharpoonup> LSMessage"

definition lbs_init :: LocationWebServiceProvider where
  "lbs_init = \<lparr>confFile = None, configurationData = None, mNetReqMgr = nrm_start nrm_init, lbs_messages = (\<lambda>_. None)\<rparr>"

primrec wsp_error :: "WspConfStateCode \<Rightarrow> LocationErrorCode" where
  "wsp_error WSP_CONF_SUCCESS = LOCATION_SUCCESS"
| "wsp_error WSP_CONF_READ_FAILED = LOCATION_WSP_CONF_READ_FAILED"
| "wsp_error WSP_CONF_NAME_MISSING = LOCATION_WSP_CONF_NAME_MISSING"
| "wsp_error WSP_CONF_APIKEY_MISSING = LOCATION_WSP_CONF_APIKEY_MISSING"
| "wsp_error WSP_CONF_NO_SERVICES = LOCATION_WSP_CONF_NO_SERVICES"
| "wsp_error WSP_CONF_NO_FEATURES = LOCATION_WSP_CONF_NO_FEATURES"
| "wsp_error WSP_CONF_URL_MISSING = LOCATION_WSP_CONF_URL_MISSING"

definition readWSPConfiguration ::
  "'j pbnjson \<Rightarrow> 'j \<Rightarrow> LocationWebServiceProvider \<Rightarrow> LocationErrorCode \<times> LocationWebServiceProvider" where
  "readWSPConfiguration J rt l =
    (case confFile l of
       Some c \<Rightarrow> (wsp_error WSP_CONF_SUCCESS, l)
     | None \<Rightarrow>
         (case parseFile J rt of
            Inl e \<Rightarrow> (wsp_error e, l)
          | Inr c \<Rightarrow> (wsp_error WSP_CONF_SUCCESS, l\<lparr>confFile := Some c\<rparr>)))"

definition getGeocodeImpl :: "LocationWebServiceProvider \<Rightarrow> LocationWebServiceProvider" where
  "getGeocodeImpl l = (case configurationData l of None \<Rightarrow> l\<lparr>configurationData := Some (confFile l)\<rparr> | Some _ \<Rightarrow> l)"

subsection \<open>Requests\<close>

fun contains_sub :: "string \<Rightarrow> string \<Rightarrow> bool" where
  "contains_sub p [] = (p = [])"
| "contains_sub p (c # cs) = (has_prefix p (c # cs) \<or> contains_sub p cs)"

text \<open>
  \<^verbatim>\<open>formatUrl\<close>: the url without host must be there and the key must decode to something. The
  signature the code computes does not enter the result.
\<close>

definition formatUrl :: "(string \<Rightarrow> string) \<Rightarrow> string \<Rightarrow> string \<Rightarrow> string \<Rightarrow> string" where
  "formatUrl g_base64_decode geoData url key =
    (if url = [] then []
     else if \<not> contains_sub ''.com/'' url then []
     else let stDecodeKey = g_base64_decode key
          in if stDecodeKey = [] then [] else url @ geoData @ ''&key='' @ stDecodeKey)"

text \<open>The HTTP side of one request: the new task's address, and whether the library takes it.\<close>

record http_env =
  he_task :: "nat option"
  he_prepare :: bool
  he_add :: bool
  he_decode :: "string \<Rightarrow> string"

text \<open>The client id of \<^verbatim>\<open>MapServicesImpl\<close> in the transaction table.\<close>

abbreviation (input) MAPS_CLIENT :: nat where "MAPS_CLIENT \<equiv> 1"

definition lbsPostQuery ::
  "http_env \<Rightarrow> string \<Rightarrow> LSMessage \<Rightarrow> LocationWebServiceProvider \<Rightarrow> ErrorCodes \<times> LocationWebServiceProvider" where
  "lbsPostQuery H url m l =
    (let (e, n) = initiateTransaction (he_task H) (he_prepare H) (he_add H) (before_chr (CHR 0x00) url) (Some MAPS_CLIENT) None (mNetReqMgr l)
     in (e, l\<lparr>mNetReqMgr := n,
              lbs_messages := (if e = ERROR_NONE then (lbs_messages l)(the (he_task H) \<mapsto> m) else lbs_messages l)\<rparr>))"

text \<open>\<^verbatim>\<open>geoCode\<close> and \<^verbatim>\<open>reverseGeoCode\<close> differ in the feature they need.\<close>

definition map_query ::
  "http_env \<Rightarrow> FeatureType \<Rightarrow> string \<Rightarrow> LSMessage \<Rightarrow> LocationWebServiceProvider \<Rightarrow> ErrorCodes \<times> LocationWebServiceProvider" where
  "map_query H feature data m l =
    (case configurationData l of
       Some (Some c) \<Rightarrow>
         if \<not> isSupported c feature then (ERROR_NOT_IMPLEMENTED, l)
         else if apiKey c = [] then (ERROR_LICENSE_KEY_INVALID, l)
         else lbsPostQuery H (formatUrl (he_decode H) data (getUrl c feature) (apiKey c)) m l
     | _ \<Rightarrow> (ERROR_NOT_IMPLEMENTED, l))"

definition geoCode :: "http_env \<Rightarrow> string \<Rightarrow> LSMessage \<Rightarrow> LocationWebServiceProvider \<Rightarrow> ErrorCodes \<times> LocationWebServiceProvider" where
  "geoCode H address m l = map_query H GEO_CODE address m l"

definition reverseGeoCode :: "http_env \<Rightarrow> string \<Rightarrow> LSMessage \<Rightarrow> LocationWebServiceProvider \<Rightarrow> ErrorCodes \<times> LocationWebServiceProvider" where
  "reverseGeoCode H location m l = map_query H REVERSE_GEOCODE location m l"

text \<open>
  \<^verbatim>\<open>MapServicesImpl::handleResponse\<close>: what the service's callback is called with, if one is. A
  successful response without data makes a \<^verbatim>\<open>std::string\<close> from a null pointer: \<open>None\<close>.
\<close>

definition map_handleResponse ::
  "nat \<Rightarrow> HttpReqTask \<Rightarrow> LocationWebServiceProvider \<Rightarrow> ((LSMessage \<times> string \<times> ErrorCodes) option \<times> LocationWebServiceProvider) option" where
  "map_handleResponse t task l =
    (case lbs_messages l t of
       None \<Rightarrow> None
     | Some m \<Rightarrow>
         let (err, resp) = (if httpResponseCode task = HTTP_STATUS_CODE_SUCCESS then (ERROR_NONE, responseData task)
                            else (ERROR_NETWORK_ERROR, Some ''HTTP Connection failed''));
             l1 = l\<lparr>mNetReqMgr := clearTransaction t (mNetReqMgr l), lbs_messages := (lbs_messages l)(t := None)\<rparr>
         in if msg_method m = ''getGeoCodeLocation'' \<or> msg_method m = ''getReverseLocation''
            then (case resp of None \<Rightarrow> None | Some r \<Rightarrow> Some (Some (m, r, err), l1))
            else Some (None, l1))"

subsection \<open>Query strings\<close>

text \<open>\<^verbatim>\<open>g_string_append(s, NULL)\<close> appends nothing; \<^verbatim>\<open>std::to_string\<close> prints six decimals.\<close>

definition opt_text :: "string option \<Rightarrow> string" where
  "opt_text x = (case x of None \<Rightarrow> [] | Some s \<Rightarrow> s)"

definition str_field :: "'j pbnjson \<Rightarrow> 'j \<Rightarrow> string \<Rightarrow> string \<Rightarrow> string" where
  "str_field J obj k prefix =
    (case jobject_get_exists J obj k of None \<Rightarrow> [] | Some v \<Rightarrow> prefix @ opt_text (jstring_get J v))"

definition bar_list :: "'j pbnjson \<Rightarrow> 'j \<Rightarrow> string \<Rightarrow> string \<Rightarrow> string" where
  "bar_list J obj k prefix =
    (case jobject_get_exists J obj k of
       None \<Rightarrow> []
     | Some a \<Rightarrow>
         prefix @ concat (List.map (\<lambda>i. (if i > 0 then ''|'' else []) @ opt_text (jstring_get J (jarray_get J a i))) [0..<jarray_size J a]))"

definition to_string_f :: "double \<Rightarrow> string" where
  "to_string_f d = printf_f 6 d"

text \<open>\<open>junk\<close> is the content of an uninitialised variable a failed conversion leaves alone.\<close>

definition num_text :: "'j pbnjson \<Rightarrow> 'j \<Rightarrow> string \<Rightarrow> double \<Rightarrow> string" where
  "num_text J obj k junk =
    (case jobject_get_exists J obj k of None \<Rightarrow> [] | Some v \<Rightarrow> to_string_f (snd (jnumber_get_f64 J v junk)))"

definition getReverseGeocodeData :: "'j pbnjson \<Rightarrow> double \<Rightarrow> 'j \<Rightarrow> string" where
  "getReverseGeocodeData J junk parsed =
    ''latlng='' @ num_text J parsed ''latitude'' junk @ '','' @ num_text J parsed ''longitude'' junk
      @ str_field J parsed ''language'' ''&language=''
      @ bar_list J parsed ''result_type'' ''&result_type=''
      @ bar_list J parsed ''location_type'' ''&location_type=''"

definition bound_text :: "'j pbnjson \<Rightarrow> 'j \<Rightarrow> string \<Rightarrow> double \<Rightarrow> string" where
  "bound_text J b k junk =
    to_string_f (case jobject_get_exists J b k of None \<Rightarrow> junk | Some v \<Rightarrow> snd (jnumber_get_f64 J v junk))"

definition getGeocodeData :: "'j pbnjson \<Rightarrow> double \<Rightarrow> 'j \<Rightarrow> string" where
  "getGeocodeData J junk parsed =
    (case jobject_get_exists J parsed ''components'' of
       None \<Rightarrow> []
     | Some c \<Rightarrow>
         (if jobject_get_exists J parsed ''address'' \<noteq> None then ''&components='' else ''components='')
           @ str_field J c ''route'' ''route:'' @ str_field J c ''locality'' ''|locality:''
           @ str_field J c ''administrative_area'' ''|administrative_area:''
           @ str_field J c ''postal_code'' ''|postal_code:'' @ str_field J c ''country'' ''|country:'')
    @ (case jobject_get_exists J parsed ''bounds'' of
         None \<Rightarrow> []
       | Some b \<Rightarrow>
           ''&bounds='' @ bound_text J b ''southwestLat'' junk @ '','' @ bound_text J b ''southwestLon'' junk
             @ ''|'' @ bound_text J b ''northeastLat'' junk @ '','' @ bound_text J b ''northeastLon'' junk)
    @ str_field J parsed ''language'' ''&language=''
    @ str_field J parsed ''region'' ''&region=''"

text \<open>The address with its blanks replaced; an address that is not a string is a null pointer.\<close>

definition geocode_address :: "'j pbnjson \<Rightarrow> 'j \<Rightarrow> string option" where
  "geocode_address J parsed =
    (case jobject_get_exists J parsed ''address'' of
       None \<Rightarrow> Some []
     | Some v \<Rightarrow>
         (case jstring_get J v of
            None \<Rightarrow> None
          | Some s \<Rightarrow> Some (''address='' @ List.map (\<lambda>c. if c = CHR '' '' then CHR ''+'' else c) s)))"

subsection \<open>What an accepted configuration holds\<close>

definition urls_ok :: "(string \<Rightarrow> string) \<Rightarrow> bool" where
  "urls_ok m \<longleftrightarrow> m [] = []"

lemma wsp_features_ok: "wsp_features J url fs m = Inr m' \<Longrightarrow> urls_ok m \<Longrightarrow> urls_ok m'"
  by (induction fs arbitrary: m) (auto simp: Let_def urls_ok_def split: if_splits)

lemma wsp_services_ok: "wsp_services J vs m = Inr m' \<Longrightarrow> urls_ok m \<Longrightarrow> urls_ok m'"
proof (induction vs arbitrary: m)
  case (Cons v vs)
  obtain m1 where m1: "wsp_service J v m = Inr m1" "wsp_services J vs m1 = Inr m'"
    using Cons.prems(1) by (auto split: sum.splits)
  have "urls_ok m1"
    using m1(1) Cons.prems(2) wsp_features_ok
    by (auto simp: wsp_service_def Let_def split: option.splits if_splits)
  then show ?case using Cons.IH [OF m1(2)] by simp
qed simp

definition conf_ok :: "WSPConfigurationFileParser \<Rightarrow> bool" where
  "conf_ok c \<longleftrightarrow> wspName c \<noteq> [] \<and> apiKey c \<noteq> [] \<and> (\<forall>t. isSupported c t \<longleftrightarrow> getUrl c t \<noteq> [])"

lemma register_supported:
  "urls_ok m \<Longrightarrow> register_features m t \<noteq> [] \<longleftrightarrow> m (register_features m t) \<noteq> []"
  by (auto simp: register_features_def urls_ok_def Let_def)

lemma parseFile_conf:
  assumes "parseFile J rt = Inr c"
  shows "urls_ok (mSupportedFeaturesKeyUrlMap c)
    \<and> mSupportedFeatureList c = register_features (mSupportedFeaturesKeyUrlMap c) \<and> wspName c \<noteq> [] \<and> apiKey c \<noteq> []"
proof -
  have e: "urls_ok (\<lambda>_. [])" by (simp add: urls_ok_def)
  show ?thesis
    using assms
    by (auto simp: parseFile_def dest: wsp_services_ok [OF _ e] split: if_splits option.splits sum.splits)
qed

lemma parseFile_ok: "parseFile J rt = Inr c \<Longrightarrow> conf_ok c"
  using parseFile_conf [of J rt c] register_supported [of "mSupportedFeaturesKeyUrlMap c"]
  by (auto simp: conf_ok_def isSupported_def getUrl_def)

subsection \<open>Runs of the provider\<close>

text \<open>A request as the service makes it, and the response to a task.\<close>

datatype 'j lbs_event =
    LbsRequest "'j pbnjson" 'j http_env FeatureType string LSMessage
  | LbsResponse nat HttpReqTask

definition lbs_request ::
  "'j pbnjson \<Rightarrow> 'j \<Rightarrow> http_env \<Rightarrow> FeatureType \<Rightarrow> string \<Rightarrow> LSMessage \<Rightarrow> LocationWebServiceProvider
    \<Rightarrow> (LocationErrorCode + ErrorCodes) \<times> LocationWebServiceProvider" where
  "lbs_request J rt H feature data m l =
    (let (e, l1) = readWSPConfiguration J rt l
     in if e \<noteq> LOCATION_SUCCESS then (Inl e, l1)
        else let (r, l2) = map_query H feature data m (getGeocodeImpl l1) in (Inr r, l2))"

primrec lbs_step :: "'j lbs_event \<Rightarrow> LocationWebServiceProvider \<Rightarrow> LocationWebServiceProvider" where
  "lbs_step (LbsRequest J rt H f d m) l = snd (lbs_request J rt H f d m l)"
| "lbs_step (LbsResponse t task) l = (case map_handleResponse t task l of None \<Rightarrow> l | Some (_, l') \<Rightarrow> l')"

text \<open>The service object keeps one configuration, and a client waits on each open transaction.\<close>

definition lbs_good :: "LocationWebServiceProvider \<Rightarrow> bool" where
  "lbs_good l \<longleftrightarrow>
    (\<forall>c. confFile l = Some c \<longrightarrow> conf_ok c)
    \<and> (configurationData l \<noteq> None \<longrightarrow> confFile l \<noteq> None \<and> configurationData l = Some (confFile l))
    \<and> dom (lbs_messages l) = dom (httpRequestList (mNetReqMgr l)) \<and> nrm_active (mNetReqMgr l)"

lemma wsp_error_success: "wsp_error e = LOCATION_SUCCESS \<longleftrightarrow> e = WSP_CONF_SUCCESS"
  by (cases e) simp_all

lemma parseFile_error: "parseFile J rt = Inl e \<Longrightarrow> e \<noteq> WSP_CONF_SUCCESS"
proof -
  have f: "wsp_features J url fs m = Inl e \<Longrightarrow> e \<noteq> WSP_CONF_SUCCESS" for url fs m e
    by (induction fs arbitrary: m) (auto simp: Let_def split: if_splits)
  have s: "wsp_service J v m = Inl e \<Longrightarrow> e \<noteq> WSP_CONF_SUCCESS" for v m e
    using f by (auto simp: wsp_service_def Let_def split: option.splits if_splits)
  have "wsp_services J vs m = Inl e \<Longrightarrow> e \<noteq> WSP_CONF_SUCCESS" for vs m
    by (induction vs arbitrary: m) (auto split: sum.splits dest: s)
  then show "parseFile J rt = Inl e \<Longrightarrow> e \<noteq> WSP_CONF_SUCCESS"
    by (auto simp: parseFile_def split: if_splits option.splits sum.splits)
qed

lemma read_configured:
  assumes "lbs_good l" and "readWSPConfiguration J rt l = (LOCATION_SUCCESS, l1)"
  obtains c where "confFile l1 = Some c" and "conf_ok c" and "lbs_good l1"
    and "configurationData (getGeocodeImpl l1) = Some (Some c)" and "lbs_good (getGeocodeImpl l1)"
proof -
  obtain c where c: "confFile l1 = Some c" "conf_ok c" "lbs_good l1"
  proof (cases "confFile l")
    case None
    then show ?thesis
      using assms parseFile_ok parseFile_error that
      by (fastforce simp: readWSPConfiguration_def wsp_error_success lbs_good_def split: sum.splits)
  next
    case (Some c)
    then show ?thesis using assms that by (auto simp: readWSPConfiguration_def lbs_good_def)
  qed
  then show ?thesis using that by (auto simp: getGeocodeImpl_def lbs_good_def split: option.splits)
qed

lemma read_config_good: "lbs_good l \<Longrightarrow> lbs_good (snd (readWSPConfiguration J rt l))"
  using parseFile_ok by (auto simp: readWSPConfiguration_def lbs_good_def split: option.splits sum.splits)

lemma map_query_good: "lbs_good l \<Longrightarrow> lbs_good (snd (map_query H f d m l))"
  by (auto simp: map_query_def lbsPostQuery_def initiateTransaction_def lbs_good_def Let_def split: option.splits)

lemma lbs_request_good:
  assumes "lbs_good l"
  shows "lbs_good (snd (lbs_request J rt H f d m l))"
proof -
  obtain e l1 where r: "readWSPConfiguration J rt l = (e, l1)" by (cases "readWSPConfiguration J rt l")
  show ?thesis
  proof (cases "e = LOCATION_SUCCESS")
    case True
    then have "lbs_good (getGeocodeImpl l1)" using read_configured [OF assms, of J rt l1] r by blast
    then show ?thesis using map_query_good r True by (simp add: lbs_request_def Let_def case_prod_unfold)
  next
    case False
    then show ?thesis using read_config_good [OF assms, of J rt] r by (simp add: lbs_request_def)
  qed
qed

lemma map_response_state:
  "map_handleResponse t task l = Some (r, l') \<Longrightarrow>
    l' = l\<lparr>mNetReqMgr := clearTransaction t (mNetReqMgr l), lbs_messages := (lbs_messages l)(t := None)\<rparr>"
  by (simp add: map_handleResponse_def Let_def case_prod_unfold split: option.splits if_splits)

lemma map_response_good: "lbs_good l \<Longrightarrow> map_handleResponse t task l = Some (r, l') \<Longrightarrow> lbs_good l'"
  by (drule map_response_state) (simp add: lbs_good_def clearTransaction_def)

lemma lbs_step_good: "lbs_good l \<Longrightarrow> lbs_good (lbs_step e l)"
  using lbs_request_good map_response_good by (cases e) (auto split: option.split)

interpretation lbs_m: machine lbs_step lbs_good "\<lambda>_. True" lbs_init
  by unfold_locales (simp_all add: lbs_step_good, simp add: lbs_good_def lbs_init_def nrm_init_def nrm_start_def)

subsection \<open>Properties\<close>

text \<open>
  C30: a configuration file is accepted only with a name and a key that are not empty, and then a
  feature is supported exactly when it has a url to ask.
\<close>

theorem accepted_configuration_is_complete:
  assumes "parseFile J rt = Inr c"
  shows "wspName c \<noteq> [] \<and> apiKey c \<noteq> [] \<and> (\<forall>t. isSupported c t \<longleftrightarrow> getUrl c t \<noteq> [])"
  using parseFile_ok [OF assms] by (simp add: conf_ok_def)

definition wsp_demo :: json where
  "wsp_demo = JObj [(''wpsName'', JStr ''google''), (''apiKey'', JStr ''a2V5''),
     (''services'', JArr [JObj [(''url'', JStr ''https://maps.example.com/json?''), (''features'', JArr [JStr ''geocode''])]])]"

theorem accepted_configuration_is_complete_witness:
  "\<exists>c. parseFile (json_api []) wsp_demo = Inr c \<and> isSupported c GEO_CODE \<and> \<not> isSupported c REVERSE_GEOCODE \<and> getUrl c GEO_CODE \<noteq> []"
proof -
  have p: "parseFile (json_api []) wsp_demo = Inr \<lparr>wspName = ''google'', apiKey = ''a2V5'',
      mSupportedFeaturesKeyUrlMap = (\<lambda>_. [])(''geocode'' := ''https://maps.example.com/json?''),
      mSupportedFeatureList = register_features ((\<lambda>_. [])(''geocode'' := ''https://maps.example.com/json?''))\<rparr>"
    by (simp add: parseFile_def wsp_demo_def json_api_def as_string_def jarray_elems_def wsp_service_def)
  show ?thesis
    using accepted_configuration_is_complete [OF p]
    unfolding p by (auto simp: isSupported_def getUrl_def register_features_def)
qed

lemma contains_sub_split: "contains_sub p t \<longleftrightarrow> (\<exists>x y. t = x @ p @ y)"
proof (induction t)
  case (Cons c t)
  have "(\<exists>x y. c # t = x @ p @ y) \<longleftrightarrow> (\<exists>y. c # t = p @ y) \<or> (\<exists>x y. t = x @ p @ y)"
    by (metis append_Cons append_Nil neq_Nil_conv list.inject)
  then show ?case using Cons.IH by (simp add: has_prefix_append)
qed simp

lemma formatUrl_valid: "k \<noteq> [] \<Longrightarrow> formatUrl (\<lambda>_. k) d (x @ ''.com/'' @ y) c = x @ ''.com/'' @ y @ d @ ''&key='' @ k"
  using contains_sub_split [of "''.com/''" "x @ ''.com/'' @ y"] by (auto simp: formatUrl_def)

lemma read_unreadable:
  assumes "readWSPConfiguration J rt l = (e, l1)" and "e \<noteq> LOCATION_SUCCESS"
  shows "l1 = l \<and> confFile l = None \<and> (\<nexists>c. parseFile J rt = Inr c)"
  using assms by (auto simp: readWSPConfiguration_def split: option.splits sum.splits)

text \<open>
  C31: whatever requests and responses came before, a request is refused with nothing changed when there is no
  configuration yet and the file is not accepted. Otherwise the configuration is the one accepted first, and the
  request is refused when it lists no url for the feature or when the network does not take it, with nothing
  posted; else the client waits on a new transaction, and where the url has a path below a \<^verbatim>\<open>.com\<close> host and the key
  decodes to something, what is posted is that url, the query and the decoded key. (Another url is posted as the
  empty string, see \<open>invalid_url_is_posted\<close>.)
\<close>

theorem geocoding_request_outcome:
  assumes "l = fold lbs_step es lbs_init" and "lbs_request J rt H f d m l = (r, l')"
  shows "((\<exists>e. r = Inl e) \<and> confFile l = None \<and> (\<nexists>c. parseFile J rt = Inr c) \<and> l' = l)
    \<or> (\<exists>c. confFile l' = Some c \<and> (confFile l = Some c \<or> confFile l = None \<and> parseFile J rt = Inr c) \<and>
        (if getUrl c f = [] then r = Inr ERROR_NOT_IMPLEMENTED \<and> mNetReqMgr l' = mNetReqMgr l
         else if he_task H = None \<or> \<not> he_prepare H \<or> \<not> he_add H then r = Inr ERROR_NETWORK_ERROR \<and> mNetReqMgr l' = mNetReqMgr l
         else r = Inr ERROR_NONE \<and> lbs_messages l' (the (he_task H)) = Some m
          \<and> (\<exists>sent. posted (mNetReqMgr l') = posted (mNetReqMgr l) @ [(the (he_task H), sent, None)]
              \<and> (\<forall>x y. getUrl c f = x @ ''.com/'' @ y \<and> he_decode H (apiKey c) \<noteq> [] \<longrightarrow>
                   sent = before_chr (CHR 0x00) (x @ ''.com/'' @ y @ d @ ''&key='' @ he_decode H (apiKey c))))))"
proof -
  have g: "lbs_good l" unfolding assms(1) by (rule lbs_m.reachable_good) (simp add: list_all_iff)
  obtain e l1 where l1: "readWSPConfiguration J rt l = (e, l1)" by fastforce
  show ?thesis
  proof (cases "e = LOCATION_SUCCESS")
    case False
    then show ?thesis using read_unreadable [OF l1 False] assms(2) by (auto simp: lbs_request_def l1)
  next
    case True
    then obtain q where q: "map_query H f d m (getGeocodeImpl l1) = (q, l')" "r = Inr q"
      using assms(2) by (auto simp: lbs_request_def l1 Let_def case_prod_unfold prod_eq_iff)
    obtain c where c: "confFile l1 = Some c" "conf_ok c" "configurationData (getGeocodeImpl l1) = Some (Some c)"
      "lbs_good (getGeocodeImpl l1)" using read_configured [OF g l1 [unfolded True]] by metis
    have o: "confFile l = Some c \<or> confFile l = None \<and> parseFile J rt = Inr c"
      using l1 True c(1) by (auto simp: readWSPConfiguration_def split: option.splits sum.splits)
    have n: "mNetReqMgr (getGeocodeImpl l1) = mNetReqMgr l" "confFile (getGeocodeImpl l1) = Some c"
      using l1 c(1) by (auto simp: getGeocodeImpl_def readWSPConfiguration_def split: option.splits sum.splits)
    have a: "nrm_active (mNetReqMgr l)" using g by (simp add: lbs_good_def)
    have u: "getUrl c f = x @ ''.com/'' @ y \<Longrightarrow> he_decode H (apiKey c) \<noteq> [] \<Longrightarrow>
        formatUrl (he_decode H) d (getUrl c f) (apiKey c) = x @ ''.com/'' @ y @ d @ ''&key='' @ he_decode H (apiKey c)" for x y
      using formatUrl_valid [of "he_decode H (apiKey c)" d x y "apiKey c"] by (simp add: formatUrl_def)
    show ?thesis
      using q c(2,3) o n a u
      by (intro disjI2 exI [of _ c])
        (auto simp: map_query_def lbsPostQuery_def Let_def initiateTransaction_def conf_ok_def split: option.splits if_splits)
  qed
qed

lemma invalid_url_is_posted: "\<not> contains_sub ''.com/'' url \<Longrightarrow> formatUrl decode d url key = []"
  by (simp add: formatUrl_def)

definition http_up :: http_env where
  "http_up = \<lparr>he_task = Some 7, he_prepare = True, he_add = True, he_decode = (\<lambda>k. ''key'')\<rparr>"

definition geo_message :: "nat \<Rightarrow> LSMessage" where
  "geo_message i = \<lparr>msg_id = i, msg_method = ''getGeoCodeLocation'', msg_payload = [], msg_is_subscription = False, msg_sender = ''app''\<rparr>"

lemma geocode_demo:
  "lbs_request (json_api []) wsp_demo http_up GEO_CODE ''address=x'' (geo_message 1) lbs_init
    = (Inr ERROR_NONE, snd (lbs_request (json_api []) wsp_demo http_up GEO_CODE ''address=x'' (geo_message 1) lbs_init))"
  by (simp add: lbs_request_def readWSPConfiguration_def lbs_init_def parseFile_def wsp_demo_def json_api_def as_string_def
      jarray_elems_def wsp_service_def getGeocodeImpl_def map_query_def isSupported_def register_features_def
      lbsPostQuery_def http_up_def initiateTransaction_def nrm_init_def nrm_start_def)

theorem geocoding_request_outcome_witness:
  "\<exists>c. confFile (snd (lbs_request (json_api []) wsp_demo http_up GEO_CODE ''address=x'' (geo_message 1) lbs_init)) = Some c
    \<and> (getUrl c GEO_CODE \<noteq> [] \<longrightarrow>
        lbs_messages (snd (lbs_request (json_api []) wsp_demo http_up GEO_CODE ''address=x'' (geo_message 1) lbs_init)) 7
          = Some (geo_message 1))"
  using geocoding_request_outcome [of lbs_init "[]", OF _ geocode_demo] by (auto simp: http_up_def split: if_splits)

end
