(* ===== verification/Connection_Observer.thy ===== *)
theory Connection_Observer
  imports Luna_Json Net_Provider
begin

text \<open>
  The watcher of the other services (\<^verbatim>\<open>lunaIpc/ConnectionStateObserver.cpp\<close>) with the two
  payload parsers it uses (\<^verbatim>\<open>ConnmgrStatus.cpp\<close>, \<^verbatim>\<open>SleepdSignals.cpp\<close>). A callback
  gives the notifications it sends to the listeners in their order; \<open>None\<close> stands for undefined
  behaviour. The listeners are the network provider (below) and the service
  (\<^theory_text>\<open>Service_Methods\<close>); they share no state, so the order in which a set of pointers is
  walked does not matter.
\<close>

subsection \<open>The data network of the connection manager\<close>

datatype ConnmgrNetworkType = CONNMGR_NETWORK_MOBILE | CONNMGR_NETWORK_WIFI

primrec connmgr_num :: "ConnmgrNetworkType \<Rightarrow> int" where
  "connmgr_num CONNMGR_NETWORK_MOBILE = 0"
| "connmgr_num CONNMGR_NETWORK_WIFI = 1"

text \<open>
  \<^verbatim>\<open>jstring_get_fast\<close> gives the bytes with their length; on a string the comparison is
  equality with the text.
\<close>

definition linkIsConnected :: "'j pbnjson \<Rightarrow> 'j \<Rightarrow> string \<Rightarrow> bool" where
  "linkIsConnected J status name =
    (case jobject_get_exists J status name of
       None \<Rightarrow> False
     | Some link \<Rightarrow>
         jis_object J link \<and>
         (case jobject_get_exists J link ''state'' of
            None \<Rightarrow> False
          | Some st \<Rightarrow> jis_string J st \<and> jstring_get J st = Some ''connected''))"

text \<open>A boolean field, only if it is present, a boolean and converts.\<close>

definition strict_bool :: "'j pbnjson \<Rightarrow> 'j \<Rightarrow> string \<Rightarrow> bool \<Rightarrow> bool option" where
  "strict_bool J obj k x =
    (case jobject_get_exists J obj k of
       None \<Rightarrow> None
     | Some v \<Rightarrow>
         if jis_boolean J v then (case jboolean_get J v x of (ok, b) \<Rightarrow> if ok then Some b else None) else None)"

definition connmgrParseDataNetwork :: "'j pbnjson \<Rightarrow> string option \<Rightarrow> (bool \<times> ConnmgrNetworkType) option" where
  "connmgrParseDataNetwork J payload =
    (case payload of None \<Rightarrow> None | Some p \<Rightarrow>
     let parsed = jdom_parse J SCHEMA_ALL p
     in if \<not> jis_valid J parsed then None
        else if \<not> jis_object J parsed then None
        else (case strict_bool J parsed ''returnValue'' False of
                Some True \<Rightarrow>
                  (case strict_bool J parsed ''isInternetConnectionAvailable'' False of
                     None \<Rightarrow> None
                   | Some internet \<Rightarrow>
                       Some (internet, if linkIsConnected J parsed ''wifi'' \<or> linkIsConnected J parsed ''wired''
                                       then CONNMGR_NETWORK_WIFI else CONNMGR_NETWORK_MOBILE))
              | _ \<Rightarrow> None))"

subsection \<open>Resume signals\<close>

abbreviation (input) SLEEPD_RESUME_KERNEL :: int where "SLEEPD_RESUME_KERNEL \<equiv> 0"
abbreviation (input) SLEEPD_RESUME_ACTIVITY :: int where "SLEEPD_RESUME_ACTIVITY \<equiv> 1"
abbreviation (input) SLEEPD_RESUME_ABORT_SUSPEND :: int where "SLEEPD_RESUME_ABORT_SUSPEND \<equiv> 2"

definition sleepdParseResumeType :: "'j pbnjson \<Rightarrow> string option \<Rightarrow> int" where
  "sleepdParseResumeType J payload =
    (case payload of None \<Rightarrow> - 1 | Some p \<Rightarrow>
     let parsed = jdom_parse J SCHEMA_ALL p
     in if \<not> jis_valid J parsed then - 1
        else if \<not> jis_object J parsed then - 1
        else (case jobject_get_exists J parsed ''resumetype'' of
                None \<Rightarrow> - 1
              | Some v \<Rightarrow>
                  if jis_number J v then (case jnumber_get_i32 J v (- 1) of (ok, n) \<Rightarrow> if ok then n else - 1) else - 1))"

definition sleepdResumeIsKernelWake :: "int \<Rightarrow> bool" where
  "sleepdResumeIsKernelWake t \<longleftrightarrow> t = SLEEPD_RESUME_KERNEL"

subsection \<open>Notifications\<close>

datatype notification =
    Notify_WifiStateChange bool
  | Notify_WifiInternetStateChange bool
  | Notify_ConnectivityStateChange bool
  | Notify_TelephonyStateChange bool
  | Notify_DataNetworkChange bool int
  | Notify_KernelResume

definition resume_cb :: "'j pbnjson \<Rightarrow> string \<Rightarrow> notification list" where
  "resume_cb J payload =
    (let t = sleepdParseResumeType J (Some payload)
     in if t < 0 then [] else if \<not> sleepdResumeIsKernelWake t then [] else [Notify_KernelResume])"

text \<open>The status text of the wifi service; a status that is not a string has a null buffer, which
  is copied unchecked.\<close>

definition wifi_status_text :: "string \<Rightarrow> notification list" where
  "wifi_status_text st =
    (if st = ''serviceEnabled'' then [Notify_WifiStateChange True]
     else if st = ''serviceDisabled'' then [Notify_WifiStateChange False, Notify_WifiInternetStateChange False]
     else if st = ''connectionStateChanged'' then [Notify_WifiStateChange True, Notify_WifiInternetStateChange True]
     else [])"

definition wifi_status_cb :: "'j pbnjson \<Rightarrow> string \<Rightarrow> notification list option" where
  "wifi_status_cb J payload =
    (let parsed = jdom_parse J SCHEMA_ALL payload
     in if jis_null J parsed then Some []
        else case jobject_get_exists J parsed ''returnValue'' of
          None \<Rightarrow> Some [Notify_WifiStateChange False]
        | Some rv \<Rightarrow>
            if \<not> snd (jboolean_get J rv False)
            then Some (if get_i32 J parsed ''errorCode'' (- 1) = - 1 then [Notify_WifiStateChange False] else [])
            else (case jobject_get_exists J parsed ''status'' of
                    None \<Rightarrow> Some [Notify_WifiStateChange False]
                  | Some v \<Rightarrow> map_option wifi_status_text (jstring_get J v)))"

definition connectivity_notify :: "bool \<times> ConnmgrNetworkType \<Rightarrow> bool \<Rightarrow> notification list" where
  "connectivity_notify data internet =
    [Notify_ConnectivityStateChange internet, Notify_DataNetworkChange (fst data \<and> internet) (connmgr_num (snd data))]"

definition connectivity_status_cb :: "'j pbnjson \<Rightarrow> string \<Rightarrow> notification list" where
  "connectivity_status_cb J payload =
    (let data = (case connmgrParseDataNetwork J (Some payload) of None \<Rightarrow> (False, CONNMGR_NETWORK_MOBILE) | Some d \<Rightarrow> d);
         parsed = jdom_parse J SCHEMA_ALL payload
     in if jis_null J parsed then []
        else case jobject_get_exists J parsed ''returnValue'' of
          None \<Rightarrow> connectivity_notify data False
        | Some rv \<Rightarrow>
            if snd (jboolean_get J rv False)
            then (case jobject_get_exists J parsed ''isInternetConnectionAvailable'' of
                    None \<Rightarrow> connectivity_notify data False
                  | Some v \<Rightarrow> connectivity_notify data (snd (jboolean_get J v False)))
            else if get_i32 J parsed ''errorCode'' (- 1) = - 1 then connectivity_notify data False else [])"

definition telephony_status_cb :: "'j pbnjson \<Rightarrow> string \<Rightarrow> notification list" where
  "telephony_status_cb J payload =
    (let parsed = jdom_parse J SCHEMA_ALL payload
     in if jis_null J parsed then []
        else case jobject_get_exists J parsed ''returnValue'' of
          None \<Rightarrow> [Notify_TelephonyStateChange False]
        | Some rv \<Rightarrow>
            if \<not> snd (jboolean_get J rv False) then []
            else [Notify_TelephonyStateChange
                    (case jobject_get_exists J parsed ''extended'' of
                       None \<Rightarrow> False
                     | Some x \<Rightarrow> get_bool J x ''power'' False)])"

text \<open>
  When a watched service comes up the watcher subscribes to its status; when it goes down nothing is
  sent to the listeners.
\<close>

definition register_wifi_status :: "LSOut list" where
  "register_wifi_status = [ls_out ''luna://com.webos.service.wifi/getstatus'' ''{\"subscribe\":true}'']"

definition register_connectivity_status :: "LSOut list" where
  "register_connectivity_status = [ls_out ''luna://com.webos.service.connectionmanager/getStatus'' ''{\"subscribe\":true}'']"

definition register_telephony_status :: "LSOut list" where
  "register_telephony_status = [ls_out ''luna://com.webos.service.telephony/isTelephonyReady'' ''{\"subscribe\":true}'']"

definition wifi_service_status_cb :: "bool \<Rightarrow> LSOut list" where
  "wifi_service_status_cb up = (if up then register_wifi_status else [])"

definition wan_service_status_cb :: "bool \<Rightarrow> LSOut list" where
  "wan_service_status_cb up = (if up then register_connectivity_status else [])"

definition tel_service_status_cb :: "bool \<Rightarrow> LSOut list" where
  "tel_service_status_cb up = (if up then register_telephony_status else [])"

subsection \<open>The network provider as a listener\<close>

primrec np_Handle :: "notification \<Rightarrow> NetworkPositionProvider \<Rightarrow> NetworkPositionProvider" where
  "np_Handle (Notify_WifiStateChange b) s = np_Handle_WifiNotification b s"
| "np_Handle (Notify_WifiInternetStateChange b) s = s"
| "np_Handle (Notify_ConnectivityStateChange b) s = np_Handle_ConnectivityNotification b s"
| "np_Handle (Notify_TelephonyStateChange b) s = np_Handle_TelephonyNotification b s"
| "np_Handle (Notify_DataNetworkChange b t) s = s"
| "np_Handle Notify_KernelResume s = s"

end
