(* ===== verification/Service_State.thy ===== *)
theory Service_State
  imports Life_Cycle Gps_Provider Net_Provider Stored_Position Geocoding Connection_Observer
begin

text \<open>
  The state of the location service (\<^verbatim>\<open>include/LocationService.h\<close>), its error replies
  (\<^verbatim>\<open>LunaLocationServiceUtil.cpp\<close>), the reply fields of \<^verbatim>\<open>JsonUtility.cpp\<close> and the helpers all
  handlers share. The two providers are the models of \<^theory_text>\<open>Gps_Provider\<close> and
  \<^theory_text>\<open>Net_Provider\<close>; the bus, the clock, timers and random numbers are the environment of
  an event. Every reply is recorded with the identity of its message.
\<close>

subsection \<open>Error replies\<close>

primrec loc_error_text :: "LocationErrorCode \<Rightarrow> string" where
  "loc_error_text LOCATION_SUCCESS = ''Success''"
| "loc_error_text LOCATION_TIME_OUT = ''Time out''"
| "loc_error_text LOCATION_POS_NOT_AVAILABLE = ''Position not available''"
| "loc_error_text LOCATION_UNKNOWN_ERROR = ''Unknown error''"
| "loc_error_text LOCATION_GPS_UNAVAILABLE = ''Gps not supported''"
| "loc_error_text LOCATION_LOCATION_OFF = ''Location source is off''"
| "loc_error_text LOCATION_PENDING_REQ = ''Request pending''"
| "loc_error_text LOCATION_APP_BLACK_LISTED = ''Application is blacklisted''"
| "loc_error_text LOCATION_START_FAILURE = ''Handler start failure''"
| "loc_error_text LOCATION_STATE_UNKNOWN = ''State unknown''"
| "loc_error_text LOCATION_INVALID_INPUT = ''Invalid input''"
| "loc_error_text LOCATION_DATA_CONNECTION_OFF = ''No internet connection''"
| "loc_error_text LOCATION_WIFI_CONNECTION_OFF = ''Wifi is not turned on''"
| "loc_error_text LOCATION_OUT_OF_MEM = ''Out of memory''"
| "loc_error_text LOCATION_GEOFENCE_TOO_MANY_GEOFENCE = ''Too many geofences are added''"
| "loc_error_text LOCATION_GEOFENCE_ID_EXIST = ''Geofence id already exists''"
| "loc_error_text LOCATION_GEOFENCE_ID_UNKNOWN = ''Geofecne id unknown''"
| "loc_error_text LOCATION_GEOFENCE_INVALID_TRANSITION = ''Geofence invalid transition''"
| "loc_error_text LOCATION_NOT_STARTED = ''Location determination was not started''"
| "loc_error_text LOCATION_MOCK_DISABLED = ''Mock location was not enabled''"
| "loc_error_text LOCATION_UNKNOWN_MOCK_PROVIDER = ''Unknown mock location provider name was supplied''"
| "loc_error_text LOCATION_WSP_CONF_READ_FAILED = ''Failed to read the WSP Configuration file''"
| "loc_error_text LOCATION_WSP_CONF_NAME_MISSING = ''Failed to get the WSP name in conf file''"
| "loc_error_text LOCATION_WSP_CONF_APIKEY_MISSING = ''Failed to get the WSP API Key in conf file''"
| "loc_error_text LOCATION_WSP_CONF_NO_SERVICES = ''Failed to get the WSP service list in conf file''"
| "loc_error_text LOCATION_WSP_CONF_NO_FEATURES = ''Failed to get the WSP supported features list in conf file''"
| "loc_error_text LOCATION_WSP_CONF_URL_MISSING = ''Failed to get the WSP feature's URL in conf file''"
| "loc_error_text LOCATION_GPS_NYX_SOURCE_UNAVAILABLE = ''Location data source not present''"

definition mapLocErrorText :: "(LocationErrorCode \<times> string) list" where
  "mapLocErrorText = List.map (\<lambda>e. (e, loc_error_text e)) all_loc_errors"

text \<open>The replies \<^verbatim>\<open>LSMessageInitErrorReply\<close> prepares, one for each row of the table.\<close>

definition locationErrorReply :: "'j jout list" where
  "locationErrorReply =
    List.map (\<lambda>(c, t). OObj [(''returnValue'', OBool (loc_error_num c = 0)), (''errorCode'', OInt (loc_error_num c)), (''errorText'', OStr t)])
      mapLocErrorText"

definition LSMessageGetErrorReply :: "int \<Rightarrow> 'j jout option" where
  "LSMessageGetErrorReply c =
    (if c < 0 \<or> c \<ge> LOCATION_ERROR_MAX then None else Some (locationErrorReply ! nat c))"

subsection \<open>Requests\<close>

text \<open>\<open>m_timerdata\<close> says whether the request still owns its \<^verbatim>\<open>TimerData\<close>.\<close>

record LocationUpdateRequest =
  m_requestTime :: int
  m_lastlat :: double
  m_lastlong :: double
  m_isFirstReply :: bool
  m_timerID :: nat
  m_timerdata :: bool
  m_handler_type :: int

record TimerData =
  td_message :: LSMessage
  td_key :: string

text \<open>Replies handed to the main loop with \<^verbatim>\<open>g_simple_async_result_complete_in_idle\<close>.\<close>

datatype 'j idle =
    SendPosition Position Accuracy string string "'j jout option" "'j jout"
  | SendGeofenceAdd int "'j jout option"
  | SendGeofenceRemove int int "'j jout option"
  | SendGeofenceBreach int "'j jout option"
  | SendNmeaData "'j jout option"
  | SendSatelliteData "'j jout option"
  | SendGPSStatus "'j jout option"
  | SendNfwNotification "'j jout option"

text \<open>What is written to luna-prefs.\<close>

datatype pref_value = PInt int | PStr string

record ('c, 'j) LocationService =
  mGpsStatus :: bool
  mNwStatus :: bool
  mCachedGpsEngineStatus :: bool
  wifistate :: bool
  isTelephonyAvailable :: bool
  isWifiInternetAvailable :: bool
  isInternetConnectionAvailable :: bool
  is_geofenceId_used :: "bool list"
  htPseudoGeofence :: "(nat \<times> int) list"
  catalogue :: 'c
  m_locUpdate_req_table :: "nat \<rightharpoonup> LocationUpdateRequest"
  svc_timers :: "(nat \<times> TimerData) list"
  svc_idle :: "'j idle list"
  svc_replies :: "(nat \<times> 'j jout option) list"
  m_enableSuspendBlocker :: bool
  m_lifeCycleMonitor :: "LifeCycleMonitor option"
  mGPSProvider :: GPSPositionProvider
  mNetworkProvider :: NetworkPositionProvider
  mLBSProvider :: LocationWebServiceProvider
  lp_writes :: "(string \<times> pref_value) list"
  mMainLoop_running :: bool

text \<open>
  \<open>se_draws\<close> are the numbers the random generator yields, \<open>se_distance\<close> is the distance
  function of loc-utils, \<open>se_drop\<close> is what luna-service2 does with a cancelled message after the
  cancel callback: it leaves every list. \<open>se_prefs\<close> is luna-prefs over the values written so far,
  \<open>se_stored\<close> the stored position of a file (\<^verbatim>\<open>get_stored_position\<close> over the file system),
  \<open>se_wsp\<close> the parsed configuration of the web service, \<open>se_feed\<close> the incremental JSON parser,
  \<open>se_handle\<close> whether the HAL device is open,
  \<open>se_debug\<close> the buffer it fills with debug data, \<open>se_junk\<close> the content of an uninitialised
  number, \<open>se_bits\<close> the flags of nyx locations.
\<close>

record luna_prefs =
  LPAppGetHandle :: bool
  LPAppCopyValueInt :: "(string \<times> pref_value) list \<Rightarrow> string option \<Rightarrow> int option"
  LPAppSetValueString :: bool

record ('c, 'j) svc_env =
  se_bus :: "'c bus"
  se_drop :: "LSMessage \<Rightarrow> 'c \<Rightarrow> 'c"
  se_gps :: gps_env
  se_strtod :: "string \<Rightarrow> double"
  se_net :: "'j net_env"
  se_now :: int
  se_timer :: nat
  se_ls :: "LSOut \<Rightarrow> bool"
  se_draws :: "nat \<Rightarrow> int"
  se_distance :: "double \<Rightarrow> double \<Rightarrow> double \<Rightarrow> double \<Rightarrow> double"
  se_prefs :: luna_prefs
  se_stored :: "string \<Rightarrow> Position \<times> Accuracy \<Rightarrow> ErrorCodes \<times> Position \<times> Accuracy"
  se_wsp :: 'j
  se_http :: http_env
  se_feed :: "string \<Rightarrow> 'j option"
  se_tostring :: "'j \<Rightarrow> string"
  se_handle :: bool
  se_debug :: string
  se_junk :: double
  se_bits :: nyx_location_bits

abbreviation sj :: "('c, 'j) svc_env \<Rightarrow> 'j pbnjson" where "sj E \<equiv> ne_json (se_net E)"

subsection \<open>Replies\<close>

definition LSMessageReply :: "LSMessage \<Rightarrow> 'j jout option \<Rightarrow> ('c, 'j) LocationService \<Rightarrow> ('c, 'j) LocationService" where
  "LSMessageReply m p s = s\<lparr>svc_replies := svc_replies s @ [(msg_id m, p)]\<rparr>"

definition LSMessageReplyError :: "LSMessage \<Rightarrow> int \<Rightarrow> ('c, 'j) LocationService \<Rightarrow> ('c, 'j) LocationService" where
  "LSMessageReplyError m c s =
    (if c < 0 \<or> c \<ge> LOCATION_ERROR_MAX then s else LSMessageReply m (Some (locationErrorReply ! nat c)) s)"

definition LSMessageReplyCustomError :: "LSMessage \<Rightarrow> int \<Rightarrow> ('c, 'j) LocationService \<Rightarrow> ('c, 'j) LocationService" where
  "LSMessageReplyCustomError m c s =
    (if c < 0 \<or> c \<ge> LOCATION_ERROR_MAX then s
     else LSMessageReply m (Some (OObj [(''returnValue'', OBool False), (''errorCode'', OInt c),
            (''errorText'', OStr (snd (mapLocErrorText ! nat c)))])) s)"

definition LSMessageValidateSchemaReplyOnError ::
  "('c, 'j) svc_env \<Rightarrow> LSMessage \<Rightarrow> string \<Rightarrow> ('c, 'j) LocationService \<Rightarrow> 'j option \<times> ('c, 'j) LocationService" where
  "LSMessageValidateSchemaReplyOnError E m schema s =
    (let parsed = jdom_parse (sj E) schema (msg_payload m)
     in if jis_null (sj E) parsed then (None, LSMessageReplyCustomError m (loc_error_num LOCATION_INVALID_INPUT) s)
        else (Some parsed, s))"

definition location_util_form_json_reply :: "bool \<Rightarrow> LocationErrorCode \<Rightarrow> (string \<times> 'j jout) list" where
  "location_util_form_json_reply r c = [(''returnValue'', OBool r), (''errorCode'', OInt (loc_error_num c))]"

definition location_util_add_pos_json :: "int \<Rightarrow> Position option \<Rightarrow> (string \<times> 'j jout) list" where
  "location_util_add_pos_json now pos =
    (case pos of
       None \<Rightarrow> []
     | Some p \<Rightarrow>
         [(''timestamp'', OInt (if p_timestamp p = 0 then now else p_timestamp p)), (''latitude'', OReal (p_latitude p)),
          (''longitude'', OReal (p_longitude p)), (''altitude'', OReal (p_altitude p)),
          (''direction'', OReal (p_direction p)), (''speed'', OReal (p_speed p))])"

definition location_util_add_acc_json :: "Accuracy option \<Rightarrow> (string \<times> 'j jout) list" where
  "location_util_add_acc_json acc =
    (case acc of None \<Rightarrow> [] | Some a \<Rightarrow> [(''horizAccuracy'', OReal (horizAccuracy a)), (''vertAccuracy'', OReal (vertAccuracy a))])"

definition location_util_req_has_wakeup :: "'j pbnjson \<Rightarrow> LSMessage \<Rightarrow> bool" where
  "location_util_req_has_wakeup J m =
    (let parsed = jdom_parse J SCHEMA_ALL (msg_payload m)
     in if jis_null J parsed then False else get_bool J parsed ''wakelock'' False)"

subsection \<open>Subscription keys\<close>

abbreviation (input) SUBSC_GPS_GET_NMEA_KEY :: string where "SUBSC_GPS_GET_NMEA_KEY \<equiv> ''getNmeaData''"
abbreviation (input) SUBSC_GET_GPS_SATELLITE_DATA :: string where "SUBSC_GET_GPS_SATELLITE_DATA \<equiv> ''getGpsSatelliteData''"
abbreviation (input) SUBSC_GEOFENCE_ADD_AREA_KEY :: string where "SUBSC_GEOFENCE_ADD_AREA_KEY \<equiv> ''addGeofenceArea''"
abbreviation (input) SUBSC_GEOFENCE_REMOVE_AREA_KEY :: string where "SUBSC_GEOFENCE_REMOVE_AREA_KEY \<equiv> ''removeGeofenceArea''"
abbreviation (input) GET_LOC_UPDATE_KEY :: string where "GET_LOC_UPDATE_KEY \<equiv> ''getLocationUpdates''"
abbreviation (input) GPS_KEY :: string where "GPS_KEY \<equiv> ''gps/getLocationUpdate''"
abbreviation (input) NW_KEY :: string where "NW_KEY \<equiv> ''nw/getLocationUpdate''"
abbreviation (input) HYBRID_KEY :: string where "HYBRID_KEY \<equiv> ''gpsnw/getLocationUpdate''"
abbreviation (input) PASSIVE_KEY :: string where "PASSIVE_KEY \<equiv> ''passive/getLocationUpdate''"

subsection \<open>Lists\<close>

text \<open>\<^verbatim>\<open>isListFilled\<close>; the message is \<open>None\<close> for a null pointer.\<close>

definition isSubscListFilled ::
  "('c, 'j) svc_env \<Rightarrow> nat option \<Rightarrow> string \<Rightarrow> bool \<Rightarrow> ('c, 'j) LocationService \<Rightarrow> bool" where
  "isSubscListFilled E m key cancelCase s =
    (case LSSubscriptionAcquire (se_bus E) key (catalogue s) of
       None \<Rightarrow> False
     | Some [] \<Rightarrow> False
     | Some (x # xs) \<Rightarrow> if cancelCase then (if m = Some (msg_id x) then xs \<noteq> [] else True) else True)"

definition subs_remove :: "('c, 'j) svc_env \<Rightarrow> string \<Rightarrow> LSMessage \<Rightarrow> ('c, 'j) LocationService \<Rightarrow> ('c, 'j) LocationService" where
  "subs_remove E key m s = s\<lparr>catalogue := LSSubscriptionRemove (se_bus E) key m (catalogue s)\<rparr>"

subsection \<open>Providers\<close>

definition getHandlerStatus :: "string \<Rightarrow> ('c, 'j) LocationService \<Rightarrow> bool" where
  "getHandlerStatus h s = (if h = GPS then mGpsStatus s else if h = NETWORK then mNwStatus s else False)"

definition gps_request :: "('c, 'j) svc_env \<Rightarrow> PositionRequest \<Rightarrow> ('c, 'j) LocationService \<Rightarrow> ErrorCodes \<times> ('c, 'j) LocationService" where
  "gps_request E r s =
    (let (e, g) = gps_processRequest (se_gps E) (sj E) (se_strtod E) r (mGPSProvider s) in (e, s\<lparr>mGPSProvider := g\<rparr>))"

definition nw_request :: "('c, 'j) svc_env \<Rightarrow> PositionRequest \<Rightarrow> ('c, 'j) LocationService \<Rightarrow> ErrorCodes \<times> ('c, 'j) LocationService" where
  "nw_request E r s = (let (e, n) = np_processRequest (se_net E) r (mNetworkProvider s) in (e, s\<lparr>mNetworkProvider := n\<rparr>))"

definition release_wakelock :: "('c, 'j) svc_env \<Rightarrow> LSMessage \<Rightarrow> ('c, 'j) LocationService \<Rightarrow> ('c, 'j) LocationService" where
  "release_wakelock E m s =
    (if location_util_req_has_wakeup (sj E) m
     then s\<lparr>m_lifeCycleMonitor := map_option (setWakeLock (se_ls E) False False) (m_lifeCycleMonitor s)\<rparr> else s)"

text \<open>\<^verbatim>\<open>stopSubcription\<close> and \<^verbatim>\<open>stopNonSubcription\<close> have the same body.\<close>

definition stopSubcription :: "('c, 'j) svc_env \<Rightarrow> string \<Rightarrow> ('c, 'j) LocationService \<Rightarrow> ('c, 'j) LocationService" where
  "stopSubcription E key s =
    (if key = SUBSC_GPS_GET_NMEA_KEY then snd (gps_request E (position_request ''GPS'' STOP_NMEA_CMD) s)
     else if key = SUBSC_GET_GPS_SATELLITE_DATA then snd (gps_request E (position_request ''GPS'' STOP_SATELITTE_CMD) s)
     else if key = GPS_KEY then snd (gps_request E (position_request ''GPS'' STOP_POSITION_CMD) s)
     else if key = NW_KEY then snd (nw_request E (position_request ''network'' STOP_POSITION_CMD) s)
     else s)"

text \<open>The reply to every message of a key; one-shot requests leave the list.\<close>

definition reply_and_drop ::
  "('c, 'j) svc_env \<Rightarrow> string \<Rightarrow> 'j jout option \<Rightarrow> LSMessage \<Rightarrow> ('c, 'j) LocationService \<Rightarrow> ('c, 'j) LocationService" where
  "reply_and_drop E key p m s =
    (let s1 = LSMessageReply m p s in if msg_is_subscription m then s1 else subs_remove E key m s1)"

definition LSSubscriptionNonSubscriptionReply ::
  "('c, 'j) svc_env \<Rightarrow> string \<Rightarrow> 'j jout option \<Rightarrow> ('c, 'j) LocationService \<Rightarrow> ('c, 'j) LocationService" where
  "LSSubscriptionNonSubscriptionReply E key p s =
    (case LSSubscriptionAcquire (se_bus E) key (catalogue s) of
       None \<Rightarrow> s
     | Some ms \<Rightarrow>
         let s1 = fold (reply_and_drop E key p) ms s
         in if (\<exists>m \<in> set ms. \<not> msg_is_subscription m) \<and> \<not> isSubscListFilled E None key False s1
            then stopSubcription E key s1 else s1)"

text \<open>\<^verbatim>\<open>LSSubscriptionReply\<close>: a reply to every message of a key.\<close>

definition LSSubscriptionReply ::
  "('c, 'j) svc_env \<Rightarrow> string \<Rightarrow> 'j jout option \<Rightarrow> ('c, 'j) LocationService \<Rightarrow> ('c, 'j) LocationService" where
  "LSSubscriptionReply E key p s = fold (\<lambda>m. LSMessageReply m p) (sublist_of (se_bus E) key (catalogue s)) s"

end
