(* ===== verification/Service_Geofence.thy ===== *)
theory Service_Geofence
  imports Service_State
begin

text \<open>
  Geofences of \<^verbatim>\<open>LocationService.cpp\<close>: the identifiers, the two methods, the callbacks of the GPS
  provider and the replies that are sent from the main loop.
\<close>

abbreviation (input) MAX_GEOFENCE_ID :: nat where "MAX_GEOFENCE_ID \<equiv> 200"
abbreviation (input) MIN_GEOFENCE_RANGE :: int where "MIN_GEOFENCE_RANGE \<equiv> 1000"

definition geofenceSlot :: "int \<Rightarrow> nat option" where
  "geofenceSlot geofenceId =
    (let index = geofenceId - MIN_GEOFENCE_RANGE in if index < 0 \<or> index \<ge> int MAX_GEOFENCE_ID then None else Some (nat index))"

text \<open>The loop of \<^verbatim>\<open>addGeofenceArea\<close>: \<open>n\<close> more draws, the next of them number \<open>i\<close>.\<close>

fun pick_id :: "(nat \<Rightarrow> int) \<Rightarrow> nat \<Rightarrow> nat \<Rightarrow> bool list \<Rightarrow> (int \<times> bool list) option" where
  "pick_id draws i 0 used = None"
| "pick_id draws i (Suc n) used =
    (case geofenceSlot (draws i) of
       None \<Rightarrow> pick_id draws (Suc i) n used
     | Some slot \<Rightarrow>
         if \<not> used ! slot then Some (draws i, used[slot := True]) else pick_id draws (Suc i) n used)"

definition add_key :: "int \<Rightarrow> string" where "add_key i = pct_d i @ SUBSC_GEOFENCE_ADD_AREA_KEY"
definition remove_key :: "int \<Rightarrow> string" where "remove_key i = pct_d i @ SUBSC_GEOFENCE_REMOVE_AREA_KEY"

definition reply_error_unless :: "LSMessage \<Rightarrow> LocationErrorCode \<Rightarrow> ('c, 'j) LocationService \<Rightarrow> ('c, 'j) LocationService" where
  "reply_error_unless m e s = (if e \<noteq> LOCATION_SUCCESS then LSMessageReplyError m (loc_error_num e) s else s)"

definition ht_put :: "nat \<Rightarrow> int \<Rightarrow> (nat \<times> int) list \<Rightarrow> (nat \<times> int) list" where
  "ht_put k v t = (k, v) # filter (\<lambda>x. fst x \<noteq> k) t"

definition addGeofenceArea :: "('c, 'j) svc_env \<Rightarrow> LSMessage \<Rightarrow> ('c, 'j) LocationService \<Rightarrow> ('c, 'j) LocationService" where
  "addGeofenceArea E m s0 =
    (case LSMessageValidateSchemaReplyOnError E m ''JSCHEMA_ADD_GEOFENCE_AREA'' s0 of
       (None, s) \<Rightarrow> s
     | (Some parsed, s) \<Rightarrow>
         if \<not> getHandlerStatus GPS s then reply_error_unless m LOCATION_LOCATION_OFF s
         else
           let request = (position_request ''GPS'' ADD_GEOFENCE_CMD)
                 \<lparr>mGeofenceLatitude := get_f64 (sj E) parsed ''latitude'' 0,
                  mGeofenceLongitude := get_f64 (sj E) parsed ''longitude'' 0,
                  mGeofenceRadius := get_f64 (sj E) parsed ''radius'' 0\<rparr>
           in (case pick_id (se_draws E) 0 MAX_GEOFENCE_ID (is_geofenceId_used s) of
                 None \<Rightarrow> reply_error_unless m LOCATION_GEOFENCE_TOO_MANY_GEOFENCE s
               | Some (gid, used) \<Rightarrow>
                   let s1 = s\<lparr>is_geofenceId_used := used\<rparr>;
                       (ret, s2) = gps_request E (request\<lparr>mGeofenceID := gid\<rparr>) s1
                   in if ret \<noteq> ERROR_NONE then reply_error_unless m LOCATION_UNKNOWN_ERROR s2
                      else
                        let (ok, c) = LSSubscriptionAdd (se_bus E) (add_key gid) m (catalogue s2);
                            s3 = s2\<lparr>catalogue := c\<rparr>
                        in if ok then s3\<lparr>htPseudoGeofence := ht_put (msg_id m) gid (htPseudoGeofence s3)\<rparr>
                           else reply_error_unless m LOCATION_UNKNOWN_ERROR s3))"

definition removeGeofenceArea :: "('c, 'j) svc_env \<Rightarrow> LSMessage \<Rightarrow> ('c, 'j) LocationService \<Rightarrow> ('c, 'j) LocationService" where
  "removeGeofenceArea E m s0 =
    (case LSMessageValidateSchemaReplyOnError E m ''JSCHEMA_REMOVE_GEOFENCE_AREA'' s0 of
       (None, s) \<Rightarrow> s
     | (Some parsed, s) \<Rightarrow>
         let gid = get_i32 (sj E) parsed ''geofenceid'' (-1)
         in if \<not> isSubscListFilled E (Some (msg_id m)) (add_key gid) False s
            then reply_error_unless m LOCATION_GEOFENCE_ID_UNKNOWN s
            else
              let (ret, s1) = gps_request E ((position_request ''GPS'' REMOVE_GEOFENCE_CMD)\<lparr>mGeofenceID := gid\<rparr>) s
              in if ret \<noteq> ERROR_NONE then reply_error_unless m LOCATION_UNKNOWN_ERROR s1
                 else
                   let (ok, c) = LSSubscriptionAdd (se_bus E) (remove_key gid) m (catalogue s1);
                       s2 = s1\<lparr>catalogue := c\<rparr>
                   in if ok then s2 else reply_error_unless m LOCATION_UNKNOWN_ERROR s2)"

text \<open>The branch of \<^verbatim>\<open>cancelSubscription\<close> for a client that added a geofence.\<close>

definition free_slot :: "int \<Rightarrow> ('c, 'j) LocationService \<Rightarrow> ('c, 'j) LocationService" where
  "free_slot gid s =
    (case geofenceSlot gid of None \<Rightarrow> s | Some slot \<Rightarrow> s\<lparr>is_geofenceId_used := (is_geofenceId_used s)[slot := False]\<rparr>)"

definition cancel_geofence :: "('c, 'j) svc_env \<Rightarrow> LSMessage \<Rightarrow> ('c, 'j) LocationService \<Rightarrow> ('c, 'j) LocationService" where
  "cancel_geofence E m s =
    (case map_of (htPseudoGeofence s) (msg_id m) of
       None \<Rightarrow> s
     | Some gid \<Rightarrow> if gid = 0 then s
         else snd (gps_request E ((position_request ''GPS'' REMOVE_GEOFENCE_CMD)\<lparr>mGeofenceID := gid\<rparr>) (free_slot gid s)))"

subsection \<open>Callbacks of the provider\<close>

abbreviation (input) GEOFENCE_ENTERED :: int where "GEOFENCE_ENTERED \<equiv> 0"
abbreviation (input) GEOFENCE_EXITED :: int where "GEOFENCE_EXITED \<equiv> 1"
abbreviation (input) GEOFENCE_OPERATION_SUCCESS :: int where "GEOFENCE_OPERATION_SUCCESS \<equiv> 0"
abbreviation (input) GEOFENCE_ERROR_TOO_MANY_GEOFENCES :: int where "GEOFENCE_ERROR_TOO_MANY_GEOFENCES \<equiv> -100"
abbreviation (input) GEOFENCE_ERROR_ID_EXISTS :: int where "GEOFENCE_ERROR_ID_EXISTS \<equiv> -101"
abbreviation (input) GEOFENCE_ERROR_ID_UNKNOWN :: int where "GEOFENCE_ERROR_ID_UNKNOWN \<equiv> -102"
abbreviation (input) GEOFENCE_ERROR_INVALID_TRANSITION :: int where "GEOFENCE_ERROR_INVALID_TRANSITION \<equiv> -103"

definition to_idle :: "'j idle \<Rightarrow> ('c, 'j) LocationService \<Rightarrow> ('c, 'j) LocationService" where
  "to_idle i s = s\<lparr>svc_idle := svc_idle s @ [i]\<rparr>"

definition breach_text :: "int \<Rightarrow> string" where
  "breach_text status =
    (if status = GEOFENCE_ENTERED then ''transitionEntered''
     else if status = GEOFENCE_EXITED then ''transitionExited'' else ''transitionUncertain'')"

definition geofence_breach_reply ::
  "int \<Rightarrow> int \<Rightarrow> int \<Rightarrow> double \<Rightarrow> double \<Rightarrow> ('c, 'j) LocationService \<Rightarrow> ('c, 'j) LocationService" where
  "geofence_breach_reply gid status ts lat lon s =
    to_idle (SendGeofenceBreach gid (Some (OObj (location_util_form_json_reply True LOCATION_SUCCESS
      @ [(''status'', OStr (breach_text status)), (''timestamp'', OInt ts),
         (''latitude'', OReal lat), (''longitude'', OReal lon)])))) s"

definition geofence_add_code :: "int \<Rightarrow> LocationErrorCode" where
  "geofence_add_code status =
    (if status = GEOFENCE_OPERATION_SUCCESS then LOCATION_SUCCESS
     else if status = GEOFENCE_ERROR_TOO_MANY_GEOFENCES then LOCATION_GEOFENCE_TOO_MANY_GEOFENCE
     else if status = GEOFENCE_ERROR_ID_EXISTS then LOCATION_GEOFENCE_ID_EXIST
     else if status = GEOFENCE_ERROR_INVALID_TRANSITION then LOCATION_GEOFENCE_INVALID_TRANSITION
     else LOCATION_UNKNOWN_ERROR)"

definition geofence_add_reply :: "int \<Rightarrow> int \<Rightarrow> ('c, 'j) LocationService \<Rightarrow> ('c, 'j) LocationService" where
  "geofence_add_reply gid status s =
    (let e = geofence_add_code status
     in if e \<noteq> LOCATION_SUCCESS
        then to_idle (SendGeofenceAdd gid (LSMessageGetErrorReply (loc_error_num e))) (free_slot gid s)
        else to_idle (SendGeofenceAdd gid (Some (OObj (location_util_form_json_reply True LOCATION_SUCCESS
               @ [(''status'', OStr ''added''), (''geofenceid'', OInt gid)])))) s)"

definition geofence_remove_code :: "int \<Rightarrow> LocationErrorCode" where
  "geofence_remove_code status =
    (if status = GEOFENCE_OPERATION_SUCCESS then LOCATION_SUCCESS
     else if status = GEOFENCE_ERROR_ID_UNKNOWN then LOCATION_GEOFENCE_ID_UNKNOWN else LOCATION_UNKNOWN_ERROR)"

definition geofence_remove_reply :: "int \<Rightarrow> int \<Rightarrow> ('c, 'j) LocationService \<Rightarrow> ('c, 'j) LocationService" where
  "geofence_remove_reply gid status s =
    (let e = geofence_remove_code status
     in to_idle (SendGeofenceRemove gid status
          (if e \<noteq> LOCATION_SUCCESS then LSMessageGetErrorReply (loc_error_num e)
           else Some (OObj (location_util_form_json_reply True LOCATION_SUCCESS @ [(''status'', OStr ''removed'')])))) s)"

subsection \<open>Replies from the main loop\<close>

definition sendGeofenceAddData :: "('c, 'j) svc_env \<Rightarrow> int \<Rightarrow> 'j jout option \<Rightarrow> ('c, 'j) LocationService \<Rightarrow> ('c, 'j) LocationService" where
  "sendGeofenceAddData E gid p s = LSSubscriptionReply E (add_key gid) p s"

definition sendGeofenceBreachData :: "('c, 'j) svc_env \<Rightarrow> int \<Rightarrow> 'j jout option \<Rightarrow> ('c, 'j) LocationService \<Rightarrow> ('c, 'j) LocationService" where
  "sendGeofenceBreachData E gid p s = LSSubscriptionReply E (add_key gid) p s"

text \<open>The first entry with the identifier leaves the table.\<close>

fun ht_drop_value :: "int \<Rightarrow> (nat \<times> int) list \<Rightarrow> (nat \<times> int) list" where
  "ht_drop_value v [] = []"
| "ht_drop_value v (x # xs) = (if snd x = v then xs else x # ht_drop_value v xs)"

definition sendGeofenceRemoveData ::
  "('c, 'j) svc_env \<Rightarrow> int \<Rightarrow> int \<Rightarrow> 'j jout option \<Rightarrow> ('c, 'j) LocationService \<Rightarrow> ('c, 'j) LocationService" where
  "sendGeofenceRemoveData E gid status p s =
    (let s1 = LSSubscriptionNonSubscriptionReply E (remove_key gid) p s
     in if status = GEOFENCE_OPERATION_SUCCESS then
          let s2 = free_slot gid (LSSubscriptionNonSubscriptionReply E (add_key gid) p s1)
          in s2\<lparr>htPseudoGeofence := ht_drop_value gid (htPseudoGeofence s2)\<rparr>
        else s1)"

end
