(* ===== verification/Service_Updates.thy ===== *)
theory Service_Updates
  imports Service_Geofence
begin

text \<open>
  Location updates of \<^verbatim>\<open>LocationService.cpp\<close>: \<^verbatim>\<open>getLocationUpdates\<close>, the handlers it starts, the
  replies to its clients with their criteria, the response timer and the end of a subscription.
\<close>

subsection \<open>Handlers\<close>

datatype getloc = GETLOC_UPDATE_NW | GETLOC_UPDATE_GPS_NW | GETLOC_UPDATE_GPS | GETLOC_UPDATE_PASSIVE | GETLOC_UPDATE_INVALID

abbreviation (input) HANDLER_NETWORK_BIT :: "8 word" where "HANDLER_NETWORK_BIT \<equiv> 1"
abbreviation (input) HANDLER_GPS_BIT :: "8 word" where "HANDLER_GPS_BIT \<equiv> 2"
abbreviation (input) HANDLER_HYBRID_INT :: int where "HANDLER_HYBRID_INT \<equiv> 3"
abbreviation (input) MINIMAL_ACCURACY :: double where "MINIMAL_ACCURACY \<equiv> 100"

definition getHandlerVal :: "string \<Rightarrow> getloc" where
  "getHandlerVal h =
    (if h = GPS then GETLOC_UPDATE_GPS else if h = NETWORK then GETLOC_UPDATE_NW
     else if h = HYBRID then GETLOC_UPDATE_GPS_NW else if h = PASSIVE then GETLOC_UPDATE_PASSIVE
     else GETLOC_UPDATE_INVALID)"

definition enableGpsHandler :: "('c, 'j) LocationService \<Rightarrow> 8 word \<Rightarrow> bool \<times> 8 word" where
  "enableGpsHandler s started = (if getHandlerStatus GPS s then (True, started OR HANDLER_GPS_BIT) else (False, started))"

definition enableNwHandler :: "('c, 'j) LocationService \<Rightarrow> 8 word \<Rightarrow> bool \<times> 8 word" where
  "enableNwHandler s started =
    (if getHandlerStatus NETWORK s then
       let st = (if isInternetConnectionAvailable s then started OR HANDLER_NETWORK_BIT else started)
       in (st \<noteq> 0, st)
     else (True, started))"

text \<open>The key starts as the empty string; the result is the verdict, the key and the started handlers.\<close>

definition enableHandlers :: "getloc \<Rightarrow> ('c, 'j) LocationService \<Rightarrow> bool \<times> string \<times> 8 word" where
  "enableHandlers sel s =
    (let (key, started) =
       (case sel of
          GETLOC_UPDATE_GPS \<Rightarrow> (let (ok, st) = enableGpsHandler s 0 in (if ok then GPS_KEY else [], st))
        | GETLOC_UPDATE_NW \<Rightarrow> (let (ok, st) = enableNwHandler s 0 in (if ok then NW_KEY else [], st))
        | GETLOC_UPDATE_GPS_NW \<Rightarrow>
            (let (g, st) = enableGpsHandler s 0; (n, st') = enableNwHandler s st in (if g \<or> n then HYBRID_KEY else [], st'))
        | GETLOC_UPDATE_PASSIVE \<Rightarrow> (PASSIVE_KEY, 0)
        | GETLOC_UPDATE_INVALID \<Rightarrow> ([], 0))
     in (started \<noteq> 0, key, started))"

subsection \<open>The request table\<close>

definition g_source_remove :: "nat \<Rightarrow> ('c, 'j) LocationService \<Rightarrow> ('c, 'j) LocationService" where
  "g_source_remove t s = s\<lparr>svc_timers := filter (\<lambda>x. fst x \<noteq> t) (svc_timers s)\<rparr>"

definition stop_timer :: "LocationUpdateRequest \<Rightarrow> ('c, 'j) LocationService \<Rightarrow> ('c, 'j) LocationService" where
  "stop_timer r s = (if m_timerID r \<noteq> 0 then g_source_remove (m_timerID r) s else s)"

definition removeTimer :: "LSMessage \<Rightarrow> ('c, 'j) LocationService \<Rightarrow> ('c, 'j) LocationService" where
  "removeTimer m s =
    (case m_locUpdate_req_table s (msg_id m) of
       None \<Rightarrow> s
     | Some r \<Rightarrow> (stop_timer r s)\<lparr>m_locUpdate_req_table := (m_locUpdate_req_table s)(msg_id m \<mapsto> r\<lparr>m_timerdata := False\<rparr>)\<rparr>)"

definition LSMessageRemoveReqList :: "LSMessage \<Rightarrow> ('c, 'j) LocationService \<Rightarrow> bool \<times> ('c, 'j) LocationService" where
  "LSMessageRemoveReqList m s =
    (case m_locUpdate_req_table s (msg_id m) of
       None \<Rightarrow> (False, s)
     | Some r \<Rightarrow> (True, (stop_timer r s)\<lparr>m_locUpdate_req_table := (m_locUpdate_req_table s)(msg_id m := None)\<rparr>))"

definition meetsCriteria ::
  "('c, 'j) svc_env \<Rightarrow> LSMessage \<Rightarrow> Position \<Rightarrow> Accuracy \<Rightarrow> int \<Rightarrow> int \<Rightarrow> ('c, 'j) LocationService \<Rightarrow> bool \<times> ('c, 'j) LocationService" where
  "meetsCriteria E m pos acc minInterval minDist s =
    (case m_locUpdate_req_table s (msg_id m) of
       None \<Rightarrow> (False, s)
     | Some r \<Rightarrow>
         let upd = (\<lambda>r. r\<lparr>m_requestTime := se_now E, m_lastlat := p_latitude pos, m_lastlong := p_longitude pos\<rparr>);
             put = (\<lambda>r. s\<lparr>m_locUpdate_req_table := (m_locUpdate_req_table s)(msg_id m \<mapsto> r)\<rparr>)
         in if m_isFirstReply r then (True, put ((upd r)\<lparr>m_isFirstReply := False\<rparr>))
            else if p_timestamp pos = 0 then (False, s)
            else
              let elapsedTime = se_now E - m_requestTime r;
                  bMeetsInterval = (\<not> (minInterval > 0 \<and> elapsedTime \<le> minInterval));
                  bMeetsDistance = (\<not> (minDist > 0 \<and> \<not> se_distance E (p_latitude pos) (p_longitude pos)
                                        (m_lastlat r) (m_lastlong r) \<ge> of_int minDist));
                  meets = (bMeetsInterval \<and> bMeetsDistance \<and>
                    (if m_handler_type r = HANDLER_HYBRID_INT
                     then elapsedTime > 60000 \<or> horizAccuracy acc < MINIMAL_ACCURACY else True))
              in if meets then (True, put (upd r)) else (False, s))"

subsection \<open>Replies\<close>

definition LSMessageReplyLocUpdateCase ::
  "('c, 'j) svc_env \<Rightarrow> LSMessage \<Rightarrow> string \<Rightarrow> 'j jout option \<Rightarrow> ('c, 'j) LocationService \<Rightarrow> ('c, 'j) LocationService" where
  "LSMessageReplyLocUpdateCase E m key payload s =
    (let s1 = LSMessageReply m payload s
     in if \<not> msg_is_subscription m
        then snd (LSMessageRemoveReqList m (release_wakelock E m (subs_remove E key m s1)))
        else removeTimer m s1)"

definition reply_loc ::
  "('c, 'j) svc_env \<Rightarrow> Position option \<Rightarrow> Accuracy option \<Rightarrow> string \<Rightarrow> 'j jout option \<Rightarrow> LSMessage
    \<Rightarrow> ('c, 'j) LocationService \<Rightarrow> ('c, 'j) LocationService" where
  "reply_loc E pos acc key payload m s =
    (case (pos, acc) of
       (Some p, Some a) \<Rightarrow>
         let parsed = jdom_parse (sj E) SCHEMA_ALL (msg_payload m);
             null = jis_null (sj E) parsed;
             minInterval = (if null then 0 else get_i32 (sj E) parsed ''minimumInterval'' 0);
             minDist = (if null then 0 else get_i32 (sj E) parsed ''minimumDistance'' 0);
             (meets, s1) = meetsCriteria E m p a minInterval minDist s
         in if meets then LSMessageReplyLocUpdateCase E m key payload s1 else s1
     | _ \<Rightarrow> LSMessageReplyLocUpdateCase E m key payload s)"

definition both_empty :: "('c, 'j) svc_env \<Rightarrow> string \<Rightarrow> string \<Rightarrow> ('c, 'j) LocationService \<Rightarrow> bool" where
  "both_empty E k1 k2 s \<longleftrightarrow> \<not> isSubscListFilled E None k1 False s \<and> \<not> isSubscListFilled E None k2 False s"

definition LSSubNonSubReplyLocUpdateCase ::
  "('c, 'j) svc_env \<Rightarrow> Position option \<Rightarrow> Accuracy option \<Rightarrow> string \<Rightarrow> 'j jout option
    \<Rightarrow> ('c, 'j) LocationService \<Rightarrow> ('c, 'j) LocationService" where
  "LSSubNonSubReplyLocUpdateCase E pos acc key payload s =
    (case LSSubscriptionAcquire (se_bus E) key (catalogue s) of
       None \<Rightarrow> s
     | Some ms \<Rightarrow>
         let s1 = fold (reply_loc E pos acc key payload) ms s
         in if \<not> (\<exists>m \<in> set ms. \<not> msg_is_subscription m) then s1
            else if key = HYBRID_KEY then
              let s2 = (if both_empty E HYBRID_KEY GPS_KEY s1 then stopSubcription E GPS_KEY s1 else s1)
              in if both_empty E HYBRID_KEY NW_KEY s2 then stopSubcription E NW_KEY s2 else s2
            else if both_empty E key HYBRID_KEY s1 then stopSubcription E key s1 else s1)"

definition sendPositionData ::
  "('c, 'j) svc_env \<Rightarrow> Position \<Rightarrow> Accuracy \<Rightarrow> string \<Rightarrow> string \<Rightarrow> 'j jout option \<Rightarrow> 'j jout
    \<Rightarrow> ('c, 'j) LocationService \<Rightarrow> ('c, 'j) LocationService" where
  "sendPositionData E p a key1 key2 r1 r2 s =
    LSSubNonSubReplyLocUpdateCase E (Some p) (Some a) PASSIVE_KEY (Some r2)
      (LSSubNonSubReplyLocUpdateCase E (Some p) (Some a) key2 r1
        (LSSubNonSubReplyLocUpdateCase E (Some p) (Some a) key1 r1 s))"

text \<open>The object stays empty when the reply is an error; the passive clients get the object.\<close>

definition getLocationUpdate_reply ::
  "('c, 'j) svc_env \<Rightarrow> Position option \<Rightarrow> Accuracy option \<Rightarrow> ErrorCodes \<Rightarrow> HandlerTypes
    \<Rightarrow> ('c, 'j) LocationService \<Rightarrow> ('c, 'j) LocationService" where
  "getLocationUpdate_reply E pos acc err type s =
    (let key1 = (if type = HANDLER_GPS then GPS_KEY else NW_KEY);
         obj = (if err = ERROR_NONE
                then OObj (location_util_form_json_reply True LOCATION_SUCCESS
                       @ location_util_add_pos_json (se_now E) pos @ location_util_add_acc_json acc)
                else OObj []);
         ret = (case err of
                  ERROR_NONE \<Rightarrow> Some obj
                | ERROR_TIMEOUT \<Rightarrow> LSMessageGetErrorReply (loc_error_num LOCATION_TIME_OUT)
                | ERROR_NETWORK_ERROR \<Rightarrow> LSMessageGetErrorReply (loc_error_num LOCATION_DATA_CONNECTION_OFF)
                | _ \<Rightarrow> LSMessageGetErrorReply (loc_error_num LOCATION_UNKNOWN_ERROR))
     in if type = HANDLER_GPS
        then to_idle (SendPosition (case pos of None \<Rightarrow> position_zero | Some p \<Rightarrow> p)
               (case acc of None \<Rightarrow> accuracy_zero | Some a \<Rightarrow> a) key1 HYBRID_KEY ret obj) s
        else LSSubNonSubReplyLocUpdateCase E pos acc PASSIVE_KEY (Some obj)
               (LSSubNonSubReplyLocUpdateCase E pos acc HYBRID_KEY ret
                 (LSSubNonSubReplyLocUpdateCase E pos acc key1 ret s)))"

definition to_int64 :: "double \<Rightarrow> int" where
  "to_int64 x = (if x < 0 then - \<lfloor>- x\<rfloor> else \<lfloor>x\<rfloor>)"

definition getLocationUpdateCb ::
  "('c, 'j) svc_env \<Rightarrow> GeoLocation \<Rightarrow> ErrorCodes \<Rightarrow> HandlerTypes \<Rightarrow> ('c, 'j) LocationService \<Rightarrow> ('c, 'j) LocationService" where
  "getLocationUpdateCb E l err type s =
    (if err = ERROR_NETWORK_ERROR \<and> isInternetConnectionAvailable s then s
     else
       let pos = \<lparr>p_timestamp = to_int64 (mTimeStamp l), p_latitude = mLatitude l, p_longitude = mLongitude l,
                  p_altitude = mAltitude l, p_speed = mSpeed l, p_direction = mDirection l, p_climb = mClimb l\<rparr>;
           acc = \<lparr>horizAccuracy = mHorAccuracy l, vertAccuracy = mVertAccuracy l\<rparr>
       in if type = HANDLER_NETWORK \<and> err = ERROR_NETWORK_ERROR then getLocationUpdate_reply E None None err type s
          else getLocationUpdate_reply E (Some pos) (Some acc) err type s)"

subsection \<open>getLocationUpdates\<close>

text \<open>
  A position request of the network provider may call back before it returns; the callbacks are
  its last effect.
\<close>

definition deliver_net :: "('c, 'j) svc_env \<Rightarrow> net_cb \<Rightarrow> ('c, 'j) LocationService \<Rightarrow> ('c, 'j) LocationService" where
  "deliver_net E c s = (case c of NetLocation l e \<Rightarrow> getLocationUpdateCb E l e HANDLER_NETWORK s)"

definition nw_position_request :: "('c, 'j) svc_env \<Rightarrow> ('c, 'j) LocationService \<Rightarrow> ErrorCodes \<times> ('c, 'j) LocationService" where
  "nw_position_request E s =
    (let (e, s1) = nw_request E (position_request ''network'' POSITION_CMD) s;
         new = drop (length (net_callbacks (mNetworkProvider s))) (net_callbacks (mNetworkProvider s1))
     in (e, fold (deliver_net E) new s1))"

definition gps_mocked :: "('c, 'j) LocationService \<Rightarrow> bool" where
  "gps_mocked s =
    (case get_mock_location_provider GPS (mock_location_provider (gps_mock (mGPSProvider s))) of
       None \<Rightarrow> False | Some mlp \<Rightarrow> has_flag (mp_flag mlp) MOCKLOC_FLAG_ENABLED)"

definition reply_code :: "LSMessage \<Rightarrow> int \<Rightarrow> ('c, 'j) LocationService \<Rightarrow> ('c, 'j) LocationService" where
  "reply_code m c s = (if c \<noteq> loc_error_num LOCATION_SUCCESS then LSMessageReplyError m c s else s)"

definition start_providers :: "('c, 'j) svc_env \<Rightarrow> LSMessage \<Rightarrow> 8 word \<Rightarrow> ('c, 'j) LocationService \<Rightarrow> ('c, 'j) LocationService" where
  "start_providers E m started s =
    (let nw = (\<lambda>s. if has_flag started HANDLER_NETWORK_BIT
                   then (let (e, s') = nw_position_request E s in reply_code m (error_num e) s')
                   else s)
     in if has_flag started HANDLER_GPS_BIT then
          let (e, s1) = gps_request E (position_request ''GPS'' POSITION_CMD) s
          in if gps_mocked s1 then s1
             else if error_num e = loc_error_num LOCATION_LOCATION_OFF
             then reply_code m (loc_error_num LOCATION_GPS_NYX_SOURCE_UNAVAILABLE) s1
             else nw s1
        else nw s)"

definition new_request :: "('c, 'j) svc_env \<Rightarrow> int \<Rightarrow> int \<Rightarrow> LocationUpdateRequest" where
  "new_request E handlertype responseTime =
    \<lparr>m_requestTime = se_now E, m_lastlat = 0, m_lastlong = 0, m_isFirstReply = True,
     m_timerID = (if responseTime \<noteq> 0 then se_timer E else 0), m_timerdata = True, m_handler_type = handlertype\<rparr>"

text \<open>The request enters the table and its list, and the providers are started.\<close>

definition register_request ::
  "('c, 'j) svc_env \<Rightarrow> LSMessage \<Rightarrow> int \<Rightarrow> int \<Rightarrow> string \<Rightarrow> ('c, 'j) LocationService \<Rightarrow> bool \<times> ('c, 'j) LocationService" where
  "register_request E m handlertype responseTime key s =
    (let (added, c) = LSSubscriptionAdd (se_bus E) key m (catalogue s)
     in (added, s\<lparr>catalogue := c,
           m_locUpdate_req_table := (m_locUpdate_req_table s)(msg_id m \<mapsto> new_request E handlertype responseTime),
           svc_timers := svc_timers s @ (if responseTime \<noteq> 0 then [(se_timer E, \<lparr>td_message = m, td_key = key\<rparr>)] else [])\<rparr>))"

definition accept_request ::
  "('c, 'j) svc_env \<Rightarrow> LSMessage \<Rightarrow> int \<Rightarrow> int \<Rightarrow> bool \<Rightarrow> string \<Rightarrow> 8 word \<Rightarrow> ('c, 'j) LocationService \<Rightarrow> ('c, 'j) LocationService" where
  "accept_request E m handlertype responseTime bWakeLock key started s =
    (let (added, s1) = register_request E m handlertype responseTime key s
     in if \<not> added then reply_code m (loc_error_num LOCATION_UNKNOWN_ERROR) s1
        else start_providers E m started
          (if m_enableSuspendBlocker s1 \<and> bWakeLock
              \<and> (has_flag started HANDLER_GPS_BIT \<or> has_flag started HANDLER_NETWORK_BIT)
           then s1\<lparr>m_lifeCycleMonitor := map_option (setWakeLock (se_ls E) True False) (m_lifeCycleMonitor s1)\<rparr>
           else s1))"

text \<open>\<open>None\<close> is a comparison with a null handler name.\<close>

definition getLocationUpdates ::
  "('c, 'j) svc_env \<Rightarrow> LSMessage \<Rightarrow> ('c, 'j) LocationService \<Rightarrow> ('c, 'j) LocationService option" where
  "getLocationUpdates E m s0 =
    (case LSMessageValidateSchemaReplyOnError E m ''JSCEHMA_GET_LOCATION_UPDATES'' s0 of
       (None, s) \<Rightarrow> Some s
     | (Some parsed, s) \<Rightarrow>
         if \<not> getHandlerStatus GPS s \<and> \<not> getHandlerStatus NETWORK s
         then Some (reply_code m (loc_error_num LOCATION_LOCATION_OFF) s)
         else
           let (name, handlertype) =
                 (case jobject_get_exists (sj E) parsed ''Handler'' of
                    Some h \<Rightarrow> (jstring_get (sj E) h, -1) | None \<Rightarrow> (Some HYBRID, HANDLER_HYBRID_INT))
           in (case name of
                 None \<Rightarrow> None
               | Some h \<Rightarrow>
                   if (h = GPS \<and> \<not> getHandlerStatus GPS s) \<or> (h = NETWORK \<and> \<not> getHandlerStatus NETWORK s)
                   then Some (reply_code m (loc_error_num LOCATION_LOCATION_OFF) s)
                   else if getHandlerVal h = GETLOC_UPDATE_INVALID
                   then Some (reply_code m (loc_error_num LOCATION_INVALID_INPUT) s)
                   else
                     let responseTime = get_i32 (sj E) parsed ''responseTimeout'' 0;
                         bWakeLock = get_bool (sj E) parsed ''wakelock'' False;
                         (ok, key, started) = enableHandlers (getHandlerVal h) s
                     in if ok \<or> getHandlerVal h = GETLOC_UPDATE_PASSIVE
                        then Some (accept_request E m handlertype responseTime bWakeLock key started s)
                        else Some (reply_code m (loc_error_num LOCATION_DATA_CONNECTION_OFF) s)))"

subsection \<open>The end of a request\<close>

definition getLocRequestStopSubscription :: "('c, 'j) svc_env \<Rightarrow> LSMessage \<Rightarrow> ('c, 'j) LocationService \<Rightarrow> ('c, 'j) LocationService" where
  "getLocRequestStopSubscription E m s =
    (let s1 = (if \<not> isSubscListFilled E (Some (msg_id m)) NW_KEY True s \<and> \<not> isSubscListFilled E (Some (msg_id m)) HYBRID_KEY True s
               then stopSubcription E NW_KEY s else s)
     in if \<not> isSubscListFilled E (Some (msg_id m)) GPS_KEY True s1 \<and> \<not> isSubscListFilled E (Some (msg_id m)) HYBRID_KEY True s1
        then stopSubcription E GPS_KEY s1 else s1)"

definition cancelSubscription :: "('c, 'j) svc_env \<Rightarrow> LSMessage \<Rightarrow> ('c, 'j) LocationService \<Rightarrow> ('c, 'j) LocationService" where
  "cancelSubscription E m s =
    (let key = msg_method m
     in if key = SUBSC_GEOFENCE_ADD_AREA_KEY then cancel_geofence E m s
        else if key = GET_LOC_UPDATE_KEY then
          snd (LSMessageRemoveReqList m (getLocRequestStopSubscription E m (release_wakelock E m s)))
        else if \<not> isSubscListFilled E (Some (msg_id m)) key True s then stopSubcription E key s else s)"

definition timed_out :: "('c, 'j) svc_env \<Rightarrow> LSMessage \<Rightarrow> string \<Rightarrow> LSMessage \<Rightarrow> ('c, 'j) LocationService \<Rightarrow> ('c, 'j) LocationService" where
  "timed_out E m key x s =
    (if msg_id x = msg_id m then snd (LSMessageRemoveReqList x (release_wakelock E m (subs_remove E key x s))) else s)"

definition TimerCallbackLocationUpdate :: "('c, 'j) svc_env \<Rightarrow> nat \<Rightarrow> ('c, 'j) LocationService \<Rightarrow> ('c, 'j) LocationService" where
  "TimerCallbackLocationUpdate E t s =
    (case map_of (svc_timers s) t of
       None \<Rightarrow> s
     | Some td \<Rightarrow>
         let m = td_message td;
             s1 = LSMessageReply m (LSMessageGetErrorReply (loc_error_num LOCATION_TIME_OUT)) s;
             s2 = (case LSSubscriptionAcquire (se_bus E) (td_key td) (catalogue s1) of
                     None \<Rightarrow> s1 | Some ms \<Rightarrow> fold (timed_out E m (td_key td)) ms s1)
         in g_source_remove t (getLocRequestStopSubscription E m s2))"

end
