(* ===== verification/Service_Props.thy ===== *)
theory Service_Props
  imports Service_Updates
begin

text \<open>
  The bookkeeping of the service: which operations leave the subscription catalogue, the request
  table and the response timers alone, and the invariants that tie the three together.
\<close>

subsection \<open>Frames\<close>

text \<open>What the bookkeeping consists of.\<close>

definition books :: "('c, 'j) LocationService \<Rightarrow> 'c \<times> (nat \<rightharpoonup> LocationUpdateRequest) \<times> (nat \<times> TimerData) list" where
  "books s = (catalogue s, m_locUpdate_req_table s, svc_timers s)"

lemma books_eq: "books s = books t \<longleftrightarrow> catalogue s = catalogue t \<and> m_locUpdate_req_table s = m_locUpdate_req_table t
    \<and> svc_timers s = svc_timers t"
  by (simp add: books_def)

lemma books_update [simp]:
  "books (s\<lparr>svc_replies := r\<rparr>) = books s" "books (s\<lparr>svc_idle := i\<rparr>) = books s"
  "books (s\<lparr>mGPSProvider := g\<rparr>) = books s" "books (s\<lparr>mNetworkProvider := n\<rparr>) = books s"
  "books (s\<lparr>m_lifeCycleMonitor := l\<rparr>) = books s" "books (s\<lparr>is_geofenceId_used := u\<rparr>) = books s"
  "books (s\<lparr>htPseudoGeofence := h\<rparr>) = books s"
  by (simp_all add: books_def)

lemma books_frame [simp]:
  "books (LSMessageReply m p s) = books s" "books (LSMessageReplyError m c s) = books s"
  "books (LSMessageReplyCustomError m c s) = books s" "books (reply_code m c s) = books s"
  "books (reply_error_unless m e s) = books s" "books (to_idle i s) = books s" "books (free_slot g s) = books s"
  "books (snd (gps_request E r s)) = books s" "books (snd (nw_request E r s)) = books s"
  "books (release_wakelock E m s) = books s" "books (stopSubcription E k s) = books s"
  by (simp_all add: LSMessageReply_def LSMessageReplyError_def LSMessageReplyCustomError_def reply_code_def
      reply_error_unless_def to_idle_def free_slot_def gps_request_def nw_request_def release_wakelock_def
      stopSubcription_def Let_def case_prod_unfold split: option.split)

lemma books_stop [simp]: "books (getLocRequestStopSubscription E m s) = books s"
  by (simp add: getLocRequestStopSubscription_def Let_def)

lemma books_validate: "LSMessageValidateSchemaReplyOnError E m k s = (p, t) \<Longrightarrow> books t = books s"
  by (auto simp: LSMessageValidateSchemaReplyOnError_def Let_def split: if_splits)

lemma books_reply_all [simp]: "books (LSSubscriptionReply E k p s) = books s"
proof -
  have "books (fold (\<lambda>m. LSMessageReply m p) ms t) = books t" for ms and t :: "('a, 'b) LocationService"
    by (induction ms arbitrary: t) simp_all
  then show ?thesis by (simp add: LSSubscriptionReply_def)
qed

lemma books_geofence [simp]:
  "books (cancel_geofence E m s) = books s" "books (geofence_add_reply g st s) = books s"
  "books (geofence_remove_reply g st s) = books s" "books (geofence_breach_reply g st ts lat lon s) = books s"
  "books (sendGeofenceAddData E g p s) = books s" "books (sendGeofenceBreachData E g p s) = books s"
  by (simp_all add: cancel_geofence_def geofence_add_reply_def geofence_remove_reply_def geofence_breach_reply_def
      sendGeofenceAddData_def sendGeofenceBreachData_def Let_def split: option.split)

subsection \<open>Timers\<close>

definition upd_keys :: "string list" where "upd_keys = [GPS_KEY, NW_KEY, HYBRID_KEY, PASSIVE_KEY]"

lemma update_keys [simp]:
  "GPS_KEY \<in> set upd_keys" "NW_KEY \<in> set upd_keys" "HYBRID_KEY \<in> set upd_keys" "PASSIVE_KEY \<in> set upd_keys"
  by (simp_all add: upd_keys_def)

text \<open>
  A live response timer belongs to the request of its message, which still owns the data the timer
  will read, among them the key of a list of requests.
\<close>

definition timers_ok :: "('c, 'j) LocationService \<Rightarrow> bool" where
  "timers_ok s \<longleftrightarrow>
    (\<forall>(t, td) \<in> set (svc_timers s). t \<noteq> 0 \<and> td_key td \<in> set upd_keys \<and>
       (\<exists>r. m_locUpdate_req_table s (msg_id (td_message td)) = Some r \<and> m_timerID r = t \<and> m_timerdata r))"

lemma timers_ok_books: "books s = books t \<Longrightarrow> timers_ok s = timers_ok t"
  by (simp add: timers_ok_def books_eq)

lemma stop_timer_simps [simp]:
  "m_locUpdate_req_table (stop_timer r s) = m_locUpdate_req_table s" "catalogue (stop_timer r s) = catalogue s"
  "svc_timers (stop_timer r s) = (if m_timerID r \<noteq> 0 then filter (\<lambda>x. fst x \<noteq> m_timerID r) (svc_timers s) else svc_timers s)"
  by (simp_all add: stop_timer_def g_source_remove_def)

lemma timers_ok_removeTimer: "timers_ok s \<Longrightarrow> timers_ok (removeTimer m s)"
  by (fastforce simp: timers_ok_def removeTimer_def split: option.split)

lemma timers_ok_removeReq: "timers_ok s \<Longrightarrow> timers_ok (snd (LSMessageRemoveReqList m s))"
  by (fastforce simp: timers_ok_def LSMessageRemoveReqList_def split: option.split)

lemma timers_ok_source_remove: "timers_ok s \<Longrightarrow> timers_ok (g_source_remove t s)"
  by (auto simp: timers_ok_def g_source_remove_def)

lemma timers_ok_subs_remove [simp]: "timers_ok (subs_remove E k m s) = timers_ok s"
  by (simp add: timers_ok_def subs_remove_def)

lemma timers_ok_meets: "timers_ok s \<Longrightarrow> timers_ok (snd (meetsCriteria E m p a i d s))"
  by (fastforce simp: timers_ok_def meetsCriteria_def Let_def split: option.split)

lemma timers_ok_frame [simp]:
  "timers_ok (LSMessageReply m p s) = timers_ok s" "timers_ok (reply_code m c s) = timers_ok s"
  "timers_ok (release_wakelock E m s) = timers_ok s" "timers_ok (stopSubcription E k s) = timers_ok s"
  "timers_ok (to_idle i s) = timers_ok s" "timers_ok (getLocRequestStopSubscription E m s) = timers_ok s"
  "timers_ok (snd (gps_request E r s)) = timers_ok s" "timers_ok (snd (nw_request E r s)) = timers_ok s"
  by (rule timers_ok_books, simp)+

subsection \<open>Listed requests\<close>

definition lids :: "'c bus \<Rightarrow> string \<Rightarrow> 'c \<Rightarrow> nat list" where
  "lids B k c = List.map msg_id (sublist_of B k c)"

definition listed :: "'c bus \<Rightarrow> 'c \<Rightarrow> nat list" where
  "listed B c = concat (List.map (\<lambda>k. lids B k c) upd_keys)"

definition adds_ok :: "'c bus \<Rightarrow> bool" where
  "adds_ok B \<longleftrightarrow> (\<forall>k m c. fst (LSSubscriptionAdd B k m c))"

definition drop_laws :: "'c bus \<Rightarrow> (LSMessage \<Rightarrow> 'c \<Rightarrow> 'c) \<Rightarrow> bool" where
  "drop_laws B D \<longleftrightarrow> (\<forall>k m c. sublist_of B k (D m c) = filter (\<lambda>x. msg_id x \<noteq> msg_id m) (sublist_of B k c))"

lemma lids_remove:
  assumes "bus_laws B"
  shows "lids B k' (LSSubscriptionRemove B k m c) = (if k = k' then filter (\<lambda>i. i \<noteq> msg_id m) (lids B k' c) else lids B k' c)"
  using assms by (auto simp: lids_def bus_remove bus_remove_other filter_map comp_def)

lemma filter_absent: "x \<notin> set xs \<Longrightarrow> filter (\<lambda>i. i \<noteq> x) xs = xs"
  by (induction xs) auto

lemma concat_once:
  "distinct (concat (List.map f ks)) \<Longrightarrow> k \<in> set ks \<Longrightarrow> k' \<in> set ks \<Longrightarrow> i \<in> set (f k) \<Longrightarrow> i \<in> set (f k') \<Longrightarrow> k = k'"
  by (induction ks) auto

lemmas listed_once = concat_once [of "\<lambda>k. lids B k c" upd_keys for B c, folded listed_def]

lemma concat_filter_ids:
  "(\<And>k. k \<in> set ks \<Longrightarrow> f k = filter P (g k)) \<Longrightarrow> concat (List.map f ks) = filter P (concat (List.map g ks))"
  by (induction ks) auto

lemma listed_remove:
  assumes "bus_laws B" and "distinct (listed B c)" and "k \<in> set upd_keys" and "msg_id m \<in> set (lids B k c)"
  shows "listed B (LSSubscriptionRemove B k m c) = filter (\<lambda>i. i \<noteq> msg_id m) (listed B c)"
  unfolding listed_def
proof (rule concat_filter_ids)
  fix k' assume k': "k' \<in> set upd_keys"
  show "lids B k' (LSSubscriptionRemove B k m c) = filter (\<lambda>i. i \<noteq> msg_id m) (lids B k' c)"
  proof (cases "k = k'")
    case False
    then have "msg_id m \<notin> set (lids B k' c)" using listed_once [OF assms(2,3) k' assms(4)] by blast
    then show ?thesis using False by (simp add: lids_remove [OF assms(1)] filter_absent)
  qed (simp add: lids_remove [OF assms(1)])
qed

lemma listed_remove_other:
  assumes "bus_laws B" and "k \<notin> set upd_keys"
  shows "listed B (LSSubscriptionRemove B k m c) = listed B c"
  unfolding listed_def using assms by (intro arg_cong [of _ _ concat] map_cong) (auto simp: lids_remove)

lemma listed_drop: "drop_laws B D \<Longrightarrow> listed B (D m c) = filter (\<lambda>i. i \<noteq> msg_id m) (listed B c)"
  unfolding listed_def by (rule concat_filter_ids) (simp add: lids_def drop_laws_def filter_map comp_def)

text \<open>A live response timer names the list its request is on, if it is on one.\<close>

definition timers_keyed :: "'c bus \<Rightarrow> ('c, 'j) LocationService \<Rightarrow> bool" where
  "timers_keyed B s \<longleftrightarrow>
    (\<forall>(t, td) \<in> set (svc_timers s). \<forall>k \<in> set upd_keys. msg_id (td_message td) \<in> set (lids B k (catalogue s)) \<longrightarrow> td_key td = k)"

lemma timers_keyed_mono:
  assumes "timers_keyed B s" and "set (svc_timers t) \<subseteq> set (svc_timers s)"
    and "\<And>k. k \<in> set upd_keys \<Longrightarrow> set (lids B k (catalogue t)) \<subseteq> set (lids B k (catalogue s))"
  shows "timers_keyed B t"
  using assms unfolding timers_keyed_def by (fastforce simp: subset_iff)

text \<open>
  The books are good: every listed request is listed once and in the table, the converse when the
  bus accepts every message, timers belong to requests and name their lists, and only messages of the
  method are listed.
\<close>

definition upd_good :: "'c bus \<Rightarrow> (nat \<Rightarrow> string) \<Rightarrow> ('c, 'j) LocationService \<Rightarrow> bool" where
  "upd_good B meth s \<longleftrightarrow>
    distinct (listed B (catalogue s)) \<and> set (listed B (catalogue s)) \<subseteq> dom (m_locUpdate_req_table s)
    \<and> (adds_ok B \<longrightarrow> dom (m_locUpdate_req_table s) \<subseteq> set (listed B (catalogue s)))
    \<and> (\<forall>i \<in> dom (m_locUpdate_req_table s). meth i = GET_LOC_UPDATE_KEY) \<and> timers_ok s \<and> timers_keyed B s"

lemma upd_good_books: "books s = books t \<Longrightarrow> upd_good B meth s = upd_good B meth t"
  using timers_ok_books by (auto simp: upd_good_def timers_keyed_def books_eq)

lemma upd_good_frame [simp]:
  "upd_good B meth (LSMessageReply m p s) = upd_good B meth s" "upd_good B meth (reply_code m c s) = upd_good B meth s"
  "upd_good B meth (release_wakelock E m s) = upd_good B meth s" "upd_good B meth (stopSubcription E k s) = upd_good B meth s"
  "upd_good B meth (to_idle i s) = upd_good B meth s" "upd_good B meth (getLocRequestStopSubscription E m s) = upd_good B meth s"
  "upd_good B meth (snd (gps_request E r s)) = upd_good B meth s" "upd_good B meth (snd (nw_request E r s)) = upd_good B meth s"
  by (rule upd_good_books, simp)+

lemma cat_frame [simp]:
  "catalogue (removeTimer m s) = catalogue s" "catalogue (snd (LSMessageRemoveReqList m s)) = catalogue s"
  "catalogue (snd (meetsCriteria E m p a i d s)) = catalogue s" "catalogue (g_source_remove t s) = catalogue s"
  "catalogue (subs_remove E k m s) = LSSubscriptionRemove (se_bus E) k m (catalogue s)"
  by (simp_all add: removeTimer_def LSMessageRemoveReqList_def meetsCriteria_def g_source_remove_def subs_remove_def Let_def
      split: option.split)

lemma dom_frame [simp]:
  "dom (m_locUpdate_req_table (removeTimer m s)) = dom (m_locUpdate_req_table s)"
  "dom (m_locUpdate_req_table (snd (meetsCriteria E m p a i d s))) = dom (m_locUpdate_req_table s)"
  "dom (m_locUpdate_req_table (snd (LSMessageRemoveReqList m s))) = dom (m_locUpdate_req_table s) - {msg_id m}"
  "m_locUpdate_req_table (subs_remove E k m s) = m_locUpdate_req_table s"
  "m_locUpdate_req_table (g_source_remove t s) = m_locUpdate_req_table s"
  by (auto simp: removeTimer_def LSMessageRemoveReqList_def meetsCriteria_def g_source_remove_def subs_remove_def Let_def
      split: option.splits if_splits)

lemma timers_shrink:
  "set (svc_timers (removeTimer m s)) \<subseteq> set (svc_timers s)" "set (svc_timers (snd (LSMessageRemoveReqList m s))) \<subseteq> set (svc_timers s)"
  "svc_timers (snd (meetsCriteria E m p a i d s)) = svc_timers s" "set (svc_timers (g_source_remove t s)) \<subseteq> set (svc_timers s)"
  "svc_timers (subs_remove E k m s) = svc_timers s"
  by (auto simp: removeTimer_def LSMessageRemoveReqList_def meetsCriteria_def g_source_remove_def subs_remove_def Let_def
      split: option.splits if_splits)

lemma timers_keyed_frame:
  assumes "timers_keyed B s"
  shows "timers_keyed B (removeTimer m s)" "timers_keyed B (snd (LSMessageRemoveReqList m s))"
    "timers_keyed B (snd (meetsCriteria E m p a i d s))" "timers_keyed B (g_source_remove t s)"
  by (rule timers_keyed_mono [OF assms]; simp add: timers_shrink)+

lemma upd_good_removeTimer: "upd_good B meth s \<Longrightarrow> upd_good B meth (removeTimer m s)"
  by (simp add: upd_good_def timers_ok_removeTimer timers_keyed_frame)

lemma upd_good_meets: "upd_good B meth s \<Longrightarrow> upd_good B meth (snd (meetsCriteria E m p a i d s))"
  by (simp add: upd_good_def timers_ok_meets timers_keyed_frame)

lemma upd_good_source_remove: "upd_good B meth s \<Longrightarrow> upd_good B meth (g_source_remove t s)"
  by (simp add: upd_good_def timers_ok_source_remove timers_keyed_frame)

lemma upd_good_finish:
  assumes "upd_good B meth s" and "bus_laws B" and "se_bus E = B" and "k \<in> set upd_keys"
    and "msg_id m \<in> set (lids B k (catalogue s))"
  shows "upd_good B meth (snd (LSMessageRemoveReqList m (subs_remove E k m s)))"
proof -
  have "timers_keyed B (subs_remove E k m s)"
    by (rule timers_keyed_mono [of B s]) (use assms in \<open>auto simp: upd_good_def timers_shrink lids_remove split: if_splits\<close>)
  then show ?thesis
    using assms listed_remove [OF assms(2) _ assms(4,5)]
    by (auto simp: upd_good_def timers_ok_removeReq timers_keyed_frame)
qed

subsection \<open>Replies keep the books good\<close>

lemma removeReq_books: "books s = books t \<Longrightarrow> books (snd (LSMessageRemoveReqList m s)) = books (snd (LSMessageRemoveReqList m t))"
  by (auto simp: books_eq LSMessageRemoveReqList_def split: option.split)

lemma catalogue_frame [simp]:
  "catalogue (LSMessageReply m p s) = catalogue s" "catalogue (release_wakelock E m s) = catalogue s"
  "catalogue (stopSubcription E k s) = catalogue s" "catalogue (reply_code m c s) = catalogue s"
  "catalogue (to_idle i s) = catalogue s" "catalogue (getLocRequestStopSubscription E m s) = catalogue s"
  "catalogue (snd (gps_request E r s)) = catalogue s" "catalogue (snd (nw_request E r s)) = catalogue s"
  using books_frame books_stop unfolding books_eq by metis+

lemma reply_case_good:
  assumes "upd_good B meth s" and "bus_laws B" and "se_bus E = B" and "k \<in> set upd_keys"
    and "msg_id m \<in> set (lids B k (catalogue s))"
  shows "upd_good B meth (LSMessageReplyLocUpdateCase E m k p s)"
proof -
  have b: "books (release_wakelock E m (subs_remove E k m (LSMessageReply m p s))) = books (subs_remove E k m s)"
    by (simp add: books_eq) (simp add: LSMessageReply_def subs_remove_def)
  show ?thesis
  proof (cases "msg_is_subscription m")
    case True
    then show ?thesis using assms(1) by (simp add: LSMessageReplyLocUpdateCase_def upd_good_removeTimer)
  next
    case False
    then show ?thesis
      using upd_good_finish [OF assms] upd_good_books [OF removeReq_books [OF b]]
      by (simp add: LSMessageReplyLocUpdateCase_def)
  qed
qed

lemma reply_case_catalogue:
  "catalogue (LSMessageReplyLocUpdateCase E m k p s)
    = (if msg_is_subscription m then catalogue s else LSSubscriptionRemove (se_bus E) k m (catalogue s))"
  by (simp add: LSMessageReplyLocUpdateCase_def)

lemma reply_loc_cases:
  "\<exists>s1. (reply_loc E pos acc k p m s = LSMessageReplyLocUpdateCase E m k p s1 \<or> reply_loc E pos acc k p m s = s1)
     \<and> catalogue s1 = catalogue s \<and> (\<forall>B meth. upd_good B meth s \<longrightarrow> upd_good B meth s1)"
proof -
  have "catalogue (snd (meetsCriteria E m a b i d s)) = catalogue s
      \<and> (\<forall>B meth. upd_good B meth s \<longrightarrow> upd_good B meth (snd (meetsCriteria E m a b i d s)))" for a b i d
    using upd_good_meets by auto
  then show ?thesis
    by (cases pos; cases acc) (auto simp: reply_loc_def Let_def case_prod_unfold)
qed

lemma reply_loc_good:
  assumes "upd_good B meth s" and "bus_laws B" and "se_bus E = B" and "k \<in> set upd_keys"
    and "msg_id m \<in> set (lids B k (catalogue s))"
  shows "upd_good B meth (reply_loc E pos acc k p m s)"
    and "catalogue (reply_loc E pos acc k p m s) = catalogue s
      \<or> (\<not> msg_is_subscription m \<and> catalogue (reply_loc E pos acc k p m s) = LSSubscriptionRemove B k m (catalogue s))"
  using reply_loc_cases [of E pos acc k p m s] reply_case_good [OF _ assms(2-4), of meth _ m p] assms(1,5)
  by (auto simp: reply_case_catalogue assms(3))

text \<open>A loop over the messages of a key whose body may take its message off the list.\<close>

definition drops_only :: "'c bus \<Rightarrow> string \<Rightarrow> (nat \<Rightarrow> string) \<Rightarrow> (LSMessage \<Rightarrow> ('c, 'j) LocationService \<Rightarrow> ('c, 'j) LocationService) \<Rightarrow> bool" where
  "drops_only B k meth f \<longleftrightarrow>
    (\<forall>m s. upd_good B meth s \<longrightarrow> msg_id m \<in> set (lids B k (catalogue s)) \<longrightarrow>
       upd_good B meth (f m s) \<and>
       (catalogue (f m s) = catalogue s \<or> catalogue (f m s) = LSSubscriptionRemove B k m (catalogue s)))"

lemma drops_only_fold:
  assumes "drops_only B k meth f" and "bus_laws B"
    and "upd_good B meth s" and "distinct (List.map msg_id ms)" and "msg_id ` set ms \<subseteq> set (lids B k (catalogue s))"
  shows "upd_good B meth (fold f ms s)"
  using assms(3-5)
proof (induction ms arbitrary: s)
  case (Cons m ms)
  have m: "msg_id m \<in> set (lids B k (catalogue s))" using Cons.prems(3) by simp
  then have f: "upd_good B meth (f m s)"
      "catalogue (f m s) = catalogue s \<or> catalogue (f m s) = LSSubscriptionRemove B k m (catalogue s)"
    using assms(1) Cons.prems(1) unfolding drops_only_def by blast+
  have "msg_id ` set ms \<subseteq> set (lids B k (catalogue (f m s)))"
    using f(2) Cons.prems(2,3)
    by (auto simp: lids_remove [OF assms(2)] image_subset_iff) (metis image_eqI)
  then show ?case using Cons.IH [OF f(1)] Cons.prems(2) by simp
qed simp

lemma reply_drops_only:
  assumes "bus_laws B" and "se_bus E = B" and "k \<in> set upd_keys"
  shows "drops_only B k meth (reply_loc E pos acc k p)"
  unfolding drops_only_def using reply_loc_good [OF _ assms] by blast

lemma acquire_lids:
  assumes "LSSubscriptionAcquire B k c = Some ms"
  shows "sublist_of B k c = ms" and "lids B k c = List.map msg_id ms"
  using assms by (simp_all add: sublist_of_def lids_def)

lemma distinct_lids: "distinct (listed B c) \<Longrightarrow> k \<in> set upd_keys \<Longrightarrow> distinct (lids B k c)"
  by (auto simp: listed_def distinct_concat_iff)

lemma reply_key_good:
  assumes "upd_good B meth s" and "bus_laws B" and "se_bus E = B" and "k \<in> set upd_keys"
  shows "upd_good B meth (LSSubNonSubReplyLocUpdateCase E pos acc k p s)"
proof (cases "LSSubscriptionAcquire B k (catalogue s)")
  case None
  then show ?thesis using assms(1,3) by (simp add: LSSubNonSubReplyLocUpdateCase_def)
next
  case (Some ms)
  have "distinct (lids B k (catalogue s))"
    using assms(1,4) distinct_lids by (auto simp: upd_good_def)
  then have "upd_good B meth (fold (reply_loc E pos acc k p) ms s)"
    using acquire_lids [OF Some] by (intro drops_only_fold [OF reply_drops_only [OF assms(2-4)] assms(2,1)]) simp_all
  then show ?thesis using Some assms(3) by (auto simp: LSSubNonSubReplyLocUpdateCase_def Let_def)
qed

lemma sendPosition_good:
  assumes "upd_good B meth s" and "bus_laws B" and "se_bus E = B" and "k1 \<in> set upd_keys" and "k2 \<in> set upd_keys"
  shows "upd_good B meth (sendPositionData E p a k1 k2 r1 r2 s)"
  unfolding sendPositionData_def using assms by (intro reply_key_good) simp_all

lemma location_reply_good:
  assumes "upd_good B meth s" and "bus_laws B" and "se_bus E = B"
  shows "upd_good B meth (getLocationUpdate_reply E pos acc err type s)"
  unfolding getLocationUpdate_reply_def Let_def using assms by (auto intro!: reply_key_good)

lemma location_cb_good:
  assumes "upd_good B meth s" and "bus_laws B" and "se_bus E = B"
  shows "upd_good B meth (getLocationUpdateCb E l err type s)"
  using assms(1) location_reply_good [OF assms] by (simp add: getLocationUpdateCb_def Let_def)

lemma deliver_good:
  assumes "upd_good B meth s" and "bus_laws B" and "se_bus E = B"
  shows "upd_good B meth (fold (deliver_net E) cs s)"
  using assms(1) by (induction cs arbitrary: s) (simp_all add: deliver_net_def location_cb_good assms(2,3) split: net_cb.split)

lemma nw_position_good:
  assumes "upd_good B meth s" and "bus_laws B" and "se_bus E = B"
  shows "upd_good B meth (snd (nw_position_request E s))"
  using assms by (simp add: nw_position_request_def Let_def case_prod_unfold deliver_good)

lemma start_providers_good:
  assumes "upd_good B meth s" and "bus_laws B" and "se_bus E = B"
  shows "upd_good B meth (start_providers E m st s)"
  using assms by (simp add: start_providers_def Let_def case_prod_unfold nw_position_good)

end
