(* ===== verification/Service_Methods.thy ===== *)
theory Service_Methods
  imports Service_Updates
begin

text \<open>
  The other methods of \<^verbatim>\<open>LocationService.cpp\<close>: handler states and details, GPS control and its
  streams, geocoding, mock locations, the stored position, and the service as a listener of the
  connection watcher. A method gives the state after it; \<open>None\<close> stands for undefined behaviour (a
  null handler name compared, a string made from a null pointer).
\<close>

subsection \<open>Subscriptions\<close>

text \<open>\<open>subscribed_add\<close> is \<^verbatim>\<open>LSSubscriptionAdd\<close> on the catalogue.\<close>

definition subs_add :: "('c, 'j) svc_env \<Rightarrow> string \<Rightarrow> LSMessage \<Rightarrow> ('c, 'j) LocationService \<Rightarrow> bool \<times> ('c, 'j) LocationService" where
  "subs_add E key m s = (let (ok, c) = LSSubscriptionAdd (se_bus E) key m (catalogue s) in (ok, s\<lparr>catalogue := c\<rparr>))"

abbreviation (input) MAX_GETSTATE_PARAM :: nat where "MAX_GETSTATE_PARAM \<equiv> 32"

definition buildGetStateSubscriptionKey :: "string option \<Rightarrow> string option" where
  "buildGetStateSubscriptionKey handler =
    (case handler of
       None \<Rightarrow> None
     | Some h \<Rightarrow>
         let written = length (h @ ''getState'')
         in if written > 0 \<and> written < MAX_GETSTATE_PARAM then Some (h @ ''getState'') else None)"

text \<open>The result, the content of \<^verbatim>\<open>*isSubscription\<close> (which starts false) and the state.\<close>

definition isSubscribeTypeValid ::
  "('c, 'j) svc_env \<Rightarrow> LSMessage \<Rightarrow> bool \<Rightarrow> ('c, 'j) LocationService \<Rightarrow> bool \<times> bool \<times> ('c, 'j) LocationService" where
  "isSubscribeTypeValid E m isMandatory s0 =
    (case LSMessageValidateSchemaReplyOnError E m SCHEMA_ALL s0 of
       (None, s) \<Rightarrow> (False, False, s)
     | (Some parsed, s) \<Rightarrow>
         (case jobject_get_exists (sj E) parsed ''subscribe'' of
            Some v \<Rightarrow> (True, snd (jboolean_get (sj E) v False), s)
          | None \<Rightarrow>
              if isMandatory then (False, False, LSMessageReplyError m (loc_error_num LOCATION_INVALID_INPUT) s)
              else (True, False, s)))"

text \<open>The idiom of the methods that may subscribe: \<open>None\<close> when the add fails and was answered.\<close>

definition subscribe_if_asked ::
  "('c, 'j) svc_env \<Rightarrow> string \<Rightarrow> LSMessage \<Rightarrow> ('c, 'j) LocationService \<Rightarrow> bool \<times> bool \<times> ('c, 'j) LocationService" where
  "subscribe_if_asked E key m s =
    (let (valid, sub, s1) = isSubscribeTypeValid E m False s
     in if valid \<and> sub
        then (let (ok, s2) = subs_add E key m s1
              in if ok then (True, sub, s2) else (False, sub, LSMessageReplyError m (loc_error_num LOCATION_UNKNOWN_ERROR) s2))
        else (True, sub, s1))"

definition reply_fields :: "LSMessage \<Rightarrow> (string \<times> 'j jout) list \<Rightarrow> ('c, 'j) LocationService \<Rightarrow> ('c, 'j) LocationService" where
  "reply_fields m fs s = LSMessageReply m (Some (OObj (location_util_form_json_reply True LOCATION_SUCCESS @ fs))) s"

definition LSMessageReplySubscriptionSuccess :: "LSMessage \<Rightarrow> ('c, 'j) LocationService \<Rightarrow> ('c, 'j) LocationService" where
  "LSMessageReplySubscriptionSuccess m s =
    LSMessageReply m (Some (OObj [(''returnValue'', OBool True), (''subscribed'', OBool True)])) s"

subsection \<open>Streams of the GPS provider\<close>

text \<open>The code an answer of the provider gives a client that asked for a stream.\<close>

definition stream_code :: "ErrorCodes \<Rightarrow> LocationErrorCode" where
  "stream_code ret =
    (if ret = ERROR_NOT_AVAILABLE then LOCATION_GPS_NYX_SOURCE_UNAVAILABLE
     else if ret \<noteq> ERROR_NONE \<and> ret \<noteq> ERROR_DUPLICATE_REQUEST then LOCATION_UNKNOWN_ERROR
     else LOCATION_SUCCESS)"

definition getNmeaData :: "('c, 'j) svc_env \<Rightarrow> LSMessage \<Rightarrow> ('c, 'j) LocationService \<Rightarrow> ('c, 'j) LocationService" where
  "getNmeaData E m s0 =
    (case LSMessageValidateSchemaReplyOnError E m ''JSCHEMA_GET_NMEA_DATA'' s0 of
       (None, s) \<Rightarrow> s
     | (Some parsed, s) \<Rightarrow>
         if \<not> getHandlerStatus GPS s then reply_code m (loc_error_num LOCATION_LOCATION_OFF) s
         else
           let (ok, s1) = subs_add E SUBSC_GPS_GET_NMEA_KEY m s
           in if \<not> ok then reply_code m (loc_error_num LOCATION_UNKNOWN_ERROR) s1
              else
                let (ret, s2) = gps_request E (position_request ''GPS'' NMEA_CMD) s1
                in reply_code m (loc_error_num (stream_code ret)) s2)"

definition getGpsSatelliteData :: "('c, 'j) svc_env \<Rightarrow> LSMessage \<Rightarrow> ('c, 'j) LocationService \<Rightarrow> ('c, 'j) LocationService" where
  "getGpsSatelliteData E m s0 =
    (case LSMessageValidateSchemaReplyOnError E m ''JSCHEMA_GET_GPS_SATELLITE_DATA'' s0 of
       (None, s) \<Rightarrow> s
     | (Some parsed, s) \<Rightarrow>
         if \<not> getHandlerStatus GPS s then reply_code m (loc_error_num LOCATION_LOCATION_OFF) s
         else
           let (ok, s1) = subs_add E SUBSC_GET_GPS_SATELLITE_DATA m s
           in if \<not> ok then reply_code m (loc_error_num LOCATION_SUCCESS) s1
              else
                let (ret, s2) = gps_request E (position_request ''GPS'' SATELITTE_CMD) s1
                in reply_code m (loc_error_num (stream_code ret)) s2)"

definition getNfwNotifications :: "('c, 'j) svc_env \<Rightarrow> LSMessage \<Rightarrow> ('c, 'j) LocationService \<Rightarrow> ('c, 'j) LocationService" where
  "getNfwNotifications E m s0 =
    (case LSMessageValidateSchemaReplyOnError E m ''JSCHEMA_GET_NFW_NOTIFICATIONS'' s0 of
       (None, s) \<Rightarrow> s
     | (Some parsed, s) \<Rightarrow>
         let (ok, s1) = subs_add E ''getNfwNotifications'' m s
         in if ok then LSMessageReplySubscriptionSuccess m s1
            else LSMessageReplyError m (loc_error_num LOCATION_UNKNOWN_ERROR) s1)"

definition getGpsStatus :: "('c, 'j) svc_env \<Rightarrow> LSMessage \<Rightarrow> ('c, 'j) LocationService \<Rightarrow> ('c, 'j) LocationService" where
  "getGpsStatus E m s0 =
    (case LSMessageValidateSchemaReplyOnError E m ''JSCHEMA_GET_GPS_STATUS'' s0 of
       (None, s) \<Rightarrow> s
     | (Some parsed, s) \<Rightarrow>
         let s1 = s\<lparr>mCachedGpsEngineStatus := (mGPSStatus (core (mGPSProvider s)) = GPS_STATUS_AVAILABLE)\<rparr>;
             (go, sub, s2) = subscribe_if_asked E ''getGpsStatus'' m s1
         in if \<not> go then s2 else reply_fields m [(''state'', OBool (mCachedGpsEngineStatus s2))] s2)"

definition getTimeToFirstFix :: "('c, 'j) svc_env \<Rightarrow> LSMessage \<Rightarrow> ('c, 'j) LocationService \<Rightarrow> ('c, 'j) LocationService" where
  "getTimeToFirstFix E m s0 =
    (case LSMessageValidateSchemaReplyOnError E m SCHEMA_ALL s0 of
       (None, s) \<Rightarrow> s
     | (Some parsed, s) \<Rightarrow>
         let (t, g) = getTimeToFirstFixValue (mGPSProvider s)
         in reply_fields m [(''TTFF'', OInt t)] (s\<lparr>mGPSProvider := g\<rparr>))"

definition getGpsDebugData :: "('c, 'j) svc_env \<Rightarrow> LSMessage \<Rightarrow> ('c, 'j) LocationService \<Rightarrow> ('c, 'j) LocationService" where
  "getGpsDebugData E m s0 =
    (case LSMessageValidateSchemaReplyOnError E m SCHEMA_ALL s0 of
       (None, s) \<Rightarrow> s
     | (Some parsed, s) \<Rightarrow>
         let (rc, g) = getDebugData (se_gps E) (se_handle E) True (NYX_GPS_DEBUG_DATA_MAXLEN (ge_consts (se_gps E))) (mGPSProvider s);
             s1 = s\<lparr>mGPSProvider := g\<rparr>
         in if rc \<noteq> NYX_ERROR_NONE
            then LSMessageReplyError m (loc_error_num (if rc = NYX_ERROR_NOT_IMPLEMENTED
                   then LOCATION_GPS_NYX_SOURCE_UNAVAILABLE else LOCATION_UNKNOWN_ERROR)) s1
            else reply_fields m [(''debugData'', OStr (se_debug E))] s1)"

subsection \<open>GPS control\<close>

definition stopGpsEngine :: "('c, 'j) svc_env \<Rightarrow> ('c, 'j) LocationService \<Rightarrow> ('c, 'j) LocationService" where
  "stopGpsEngine E s = (if mGpsStatus s then snd (gps_request E (position_request ''GPS'' STOP_GPS_CMD) s) else s)"

definition resume_if_listed ::
  "('c, 'j) svc_env \<Rightarrow> bool \<Rightarrow> HandlerRequestType \<Rightarrow> ('c, 'j) LocationService \<Rightarrow> ('c, 'j) LocationService" where
  "resume_if_listed E filled cmd s = (if filled then snd (gps_request E (position_request ''GPS'' cmd) s) else s)"

definition resumeGpsEngine :: "('c, 'j) svc_env \<Rightarrow> ('c, 'j) LocationService \<Rightarrow> ('c, 'j) LocationService" where
  "resumeGpsEngine E s =
    (if \<not> mGpsStatus s then s
     else if \<not> isSubscListFilled E None SUBSC_GPS_GET_NMEA_KEY False s
           \<and> \<not> isSubscListFilled E None SUBSC_GET_GPS_SATELLITE_DATA False s
           \<and> \<not> isSubscListFilled E None GPS_KEY False s \<and> \<not> isSubscListFilled E None HYBRID_KEY False s then s
     else
       let s1 = resume_if_listed E (isSubscListFilled E None SUBSC_GPS_GET_NMEA_KEY False s) NMEA_CMD s;
           s2 = resume_if_listed E (isSubscListFilled E None SUBSC_GET_GPS_SATELLITE_DATA False s1) SATELITTE_CMD s1
       in resume_if_listed E (isSubscListFilled E None GPS_KEY False s2 \<or> isSubscListFilled E None HYBRID_KEY False s2)
            POSITION_CMD s2)"

definition setGPSParameters :: "('c, 'j) svc_env \<Rightarrow> LSMessage \<Rightarrow> ('c, 'j) LocationService \<Rightarrow> ('c, 'j) LocationService" where
  "setGPSParameters E m s0 =
    (case LSMessageValidateSchemaReplyOnError E m ''JSCHEMA_SET_GPS_PARAMETERS'' s0 of
       (None, s) \<Rightarrow> s
     | (Some parsed, s) \<Rightarrow>
         let (ret, s1) = gps_request E ((position_request ''GPS'' SET_GPS_PARAMETERS_CMD)\<lparr>mRequestParams := se_tostring E parsed\<rparr>) s
         in if ret \<noteq> ERROR_NONE then LSMessageReplyError m (loc_error_num LOCATION_INVALID_INPUT) s1
            else reply_fields m [] s1)"

definition upd_mocks :: "(MockState \<Rightarrow> MockState) \<Rightarrow> ('c, 'j) LocationService \<Rightarrow> ('c, 'j) LocationService" where
  "upd_mocks f s =
    s\<lparr>mGPSProvider := (mGPSProvider s)\<lparr>gps_mock := f (gps_mock (mGPSProvider s))\<rparr>,
      mNetworkProvider := (mNetworkProvider s)\<lparr>net_mock := apsnd f (net_mock (mNetworkProvider s))\<rparr>\<rparr>"

definition exitLocation :: "('c, 'j) svc_env \<Rightarrow> LSMessage \<Rightarrow> ('c, 'j) LocationService \<Rightarrow> ('c, 'j) LocationService" where
  "exitLocation E m s =
    (let s1 = stopGpsEngine E (upd_mocks finalize_mock_location s)
     in (LSMessageReply m (Some (OObj [(''returnValue'', OBool True)])) s1)\<lparr>mMainLoop_running := False\<rparr>)"

definition stopGPS_method :: "('c, 'j) svc_env \<Rightarrow> LSMessage \<Rightarrow> ('c, 'j) LocationService \<Rightarrow> ('c, 'j) LocationService" where
  "stopGPS_method E m s0 =
    (case LSMessageValidateSchemaReplyOnError E m SCHEMA_ALL s0 of
       (None, s) \<Rightarrow> s
     | (Some parsed, s) \<Rightarrow>
         let (ret, s1) = gps_request E (position_request ''GPS'' STOP_GPS_CMD) s
         in if ret \<noteq> ERROR_NONE then LSMessageReplyError m (loc_error_num LOCATION_UNKNOWN_ERROR) s1
            else reply_fields m [] s1)"

definition force_release :: "('c, 'j) svc_env \<Rightarrow> ('c, 'j) LocationService \<Rightarrow> ('c, 'j) LocationService" where
  "force_release E s = s\<lparr>m_lifeCycleMonitor := map_option (setWakeLock (se_ls E) False True) (m_lifeCycleMonitor s)\<rparr>"

definition sendExtraCommand :: "('c, 'j) svc_env \<Rightarrow> LSMessage \<Rightarrow> ('c, 'j) LocationService \<Rightarrow> ('c, 'j) LocationService" where
  "sendExtraCommand E m s0 =
    (case LSMessageValidateSchemaReplyOnError E m ''JSCHEMA_SEND_EXTRA_COMMAND'' s0 of
       (None, s) \<Rightarrow> s
     | (Some parsed, s) \<Rightarrow>
         (case get_str (sj E) parsed ''command'' None of
            None \<Rightarrow> s
          | Some command \<Rightarrow>
              if command = ''enable_suspend_blocker'' then reply_fields m [] (s\<lparr>m_enableSuspendBlocker := True\<rparr>)
              else if command = ''disable_suspend_blocker''
              then reply_fields m [] (force_release E (s\<lparr>m_enableSuspendBlocker := False\<rparr>))
              else
                let (ret, s1) = gps_request E ((position_request ''GPS'' SEND_GPS_EXTRA_CMD)\<lparr>mRequestParams := command\<rparr>) s
                in if ret = ERROR_NOT_AVAILABLE then LSMessageReplyError m (loc_error_num LOCATION_INVALID_INPUT) s1
                   else reply_fields m [] s1))"

subsection \<open>Handlers\<close>

text \<open>The rows of \<^verbatim>\<open>getLocationHandlerDetails\<close>.\<close>

definition handler_details :: "string \<Rightarrow> (string \<times> 'j jout) list option" where
  "handler_details h =
    (if h = GPS then Some [(''accuracy'', OInt 1), (''powerRequirement'', OInt 1), (''requiresNetwork'', OBool False),
        (''requiresCell'', OBool False), (''monetaryCost'', OBool False)]
     else if h = NETWORK then Some [(''accuracy'', OInt 3), (''powerRequirement'', OInt 3), (''requiresNetwork'', OBool True),
        (''requiresCell'', OBool True), (''monetaryCost'', OBool True)]
     else None)"

definition getLocationHandlerDetails :: "('c, 'j) svc_env \<Rightarrow> LSMessage \<Rightarrow> ('c, 'j) LocationService \<Rightarrow> ('c, 'j) LocationService" where
  "getLocationHandlerDetails E m s0 =
    (case LSMessageValidateSchemaReplyOnError E m ''JSCHEMA_GET_LOCATION_HANDLER_DETAILS'' s0 of
       (None, s) \<Rightarrow> s
     | (Some parsed, s) \<Rightarrow>
         (case get_str (sj E) parsed ''Handler'' None of
            None \<Rightarrow> LSMessageReplyError m (loc_error_num LOCATION_INVALID_INPUT) s
          | Some h \<Rightarrow>
              (case handler_details h of
                 None \<Rightarrow> LSMessageReplyError m (loc_error_num LOCATION_INVALID_INPUT) s
               | Some fs \<Rightarrow> reply_fields m fs s)))"

definition handlers_array :: "('c, 'j) LocationService \<Rightarrow> 'j jout" where
  "handlers_array s =
    OArr [OObj [(''name'', OStr GPS), (''state'', OBool (getHandlerStatus GPS s))],
          OObj [(''name'', OStr NETWORK), (''state'', OBool (getHandlerStatus NETWORK s))]]"

definition getAllLocationHandlers :: "('c, 'j) svc_env \<Rightarrow> LSMessage \<Rightarrow> ('c, 'j) LocationService \<Rightarrow> ('c, 'j) LocationService" where
  "getAllLocationHandlers E m s0 =
    (case LSMessageValidateSchemaReplyOnError E m ''JSCHEMA_GET_ALL_LOCATION_HANDLERS'' s0 of
       (None, s) \<Rightarrow> s
     | (Some parsed, s) \<Rightarrow>
         let (go, sub, s1) = subscribe_if_asked E ''getAllLocationHandlers'' m s
         in if \<not> go then s1 else reply_fields m [(''handlers'', handlers_array s1)] s1)"

definition loadHandlerStatus :: "luna_prefs \<Rightarrow> (string \<times> pref_value) list \<Rightarrow> string \<Rightarrow> bool" where
  "loadHandlerStatus P ws h =
    (let state = (if LPAppGetHandle P then (case LPAppCopyValueInt P ws (Some h) of None \<Rightarrow> 0 | Some v \<Rightarrow> v) else 0)
     in state \<noteq> 0)"

definition getState :: "('c, 'j) svc_env \<Rightarrow> LSMessage \<Rightarrow> ('c, 'j) LocationService \<Rightarrow> ('c, 'j) LocationService" where
  "getState E m s0 =
    (case LSMessageValidateSchemaReplyOnError E m ''JSCHEMA_GET_STATE'' s0 of
       (None, s) \<Rightarrow> s
     | (Some parsed, s) \<Rightarrow>
         let handler = get_str (sj E) parsed ''Handler'' None
         in if \<not> LPAppGetHandle (se_prefs E) then LSMessageReplyError m (loc_error_num LOCATION_UNKNOWN_ERROR) s
            else
              let value = LPAppCopyValueInt (se_prefs E) (lp_writes s) handler;
                  (valid, sub, s1) = isSubscribeTypeValid E m False s;
                  answer = reply_fields m [(''state'', OInt (case value of None \<Rightarrow> 0 | Some v \<Rightarrow> v))]
              in if valid \<and> sub then
                   (case buildGetStateSubscriptionKey handler of
                      None \<Rightarrow> LSMessageReplyError m (loc_error_num LOCATION_INVALID_INPUT) s1
                    | Some key \<Rightarrow>
                        let (ok, s2) = subs_add E key m s1
                        in if ok then answer s2 else LSMessageReplyError m (loc_error_num LOCATION_UNKNOWN_ERROR) s2)
                 else answer s1)"

text \<open>The clients of a handler that is switched off.\<close>

definition reply_if_filled ::
  "('c, 'j) svc_env \<Rightarrow> string \<Rightarrow> (('c, 'j) LocationService \<Rightarrow> ('c, 'j) LocationService) \<Rightarrow> ('c, 'j) LocationService \<Rightarrow> ('c, 'j) LocationService" where
  "reply_if_filled E key f s = (if isSubscListFilled E None key False s then f s else s)"

definition replyErrorToGpsNwReq ::
  "('c, 'j) svc_env \<Rightarrow> HandlerTypes \<Rightarrow> ('c, 'j) LocationService \<Rightarrow> ('c, 'j) LocationService" where
  "replyErrorToGpsNwReq E handler s =
    (let payload = LSMessageGetErrorReply (loc_error_num LOCATION_LOCATION_OFF)
     in case handler of
          HANDLER_GPS \<Rightarrow>
            reply_if_filled E GPS_KEY (LSSubNonSubReplyLocUpdateCase E None None GPS_KEY payload)
              (reply_if_filled E SUBSC_GET_GPS_SATELLITE_DATA (LSSubscriptionNonSubscriptionReply E SUBSC_GET_GPS_SATELLITE_DATA payload)
                (reply_if_filled E SUBSC_GPS_GET_NMEA_KEY (LSSubscriptionNonSubscriptionReply E SUBSC_GPS_GET_NMEA_KEY payload) s))
        | HANDLER_NETWORK \<Rightarrow> reply_if_filled E NW_KEY (LSSubNonSubReplyLocUpdateCase E None None NW_KEY payload) s
        | HANDLER_HYBRID \<Rightarrow> reply_if_filled E HYBRID_KEY (LSSubNonSubReplyLocUpdateCase E None None HYBRID_KEY payload) s
        | _ \<Rightarrow> s)"

text \<open>The subscribers of the handler's state and of the list of handlers are told of the new state.\<close>

definition publish_state :: "('c, 'j) svc_env \<Rightarrow> string \<Rightarrow> bool \<Rightarrow> ('c, 'j) LocationService \<Rightarrow> ('c, 'j) LocationService" where
  "publish_state E key state s =
    LSSubscriptionReply E ''getAllLocationHandlers''
      (Some (OObj (location_util_form_json_reply True LOCATION_SUCCESS @ [(''handlers'', handlers_array s)])))
      (LSSubscriptionReply E key
        (Some (OObj (location_util_form_json_reply True LOCATION_SUCCESS @ [(''state'', OInt (of_bool state))]))) s)"

definition switch_gps :: "('c, 'j) svc_env \<Rightarrow> string \<Rightarrow> bool \<Rightarrow> ('c, 'j) LocationService \<Rightarrow> ('c, 'j) LocationService" where
  "switch_gps E key state s =
    (let s1 = publish_state E key state (s\<lparr>mGpsStatus := state\<rparr>)
     in if state then s1
        else replyErrorToGpsNwReq E HANDLER_GPS (snd (gps_request E (position_request ''GPS'' STOP_GPS_CMD) s1)))"

definition switch_network :: "('c, 'j) svc_env \<Rightarrow> string \<Rightarrow> bool \<Rightarrow> ('c, 'j) LocationService \<Rightarrow> ('c, 'j) LocationService" where
  "switch_network E key state s =
    (let s1 = publish_state E key state (s\<lparr>mNwStatus := state\<rparr>)
     in if state then s1
        else replyErrorToGpsNwReq E HANDLER_NETWORK (snd (nw_request E (position_request ''network'' STOP_POSITION_CMD) s1)))"

text \<open>The part of \<^verbatim>\<open>setState\<close> after the reply; with both handlers off nothing may keep the device awake.\<close>

definition switch_handler :: "('c, 'j) svc_env \<Rightarrow> string \<Rightarrow> string \<Rightarrow> bool \<Rightarrow> ('c, 'j) LocationService \<Rightarrow> ('c, 'j) LocationService" where
  "switch_handler E h key state s =
    (let s2 = (if h = GPS \<and> mGpsStatus s \<noteq> state then switch_gps E key state s
               else if h = NETWORK \<and> mNwStatus s \<noteq> state then switch_network E key state s
               else s)
     in if \<not> mNwStatus s2 \<and> \<not> mGpsStatus s2
        then replyErrorToGpsNwReq E HANDLER_HYBRID (force_release E s2) else s2)"

definition setState :: "('c, 'j) svc_env \<Rightarrow> LSMessage \<Rightarrow> ('c, 'j) LocationService \<Rightarrow> ('c, 'j) LocationService" where
  "setState E m s0 =
    (case LSMessageValidateSchemaReplyOnError E m ''JSCHEMA_SET_STATE'' s0 of
       (None, s) \<Rightarrow> s
     | (Some parsed, s) \<Rightarrow>
         (case get_str (sj E) parsed ''Handler'' None of
            None \<Rightarrow> s
          | Some h \<Rightarrow>
              let state = get_bool (sj E) parsed ''state'' False
              in if \<not> LPAppGetHandle (se_prefs E) then reply_code m (loc_error_num LOCATION_UNKNOWN_ERROR) s
                 else
                   let s1 = reply_fields m [] (s\<lparr>lp_writes := lp_writes s @ [(h, PInt (of_bool state))]\<rparr>)
                   in (case buildGetStateSubscriptionKey (Some h) of
                         None \<Rightarrow> reply_code m (loc_error_num LOCATION_INVALID_INPUT) s1
                       | Some key \<Rightarrow> switch_handler E h key state s1)))"

end
