(* ===== verification/Gps_Callbacks.thy ===== *)
theory Gps_Callbacks
  imports Gps_Provider
begin

text \<open>
  The rest of the GPS provider: initialisation, the callbacks the HAL makes
  (\<^verbatim>\<open>GPSNyxInterface.cpp\<close>), the worker thread \<^verbatim>\<open>gpsThreadProc\<close> and the XTRA download thread.
\<close>

subsection \<open>Initialisation and shutdown\<close>

definition xtra_config :: "GPSServiceConfig \<Rightarrow> nyx_call" where
  "xtra_config c =
    NyxInitXtraClient [mXtraServer1 c, mXtraServer2 c, mXtraServer3 c] [mNTPServer1 c, mNTPServer2 c, mNTPServer3 c]"

definition nyx_initialize :: "gps_env \<Rightarrow> GPSPositionProvider \<Rightarrow> nyx_error \<times> GPSPositionProvider" where
  "nyx_initialize E s =
    (let (rc1, s1) = nyx E (NyxDeviceOpen (mChipsetID (mGPSConf s))) s
     in if rc1 \<noteq> NYX_ERROR_NONE then (rc1, s1)
        else
          let s2 = s1\<lparr>gps_mock := gps_mock_init (gps_mock s1)\<rparr>;
              (rc2, s3) = nyx E NyxInit s2
          in if rc2 \<noteq> NYX_ERROR_NONE then (rc2, s3)
             else
               let s4 = snd (nyx E NyxSetNfwCallback s3)
               in if mChipsetID (mGPSConf s4) = ''Qcom'' then
                    let (rc3, s5) = nyx E (xtra_config (mGPSConf s4)) s4
                    in if rc3 \<noteq> NYX_ERROR_NONE
                       then (rc3, upd_thrd (\<lambda>t. t\<lparr>mXtraDefault := True\<rparr>) s5) else (rc3, s5)
                  else (rc2, s4))"

definition gps_provider_init :: "gps_env \<Rightarrow> GPSPositionProvider \<Rightarrow> bool \<times> GPSPositionProvider" where
  "gps_provider_init E s =
    (if \<not> ge_thread_ok E then (False, s)
     else
       let (rc, s1) = nyx_initialize E s
       in if rc \<noteq> NYX_ERROR_NONE then (False, s1)
          else
            let s2 = sendDataNetworkLocked E (upd_dnet (\<lambda>d. d\<lparr>mNyxReady := True\<rparr>) s1)
            in (True, setGpsParameters E (conf_mode s2) (rec_periodic E) DEFAULT_FIX_INTERVAL
                        (mSUPLHost (mGPSConf s2)) (conf_port s2) s2))"

text \<open>\<^verbatim>\<open>LocationService::init\<close>: the provider is enabled and its callback set after it has started.\<close>

definition service_init_gps :: "gps_env \<Rightarrow> GPSPositionProvider \<Rightarrow> GPSPositionProvider" where
  "service_init_gps E s =
    (let (ok, s1) = gps_provider_init E s
     in if ok then gps_setCallback True (gps_enable s1) else s1)"

definition deInitialize :: "gps_env \<Rightarrow> GPSPositionProvider \<Rightarrow> GPSPositionProvider" where
  "deInitialize E s = snd (nyx E NyxDeviceClose (snd (nyx E NyxStopXtraClient (snd (nyx E NyxCleanup s)))))"

declare deInitialize_def [simp]

definition gps_shutdown :: "gps_env \<Rightarrow> GPSPositionProvider \<Rightarrow> GPSPositionProvider" where
  "gps_shutdown E s =
    (let s1 = upd_dnet (\<lambda>d. d\<lparr>mNyxReady := False\<rparr>) s;
         s2 = deInitialize E s1
     in upd_logs (\<lambda>l. l\<lparr>mCEPCalculator := None, mNMEALogger := False, mCEPLogger := False, mAnonymousLogger := False\<rparr>)
          (upd_thrd (\<lambda>t. t\<lparr>mGPSThreadAction := ACTION_QUIT, gps_thread_quit := True, xtra_task := None\<rparr>) s2))"

subsection \<open>Callbacks of the HAL\<close>

definition agpsStatusCb :: "bool \<Rightarrow> bool \<Rightarrow> GPSPositionProvider \<Rightarrow> GPSPositionProvider" where
  "agpsStatusCb request release s =
    (if request then upd_thrd (\<lambda>t. t\<lparr>mGPSThreadAction := ACTION_OPEN_ATL\<rparr>) s
     else if release then upd_thrd (\<lambda>t. t\<lparr>mGPSThreadAction := ACTION_CLOSE_ATL\<rparr>) s
     else s)"

definition gpsAccuracySetDetails :: "double \<Rightarrow> double \<Rightarrow> GPSPositionProvider \<Rightarrow> GPSPositionProvider" where
  "gpsAccuracySetDetails hor vert s = s\<lparr>mLocationAcc := (hor, vert)\<rparr>"

definition gpsAccuracyGetDetails :: "GPSPositionProvider \<Rightarrow> double \<times> double" where
  "gpsAccuracyGetDetails s = mLocationAcc s"

lemma accuracy_details [simp]:
  "gpsAccuracyGetDetails (gpsAccuracySetDetails hor vert s) = (hor, vert)"
  "core (gpsAccuracySetDetails hor vert s) = core s" "ttff (gpsAccuracySetDetails hor vert s) = ttff s"
  "thrd (gpsAccuracySetDetails hor vert s) = thrd s" "dnet (gpsAccuracySetDetails hor vert s) = dnet s"
  "logs (gpsAccuracySetDetails hor vert s) = logs s" "callbacks (gpsAccuracySetDetails hor vert s) = callbacks s"
  "stored (gpsAccuracySetDetails hor vert s) = stored s" "timers (gpsAccuracySetDetails hor vert s) = timers s"
  "nyx_calls (gpsAccuracySetDetails hor vert s) = nyx_calls s" "gps_mock (gpsAccuracySetDetails hor vert s) = gps_mock s"
  by (simp_all add: gpsAccuracySetDetails_def gpsAccuracyGetDetails_def)

definition gpsLocationCb :: "gps_env \<Rightarrow> nyx_gps_location option \<Rightarrow> GPSPositionProvider \<Rightarrow> GPSPositionProvider option" where
  "gpsLocationCb E pos s =
    (case pos of
       None \<Rightarrow> Some s
     | Some p \<Rightarrow>
         let s0 = (if mCEPLogEnable (logs s) then log_it (LogCepUpdate (ngl_latitude p) (ngl_longitude p)) s else s);
             s1 = gpsAccuracySetDetails (ngl_accuracy p) (ngl_vertical_accuracy p) s0;
             (hor, vert) = gpsAccuracyGetDetails s1;
             s2 = (if \<not> mTTFFState (ttff s1)
                   then upd_ttff (\<lambda>t. t\<lparr>mLastFixTime := now_ms E, mTTFFState := True\<rparr>) s1 else s1);
             s3 = s2\<lparr>stored := stored s2
                    @ [geo_location (ngl_latitude p) (ngl_longitude p) (ngl_altitude p) hor
                         (of_int (ngl_timestamp p)) (ngl_bearing p) 0 (ngl_speed p) vert]\<rparr>;
             g = geo_location (ngl_latitude p) (ngl_longitude p) (ngl_altitude p) hor
                   (of_int (ngl_timestamp p)) (ngl_bearing p) (-1) (ngl_speed p) vert
         in if has_flag (mAPIProgressFlag (core s3)) LOCATION_UPDATES_ON
            then call_back (CbLocation g ERROR_NONE HANDLER_GPS) s3
            else Some s3)"

datatype nyx_gps_status =
    NYX_GPS_STATUS_NONE | NYX_GPS_STATUS_SESSION_BEGIN | NYX_GPS_STATUS_SESSION_END
  | NYX_GPS_STATUS_ENGINE_ON | NYX_GPS_STATUS_ENGINE_OFF

definition gpsStatusCb :: "nyx_gps_status option \<Rightarrow> GPSPositionProvider \<Rightarrow> GPSPositionProvider option" where
  "gpsStatusCb st s =
    (case st of
       None \<Rightarrow> Some s
     | Some v \<Rightarrow>
         let status = (case v of
               NYX_GPS_STATUS_ENGINE_ON \<Rightarrow> GPS_STATUS_AVAILABLE
             | NYX_GPS_STATUS_ENGINE_OFF \<Rightarrow> GPS_STATUS_UNAVAILABLE
             | _ \<Rightarrow> mGPSStatus (core s))
         in if mGPSStatus (core s) \<noteq> status
            then call_back (CbGpsStatus status) (upd_core (\<lambda>c. c\<lparr>mGPSStatus := status\<rparr>) s)
            else Some s)"

text \<open>One entry of \<^verbatim>\<open>sv_list\<close>; the list is the fixed-size array the HAL fills.\<close>

record nyx_sv =
  sv_prn :: int
  sv_snr :: double
  sv_elevation :: double
  sv_azimuth :: double

record nyx_sv_status =
  num_svs :: int
  sv_list :: "nyx_sv list"
  used_in_fix_mask :: "32 word"
  ephemeris_mask :: "32 word"
  almanac_mask :: "32 word"

definition clamp_svs :: "nyx_consts \<Rightarrow> int \<Rightarrow> nat" where
  "clamp_svs K n = (if n < 0 then 0 else if n > int (NYX_GPS_MAX_SVS K) then NYX_GPS_MAX_SVS K else nat n)"

definition prn_mask :: "int \<Rightarrow> 32 word \<Rightarrow> bool" where
  "prn_mask prn m = (if 1 \<le> prn \<and> prn \<le> 32 then has_flag m (push_bit (nat (prn - 1)) 1) else False)"

definition sv_info :: "nyx_sv_status \<Rightarrow> nyx_sv \<Rightarrow> SatelliteInfo" where
  "sv_info d v =
    \<lparr>si_prn = sv_prn v, si_snr = sv_snr v, si_elevation = sv_elevation v, si_azimuth = sv_azimuth v,
     si_used = prn_mask (sv_prn v) (used_in_fix_mask d),
     si_hasalmanac = prn_mask (sv_prn v) (almanac_mask d),
     si_hasephemeris = prn_mask (sv_prn v) (ephemeris_mask d)\<rparr>"

text \<open>The filling loop; \<open>None\<close> when the array of the HAL or of the satellite is left.\<close>

fun fill_satellites :: "nyx_sv_status \<Rightarrow> nat list \<Rightarrow> Satellite \<Rightarrow> Satellite option" where
  "fill_satellites d [] sat = Some sat"
| "fill_satellites d (i # is) sat =
    (if i < length (sv_list d)
     then (case set_satellite_details i (sv_info d (sv_list d ! i)) sat of
             None \<Rightarrow> None | Some sat' \<Rightarrow> fill_satellites d is sat')
     else None)"

definition gpsSvStatusCb ::
  "gps_env \<Rightarrow> nyx_sv_status option \<Rightarrow> GPSPositionProvider \<Rightarrow> GPSPositionProvider option" where
  "gpsSvStatusCb E d s =
    (case d of
       None \<Rightarrow> Some s
     | Some v \<Rightarrow>
         let n = clamp_svs (ge_consts E) (num_svs v)
         in (case fill_satellites v [0..<n] (satellite_create n) of
               None \<Rightarrow> None
             | Some sat \<Rightarrow>
                 if n > 0 \<and> has_flag (mAPIProgressFlag (core s)) SATELLITE_GET_DATA_ON
                 then call_back (CbSatellite sat) s else Some s))"

definition nfwNotifyCb :: "nfw_notification option \<Rightarrow> GPSPositionProvider \<Rightarrow> GPSPositionProvider" where
  "nfwNotifyCb n s = (case n of None \<Rightarrow> s | Some x \<Rightarrow> call_back_checked (CbNfw x) s)"

definition gpsNmeaCb :: "int \<Rightarrow> string option \<Rightarrow> nat \<Rightarrow> GPSPositionProvider \<Rightarrow> GPSPositionProvider option" where
  "gpsNmeaCb ts nmea len s =
    (case nmea of
       None \<Rightarrow> Some s
     | Some x \<Rightarrow>
         let s1 = (if mNMEALogEnable (logs s) then log_it (LogFeed ''nmea'' (take len x)) s else s)
         in if has_flag (mAPIProgressFlag (core s1)) NMEA_GET_DATA_ON
            then call_back (CbNmea ts x len) s1 else Some s1)"

definition gpsSetCapabilitiesCb :: "32 word \<Rightarrow> GPSPositionProvider \<Rightarrow> GPSPositionProvider" where
  "gpsSetCapabilitiesCb cap s = upd_core (\<lambda>c. c\<lparr>mGEngineCapabilities := cap\<rparr>) s"

definition geofenceBreachCb ::
  "gps_env \<Rightarrow> int \<Rightarrow> 32 word \<Rightarrow> int \<Rightarrow> double \<Rightarrow> double \<Rightarrow> GPSPositionProvider \<Rightarrow> GPSPositionProvider" where
  "geofenceBreachCb E i transition ts lat lon s =
    (let K = ge_consts E;
         whichWay = (if transition = NYX_GEOFENCER_ENTERED K then 0
                     else if transition = NYX_GEOFENCER_EXITED K then 1
                     else if transition = NYX_GEOFENCER_UNCERTAIN K then 2 else 0)
     in call_back_checked (CbGeofenceBreach i whichWay ts lat lon) s)"

definition geofenceStatusCb :: "int \<Rightarrow> GPSPositionProvider \<Rightarrow> GPSPositionProvider" where
  "geofenceStatusCb st s = upd_core (\<lambda>c. c\<lparr>mGeofenceStatus := st\<rparr>) s"

definition geofenceAddCb :: "int \<Rightarrow> int \<Rightarrow> GPSPositionProvider \<Rightarrow> GPSPositionProvider" where
  "geofenceAddCb i st s = call_back_checked (CbGeofenceAdd i st) s"

definition geofenceRemoveCb :: "int \<Rightarrow> int \<Rightarrow> GPSPositionProvider \<Rightarrow> GPSPositionProvider" where
  "geofenceRemoveCb i st s = call_back_checked (CbGeofenceRemove i st) s"

definition xtraDataCb :: "string option \<Rightarrow> int \<Rightarrow> GPSPositionProvider \<Rightarrow> GPSPositionProvider" where
  "xtraDataCb data len s =
    upd_thrd (\<lambda>t. (case data of
        Some d \<Rightarrow> if len > 0 then t\<lparr>mXtraData := take (nat len) d\<rparr> else t
      | None \<Rightarrow> t)\<lparr>mGPSThreadAction := ACTION_XTRA_DATA\<rparr>) s"

definition xtraTimeCb :: "int \<Rightarrow> int \<Rightarrow> int \<Rightarrow> GPSPositionProvider \<Rightarrow> GPSPositionProvider" where
  "xtraTimeCb utc tref unc s =
    upd_thrd (\<lambda>t. t\<lparr>mXtraTime := (utc, tref, unc), mGPSThreadAction := ACTION_XTRA_TIME\<rparr>) s"

definition onRequestCompleted :: "gps_env \<Rightarrow> NtpErrors \<Rightarrow> NTPData option \<Rightarrow> GPSPositionProvider \<Rightarrow> GPSPositionProvider" where
  "onRequestCompleted E err d s =
    (let s1 = (case d of
          Some x \<Rightarrow> if err = NTP_NONE
                    then snd (injectExtraTime E (NtpTime x) (NtpTimeReference x) (RoundTripTime x) s) else s
        | None \<Rightarrow> s)
     in upd_thrd (\<lambda>t. t\<lparr>mDownloadNtpDataStatus := IDLE\<rparr>) s1)"

subsection \<open>Threads\<close>

text \<open>
  One round of \<^verbatim>\<open>gpsThreadProc\<close>: it waits while there is no action, ends on \<^verbatim>\<open>ACTION_QUIT\<close>,
  handles anything else and clears the action.
\<close>

definition gps_thread_round :: "gps_env \<Rightarrow> GPSPositionProvider \<Rightarrow> GPSPositionProvider" where
  "gps_thread_round E s =
    (if gps_thread_quit (thrd s) then s
     else case mGPSThreadAction (thrd s) of
       ACTION_NONE \<Rightarrow> s
     | ACTION_QUIT \<Rightarrow> upd_thrd (\<lambda>t. t\<lparr>gps_thread_quit := True\<rparr>) s
     | act \<Rightarrow>
         let s1 = (case act of
               ACTION_OPEN_ATL \<Rightarrow>
                 (if ni_available (mNetworkInfo (thrd s)) then
                    upd_thrd (\<lambda>t. t\<lparr>mGPSDataConnectionState := DATA_CONNECTION_OPEN\<rparr>)
                      (snd (dataConnectionOpen E (mNetworkInfo (thrd s)) s))
                  else if ge_wan_up E then
                    upd_thrd (\<lambda>t. t\<lparr>mGPSDataConnectionState := DATA_CONNECTION_IDLE\<rparr>)
                      (s\<lparr>wan_connects := Suc (wan_connects s)\<rparr>)
                  else s)
             | ACTION_CLOSE_ATL \<Rightarrow>
                 (if ni_available (mNetworkInfo (thrd s)) then s\<lparr>wan_disconnects := Suc (wan_disconnects s)\<rparr>
                  else upd_thrd (\<lambda>t. t\<lparr>mGPSDataConnectionState := DATA_CONNECTION_CLOSED\<rparr>)
                         (snd (dataConnectionClosed E s)))
             | ACTION_FAIL_ATL \<Rightarrow>
                 upd_thrd (\<lambda>t. t\<lparr>mGPSDataConnectionState := DATA_CONNECTION_FAILED\<rparr>)
                   (snd (dataConnectionFailed E s))
             | ACTION_XTRA_DATA \<Rightarrow>
                 upd_thrd (\<lambda>t. t\<lparr>mDownloadXtraDataStatus := IDLE\<rparr>)
                   (snd (injectExtraData E (mXtraData (thrd s)) s))
             | ACTION_XTRA_TIME \<Rightarrow>
                 (case mXtraTime (thrd s) of (u, r, n) \<Rightarrow> snd (injectExtraTime E u r n s))
             | _ \<Rightarrow> s)
         in upd_thrd (\<lambda>t. t\<lparr>mGPSThreadAction := ACTION_NONE\<rparr>) s1)"

text \<open>The XTRA download thread, from its start (it latches the state) to its end.\<close>

definition xtra_thread_begin :: "GPSPositionProvider \<Rightarrow> GPSPositionProvider" where
  "xtra_thread_begin s =
    (if xtra_threads (thrd s) = 0 then s
     else upd_thrd (\<lambda>t. t\<lparr>mDownloadXtraDataStatus := DOWNLOADING,
             xtra_task := (case xtra_task t of None \<Rightarrow> Some empty_task | Some k \<Rightarrow> Some k)\<rparr>) s)"

definition xtra_thread_end :: "gps_env \<Rightarrow> xtra_http \<Rightarrow> GPSPositionProvider \<Rightarrow> GPSPositionProvider" where
  "xtra_thread_end E H s =
    (if xtra_threads (thrd s) = 0 then s
     else
       let c = mGPSConf s;
           (ok, task) = fetchXtraData H (xtra_task (thrd s)) [mXtraServer1 c, mXtraServer2 c, mXtraServer3 c];
           s1 = (case task of
               Some k \<Rightarrow> if ok then snd (injectExtraData E (case responseData k of None \<Rightarrow> [] | Some d \<Rightarrow> take (responseSize k) d) s) else s
             | None \<Rightarrow> s);
           task' = (if ok then map_option (\<lambda>k. k\<lparr>responseData := None\<rparr>) task else task)
       in upd_thrd (\<lambda>t. t\<lparr>xtra_task := task', xtra_threads := xtra_threads t - 1, mDownloadXtraDataStatus := IDLE\<rparr>) s1)"

end
