(* ===== verification/Service_Handlers.thy ===== *)
theory Service_Handlers
  imports Service_Methods Gps_Callbacks
begin

text \<open>
  Methods of \<^verbatim>\<open>LocationService.cpp\<close> that reach beyond the GPS provider: the server of the network
  provider, the stored position, geocoding, mock locations, the geofence methods no category
  registers; the callbacks of the GPS provider's streams; and the service as a listener of the
  connection watcher.
\<close>

subsection \<open>The server of the network provider\<close>

definition networkProviderReply :: "NetworkLocationBackend \<Rightarrow> (string \<times> 'j jout) list" where
  "networkProviderReply backend =
    location_util_form_json_reply True LOCATION_SUCCESS
      @ [(''provider'', OStr (networkLocationBackendName backend)),
         (''providers'', OArr [OStr (networkLocationBackendName BeaconDB), OStr (networkLocationBackendName Google)])]"

definition getNetworkProvider :: "('c, 'j) svc_env \<Rightarrow> LSMessage \<Rightarrow> ('c, 'j) LocationService \<Rightarrow> ('c, 'j) LocationService" where
  "getNetworkProvider E m s0 =
    (case LSMessageValidateSchemaReplyOnError E m ''JSCHEMA_GET_NETWORK_PROVIDER'' s0 of
       (None, s) \<Rightarrow> s
     | (Some parsed, s) \<Rightarrow>
         let (go, sub, s1) = subscribe_if_asked E ''getNetworkProvider'' m s
         in if \<not> go then s1
            else
              let (backend, n) = currentBackend (se_net E) (mNetworkProvider s1)
              in LSMessageReply m (Some (OObj (networkProviderReply backend @ [(''subscribed'', OBool sub)])))
                   (s1\<lparr>mNetworkProvider := n\<rparr>))"

definition setNetworkProvider :: "('c, 'j) svc_env \<Rightarrow> LSMessage \<Rightarrow> ('c, 'j) LocationService \<Rightarrow> ('c, 'j) LocationService" where
  "setNetworkProvider E m s0 =
    (case LSMessageValidateSchemaReplyOnError E m ''JSCHEMA_SET_NETWORK_PROVIDER'' s0 of
       (None, s) \<Rightarrow> s
     | (Some parsed, s) \<Rightarrow>
         let backend = (case jobject_get_exists (sj E) parsed ''provider'' of
                          None \<Rightarrow> BeaconDB | Some v \<Rightarrow> parseNetworkLocationBackend (jstring_get (sj E) v))
         in if \<not> LPAppGetHandle (se_prefs E) then LSMessageReplyError m (loc_error_num LOCATION_UNKNOWN_ERROR) s
            else if \<not> LPAppSetValueString (se_prefs E) then LSMessageReplyError m (loc_error_num LOCATION_UNKNOWN_ERROR) s
            else
              let s1 = s\<lparr>lp_writes := lp_writes s @ [(''networkProvider'', PStr (networkLocationBackendName backend))],
                         mNetworkProvider := setCurrentBackend backend (mNetworkProvider s)\<rparr>;
                  reply = Some (OObj (networkProviderReply backend))
              in LSSubscriptionReply E ''getNetworkProvider'' reply (LSMessageReply m reply s1))"

subsection \<open>The stored position\<close>

definition comparePositionTimeStamps :: "Position \<Rightarrow> Position \<Rightarrow> Accuracy \<Rightarrow> Accuracy \<Rightarrow> Position \<times> Accuracy" where
  "comparePositionTimeStamps pos1 pos2 acc1 acc2 =
    (if p_timestamp pos1 \<ge> p_timestamp pos2 then
       if p_timestamp pos1 = p_timestamp pos2 then
         (if horizAccuracy acc1 < horizAccuracy acc2 then (pos1, acc1) else (pos2, acc2))
       else (pos1, acc1)
     else (pos2, acc2))"

abbreviation (input) LOCATION_DB_PREF_PATH_GPS :: string where
  "LOCATION_DB_PREF_PATH_GPS \<equiv> ''/var/location/location_gps.xml''"
abbreviation (input) LOCATION_DB_PREF_PATH_NETWORK :: string where
  "LOCATION_DB_PREF_PATH_NETWORK \<equiv> ''/var/location/location_network.xml''"

text \<open>\<^verbatim>\<open>getLastPosition\<close> of both providers: the out-variables keep what was read before a failure.\<close>

definition getLastPosition ::
  "('c, 'j) svc_env \<Rightarrow> string \<Rightarrow> Position \<times> Accuracy \<Rightarrow> ErrorCodes \<times> Position \<times> Accuracy" where
  "getLastPosition E path out =
    (let (e, out') = se_stored E path out in (if e = ERROR_NOT_AVAILABLE then ERROR_NOT_AVAILABLE else ERROR_NONE, out'))"

definition cached_position :: "('c, 'j) svc_env \<Rightarrow> string \<Rightarrow> Position \<times> Accuracy" where
  "cached_position E h =
    (let zero = (position_zero, accuracy_zero)
     in if h = GPS then snd (getLastPosition E LOCATION_DB_PREF_PATH_GPS zero)
        else if h = NETWORK then snd (getLastPosition E LOCATION_DB_PREF_PATH_NETWORK zero)
        else if h = HYBRID \<or> h = PASSIVE then
          (let (gpspos, gpsacc) = snd (getLastPosition E LOCATION_DB_PREF_PATH_GPS zero);
               (nwpos, nwacc) = snd (getLastPosition E LOCATION_DB_PREF_PATH_NETWORK zero)
           in comparePositionTimeStamps gpspos nwpos gpsacc nwacc)
        else zero)"

definition cached_error :: "int \<Rightarrow> int \<Rightarrow> Position \<Rightarrow> LocationErrorCode" where
  "cached_error now maximumAge pos =
    (if p_latitude pos = 0 \<or> p_longitude pos = 0 then LOCATION_POS_NOT_AVAILABLE
     else if maximumAge > 0 \<and> maximumAge < now - p_timestamp pos then LOCATION_POS_NOT_AVAILABLE
     else LOCATION_SUCCESS)"

definition getCachedPosition ::
  "('c, 'j) svc_env \<Rightarrow> LSMessage \<Rightarrow> ('c, 'j) LocationService \<Rightarrow> ('c, 'j) LocationService option" where
  "getCachedPosition E m s0 =
    (case LSMessageValidateSchemaReplyOnError E m ''JSCHEMA_GET_CACHED_POSITION'' s0 of
       (None, s) \<Rightarrow> Some s
     | (Some parsed, s) \<Rightarrow>
         (case (case jobject_get_exists (sj E) parsed ''Handler'' of None \<Rightarrow> Some HYBRID | Some h \<Rightarrow> jstring_get (sj E) h) of
            None \<Rightarrow> None
          | Some h \<Rightarrow>
              let maximumAge = get_i32 (sj E) parsed ''maximumAge'' 0;
                  (pos, acc) = cached_position E h;
                  e = cached_error (se_now E) maximumAge pos
              in Some (if e \<noteq> LOCATION_SUCCESS then LSMessageReplyError m (loc_error_num e) s
                       else reply_fields m (location_util_add_pos_json (se_now E) (Some pos)
                              @ location_util_add_acc_json (Some acc)) s)))"

subsection \<open>Geocoding\<close>

definition lbs_query ::
  "('c, 'j) svc_env \<Rightarrow> FeatureType \<Rightarrow> string \<Rightarrow> LSMessage \<Rightarrow> ('c, 'j) LocationService \<Rightarrow> ('c, 'j) LocationService" where
  "lbs_query E feature data m s =
    (let (r, l) = map_query (se_http E) feature data m (getGeocodeImpl (mLBSProvider s));
         s1 = s\<lparr>mLBSProvider := l\<rparr>
     in if r \<noteq> ERROR_NONE then LSMessageReplyError m (loc_error_num LOCATION_UNKNOWN_ERROR) s1 else s1)"

text \<open>What both methods do first: \<open>Inl\<close> is the state after an error reply.\<close>

definition lbs_prepare ::
  "('c, 'j) svc_env \<Rightarrow> string \<Rightarrow> LSMessage \<Rightarrow> ('c, 'j) LocationService
    \<Rightarrow> ('c, 'j) LocationService + 'j \<times> ('c, 'j) LocationService" where
  "lbs_prepare E schema m s0 =
    (case LSMessageValidateSchemaReplyOnError E m schema s0 of
       (None, s) \<Rightarrow> Inl s
     | (Some parsed, s) \<Rightarrow>
         let (e, l) = readWSPConfiguration (sj E) (se_wsp E) (mLBSProvider s);
             s1 = s\<lparr>mLBSProvider := l\<rparr>
         in if e \<noteq> LOCATION_SUCCESS then Inl (LSMessageReplyError m (loc_error_num e) s1)
            else if \<not> isInternetConnectionAvailable s1
            then Inl (LSMessageReplyError m (loc_error_num LOCATION_DATA_CONNECTION_OFF) s1)
            else Inr (parsed, s1))"

definition getReverseLocation ::
  "('c, 'j) svc_env \<Rightarrow> LSMessage \<Rightarrow> ('c, 'j) LocationService \<Rightarrow> ('c, 'j) LocationService option" where
  "getReverseLocation E m s =
    (case lbs_prepare E ''JSCHEMA_GET_GOOGLE_REVERSE_LOCATION'' m s of
       Inl t \<Rightarrow> Some t
     | Inr (parsed, t) \<Rightarrow>
         Some (lbs_query E REVERSE_GEOCODE (getReverseGeocodeData (sj E) (se_junk E) parsed) m t))"

definition getGeoCodeLocation ::
  "('c, 'j) svc_env \<Rightarrow> LSMessage \<Rightarrow> ('c, 'j) LocationService \<Rightarrow> ('c, 'j) LocationService option" where
  "getGeoCodeLocation E m s =
    (case lbs_prepare E ''JSCHEMA_GET_GOOGLE_GEOCODE_LOCATION'' m s of
       Inl t \<Rightarrow> Some t
     | Inr (parsed, t) \<Rightarrow>
         if jobject_get_exists (sj E) parsed ''address'' = None \<and> jobject_get_exists (sj E) parsed ''components'' = None
         then Some (LSMessageReplyError m (loc_error_num LOCATION_INVALID_INPUT) t)
         else (case geocode_address (sj E) parsed of
                 None \<Rightarrow> None
               | Some a \<Rightarrow> Some (lbs_query E GEO_CODE (a @ getGeocodeData (sj E) (se_junk E) parsed) m t)))"

text \<open>
  \<^verbatim>\<open>geocodingReply\<close>: an error the switch does not name leaves the reply a null pointer. A string
  that does not parse, or a parser that cannot be made, is an error reply.
\<close>

definition geocodingReply ::
  "('c, 'j) svc_env \<Rightarrow> string \<Rightarrow> ErrorCodes \<Rightarrow> LSMessage \<Rightarrow> ('c, 'j) LocationService \<Rightarrow> ('c, 'j) LocationService" where
  "geocodingReply E response err m s =
    (let ret = (case err of
           ERROR_NOT_AVAILABLE \<Rightarrow> LSMessageGetErrorReply (loc_error_num LOCATION_UNKNOWN_ERROR)
         | ERROR_NETWORK_ERROR \<Rightarrow>
             if isInternetConnectionAvailable s then LSMessageGetErrorReply (loc_error_num LOCATION_TIME_OUT)
             else LSMessageGetErrorReply (loc_error_num LOCATION_DATA_CONNECTION_OFF)
         | ERROR_NONE \<Rightarrow>
             (case se_feed E response of
                None \<Rightarrow> LSMessageGetErrorReply (loc_error_num LOCATION_UNKNOWN_ERROR)
              | Some j \<Rightarrow> Some (OObj (location_util_form_json_reply True LOCATION_SUCCESS @ [(''response'', ODup j)])))
         | _ \<Rightarrow> None)
     in LSMessageReply m ret s)"

text \<open>A response arriving from the HTTP library, through \<^verbatim>\<open>handleResponse\<close> and the callback.\<close>

definition svc_http_response ::
  "('c, 'j) svc_env \<Rightarrow> nat \<Rightarrow> HttpReqTask \<Rightarrow> ('c, 'j) LocationService \<Rightarrow> ('c, 'j) LocationService option" where
  "svc_http_response E t task s =
    (case map_handleResponse t task (mLBSProvider s) of
       None \<Rightarrow> None
     | Some (None, l) \<Rightarrow> Some (s\<lparr>mLBSProvider := l\<rparr>)
     | Some (Some (m, r, err), l) \<Rightarrow> Some (geocodingReply E r err m (s\<lparr>mLBSProvider := l\<rparr>)))"

subsection \<open>Mock locations\<close>

definition mock_field ::
  "'j pbnjson \<Rightarrow> 'j \<Rightarrow> string \<Rightarrow> (double \<Rightarrow> MockLoc \<Rightarrow> MockLoc) \<Rightarrow> 32 word \<Rightarrow> MockLoc \<Rightarrow> MockLoc" where
  "mock_field J obj k put flag loc =
    (case jobject_get_exists J obj k of
       None \<Rightarrow> loc
     | Some v \<Rightarrow> (let l = put (snd (jnumber_get_f64 J v 0)) loc in l\<lparr>loc_flag := loc_flag l OR flag\<rparr>))"

definition mock_zero :: MockLoc where
  "mock_zero = \<lparr>speed = 0, longitude = 0, latitude = 0, altitude = 0, horizontalAccuracy = 0, verticalAccuracy = 0,
     heading = 0, timestamp = 0, loc_flag = 0\<rparr>"

text \<open>\<^verbatim>\<open>jobject_get\<close> of a missing key is a null value.\<close>

definition getLocationParameter :: "'j pbnjson \<Rightarrow> 'j \<Rightarrow> MockLoc option" where
  "getLocationParameter J parsed =
    (case jobject_get_exists J parsed ''location'' of
       None \<Rightarrow> None
     | Some obj \<Rightarrow>
         if jis_null J obj then None
         else case (jobject_get_exists J obj ''longitude'', jobject_get_exists J obj ''latitude'') of
           (Some lon, Some lat) \<Rightarrow>
             if jis_null J lon \<or> jis_null J lat then None
             else
               let l0 = mock_zero\<lparr>longitude := snd (jnumber_get_f64 J lon 0), latitude := snd (jnumber_get_f64 J lat 0)\<rparr>;
                   l1 = mock_field J obj ''altitude'' (\<lambda>x l. l\<lparr>altitude := x\<rparr>) LOCATION_ALTITUDE_BIT l0;
                   l2 = mock_field J obj ''speed'' (\<lambda>x l. l\<lparr>speed := x\<rparr>) LOCATION_SPEED_BIT l1;
                   l3 = mock_field J obj ''horizAccuracy'' (\<lambda>x l. l\<lparr>horizontalAccuracy := x\<rparr>) LOCATION_HORIZONTAL_ACCURACY_BIT l2;
                   l4 = mock_field J obj ''verAccuracy'' (\<lambda>x l. l\<lparr>verticalAccuracy := x\<rparr>) LOCATION_VERTICAL_ACCURACY_BIT l3;
                   l5 = mock_field J obj ''heading'' (\<lambda>x l. l\<lparr>heading := x\<rparr>) LOCATION_HEADING_BIT l4
               in (case jobject_get_exists J obj ''timestamp'' of
                     None \<Rightarrow> Some l5
                   | Some v \<Rightarrow> Some (l5\<lparr>timestamp := snd (jnumber_get_i64 J v 0), loc_flag := loc_flag l5 OR LOCATION_TIMESTAMP_BIT\<rparr>))
         | _ \<Rightarrow> None)"

text \<open>
  The mock providers are one global list in the code; each position provider carries a copy here, of
  which only its own entry is used.
\<close>

definition mock_of :: "string \<Rightarrow> ('c, 'j) LocationService \<Rightarrow> MockState" where
  "mock_of name s = (if name = GPS then gps_mock (mGPSProvider s) else snd (net_mock (mNetworkProvider s)))"

definition setMockLocationState ::
  "('c, 'j) svc_env \<Rightarrow> bool \<Rightarrow> LSMessage \<Rightarrow> ('c, 'j) LocationService \<Rightarrow> ('c, 'j) LocationService option" where
  "setMockLocationState E state m s0 =
    (case LSMessageValidateSchemaReplyOnError E m ''MOCK_STATE_SCHEMA'' s0 of
       (None, s) \<Rightarrow> Some s
     | (Some parsed, s) \<Rightarrow>
         (case jobject_get_exists (sj E) parsed ''name'' of
            None \<Rightarrow> Some (LSMessageReplyError m (loc_error_num LOCATION_OUT_OF_MEM) s)
          | Some obj \<Rightarrow>
              if jis_null (sj E) obj then Some (LSMessageReplyError m (loc_error_num LOCATION_OUT_OF_MEM) s)
              else
                let started = isSubscListFilled E None GPS_KEY False s;
                    s1 = (if started then snd (gps_request E (position_request ''GPS'' STOP_GPS_CMD) s) else s)
                in (case jstring_get (sj E) obj of
                      None \<Rightarrow> None
                    | Some name \<Rightarrow>
                        let e = fst (set_mock_location_state name state (mock_of name s1));
                            s2 = upd_mocks (\<lambda>ms. snd (set_mock_location_state name state ms)) s1;
                            s3 = (if started then snd (gps_request E (position_request ''GPS'' POSITION_CMD) s2) else s2)
                        in Some (LSMessageReplyError m (loc_error_num e) s3))))"

subsection \<open>Callbacks of the streams\<close>

definition getNmeaDataCb :: "int \<Rightarrow> string option \<Rightarrow> ('c, 'j) LocationService \<Rightarrow> ('c, 'j) LocationService" where
  "getNmeaDataCb ts nmea s =
    to_idle (SendNmeaData (Some (OObj (location_util_form_json_reply True LOCATION_SUCCESS @ [(''timestamp'', OInt ts)]
      @ (case nmea of None \<Rightarrow> [] | Some d \<Rightarrow> [(''nmea'', OStr d)]))))) s"

definition satellite_item :: "Satellite \<Rightarrow> nat \<Rightarrow> 'j jout" where
  "satellite_item sat i =
    (let x = sat_used sat ! i
     in OObj [(''index'', OInt (int i)), (''azimuth'', OReal (si_azimuth x)), (''elevation'', OReal (si_elevation x)),
              (''prn'', OInt (si_prn x)), (''snr'', OReal (si_snr x)), (''hasAlmanac'', OBool (si_hasalmanac x)),
              (''hasEphemeris'', OBool (si_hasephemeris x)), (''usedInFix'', OBool (si_used x))])"

definition getGpsSatelliteDataCb :: "Satellite \<Rightarrow> ('c, 'j) LocationService \<Rightarrow> ('c, 'j) LocationService" where
  "getGpsSatelliteDataCb sat s =
    to_idle (SendSatelliteData (Some (OObj (location_util_form_json_reply True LOCATION_SUCCESS
      @ [(''visibleSatellites'', OInt (int (visible_satellites_count sat))),
         (''satellites'', OArr (List.map (satellite_item sat) [0..<visible_satellites_count sat]))])))) s"

definition getGpsStatusCb :: "GPSStatus \<Rightarrow> ('c, 'j) LocationService \<Rightarrow> ('c, 'j) LocationService" where
  "getGpsStatusCb state s =
    (let isGpsEngineOn = (state = GPS_STATUS_AVAILABLE)
     in to_idle (SendGPSStatus (Some (OObj (location_util_form_json_reply True LOCATION_SUCCESS @ [(''state'', OBool isGpsEngineOn)]))))
          (s\<lparr>mCachedGpsEngineStatus := isGpsEngineOn\<rparr>))"

definition svc_nfwNotifyCb :: "nfw_notification \<Rightarrow> ('c, 'j) LocationService \<Rightarrow> ('c, 'j) LocationService" where
  "svc_nfwNotifyCb n s =
    to_idle (SendNfwNotification (Some (OObj (location_util_form_json_reply True LOCATION_SUCCESS
      @ [(''proxyAppPackageName'', OStr (proxy_app_package_name n)), (''protocolStack'', OInt (protocol_stack n)),
         (''otherProtocolStackName'', OStr (other_protocol_stack_name n)), (''requestor'', OInt (nfw_requestor n)),
         (''requestorId'', OStr (requestor_id n)), (''responseType'', OInt (response_type n)),
         (''inEmergencyMode'', OBool (in_emergency_mode n)), (''isCachedLocation'', OBool (is_cached_location n))])))) s"

definition sendNmeaData :: "('c, 'j) svc_env \<Rightarrow> 'j jout option \<Rightarrow> ('c, 'j) LocationService \<Rightarrow> ('c, 'j) LocationService" where
  "sendNmeaData E p s = LSSubscriptionNonSubscriptionReply E SUBSC_GPS_GET_NMEA_KEY p s"

definition sendSatelliteData :: "('c, 'j) svc_env \<Rightarrow> 'j jout option \<Rightarrow> ('c, 'j) LocationService \<Rightarrow> ('c, 'j) LocationService" where
  "sendSatelliteData E p s = LSSubscriptionNonSubscriptionReply E SUBSC_GET_GPS_SATELLITE_DATA p s"

definition sendGPSStatus :: "('c, 'j) svc_env \<Rightarrow> 'j jout option \<Rightarrow> ('c, 'j) LocationService \<Rightarrow> ('c, 'j) LocationService" where
  "sendGPSStatus E p s = LSSubscriptionReply E ''getGpsStatus'' p s"

definition sendNfwNotification :: "('c, 'j) svc_env \<Rightarrow> 'j jout option \<Rightarrow> ('c, 'j) LocationService \<Rightarrow> ('c, 'j) LocationService" where
  "sendNfwNotification E p s = LSSubscriptionNonSubscriptionReply E ''getNfwNotifications'' p s"

text \<open>The callbacks of the GPS provider, as the service receives them.\<close>

definition deliver_gps :: "('c, 'j) svc_env \<Rightarrow> gps_cb \<Rightarrow> ('c, 'j) LocationService \<Rightarrow> ('c, 'j) LocationService" where
  "deliver_gps E c s =
    (case c of
       CbLocation l e t \<Rightarrow> getLocationUpdateCb E l e t s
     | CbGpsStatus st \<Rightarrow> getGpsStatusCb st s
     | CbSatellite sat \<Rightarrow> getGpsSatelliteDataCb sat s
     | CbNmea ts d n \<Rightarrow> getNmeaDataCb ts (Some d) s
     | CbNfw n \<Rightarrow> svc_nfwNotifyCb n s
     | CbGeofenceAdd i st \<Rightarrow> geofence_add_reply i st s
     | CbGeofenceRemove i st \<Rightarrow> geofence_remove_reply i st s
     | CbGeofenceBreach i st ts lat lon \<Rightarrow> geofence_breach_reply i st ts lat lon s)"

definition deliver_new :: "('c, 'j) svc_env \<Rightarrow> GPSPositionProvider \<Rightarrow> ('c, 'j) LocationService \<Rightarrow> ('c, 'j) LocationService" where
  "deliver_new E g s = fold (deliver_gps E) (drop (length (callbacks (mGPSProvider s))) (callbacks g)) (s\<lparr>mGPSProvider := g\<rparr>)"

text \<open>
  A mock location for the GPS provider is delivered while the method runs; one for the network
  provider goes to the mock server's thread. Without a location or a name the client gets no reply.
\<close>

definition setMockLocation ::
  "('c, 'j) svc_env \<Rightarrow> LSMessage \<Rightarrow> ('c, 'j) LocationService \<Rightarrow> ('c, 'j) LocationService option" where
  "setMockLocation E m s0 =
    (case LSMessageValidateSchemaReplyOnError E m ''MOCK_LOCATION_SCHEMA'' s0 of
       (None, s) \<Rightarrow> Some s
     | (Some parsed, s) \<Rightarrow>
         (case (getLocationParameter (sj E) parsed, jobject_get_exists (sj E) parsed ''name'') of
            (Some loc, Some obj) \<Rightarrow>
              if jis_null (sj E) obj then Some s
              else (case jstring_get (sj E) obj of
                      None \<Rightarrow> None
                    | Some name \<Rightarrow>
                        (case set_mock_location name loc (mock_of name s) of
                           None \<Rightarrow> None
                         | Some (e, _) \<Rightarrow>
                             let s1 = upd_mocks (\<lambda>ms. case set_mock_location name loc ms of None \<Rightarrow> ms | Some (_, ms') \<Rightarrow> ms') s;
                                 s2 = (if name = GPS \<and> e = LOCATION_SUCCESS
                                       then map_option (\<lambda>g. deliver_new E g s1)
                                              (gpsLocationCb (se_gps E) (gps_mock_location (se_bits E) (Some loc)) (mGPSProvider s1))
                                       else Some s1)
                             in map_option (LSMessageReplyError m (loc_error_num e)) s2))
          | _ \<Rightarrow> Some s))"

subsection \<open>Geofence methods no category registers\<close>

definition pauseGeofence :: "('c, 'j) svc_env \<Rightarrow> LSMessage \<Rightarrow> ('c, 'j) LocationService \<Rightarrow> ('c, 'j) LocationService" where
  "pauseGeofence E m s0 =
    (case LSMessageValidateSchemaReplyOnError E m ''JSCHEMA_PAUSE_GEOFENCE_AREA'' s0 of
       (None, s) \<Rightarrow> s
     | (Some parsed, s) \<Rightarrow>
         let gid = get_i32 (sj E) parsed ''geofenceid'' (-1)
         in if \<not> isSubscListFilled E (Some (msg_id m)) (add_key gid) False s
            then reply_error_unless m LOCATION_GEOFENCE_ID_UNKNOWN s else s)"

definition resumeGeofence :: "('c, 'j) svc_env \<Rightarrow> LSMessage \<Rightarrow> ('c, 'j) LocationService \<Rightarrow> ('c, 'j) LocationService" where
  "resumeGeofence E m s0 =
    (case LSMessageValidateSchemaReplyOnError E m ''JSCHEMA_RESUME_GEOFENCE_AREA'' s0 of
       (None, s) \<Rightarrow> s
     | (Some parsed, s) \<Rightarrow>
         let gid = get_i32 (sj E) parsed ''geofenceid'' (-1)
         in if \<not> isSubscListFilled E (Some (msg_id m)) (add_key gid) False s
            then reply_error_unless m LOCATION_GEOFENCE_ID_UNKNOWN s
            else
              let (ok, s1) = subs_add E (pct_d gid @ ''resumeGeofenceArea'') m s
              in if ok then s1 else reply_error_unless m LOCATION_UNKNOWN_ERROR s1)"

definition fence_change_reply ::
  "('c, 'j) svc_env \<Rightarrow> LocationErrorCode \<Rightarrow> string \<Rightarrow> string \<Rightarrow> int \<Rightarrow> int \<Rightarrow> ('c, 'j) LocationService \<Rightarrow> ('c, 'j) LocationService" where
  "fence_change_reply E errorCode text_ok suffix gid status s =
    (let ret = (if errorCode \<noteq> LOCATION_SUCCESS then LSMessageGetErrorReply (loc_error_num errorCode)
                else Some (OObj (location_util_form_json_reply True LOCATION_SUCCESS @ [(''status'', OStr text_ok)])));
         s1 = LSSubscriptionNonSubscriptionReply E (pct_d gid @ suffix) ret s
     in if status = GEOFENCE_OPERATION_SUCCESS then LSSubscriptionReply E (add_key gid) ret s1 else s1)"

definition geofence_pause_reply :: "('c, 'j) svc_env \<Rightarrow> int \<Rightarrow> int \<Rightarrow> ('c, 'j) LocationService \<Rightarrow> ('c, 'j) LocationService" where
  "geofence_pause_reply E gid status s =
    fence_change_reply E
      (if status = GEOFENCE_OPERATION_SUCCESS then LOCATION_SUCCESS
       else if status = GEOFENCE_ERROR_ID_UNKNOWN then LOCATION_GEOFENCE_ID_UNKNOWN
       else if status = GEOFENCE_ERROR_INVALID_TRANSITION then LOCATION_GEOFENCE_INVALID_TRANSITION
       else LOCATION_UNKNOWN_ERROR) ''paused'' ''pauseGeofenceArea'' gid status s"

definition geofence_resume_reply :: "('c, 'j) svc_env \<Rightarrow> int \<Rightarrow> int \<Rightarrow> ('c, 'j) LocationService \<Rightarrow> ('c, 'j) LocationService" where
  "geofence_resume_reply E gid status s =
    fence_change_reply E
      (if status = GEOFENCE_OPERATION_SUCCESS then LOCATION_SUCCESS
       else if status = GEOFENCE_ERROR_ID_UNKNOWN then LOCATION_GEOFENCE_ID_UNKNOWN
       else LOCATION_UNKNOWN_ERROR) ''resumed'' ''resumeGeofenceArea'' gid status s"

subsection \<open>The service as a listener\<close>

primrec svc_Handle :: "('c, 'j) svc_env \<Rightarrow> notification \<Rightarrow> ('c, 'j) LocationService \<Rightarrow> ('c, 'j) LocationService" where
  "svc_Handle E (Notify_WifiStateChange b) s = s\<lparr>wifistate := b\<rparr>"
| "svc_Handle E (Notify_WifiInternetStateChange b) s = s\<lparr>isWifiInternetAvailable := b\<rparr>"
| "svc_Handle E (Notify_ConnectivityStateChange b) s = s\<lparr>isInternetConnectionAvailable := b\<rparr>"
| "svc_Handle E (Notify_TelephonyStateChange b) s = s\<lparr>isTelephonyAvailable := b\<rparr>"
| "svc_Handle E (Notify_DataNetworkChange up t) s = s\<lparr>mGPSProvider := updateDataNetwork (se_gps E) up t (mGPSProvider s)\<rparr>"
| "svc_Handle E Notify_KernelResume s = resumeGpsEngine E s"

text \<open>A notification reaches both listeners.\<close>

definition notify_listeners :: "('c, 'j) svc_env \<Rightarrow> notification \<Rightarrow> ('c, 'j) LocationService \<Rightarrow> ('c, 'j) LocationService" where
  "notify_listeners E n s =
    (let s1 = svc_Handle E n s in s1\<lparr>mNetworkProvider := np_Handle n (mNetworkProvider s1)\<rparr>)"

subsection \<open>The start of the service\<close>

text \<open>\<open>c\<close> is the empty catalogue of a fresh bus connection.\<close>

definition svc_new :: "'c \<Rightarrow> GPSServiceConfig \<Rightarrow> ('c, 'j) LocationService" where
  "svc_new c cfg =
    \<lparr>mGpsStatus = False, mNwStatus = False, mCachedGpsEngineStatus = False, wifistate = False, isTelephonyAvailable = False,
     isWifiInternetAvailable = False, isInternetConnectionAvailable = False,
     is_geofenceId_used = replicate MAX_GEOFENCE_ID False, htPseudoGeofence = [], catalogue = c,
     m_locUpdate_req_table = (\<lambda>_. None), svc_timers = [], svc_idle = [], svc_replies = [],
     m_enableSuspendBlocker = False, m_lifeCycleMonitor = None, mGPSProvider = gps_init cfg, mNetworkProvider = np_init,
     mLBSProvider = lbs_init, lp_writes = [], mMainLoop_running = True\<rparr>"

text \<open>
  \<^verbatim>\<open>LocationService::init\<close>: the providers are enabled with the service as their callback, and
  the handler states are read. The suspend blocker is off at this point, so no monitor is made.
\<close>

definition svc_init :: "('c, 'j) svc_env \<Rightarrow> 'c \<Rightarrow> GPSServiceConfig \<Rightarrow> ('c, 'j) LocationService" where
  "svc_init E c cfg =
    (let s = svc_new c cfg;
         s1 = s\<lparr>mNetworkProvider := np_setCallback True (np_enable (se_net E) (mNetworkProvider s))\<rparr>;
         s2 = s1\<lparr>mGPSProvider := service_init_gps (se_gps E) (mGPSProvider s1)\<rparr>;
         s3 = s2\<lparr>mGpsStatus := loadHandlerStatus (se_prefs E) (lp_writes s2) GPS,
                 mNwStatus := loadHandlerStatus (se_prefs E) (lp_writes s2) NETWORK\<rparr>
     in if m_lifeCycleMonitor s3 = None \<and> m_enableSuspendBlocker s3
        then s3\<lparr>m_lifeCycleMonitor := Some lc_init\<rparr> else s3)"

end
