(* ===== verification/Service_Good.thy ===== *)
theory Service_Good
  imports Service_Props Service_Handlers "HOL-Library.Multiset"
begin

text \<open>
  The bookkeeping invariant of the service, \<open>svc_good\<close>, and that every method, callback and reply
  keeps it.
\<close>

subsection \<open>The invariant\<close>

definition idle_keys :: "'j idle \<Rightarrow> bool" where
  "idle_keys i = (case i of SendPosition p a k1 k2 r1 r2 \<Rightarrow> k1 \<in> set upd_keys \<and> k2 \<in> set upd_keys | _ \<Rightarrow> True)"

lemma svc_idle_frame [simp]:
  "svc_idle (LSMessageReply m p s) = svc_idle s" "svc_idle (reply_code m c s) = svc_idle s"
  "svc_idle (release_wakelock E m s) = svc_idle s" "svc_idle (subs_remove E k m s) = svc_idle s"
  "svc_idle (snd (gps_request E r s)) = svc_idle s" "svc_idle (snd (nw_request E r s)) = svc_idle s"
  "svc_idle (removeTimer m s) = svc_idle s" "svc_idle (snd (LSMessageRemoveReqList m s)) = svc_idle s"
  "svc_idle (snd (meetsCriteria E m a b i d s)) = svc_idle s" "svc_idle (stopSubcription E k s) = svc_idle s"
  "svc_idle (reply_error_unless m e s) = svc_idle s" "svc_idle (g_source_remove t s) = svc_idle s"
  "svc_idle (free_slot g s) = svc_idle s" "svc_idle (LSMessageReplyCustomError m c s) = svc_idle s"
  by (simp_all add: LSMessageReply_def LSMessageReplyError_def reply_code_def release_wakelock_def subs_remove_def
      gps_request_def nw_request_def removeTimer_def LSMessageRemoveReqList_def meetsCriteria_def stopSubcription_def
      reply_error_unless_def stop_timer_def g_source_remove_def free_slot_def LSMessageReplyCustomError_def
      Let_def case_prod_unfold split: option.split)

lemma svc_idle_fold: "(\<And>m s. svc_idle (f m s) = svc_idle s) \<Longrightarrow> svc_idle (fold f ms s) = svc_idle s"
  by (induction ms arbitrary: s) simp_all

lemma svc_idle_replies [simp]:
  "svc_idle (LSMessageReplyLocUpdateCase E m k p s) = svc_idle s" "svc_idle (reply_loc E pos acc k p m s) = svc_idle s"
  "svc_idle (LSSubscriptionReply E k p s) = svc_idle s" "svc_idle (reply_and_drop E k p m s) = svc_idle s"
proof -
  show 1: "svc_idle (LSMessageReplyLocUpdateCase E m k p s) = svc_idle s" for s
    by (simp add: LSMessageReplyLocUpdateCase_def Let_def)
  show "svc_idle (reply_loc E pos acc k p m s) = svc_idle s"
    by (cases pos; cases acc) (simp_all add: reply_loc_def Let_def case_prod_unfold 1)
  show "svc_idle (LSSubscriptionReply E k p s) = svc_idle s"
    unfolding LSSubscriptionReply_def by (rule svc_idle_fold) simp
  show "svc_idle (reply_and_drop E k p m s) = svc_idle s" by (simp add: reply_and_drop_def Let_def)
qed

lemma svc_idle_replies2 [simp]:
  "svc_idle (LSSubNonSubReplyLocUpdateCase E pos acc k p s) = svc_idle s"
  "svc_idle (LSSubscriptionNonSubscriptionReply E k p s) = svc_idle s"
  by (simp_all add: LSSubNonSubReplyLocUpdateCase_def LSSubscriptionNonSubscriptionReply_def Let_def svc_idle_fold
      split: option.split)

lemma svc_idle_stop [simp]: "svc_idle (getLocRequestStopSubscription E m s) = svc_idle s"
  by (simp add: getLocRequestStopSubscription_def Let_def)

lemma svc_idle_send [simp]:
  "svc_idle (sendPositionData E p a k1 k2 r1 r2 s) = svc_idle s" "svc_idle (sendGeofenceAddData E g q s) = svc_idle s"
  "svc_idle (sendGeofenceBreachData E g q s) = svc_idle s" "svc_idle (sendGeofenceRemoveData E g st q s) = svc_idle s"
  by (simp_all add: sendPositionData_def sendGeofenceAddData_def sendGeofenceBreachData_def sendGeofenceRemoveData_def Let_def)

definition svc_good :: "'c bus \<Rightarrow> (nat \<Rightarrow> string) \<Rightarrow> ('c, 'j) LocationService \<Rightarrow> bool" where
  "svc_good B meth s \<longleftrightarrow> upd_good B meth s \<and> list_all idle_keys (svc_idle s)"

lemma location_cb_svc_good:
  assumes "svc_good B meth s" and "bus_laws B" and "se_bus E = B"
  shows "svc_good B meth (getLocationUpdateCb E l err type s)"
proof -
  have "list_all idle_keys (svc_idle (getLocationUpdate_reply E pos acc err type s))" for pos acc
    using assms(1) by (auto simp: svc_good_def getLocationUpdate_reply_def Let_def to_idle_def idle_keys_def)
  then show ?thesis
    using assms location_cb_good [of B meth s E l err type] by (auto simp: svc_good_def getLocationUpdateCb_def Let_def)
qed

lemma deliver_net_good:
  assumes "svc_good B meth s" and "bus_laws B" and "se_bus E = B"
  shows "svc_good B meth (fold (deliver_net E) cs s)"
  using assms(1)
  by (induction cs arbitrary: s) (simp_all add: deliver_net_def location_cb_svc_good assms(2,3) split: net_cb.split)

lemma svc_good_books:
  assumes "books t = books s" and "list_all idle_keys (svc_idle s) \<Longrightarrow> list_all idle_keys (svc_idle t)" and "svc_good B meth s"
  shows "svc_good B meth t"
  using assms upd_good_books [OF assms(1)] by (simp add: svc_good_def)

lemma geofence_cb_good:
  assumes "svc_good B meth s"
  shows "svc_good B meth (geofence_add_reply i st s)" "svc_good B meth (geofence_remove_reply i st s)"
    "svc_good B meth (geofence_breach_reply i st ts lat lon s)"
  by (rule svc_good_books [OF _ _ assms];
      simp add: geofence_add_reply_def geofence_remove_reply_def geofence_breach_reply_def to_idle_def Let_def idle_keys_def)+

lemma stream_cb_good:
  assumes "svc_good B meth s"
  shows "svc_good B meth (getGpsStatusCb st s)" "svc_good B meth (getGpsSatelliteDataCb sat s)"
    "svc_good B meth (getNmeaDataCb ts d s)" "svc_good B meth (svc_nfwNotifyCb n s)"
  by (rule svc_good_books [OF _ _ assms];
      simp add: books_def getGpsStatusCb_def getGpsSatelliteDataCb_def getNmeaDataCb_def svc_nfwNotifyCb_def to_idle_def
        Let_def idle_keys_def)+

lemma deliver_gps_good:
  assumes "svc_good B meth s" and "bus_laws B" and "se_bus E = B"
  shows "svc_good B meth (fold (deliver_gps E) cs s)"
  using assms(1)
proof (induction cs arbitrary: s)
  case (Cons c cs)
  have "svc_good B meth (deliver_gps E c s)"
    using Cons.prems assms(2,3) by (cases c) (simp_all add: deliver_gps_def location_cb_svc_good geofence_cb_good stream_cb_good)
  then show ?case using Cons.IH by simp
qed simp

lemma provider_update_good [simp]:
  "svc_good B meth (s\<lparr>mGPSProvider := g\<rparr>) = svc_good B meth s"
  "svc_good B meth (s\<lparr>mNetworkProvider := n\<rparr>) = svc_good B meth s"
  "svc_good B meth (s\<lparr>isInternetConnectionAvailable := b\<rparr>) = svc_good B meth s"
  "svc_good B meth (s\<lparr>m_enableSuspendBlocker := b\<rparr>) = svc_good B meth s"
  by (simp_all add: svc_good_def upd_good_def timers_ok_def timers_keyed_def)

lemma geofence_keys [simp]: "add_key g \<notin> set upd_keys" "remove_key g \<notin> set upd_keys"
proof -
  have "rev (add_key g) \<notin> rev ` set upd_keys" "rev (remove_key g) \<notin> rev ` set upd_keys"
    by (simp_all add: add_key_def remove_key_def upd_keys_def)
  then show "add_key g \<notin> set upd_keys" "remove_key g \<notin> set upd_keys" by blast+
qed

lemma upd_good_geofence [simp]:
  "upd_good B meth (sendGeofenceAddData E g p s) = upd_good B meth s"
  "upd_good B meth (sendGeofenceBreachData E g p s) = upd_good B meth s"
  "upd_good B meth (free_slot g s) = upd_good B meth s"
  "upd_good B meth (s\<lparr>htPseudoGeofence := h\<rparr>) = upd_good B meth s"
  "upd_good B meth (s\<lparr>is_geofenceId_used := u\<rparr>) = upd_good B meth s"
  "upd_good B meth (s\<lparr>svc_idle := i\<rparr>) = upd_good B meth s"
  "upd_good B meth (s\<lparr>m_lifeCycleMonitor := l\<rparr>) = upd_good B meth s"
  "upd_good B meth (reply_error_unless m e s) = upd_good B meth s"
  "upd_good B meth (cancel_geofence E m s) = upd_good B meth s"
  "upd_good B meth (LSMessageReplyCustomError m c s) = upd_good B meth s"
  by (rule upd_good_books, simp)+

lemma upd_good_listed:
  assumes "upd_good B meth s" and "listed B (catalogue t) = listed B (catalogue s)"
    and "\<And>k. k \<in> set upd_keys \<Longrightarrow> set (lids B k (catalogue t)) \<subseteq> set (lids B k (catalogue s))"
    and "m_locUpdate_req_table t = m_locUpdate_req_table s" and "svc_timers t = svc_timers s"
  shows "upd_good B meth t"
  using assms timers_keyed_mono [of B s t] by (simp add: upd_good_def timers_ok_def)

lemma reply_and_drop_good:
  assumes "upd_good B meth s" and "bus_laws B" and "se_bus E = B" and "k \<notin> set upd_keys"
  shows "upd_good B meth (fold (reply_and_drop E k p) ms s)"
  using assms(1)
proof (induction ms arbitrary: s)
  case (Cons m ms)
  have "k' \<noteq> k" if "k' \<in> set upd_keys" for k' using assms(4) that by auto
  then have "upd_good B meth (reply_and_drop E k p m s)"
    by (intro upd_good_listed [OF Cons.prems])
      (simp_all add: reply_and_drop_def Let_def subs_remove_def LSMessageReply_def listed_remove_other lids_remove assms(2-4))
  then show ?case using Cons.IH by simp
qed simp

lemma geofence_reply_good:
  assumes "upd_good B meth s" and "bus_laws B" and "se_bus E = B" and "k \<notin> set upd_keys"
  shows "upd_good B meth (LSSubscriptionNonSubscriptionReply E k p s)"
  using assms(1) reply_and_drop_good [OF assms]
  by (auto simp: LSSubscriptionNonSubscriptionReply_def Let_def split: option.split)

subsection \<open>Requests for location updates and geofences\<close>

lemma concat_insert:
  assumes "distinct ks" and "k0 \<in> set ks" and "f k0 = g k0 @ [x]" and "\<And>k. k \<noteq> k0 \<Longrightarrow> f k = g k"
  shows "mset (concat (List.map f ks)) = add_mset x (mset (concat (List.map g ks)))"
  using assms(1,2)
proof (induction ks)
  case (Cons k ks)
  show ?case
  proof (cases "k = k0")
    case True
    have "f x = g x" if "x \<in> set ks" for x using that True Cons.prems(1) by (intro assms(4)) auto
    then have "List.map f ks = List.map g ks" by simp
    then show ?thesis using True assms(3) by (simp del: map_eq_conv)
  next
    case False
    then show ?thesis using Cons assms(4) by simp
  qed
qed simp

lemma listed_add:
  assumes "bus_laws B" and "LSSubscriptionAdd B k m c = (True, c')" and "k \<in> set upd_keys"
  shows "mset (listed B c') = add_mset (msg_id m) (mset (listed B c))"
  unfolding listed_def
proof (rule concat_insert)
  show "distinct upd_keys" by (simp add: upd_keys_def)
  show "k \<in> set upd_keys" by fact
  show "lids B k c' = lids B k c @ [msg_id m]" using assms(1,2) by (simp add: lids_def bus_add_ok)
  show "lids B k' c' = lids B k' c" if "k' \<noteq> k" for k' using assms(1,2) that by (simp add: lids_def bus_add_other)
qed

lemma lids_add_other:
  assumes "bus_laws B" and "LSSubscriptionAdd B k m c = (ok, c')" and "k \<notin> set upd_keys" and "k' \<in> set upd_keys"
  shows "lids B k' c' = lids B k' c"
proof -
  have "k' \<noteq> k" using assms(3,4) by auto
  then show ?thesis
    using assms(1,2) by (cases ok) (simp_all add: lids_def bus_add_other bus_add_fail)
qed

lemma listed_add_other:
  assumes "bus_laws B" and "LSSubscriptionAdd B k m c = (ok, c')" and "k \<notin> set upd_keys"
  shows "listed B c' = listed B c"
  unfolding listed_def using lids_add_other [OF assms] by (intro arg_cong [of _ _ concat] map_cong refl)

lemma listed_add_fail:
  assumes "bus_laws B" and "LSSubscriptionAdd B k m c = (False, c')"
  shows "listed B c' = listed B c"
  unfolding listed_def lids_def using bus_add_fail [OF assms] by simp

lemma enableHandlers_key:
  assumes "enableHandlers sel s = (ok, key, st)" and "ok \<or> sel = GETLOC_UPDATE_PASSIVE"
  shows "key \<in> set upd_keys"
  using assms
  by (cases sel) (auto simp: enableHandlers_def enableGpsHandler_def enableNwHandler_def Let_def upd_keys_def split: if_splits)

lemma upd_good_add_other:
  assumes "bus_laws B" and "k \<notin> set upd_keys" and "c = catalogue t"
  shows "upd_good B meth (t\<lparr>catalogue := snd (LSSubscriptionAdd B k m c)\<rparr>) = upd_good B meth t"
  using listed_add_other [OF assms(1) surjective_pairing assms(2)] lids_add_other [OF assms(1) surjective_pairing assms(2)] assms(3)
  by (simp add: upd_good_def timers_ok_def timers_keyed_def)

lemma geo_add_good:
  assumes "upd_good B meth s" and "bus_laws B" and "se_bus E = B"
  shows "upd_good B meth (addGeofenceArea E m s)"
proof -
  obtain p t where v: "LSMessageValidateSchemaReplyOnError E m ''JSCHEMA_ADD_GEOFENCE_AREA'' s = (p, t)" by fastforce
  have t: "upd_good B meth t" using upd_good_books [OF books_validate [OF v]] assms(1) by simp
  show ?thesis
    using t assms(3) by (auto simp: addGeofenceArea_def v Let_def upd_good_add_other [OF assms(2)] case_prod_unfold split: option.split)
qed

lemma geo_remove_good:
  assumes "upd_good B meth s" and "bus_laws B" and "se_bus E = B"
  shows "upd_good B meth (removeGeofenceArea E m s)"
proof -
  obtain p t where v: "LSMessageValidateSchemaReplyOnError E m ''JSCHEMA_REMOVE_GEOFENCE_AREA'' s = (p, t)" by fastforce
  have t: "upd_good B meth t" using upd_good_books [OF books_validate [OF v]] assms(1) by simp
  show ?thesis
    using t assms(3) by (auto simp: removeGeofenceArea_def v Let_def upd_good_add_other [OF assms(2)] case_prod_unfold split: option.split)
qed

text \<open>Entering a new request into the table, the timers and the list of its key.\<close>

lemma timers_keyed_new:
  assumes "bus_laws B" and "upd_good B meth s" and "k \<in> set upd_keys" and "m_locUpdate_req_table s (msg_id m) = None"
    and "LSSubscriptionAdd B k m (catalogue s) = (ok, c)" and "msg_id m \<notin> set (listed B (catalogue s))"
  shows "timers_keyed B (s\<lparr>catalogue := c,
      m_locUpdate_req_table := (m_locUpdate_req_table s)(msg_id m \<mapsto> new_request E h rt),
      svc_timers := svc_timers s @ (if rt \<noteq> 0 then [(se_timer E, \<lparr>td_message = m, td_key = k\<rparr>)] else [])\<rparr>)"
proof -
  have l: "i \<in> set (lids B k' (catalogue s)) \<or> k' = k \<and> i = msg_id m" if "i \<in> set (lids B k' c)" for i k'
    using that assms(1,5) by (cases ok; cases "k' = k") (auto simp: lids_def bus_add_ok bus_add_other bus_add_fail)
  have old: "td_key td = k'"
    if "(t, td) \<in> set (svc_timers s)" "k' \<in> set upd_keys" "msg_id (td_message td) \<in> set (lids B k' c)" for t td k'
  proof -
    have "msg_id (td_message td) \<noteq> msg_id m"
      using assms(2,4) that(1) by (fastforce simp: upd_good_def timers_ok_def)
    then have "msg_id (td_message td) \<in> set (lids B k' (catalogue s))" using l [OF that(3)] by blast
    then show ?thesis using assms(2) that(1,2) by (fastforce simp: upd_good_def timers_keyed_def)
  qed
  have "k' = k" if "k' \<in> set upd_keys" "msg_id m \<in> set (lids B k' c)" for k'
    using l [OF that(2)] assms(6) that(1) by (auto simp: listed_def)
  then show ?thesis unfolding timers_keyed_def using old by auto
qed

lemma new_request_good:
  assumes "upd_good B meth s" and "bus_laws B" and "k \<in> set upd_keys" and "meth (msg_id m) = GET_LOC_UPDATE_KEY"
    and "m_locUpdate_req_table s (msg_id m) = None" and "se_timer E \<noteq> 0"
    and "LSSubscriptionAdd B k m (catalogue s) = (ok, c)"
  shows "upd_good B meth (s\<lparr>catalogue := c,
      m_locUpdate_req_table := (m_locUpdate_req_table s)(msg_id m \<mapsto> new_request E h rt),
      svc_timers := svc_timers s @ (if rt \<noteq> 0 then [(se_timer E, \<lparr>td_message = m, td_key = k\<rparr>)] else [])\<rparr>)"
proof -
  have new: "msg_id m \<notin> set (listed B (catalogue s))" using assms(1,5) by (auto simp: upd_good_def)
  have t: "timers_ok (s\<lparr>catalogue := c,
      m_locUpdate_req_table := (m_locUpdate_req_table s)(msg_id m \<mapsto> new_request E h rt),
      svc_timers := svc_timers s @ (if rt \<noteq> 0 then [(se_timer E, \<lparr>td_message = m, td_key = k\<rparr>)] else [])\<rparr>)"
    using assms(1,3,5,6) by (fastforce simp: upd_good_def timers_ok_def new_request_def)
  have y: "timers_keyed B (s\<lparr>catalogue := c,
      m_locUpdate_req_table := (m_locUpdate_req_table s)(msg_id m \<mapsto> new_request E h rt),
      svc_timers := svc_timers s @ (if rt \<noteq> 0 then [(se_timer E, \<lparr>td_message = m, td_key = k\<rparr>)] else [])\<rparr>)"
    using assms(1,3,5,7) new by (intro timers_keyed_new [OF assms(2)])
  show ?thesis
  proof (cases ok)
    case True
    then have "LSSubscriptionAdd B k m (catalogue s) = (True, c)" using assms(7) by simp
    note l = listed_add [OF assms(2) this assms(3)]
    have "distinct (listed B c)" "set (listed B c) = insert (msg_id m) (set (listed B (catalogue s)))"
      using mset_eq_imp_distinct_iff [of "listed B c" "msg_id m # listed B (catalogue s)"]
        mset_eq_setD [of "listed B c" "msg_id m # listed B (catalogue s)"] l new assms(1)
      by (simp_all add: upd_good_def)
    then show ?thesis using t y assms(1,4) by (auto simp: upd_good_def)
  next
    case False
    then have "\<not> fst (LSSubscriptionAdd B k m (catalogue s))" using assms(7) by simp
    then have "\<not> adds_ok B" unfolding adds_ok_def by blast
    moreover have "LSSubscriptionAdd B k m (catalogue s) = (False, c)" using assms(7) False by simp
    ultimately show ?thesis
      using t y assms(1,4) listed_add_fail [OF assms(2)] by (auto simp: upd_good_def)
  qed
qed

lemma register_good:
  assumes "upd_good B meth s" and "bus_laws B" and "se_bus E = B" and "k \<in> set upd_keys" and "meth (msg_id m) = GET_LOC_UPDATE_KEY"
    and "m_locUpdate_req_table s (msg_id m) = None" and "se_timer E \<noteq> 0"
  shows "upd_good B meth (snd (register_request E m h rt k s))"
  using new_request_good [OF assms(1,2,4-7) surjective_pairing, where h = h and rt = rt]
  by (simp add: register_request_def Let_def case_prod_unfold assms(3))

lemma accept_good:
  assumes "upd_good B meth s" and "bus_laws B" and "se_bus E = B" and "k \<in> set upd_keys" and "meth (msg_id m) = GET_LOC_UPDATE_KEY"
    and "m_locUpdate_req_table s (msg_id m) = None" and "se_timer E \<noteq> 0"
  shows "upd_good B meth (accept_request E m h rt w k st s)"
  using register_good [OF assms] by (simp add: accept_request_def Let_def case_prod_unfold start_providers_good assms(2,3))

text \<open>A request that is not accepted is answered, and nothing else happens.\<close>

lemma getLocationUpdates_cases:
  assumes "getLocationUpdates E m s0 = Some t"
  obtains (schema) "fst (LSMessageValidateSchemaReplyOnError E m ''JSCEHMA_GET_LOCATION_UPDATES'' s0) = None"
      "t = LSMessageReplyCustomError m (loc_error_num LOCATION_INVALID_INPUT) s0"
  | (refused) e where "t = reply_code m (loc_error_num e) s0"
      "e \<in> {LOCATION_LOCATION_OFF, LOCATION_INVALID_INPUT, LOCATION_DATA_CONNECTION_OFF}"
  | (accepted) h rt w key st sel where "t = accept_request E m h rt w key st s0"
      "enableHandlers sel s0 = (st \<noteq> 0, key, st)" "st \<noteq> 0 \<or> sel = GETLOC_UPDATE_PASSIVE"
proof (cases "jis_null (sj E) (jdom_parse (sj E) ''JSCEHMA_GET_LOCATION_UPDATES'' (msg_payload m))")
  case True
  then show ?thesis
    using assms by (intro schema) (simp_all add: getLocationUpdates_def LSMessageValidateSchemaReplyOnError_def Let_def)
next
  case False
  define p where "p = jdom_parse (sj E) ''JSCEHMA_GET_LOCATION_UPDATES'' (msg_payload m)"
  have v: "LSMessageValidateSchemaReplyOnError E m ''JSCEHMA_GET_LOCATION_UPDATES'' s0 = (Some p, s0)"
    using False by (simp add: LSMessageValidateSchemaReplyOnError_def Let_def p_def)
  obtain name ht where n: "(case jobject_get_exists (sj E) p ''Handler'' of
      Some h \<Rightarrow> (jstring_get (sj E) h, -1) | None \<Rightarrow> (Some HYBRID, HANDLER_HYBRID_INT)) = (name, ht)"
    by (rule prod.exhaust)
  note g = assms [unfolded getLocationUpdates_def v prod.case option.case Let_def n]
  show ?thesis
  proof (cases "\<not> getHandlerStatus GPS s0 \<and> \<not> getHandlerStatus NETWORK s0")
    case True
    then show ?thesis using g by (intro refused [of LOCATION_LOCATION_OFF]) simp_all
  next
    case on: False
    have "name \<noteq> None"
    proof
      assume "name = None"
      then show False using g [unfolded if_not_P [OF on]] by simp
    qed
    then obtain h where h: "name = Some h" by blast
    obtain ok key st where e: "enableHandlers (getHandlerVal h) s0 = (ok, key, st)" by (cases "enableHandlers (getHandlerVal h) s0")
    have ok: "ok = (st \<noteq> 0)" using e by (auto simp: enableHandlers_def Let_def case_prod_unfold)
    note g' = g [unfolded if_not_P [OF on] h option.case e prod.case]
    have acc: thesis if "ok \<or> getHandlerVal h = GETLOC_UPDATE_PASSIVE"
        and t: "Some (accept_request E m a b c key st s0) = Some t" for a b c
      using that by (intro accepted [where h = a and rt = b and w = c, OF _ e [unfolded ok]]) (simp_all add: ok)
    have ref: thesis if "Some (reply_code m (loc_error_num x) s0) = Some t"
        and "x \<in> {LOCATION_LOCATION_OFF, LOCATION_INVALID_INPUT, LOCATION_DATA_CONNECTION_OFF}" for x
      using that by (intro refused [of x]) simp_all
    show ?thesis
    proof (cases "(h = GPS \<and> \<not> getHandlerStatus GPS s0) \<or> (h = NETWORK \<and> \<not> getHandlerStatus NETWORK s0)")
      case True
      show ?thesis by (rule ref [OF g' [unfolded if_P [OF True]]]) simp
    next
      case False
      note g'' = g' [unfolded if_not_P [OF False]]
      show ?thesis
      proof (cases "getHandlerVal h = GETLOC_UPDATE_INVALID")
        case True
        show ?thesis by (rule ref [OF g'' [unfolded if_P [OF True]]]) simp
      next
        case False
        note g3 = g'' [unfolded if_not_P [OF False]]
        show ?thesis
        proof (cases "ok \<or> getHandlerVal h = GETLOC_UPDATE_PASSIVE")
          case True
          show ?thesis by (rule acc [OF True g3 [unfolded if_P [OF True]]])
        next
          case False
          show ?thesis by (rule ref [OF g3 [unfolded if_not_P [OF False]]]) simp
        qed
      qed
    qed
  qed
qed

lemma updates_good:
  assumes "upd_good B meth s" and "bus_laws B" and "se_bus E = B" and "meth (msg_id m) = GET_LOC_UPDATE_KEY"
    and "m_locUpdate_req_table s (msg_id m) = None" and "se_timer E \<noteq> 0" and "getLocationUpdates E m s = Some t"
  shows "upd_good B meth t"
  using assms(7)
proof (cases rule: getLocationUpdates_cases)
  case schema
  then show ?thesis using assms(1) by simp
next
  case (accepted h rt w key st sel)
  then show ?thesis using accept_good [OF assms(1-3) _ assms(4-6)] enableHandlers_key [OF accepted(2)] by simp
qed (use assms(1) in simp)

lemma svc_idle_net [simp]: "svc_idle (deliver_net E c s) = svc_idle s"
  by (cases c) (simp add: deliver_net_def getLocationUpdateCb_def getLocationUpdate_reply_def Let_def)

lemma svc_idle_start [simp]: "svc_idle (start_providers E m st s) = svc_idle s"
  by (simp add: start_providers_def nw_position_request_def svc_idle_fold Let_def case_prod_unfold)

lemma svc_idle_updates:
  assumes "getLocationUpdates E m s = Some t" shows "svc_idle t = svc_idle s"
  using assms
proof (cases rule: getLocationUpdates_cases)
  case (accepted h rt w key st sel)
  then show ?thesis by (simp add: accept_request_def register_request_def Let_def case_prod_unfold)
qed simp_all

subsection \<open>Methods\<close>

lemma svc_good_frame [simp]:
  "svc_good B meth (LSMessageReply m p s) = svc_good B meth s"
  "svc_good B meth (LSMessageReplyError m c s) = svc_good B meth s"
  "svc_good B meth (LSMessageReplyCustomError m c s) = svc_good B meth s"
  "svc_good B meth (reply_code m c s) = svc_good B meth s"
  "svc_good B meth (reply_error_unless m e s) = svc_good B meth s"
  "svc_good B meth (reply_fields m fs s) = svc_good B meth s"
  "svc_good B meth (LSMessageReplySubscriptionSuccess m s) = svc_good B meth s"
  "svc_good B meth (snd (gps_request E r s)) = svc_good B meth s"
  "svc_good B meth (snd (nw_request E r s)) = svc_good B meth s"
  "svc_good B meth (LSSubscriptionReply E k p s) = svc_good B meth s"
proof -
  have e: "svc_good B meth (LSMessageReply m p s) = svc_good B meth s" for m p and s :: "('a, 'b) LocationService"
    by (simp add: svc_good_def)
  show "svc_good B meth (LSMessageReply m p s) = svc_good B meth s" by (rule e)
  show "svc_good B meth (LSMessageReplyError m c s) = svc_good B meth s" by (simp add: LSMessageReplyError_def e)
  show "svc_good B meth (LSMessageReplyCustomError m c s) = svc_good B meth s" by (simp add: LSMessageReplyCustomError_def e)
  show "svc_good B meth (reply_code m c s) = svc_good B meth s" by (simp add: reply_code_def LSMessageReplyError_def e)
  show "svc_good B meth (reply_error_unless m er s) = svc_good B meth s" for er
    by (simp add: reply_error_unless_def LSMessageReplyError_def e)
  show "svc_good B meth (reply_fields m fs s) = svc_good B meth s" by (simp add: reply_fields_def e)
  show "svc_good B meth (LSMessageReplySubscriptionSuccess m s) = svc_good B meth s"
    by (simp add: LSMessageReplySubscriptionSuccess_def e)
  show "svc_good B meth (snd (gps_request E r s)) = svc_good B meth s" "svc_good B meth (snd (nw_request E r s)) = svc_good B meth s"
    by (simp_all add: svc_good_def)
  have "svc_good B meth (fold (\<lambda>m. LSMessageReply m p) ms s) = svc_good B meth s" for ms and s :: "('a, 'b) LocationService"
    by (induction ms arbitrary: s) (simp_all add: e)
  then show "svc_good B meth (LSSubscriptionReply E k p s) = svc_good B meth s" by (simp add: LSSubscriptionReply_def)
qed

lemma svc_good_fields [simp]:
  "svc_good B meth (s\<lparr>mGpsStatus := a\<rparr>) = svc_good B meth s" "svc_good B meth (s\<lparr>mNwStatus := a\<rparr>) = svc_good B meth s"
  "svc_good B meth (s\<lparr>mCachedGpsEngineStatus := a\<rparr>) = svc_good B meth s" "svc_good B meth (s\<lparr>wifistate := a\<rparr>) = svc_good B meth s"
  "svc_good B meth (s\<lparr>isTelephonyAvailable := a\<rparr>) = svc_good B meth s" "svc_good B meth (s\<lparr>isWifiInternetAvailable := a\<rparr>) = svc_good B meth s"
  "svc_good B meth (s\<lparr>lp_writes := w\<rparr>) = svc_good B meth s" "svc_good B meth (s\<lparr>mLBSProvider := l\<rparr>) = svc_good B meth s"
  "svc_good B meth (s\<lparr>mMainLoop_running := a\<rparr>) = svc_good B meth s" "svc_good B meth (s\<lparr>m_lifeCycleMonitor := lc\<rparr>) = svc_good B meth s"
  "svc_good B meth (upd_mocks f s) = svc_good B meth s" "svc_good B meth (force_release E s) = svc_good B meth s"
  by (simp_all add: svc_good_def upd_good_def timers_ok_def timers_keyed_def upd_mocks_def force_release_def)

text \<open>The keys of the other lists are none of the request lists.\<close>

lemma other_keys [simp]:
  "SUBSC_GPS_GET_NMEA_KEY \<notin> set upd_keys" "SUBSC_GET_GPS_SATELLITE_DATA \<notin> set upd_keys" "''getGpsStatus'' \<notin> set upd_keys"
  "''getNfwNotifications'' \<notin> set upd_keys" "''getAllLocationHandlers'' \<notin> set upd_keys" "''getNetworkProvider'' \<notin> set upd_keys"
  by (simp_all add: upd_keys_def)

lemma state_keys: "buildGetStateSubscriptionKey h = Some k \<Longrightarrow> k \<notin> set upd_keys"
proof -
  assume "buildGetStateSubscriptionKey h = Some k"
  then obtain x where k: "k = x @ ''getState''" by (auto simp: buildGetStateSubscriptionKey_def Let_def split: option.splits if_splits)
  have "rev k \<notin> rev ` set upd_keys" unfolding k by (simp add: upd_keys_def)
  then show ?thesis by blast
qed

lemma resume_keys [simp]: "pct_d g @ ''resumeGeofenceArea'' \<notin> set upd_keys"
proof -
  have "rev (pct_d g @ ''resumeGeofenceArea'') \<notin> rev ` set upd_keys" by (simp add: upd_keys_def)
  then show ?thesis by blast
qed

lemma subs_add_good [simp]:
  assumes "bus_laws (se_bus E)" and "k \<notin> set upd_keys"
  shows "svc_good (se_bus E) meth (snd (subs_add E k m s)) = svc_good (se_bus E) meth s"
  using upd_good_add_other [OF assms refl, of meth m s]
  by (simp add: subs_add_def svc_good_def case_prod_unfold Let_def)

lemma validate_good [simp]: "svc_good B meth (snd (LSMessageValidateSchemaReplyOnError E m k s)) = svc_good B meth s"
  by (simp add: LSMessageValidateSchemaReplyOnError_def Let_def)

lemma subscribe_type_good [simp]: "svc_good B meth (snd (snd (isSubscribeTypeValid E m b s))) = svc_good B meth s"
  by (simp add: isSubscribeTypeValid_def case_prod_unfold split: option.split)

lemma subscribe_asked_good [simp]:
  "bus_laws (se_bus E) \<Longrightarrow> k \<notin> set upd_keys \<Longrightarrow>
    svc_good (se_bus E) meth (snd (snd (subscribe_if_asked E k m s))) = svc_good (se_bus E) meth s"
  by (simp add: subscribe_if_asked_def Let_def case_prod_unfold)

lemma stream_methods_good [simp]:
  assumes "bus_laws (se_bus E)"
  shows "svc_good (se_bus E) meth (getNmeaData E m s) = svc_good (se_bus E) meth s"
    and "svc_good (se_bus E) meth (getGpsSatelliteData E m s) = svc_good (se_bus E) meth s"
    and "svc_good (se_bus E) meth (getNfwNotifications E m s) = svc_good (se_bus E) meth s"
    and "svc_good (se_bus E) meth (getGpsStatus E m s) = svc_good (se_bus E) meth s"
    and "svc_good (se_bus E) meth (getTimeToFirstFix E m s) = svc_good (se_bus E) meth s"
    and "svc_good (se_bus E) meth (getGpsDebugData E m s) = svc_good (se_bus E) meth s"
  using assms
  by (simp_all add: getNmeaData_def getGpsSatelliteData_def getNfwNotifications_def getGpsStatus_def
      getTimeToFirstFix_def getGpsDebugData_def Let_def case_prod_unfold split: option.split)

lemma engine_good [simp]:
  "svc_good B meth (stopGpsEngine E s) = svc_good B meth s" "svc_good B meth (resumeGpsEngine E s) = svc_good B meth s"
  by (simp_all add: stopGpsEngine_def resumeGpsEngine_def resume_if_listed_def Let_def)

lemma control_methods_good [simp]:
  assumes "bus_laws (se_bus E)"
  shows "svc_good (se_bus E) meth (setGPSParameters E m s) = svc_good (se_bus E) meth s"
    and "svc_good (se_bus E) meth (exitLocation E m s) = svc_good (se_bus E) meth s"
    and "svc_good (se_bus E) meth (stopGPS_method E m s) = svc_good (se_bus E) meth s"
    and "svc_good (se_bus E) meth (sendExtraCommand E m s) = svc_good (se_bus E) meth s"
    and "svc_good (se_bus E) meth (getLocationHandlerDetails E m s) = svc_good (se_bus E) meth s"
    and "svc_good (se_bus E) meth (getAllLocationHandlers E m s) = svc_good (se_bus E) meth s"
    and "svc_good (se_bus E) meth (getNetworkProvider E m s) = svc_good (se_bus E) meth s"
    and "svc_good (se_bus E) meth (setNetworkProvider E m s) = svc_good (se_bus E) meth s"
  using assms
  by (simp_all add: setGPSParameters_def exitLocation_def stopGPS_method_def sendExtraCommand_def getLocationHandlerDetails_def
      getAllLocationHandlers_def getNetworkProvider_def setNetworkProvider_def Let_def case_prod_unfold split: option.split)

lemma getState_good [simp]:
  assumes "bus_laws (se_bus E)"
  shows "svc_good (se_bus E) meth (getState E m s) = svc_good (se_bus E) meth s"
  using assms state_keys by (simp add: getState_def Let_def case_prod_unfold split: option.split)

text \<open>Switching a handler off answers its clients, which may take one-shot requests off the lists.\<close>

lemma reply_key_svc_good:
  assumes "svc_good (se_bus E) meth s" and "bus_laws (se_bus E)" and "k \<in> set upd_keys"
  shows "svc_good (se_bus E) meth (LSSubNonSubReplyLocUpdateCase E pos acc k p s)"
  using assms(1) reply_key_good [OF _ assms(2) refl assms(3)] by (simp add: svc_good_def)

lemma reply_other_svc_good:
  assumes "svc_good (se_bus E) meth s" and "bus_laws (se_bus E)" and "k \<notin> set upd_keys"
  shows "svc_good (se_bus E) meth (LSSubscriptionNonSubscriptionReply E k p s)"
  using assms(1) geofence_reply_good [OF _ assms(2) refl assms(3)] by (simp add: svc_good_def)

lemma replyError_good:
  assumes "svc_good (se_bus E) meth s" and "bus_laws (se_bus E)"
  shows "svc_good (se_bus E) meth (replyErrorToGpsNwReq E h s)"
proof -
  have c: "svc_good (se_bus E) meth (reply_if_filled E k f t)"
    if "svc_good (se_bus E) meth (f t)" "svc_good (se_bus E) meth t" for k f and t :: "('a, 'b) LocationService"
    using that by (simp add: reply_if_filled_def)
  show ?thesis
    using assms
    by (cases h) (auto simp: replyErrorToGpsNwReq_def Let_def intro!: c reply_key_svc_good reply_other_svc_good)
qed

lemma switch_good:
  assumes "svc_good (se_bus E) meth s" and "bus_laws (se_bus E)"
  shows "svc_good (se_bus E) meth (switch_gps E k b s)" "svc_good (se_bus E) meth (switch_network E k b s)"
  using assms by (simp_all add: switch_gps_def switch_network_def publish_state_def Let_def replyError_good)

lemma switch_handler_good:
  assumes "svc_good (se_bus E) meth s" and "bus_laws (se_bus E)"
  shows "svc_good (se_bus E) meth (switch_handler E h k b s)"
proof -
  have tail: "svc_good (se_bus E) meth (let t = u in if P t then replyErrorToGpsNwReq E HANDLER_HYBRID (force_release E t) else t)"
    if "svc_good (se_bus E) meth u" for u :: "('a, 'b) LocationService" and P
    using that assms(2) by (simp add: Let_def replyError_good)
  show ?thesis unfolding switch_handler_def by (rule tail) (simp add: switch_good assms)
qed

lemma setState_good:
  assumes "svc_good (se_bus E) meth s" and "bus_laws (se_bus E)"
  shows "svc_good (se_bus E) meth (setState E m s)"
  using assms by (simp add: setState_def Let_def case_prod_unfold switch_handler_good split: option.split)

subsection \<open>Positions, geocoding and mocks\<close>

lemma cached_good:
  assumes "getCachedPosition E m s = Some t"
  shows "svc_good B meth t = svc_good B meth s"
  using validate_good [of B meth E m "''JSCHEMA_GET_CACHED_POSITION''" s] assms
  by (auto simp: getCachedPosition_def Let_def case_prod_unfold split: option.splits if_splits)

lemma lbs_query_good [simp]: "svc_good B meth (lbs_query E f d m s) = svc_good B meth s"
  by (simp add: lbs_query_def Let_def case_prod_unfold)

lemma lbs_prepare_good:
  "lbs_prepare E k m s = Inl t \<Longrightarrow> svc_good B meth t = svc_good B meth s"
  "lbs_prepare E k m s = Inr (p, t) \<Longrightarrow> svc_good B meth t = svc_good B meth s"
  using validate_good [of B meth E m k s]
  by (auto simp: lbs_prepare_def Let_def case_prod_unfold split: option.splits if_splits)

lemma geocode_methods_good:
  "getReverseLocation E m s = Some t \<Longrightarrow> svc_good B meth t = svc_good B meth s"
  "getGeoCodeLocation E m s = Some t \<Longrightarrow> svc_good B meth t = svc_good B meth s"
  using lbs_prepare_good [of E _ m s]
  by (auto simp: getReverseLocation_def getGeoCodeLocation_def split: sum.splits option.splits if_splits)

lemma http_response_good:
  assumes "svc_http_response E i task s = Some t"
  shows "svc_good B meth t = svc_good B meth s"
  using assms by (auto simp: svc_http_response_def geocodingReply_def Let_def split: option.splits)

lemma mock_state_good:
  assumes "setMockLocationState E b m s = Some t"
  shows "svc_good B meth t = svc_good B meth s"
  using validate_good [of B meth E m "''MOCK_STATE_SCHEMA''" s] assms
  by (auto simp: setMockLocationState_def Let_def case_prod_unfold split: option.splits if_splits)

lemma deliver_new_good:
  assumes "svc_good (se_bus E) meth s" and "bus_laws (se_bus E)"
  shows "svc_good (se_bus E) meth (deliver_new E g s)"
  using assms deliver_gps_good [OF _ assms(2) refl, of meth "s\<lparr>mGPSProvider := g\<rparr>"] by (simp add: deliver_new_def)

lemma mock_location_good:
  assumes "setMockLocation E m s = Some t" and "svc_good (se_bus E) meth s" and "bus_laws (se_bus E)"
  shows "svc_good (se_bus E) meth t"
  using validate_good [of "se_bus E" meth E m "''MOCK_LOCATION_SCHEMA''" s] assms
  by (auto simp: setMockLocation_def Let_def case_prod_unfold deliver_new_good split: option.splits if_splits)

lemma fence_methods_good:
  assumes "svc_good (se_bus E) meth s" and "bus_laws (se_bus E)"
  shows "svc_good (se_bus E) meth (pauseGeofence E m s)" "svc_good (se_bus E) meth (resumeGeofence E m s)"
  using assms by (simp_all add: pauseGeofence_def resumeGeofence_def Let_def case_prod_unfold split: option.split)

lemma notify_good [simp]: "svc_good B meth (notify_listeners E n s) = svc_good B meth s"
  by (cases n) (simp_all add: notify_listeners_def)

end
