(* ===== verification/Gps_Machine.thy ===== *)
theory Gps_Machine
  imports Gps_Callbacks
begin

text \<open>
  The GPS provider as a machine: its events (requests of the service, callbacks of the HAL,
  thread rounds, timers), its run, and the frame lemmas of every operation. A run is \<open>None\<close> from
  the moment a handler calls through a null callback pointer.
\<close>

subsection \<open>Frame lemmas of the commands\<close>

lemma injectExtraTime_frame [simp]:
  "core (snd (injectExtraTime E a b c s)) = core s" "ttff (snd (injectExtraTime E a b c s)) = ttff s"
  "dnet (snd (injectExtraTime E a b c s)) = dnet s" "logs (snd (injectExtraTime E a b c s)) = logs s"
  "mXtraDefault (thrd (snd (injectExtraTime E a b c s))) = mXtraDefault (thrd s)"
  "mGPSThreadAction (thrd (snd (injectExtraTime E a b c s))) = mGPSThreadAction (thrd s)"
  "mGPSDataConnectionState (thrd (snd (injectExtraTime E a b c s))) = mGPSDataConnectionState (thrd s)"
  "mDownloadXtraDataStatus (thrd (snd (injectExtraTime E a b c s))) = mDownloadXtraDataStatus (thrd s)"
  "mDownloadNtpDataStatus (thrd (snd (injectExtraTime E a b c s))) = IDLE"
  by (simp_all add: injectExtraTime_def)

lemma injectSystemTime_frame [simp]:
  "core (injectSystemTime E s) = core s" "ttff (injectSystemTime E s) = ttff s"
  "dnet (injectSystemTime E s) = dnet s" "logs (injectSystemTime E s) = logs s"
  "mXtraDefault (thrd (injectSystemTime E s)) = mXtraDefault (thrd s)"
  "mGPSThreadAction (thrd (injectSystemTime E s)) = mGPSThreadAction (thrd s)"
  "mGPSDataConnectionState (thrd (injectSystemTime E s)) = mGPSDataConnectionState (thrd s)"
  "mDownloadXtraDataStatus (thrd (injectSystemTime E s)) = mDownloadXtraDataStatus (thrd s)"
  by (simp_all add: injectSystemTime_def split: option.split)

lemma mocked_frame [simp]:
  "core (snd (mocked E c f s)) = core s" "ttff (snd (mocked E c f s)) = ttff s"
  "dnet (snd (mocked E c f s)) = dnet s" "logs (snd (mocked E c f s)) = logs s"
  "thrd (snd (mocked E c f s)) = thrd s"
  by (simp_all add: mocked_def Let_def split: prod.split)

lemma startGPS_frame [simp]:
  "core (snd (startGPS E s)) = core s" "ttff (snd (startGPS E s)) = ttff s"
  "dnet (snd (startGPS E s)) = dnet s" "logs (snd (startGPS E s)) = logs s"
  "mXtraDefault (thrd (snd (startGPS E s))) = mXtraDefault (thrd s)"
  "mGPSThreadAction (thrd (snd (startGPS E s))) = mGPSThreadAction (thrd s)"
  "mGPSDataConnectionState (thrd (snd (startGPS E s))) = mGPSDataConnectionState (thrd s)"
  by (simp_all add: startGPS_def)

lemma stopGPS_frame [simp]:
  "core (snd (stopGPS E s)) = core s" "ttff (snd (stopGPS E s)) = ttff s"
  "dnet (snd (stopGPS E s)) = dnet s" "logs (snd (stopGPS E s)) = logs s"
  "thrd (snd (stopGPS E s)) = thrd s"
  by (simp_all add: stopGPS_def)

lemma setGpsParameters_frame [simp]:
  "core (setGpsParameters E m r i h p s) = core s" "ttff (setGpsParameters E m r i h p s) = ttff s"
  "dnet (setGpsParameters E m r i h p s) = dnet s" "thrd (setGpsParameters E m r i h p s) = thrd s"
  "gps_mock (setGpsParameters E m r i h p s) = gps_mock s"
  "core (setPosModeWithCapability E m r i s) = core s" "ttff (setPosModeWithCapability E m r i s) = ttff s"
  "dnet (setPosModeWithCapability E m r i s) = dnet s" "thrd (setPosModeWithCapability E m r i s) = thrd s"
  "gps_mock (setPosModeWithCapability E m r i s) = gps_mock s"
  by (simp_all add: setGpsParameters_def setPosModeWithCapability_def setServerInfo_def setPositionMode_def)

text \<open>The part of the core that the requests work on.\<close>

definition core_view :: "GPSPositionProvider \<Rightarrow> bool \<times> bool \<times> bool \<times> 32 word \<times> nat" where
  "core_view s = (let c = core s in (mEnabled c, mClientCallBacks c, mEngineStarted c, mAPIProgressFlag c, mPosTimer c))"

lemma core_view_eq:
  "core_view s = core_view t \<longleftrightarrow>
    mEnabled (core s) = mEnabled (core t) \<and> mClientCallBacks (core s) = mClientCallBacks (core t)
    \<and> mEngineStarted (core s) = mEngineStarted (core t)
    \<and> mAPIProgressFlag (core s) = mAPIProgressFlag (core t) \<and> mPosTimer (core s) = mPosTimer (core t)"
  by (simp add: core_view_def Let_def)

lemma handleGpsEnable_frame:
  "mEnabled (core (snd (handleGpsEnable E s))) = mEnabled (core s)"
  "mClientCallBacks (core (snd (handleGpsEnable E s))) = mClientCallBacks (core s)"
  "mAPIProgressFlag (core (snd (handleGpsEnable E s))) = mAPIProgressFlag (core s)"
  "mPosTimer (core (snd (handleGpsEnable E s))) = mPosTimer (core s)"
  "mEngineStarted (core (snd (handleGpsEnable E s))) = (mEngineStarted (core s) \<or> fst (handleGpsEnable E s))"
  "ttff (snd (handleGpsEnable E s)) = ttff s" "dnet (snd (handleGpsEnable E s)) = dnet s"
  "mXtraDefault (thrd (snd (handleGpsEnable E s))) = mXtraDefault (thrd s)"
  "mGPSThreadAction (thrd (snd (handleGpsEnable E s))) = mGPSThreadAction (thrd s)"
  "mGPSDataConnectionState (thrd (snd (handleGpsEnable E s))) = mGPSDataConnectionState (thrd s)"
  by (simp_all add: handleGpsEnable_def Let_def case_prod_unfold)

lemma handleGpsDisable_frame:
  "mEnabled (core (snd (handleGpsDisable E s))) = mEnabled (core s)"
  "mClientCallBacks (core (snd (handleGpsDisable E s))) = mClientCallBacks (core s)"
  "mAPIProgressFlag (core (snd (handleGpsDisable E s))) = mAPIProgressFlag (core s)"
  "mPosTimer (core (snd (handleGpsDisable E s))) = mPosTimer (core s)"
  "mEngineStarted (core (snd (handleGpsDisable E s))) = (mEngineStarted (core s) \<and> \<not> fst (handleGpsDisable E s))"
  "ttff (snd (handleGpsDisable E s)) = ttff s" "dnet (snd (handleGpsDisable E s)) = dnet s"
  "thrd (snd (handleGpsDisable E s)) = thrd s"
  by (simp_all add: handleGpsDisable_def Let_def case_prod_unfold)

lemma engine_start_frame:
  fixes E J strtod s
  defines "r \<equiv> requestGpsEngineStart E J strtod s"
  shows "mEnabled (core (snd r)) = mEnabled (core s)"
    and "mClientCallBacks (core (snd r)) = mClientCallBacks (core s)"
    and "mAPIProgressFlag (core (snd r)) = mAPIProgressFlag (core s)"
    and "mPosTimer (core (snd r)) = mPosTimer (core s)"
    and "mEngineStarted (core (snd r)) = (mEngineStarted (core s) \<or> fst r = ERROR_NONE)"
    and "ttff (snd r) = ttff s" and "dnet (snd r) = dnet s"
    and "mXtraDefault (thrd (snd r)) = mXtraDefault (thrd s)"
    and "mGPSThreadAction (thrd (snd r)) = mGPSThreadAction (thrd s)"
    and "mGPSDataConnectionState (thrd (snd r)) = mGPSDataConnectionState (thrd s)"
  unfolding r_def
  by (simp_all add: requestGpsEngineStart_def handlePeriodicUpdates_def Let_def case_prod_unfold handleGpsEnable_frame)

lemma utc_frame [simp]:
  "core (gpsRequestUtcTimeCb E s) = core s" "ttff (gpsRequestUtcTimeCb E s) = ttff s"
  "dnet (gpsRequestUtcTimeCb E s) = dnet s"
  "mXtraDefault (thrd (gpsRequestUtcTimeCb E s)) = mXtraDefault (thrd s)"
  "mGPSThreadAction (thrd (gpsRequestUtcTimeCb E s)) = mGPSThreadAction (thrd s)"
  "mGPSDataConnectionState (thrd (gpsRequestUtcTimeCb E s)) = mGPSDataConnectionState (thrd s)"
  by (simp_all add: gpsRequestUtcTimeCb_def Let_def case_prod_unfold)

lemma xtra_req_frame [simp]:
  "core (gpsXtraDownloadRequestCb E s) = core s" "ttff (gpsXtraDownloadRequestCb E s) = ttff s"
  "dnet (gpsXtraDownloadRequestCb E s) = dnet s"
  "mXtraDefault (thrd (gpsXtraDownloadRequestCb E s)) = mXtraDefault (thrd s)"
  "mGPSThreadAction (thrd (gpsXtraDownloadRequestCb E s)) = mGPSThreadAction (thrd s)"
  "mGPSDataConnectionState (thrd (gpsXtraDownloadRequestCb E s)) = mGPSDataConnectionState (thrd s)"
  by (simp_all add: gpsXtraDownloadRequestCb_def)

lemmas extra_defs = handleExtraCommand_def handleForceTimeInjection_def handleForceXtraInjection_def
  handleDeleteAidingData_def handleEnableNMEALog_def handleDisableNMEALog_def handleCEPLog_def
  handleDisableCEPLog_def handleStartAnonymousLog_def handleStopAnonymousLog_def
  handleWriteAnonymousData_def

lemma extra_frame [simp]:
  "core (snd (handleExtraCommand E strtod v s)) = core s"
  "ttff (snd (handleExtraCommand E strtod v s)) = ttff s"
  "dnet (snd (handleExtraCommand E strtod v s)) = dnet s"
  "mXtraDefault (thrd (snd (handleExtraCommand E strtod v s))) = mXtraDefault (thrd s)"
  "mGPSThreadAction (thrd (snd (handleExtraCommand E strtod v s))) = mGPSThreadAction (thrd s)"
  "mGPSDataConnectionState (thrd (snd (handleExtraCommand E strtod v s))) = mGPSDataConnectionState (thrd s)"
  by (simp_all add: extra_defs Let_def case_prod_unfold split: option.split)

lemma set_param_frame [simp]:
  "core_view (snd (handleSetGpsParameterCommand E J d s)) = core_view s"
  "ttff (snd (handleSetGpsParameterCommand E J d s)) = ttff s"
  "dnet (snd (handleSetGpsParameterCommand E J d s)) = dnet s"
  "thrd (snd (handleSetGpsParameterCommand E J d s)) = thrd s"
  by (simp_all add: handleSetGpsParameterCommand_def Let_def core_view_eq split: option.split)

lemma geofence_cmd_frame [simp]:
  "core (snd (handleAddGeofenceCommand E d s)) = core s" "core (snd (handleRemoveGeofenceCommand E d s)) = core s"
  "ttff (snd (handleAddGeofenceCommand E d s)) = ttff s" "ttff (snd (handleRemoveGeofenceCommand E d s)) = ttff s"
  "dnet (snd (handleAddGeofenceCommand E d s)) = dnet s" "dnet (snd (handleRemoveGeofenceCommand E d s)) = dnet s"
  "thrd (snd (handleAddGeofenceCommand E d s)) = thrd s" "thrd (snd (handleRemoveGeofenceCommand E d s)) = thrd s"
  by (simp_all add: handleAddGeofenceCommand_def handleRemoveGeofenceCommand_def geofenceAdd_def
      geofenceRemove_def Let_def case_prod_unfold split: cmd_data.split)

subsection \<open>What a request does to the request state\<close>

text \<open>
  The request state machine in isolation: \<open>ok\<close> is whether the engine command it needs succeeds
  and \<open>t\<close> a fresh timer id.
\<close>

definition view_request :: "HandlerRequestType \<Rightarrow> bool \<Rightarrow> nat
    \<Rightarrow> bool \<times> bool \<times> bool \<times> 32 word \<times> nat \<Rightarrow> bool \<times> bool \<times> bool \<times> 32 word \<times> nat" where
  "view_request cmd ok t = (\<lambda>(en, cb, eng, fl, tm).
    if \<not> en then (en, cb, eng, fl, tm)
    else case cmd of
      POSITION_CMD \<Rightarrow>
        if has_flag fl LOCATION_UPDATES_ON then (en, cb, eng, fl, tm)
        else if ok then (en, cb, True, fl OR LOCATION_UPDATES_ON, if tm = 0 then t else tm)
        else (en, cb, eng, fl, tm)
    | NMEA_CMD \<Rightarrow>
        if has_flag fl NMEA_GET_DATA_ON then (en, cb, eng, fl, tm)
        else if ok then (en, cb, True, fl OR NMEA_GET_DATA_ON, tm) else (en, cb, eng, fl, tm)
    | SATELITTE_CMD \<Rightarrow>
        if has_flag fl SATELLITE_GET_DATA_ON then (en, cb, eng, fl, tm)
        else if ok then (en, cb, True, fl OR SATELLITE_GET_DATA_ON, tm) else (en, cb, eng, fl, tm)
    | STOP_GPS_CMD \<Rightarrow> if eng \<and> ok then (en, cb, False, 0, 0) else (en, cb, eng, fl, tm)
    | STOP_NMEA_CMD \<Rightarrow>
        (let f = fl AND NOT NMEA_GET_DATA_ON in (en, cb, eng \<and> \<not> (f = 0 \<and> ok), f, tm))
    | STOP_SATELITTE_CMD \<Rightarrow>
        (let f = fl AND NOT SATELLITE_GET_DATA_ON in (en, cb, eng \<and> \<not> (f = 0 \<and> ok), f, tm))
    | STOP_POSITION_CMD \<Rightarrow>
        (let f = fl AND NOT LOCATION_UPDATES_ON in (en, cb, eng \<and> \<not> (f = 0 \<and> ok), f, 0))
    | _ \<Rightarrow> (en, cb, eng, fl, tm))"

text \<open>A request fails on an engine command exactly when it answers \<^verbatim>\<open>ERROR_NOT_AVAILABLE\<close>.\<close>

definition req_ok :: "gps_env \<Rightarrow> 'j pbnjson \<Rightarrow> (string \<Rightarrow> double) \<Rightarrow> PositionRequest \<Rightarrow> GPSPositionProvider \<Rightarrow> bool" where
  "req_ok E J strtod r s \<longleftrightarrow> fst (gps_processRequest E J strtod r s) \<noteq> ERROR_NOT_AVAILABLE"

lemma engine_start_codes:
  "fst (requestGpsEngineStart E J strtod s) = ERROR_NONE \<or> fst (requestGpsEngineStart E J strtod s) = ERROR_NOT_AVAILABLE"
  by (simp add: requestGpsEngineStart_def Let_def case_prod_unfold)

lemmas req_defs = gps_processRequest_def stop_if_unused_def set_progress_def clear_progress_def
  remove_pos_timer_def add_pos_timer_def Let_def case_prod_unfold

lemma request_view:
  "core_view (snd (gps_processRequest E J strtod r s))
    = view_request (mRequestType r) (req_ok E J strtod r s) (ge_timer E) (core_view s)"
  using set_param_frame(1) [of E J "Some (mRequestParams r)" s] engine_start_codes [of E J strtod s]
    engine_start_codes [of E J strtod "upd_ttff (\<lambda>t. t\<lparr>mFixRequestTime := now_ms E\<rparr>) s"]
  by (cases "mRequestType r")
    (auto simp: req_defs view_request_def req_ok_def core_view_eq core_view_def
      handleGpsDisable_frame engine_start_frame)

lemma request_ttff:
  "ttff (snd (gps_processRequest E J strtod r s)) =
    (if \<not> mEnabled (core s) then ttff s
     else case mRequestType r of
       POSITION_CMD \<Rightarrow>
         if has_flag (mAPIProgressFlag (core s)) LOCATION_UPDATES_ON \<or> mTTFFState (ttff s) then ttff s
         else (ttff s)\<lparr>mFixRequestTime := now_ms E\<rparr>
     | STOP_POSITION_CMD \<Rightarrow> (ttff s)\<lparr>mTTFFState := False, mFixRequestTime := 0, mLastFixTime := 0, mTTFF := 0\<rparr>
     | _ \<Rightarrow> ttff s)"
  by (cases "mRequestType r") (simp_all add: req_defs handleGpsDisable_frame engine_start_frame)

lemma request_dnet: "dnet (snd (gps_processRequest E J strtod r s)) = dnet s"
  by (cases "mRequestType r") (simp_all add: req_defs handleGpsDisable_frame engine_start_frame)

lemma request_thrd:
  "mXtraDefault (thrd (snd (gps_processRequest E J strtod r s))) = mXtraDefault (thrd s)"
  "mGPSThreadAction (thrd (snd (gps_processRequest E J strtod r s))) = mGPSThreadAction (thrd s)"
  "mGPSDataConnectionState (thrd (snd (gps_processRequest E J strtod r s))) = mGPSDataConnectionState (thrd s)"
  by (cases "mRequestType r"; simp add: req_defs handleGpsDisable_frame engine_start_frame)+

subsection \<open>Events\<close>

datatype gps_event =
    GRequest gps_env PositionRequest
  | GDisable
  | GEnable
  | GTimeout
  | GLocation gps_env "nyx_gps_location option"
  | GStatus "nyx_gps_status option"
  | GSvStatus gps_env "nyx_sv_status option"
  | GNmea int "string option" nat
  | GNfw "nfw_notification option"
  | GCapabilities "32 word"
  | GBreach gps_env int "32 word" int double double
  | GFenceStatus int
  | GFenceAdd int int
  | GFenceRemove int int
  | GXtraData "string option" int
  | GXtraTime int int int
  | GAgps bool bool
  | GUtcRequest gps_env
  | GXtraRequest gps_env
  | GNtpDone gps_env NtpErrors "NTPData option"
  | GThread gps_env
  | GXtraBegin
  | GXtraEnd gps_env xtra_http
  | GDataNetwork gps_env bool int
  | GNetworkState gps_env NetworkInfo
  | GMockState string bool
  | GReadTtff

primrec gps_step :: "'j pbnjson \<Rightarrow> (string \<Rightarrow> double) \<Rightarrow> gps_event \<Rightarrow> GPSPositionProvider \<Rightarrow> GPSPositionProvider option" where
  "gps_step J sd (GRequest E r) s = Some (snd (gps_processRequest E J sd r s))"
| "gps_step J sd GDisable s = Some (gps_disable s)"
| "gps_step J sd GEnable s = Some (gps_enable s)"
| "gps_step J sd GTimeout s = gpsTimeoutCb s"
| "gps_step J sd (GLocation E p) s = gpsLocationCb E p s"
| "gps_step J sd (GStatus st) s = gpsStatusCb st s"
| "gps_step J sd (GSvStatus E d) s = gpsSvStatusCb E d s"
| "gps_step J sd (GNmea ts x n) s = gpsNmeaCb ts x n s"
| "gps_step J sd (GNfw x) s = Some (nfwNotifyCb x s)"
| "gps_step J sd (GCapabilities c) s = Some (gpsSetCapabilitiesCb c s)"
| "gps_step J sd (GBreach E i w ts lat lon) s = Some (geofenceBreachCb E i w ts lat lon s)"
| "gps_step J sd (GFenceStatus st) s = Some (geofenceStatusCb st s)"
| "gps_step J sd (GFenceAdd i st) s = Some (geofenceAddCb i st s)"
| "gps_step J sd (GFenceRemove i st) s = Some (geofenceRemoveCb i st s)"
| "gps_step J sd (GXtraData d n) s = Some (xtraDataCb d n s)"
| "gps_step J sd (GXtraTime u r n) s = Some (xtraTimeCb u r n s)"
| "gps_step J sd (GAgps a b) s = Some (agpsStatusCb a b s)"
| "gps_step J sd (GUtcRequest E) s = Some (gpsRequestUtcTimeCb E s)"
| "gps_step J sd (GXtraRequest E) s = Some (gpsXtraDownloadRequestCb E s)"
| "gps_step J sd (GNtpDone E e d) s = Some (onRequestCompleted E e d s)"
| "gps_step J sd (GThread E) s = Some (gps_thread_round E s)"
| "gps_step J sd GXtraBegin s = Some (xtra_thread_begin s)"
| "gps_step J sd (GXtraEnd E H) s = Some (xtra_thread_end E H s)"
| "gps_step J sd (GDataNetwork E up ty) s = Some (updateDataNetwork E up ty s)"
| "gps_step J sd (GNetworkState E ni) s = Some (updateNetworkState E ni s)"
| "gps_step J sd (GMockState n b) s = Some (s\<lparr>gps_mock := snd (set_mock_location_state n b (gps_mock s))\<rparr>)"
| "gps_step J sd GReadTtff s = Some (snd (getTimeToFirstFixValue s))"

text \<open>A machine that can fail, made total on options: failing stays failed.\<close>

definition gps_ostep :: "'j pbnjson \<Rightarrow> (string \<Rightarrow> double) \<Rightarrow> gps_event \<Rightarrow> GPSPositionProvider option \<Rightarrow> GPSPositionProvider option" where
  "gps_ostep J sd e os = (case os of None \<Rightarrow> None | Some s \<Rightarrow> gps_step J sd e s)"

definition gps_run :: "'j pbnjson \<Rightarrow> (string \<Rightarrow> double) \<Rightarrow> gps_event list \<Rightarrow> GPSPositionProvider \<Rightarrow> GPSPositionProvider option" where
  "gps_run J sd es s = fold (gps_ostep J sd) es (Some s)"

lemma gps_ostep_simps [simp]: "gps_ostep J sd e None = None" "gps_ostep J sd e (Some s) = gps_step J sd e s"
  by (simp_all add: gps_ostep_def)

text \<open>What an event does to the request state, the fix times and the worker's latch.\<close>

lemma sendDataNetwork_frame [simp]:
  "core (sendDataNetworkLocked E s) = core s" "ttff (sendDataNetworkLocked E s) = ttff s"
  "thrd (sendDataNetworkLocked E s) = thrd s"
  by (simp_all add: sendDataNetworkLocked_def Let_def case_prod_unfold)

lemma updateNetworkState_frame [simp]:
  "core (updateNetworkState E ni s) = core s" "ttff (updateNetworkState E ni s) = ttff s"
  "dnet (updateNetworkState E ni s) = dnet s"
  "mXtraDefault (thrd (updateNetworkState E ni s)) = mXtraDefault (thrd s)"
  "mGPSDataConnectionState (thrd (updateNetworkState E ni s)) = mGPSDataConnectionState (thrd s)"
  by (simp_all add: updateNetworkState_def Let_def)

lemma thread_round_frame [simp]:
  "core (gps_thread_round E s) = core s" "ttff (gps_thread_round E s) = ttff s"
  "dnet (gps_thread_round E s) = dnet s"
  "mXtraDefault (thrd (gps_thread_round E s)) = mXtraDefault (thrd s)"
  by (simp_all add: gps_thread_round_def Let_def case_prod_unfold split: GPSThreadActionEType.split)

lemma onRequestCompleted_frame [simp]:
  "core (onRequestCompleted E e d s) = core s" "ttff (onRequestCompleted E e d s) = ttff s"
  "dnet (onRequestCompleted E e d s) = dnet s"
  "mXtraDefault (thrd (onRequestCompleted E e d s)) = mXtraDefault (thrd s)"
  "mGPSThreadAction (thrd (onRequestCompleted E e d s)) = mGPSThreadAction (thrd s)"
  "mGPSDataConnectionState (thrd (onRequestCompleted E e d s)) = mGPSDataConnectionState (thrd s)"
  by (simp_all add: onRequestCompleted_def Let_def split: option.split)

lemma xtra_thread_frame [simp]:
  "core (xtra_thread_begin s) = core s" "ttff (xtra_thread_begin s) = ttff s"
  "core (xtra_thread_end E H s) = core s" "ttff (xtra_thread_end E H s) = ttff s"
  "dnet (xtra_thread_begin s) = dnet s" "dnet (xtra_thread_end E H s) = dnet s"
  "mXtraDefault (thrd (xtra_thread_begin s)) = mXtraDefault (thrd s)"
  "mXtraDefault (thrd (xtra_thread_end E H s)) = mXtraDefault (thrd s)"
  "mGPSThreadAction (thrd (xtra_thread_begin s)) = mGPSThreadAction (thrd s)"
  "mGPSThreadAction (thrd (xtra_thread_end E H s)) = mGPSThreadAction (thrd s)"
  "mGPSDataConnectionState (thrd (xtra_thread_begin s)) = mGPSDataConnectionState (thrd s)"
  "mGPSDataConnectionState (thrd (xtra_thread_end E H s)) = mGPSDataConnectionState (thrd s)"
  by (simp_all add: xtra_thread_begin_def xtra_thread_end_def Let_def case_prod_unfold split: option.split)

lemmas event_defs = gpsTimeoutCb_def gpsLocationCb_def gpsStatusCb_def gpsSvStatusCb_def gpsNmeaCb_def
  nfwNotifyCb_def gpsSetCapabilitiesCb_def geofenceBreachCb_def geofenceStatusCb_def geofenceAddCb_def
  geofenceRemoveCb_def xtraDataCb_def xtraTimeCb_def agpsStatusCb_def updateDataNetwork_def
  getTimeToFirstFixValue_def gps_disable_def gps_enable_def gps_setCallback_def

definition view_event :: "'j pbnjson \<Rightarrow> (string \<Rightarrow> double) \<Rightarrow> gps_event \<Rightarrow> GPSPositionProvider
    \<Rightarrow> bool \<times> bool \<times> bool \<times> 32 word \<times> nat \<Rightarrow> bool \<times> bool \<times> bool \<times> 32 word \<times> nat" where
  "view_event J sd e s v =
    (case e of
       GRequest E r \<Rightarrow> view_request (mRequestType r) (req_ok E J sd r s) (ge_timer E) v
     | GDisable \<Rightarrow> (case v of (en, cb, x) \<Rightarrow> if en then (False, False, x) else v)
     | GEnable \<Rightarrow> (case v of (en, x) \<Rightarrow> (True, x))
     | _ \<Rightarrow> v)"

lemma step_view:
  assumes "gps_step J sd e s = Some s'"
  shows "core_view s' = view_event J sd e s (core_view s)"
  using assms
proof (cases e)
  case (GRequest E r)
  then show ?thesis using assms by (auto simp: view_event_def request_view)
qed (auto simp: view_event_def event_defs core_view_def Let_def call_back_def split: option.splits if_splits)

end
