(* ===== verification/Net_Props.thy ===== *)
theory Net_Props
  imports Net_Provider
begin

text \<open>
  The network provider as a machine, its request invariant, and the behaviour of its query
  filters, replies and requests.
\<close>

subsection \<open>The request view\<close>

text \<open>The part of the state the requests work on.\<close>

definition np_view :: "NetworkPositionProvider \<Rightarrow> bool \<times> bool \<times> bool \<times> nat \<times> nat list" where
  "np_view s = (np_enabled s, np_callback s, mProcessRequestInProgress s, mTimeoutId s, net_timers s)"

lemma np_view_update [simp]:
  "np_view (s\<lparr>mPositionData := a\<rparr>) = np_view s" "np_view (s\<lparr>regs := b\<rparr>) = np_view s"
  "np_view (s\<lparr>net_mock := c\<rparr>) = np_view s" "np_view (s\<lparr>http := h\<rparr>) = np_view s"
  "np_view (s\<lparr>sBackend := e\<rparr>) = np_view s" "np_view (s\<lparr>net_calls := k\<rparr>) = np_view s"
  "np_view (s\<lparr>mMockRequestInProgress := m\<rparr>) = np_view s" "np_view (s\<lparr>misFirstCellResponse := m\<rparr>) = np_view s"
  "np_view (s\<lparr>mFixBackend := g\<rparr>) = np_view s" "np_view (s\<lparr>mwifiStatus := m\<rparr>) = np_view s"
  "np_view (s\<lparr>net_stored := ss\<rparr>) = np_view s" "np_view (s\<lparr>mtelephonyPowerd := m\<rparr>) = np_view s" "np_view (s\<lparr>mConnectivityStatus := m\<rparr>) = np_view s"
  by (simp_all add: np_view_def)

lemma np_call_back_view [simp]: "np_view (net_call_back c s) = np_view s"
  by (simp add: net_call_back_def np_view_def)

lemma currentBackend_view [simp]: "np_view (snd (currentBackend E s)) = np_view s"
  by (simp add: currentBackend_def Let_def split: option.split)

lemma currentBackend_pd [simp]: "mPositionData (snd (currentBackend E s)) = mPositionData s"
  by (simp add: currentBackend_def Let_def split: option.split)

lemma parseCellData_view [simp]: "np_view (snd (parseCellData J s)) = np_view s"
  by (simp add: parseCellData_def Let_def case_prod_unfold split: option.split)

lemma parseWifiData_view [simp]: "np_view (snd (parseWifiData s)) = np_view s"
  by (simp add: parseWifiData_def Let_def split: option.split)

lemma post_view [simp]: "np_view (snd (networkPostQuery E p k s)) = np_view s"
  by (simp add: networkPostQuery_def Let_def case_prod_unfold split: option.split)

lemma trigger_view [simp]: "np_view (snd (triggerPostQuery E s)) = np_view s"
  by (simp add: triggerPostQuery_def createCellQuery_def createWifiQuery_def
      createCellWifiCombinedQuery_def Let_def case_prod_unfold split: option.split)

lemma updates_view [simp]:
  "np_view (onUpdateCellData E c s) = np_view s" "np_view (onUpdateWifiData E t s) = np_view s"
  by (simp_all add: onUpdateCellData_def onUpdateWifiData_def Let_def)

lemma cell_cb_view [simp]: "np_view (cellDataCb E p s) = np_view s"
  by (simp add: cellDataCb_def Let_def split: option.split)

lemma wifi_cb_view: "wifiAccessPointsCb E p s = Some s' \<Longrightarrow> np_view s' = np_view s"
  by (auto simp: wifiAccessPointsCb_def Let_def split: option.splits if_splits)

lemma registrations_view [simp]:
  "np_view (registerForWifiAccessPoints E s) = np_view s" "np_view (registerForCellInfo E s) = np_view s"
  "np_view (snd (unregisterForWifiAccessPoints E s)) = np_view s" "np_view (snd (unregisterForCellInfo E s)) = np_view s"
  "np_view (snd (registerServiceStatus E v ck s)) = np_view s" "np_view (snd (unregisterServiceStatus E ck s)) = np_view s"
  "np_view (snd (lunaServiceCall E u p s)) = np_view s"
  by (simp_all add: registerForWifiAccessPoints_def registerForCellInfo_def unregisterForWifiAccessPoints_def
      unregisterForCellInfo_def registerServiceStatus_def unregisterServiceStatus_def lunaServiceCall_def)

lemma response_view [simp]: "np_view (handleResponse E t k s) = np_view s"
  by (simp add: handleResponse_def Let_def case_prod_unfold split: option.split)

lemma timer_view: "networkUpdateCallback E s = Some s' \<Longrightarrow> np_view s' = np_view s"
  by (auto simp: networkUpdateCallback_def split: if_splits)

lemma notification_view [simp]:
  "np_view (np_Handle_WifiNotification st s) = np_view s"
  "np_view (np_Handle_ConnectivityNotification st s) = np_view s"
  "np_view (np_Handle_TelephonyNotification st s) = np_view s"
  by (simp_all add: np_Handle_WifiNotification_def np_Handle_ConnectivityNotification_def
      np_Handle_TelephonyNotification_def Let_def)

subsection \<open>The machine\<close>

datatype 'j net_event =
    NRequest "'j net_env" PositionRequest
  | NEnable "'j net_env"
  | NDisable
  | NSetCallback
  | NTimer "'j net_env"
  | NCell "'j net_env" string
  | NWifi "'j net_env" string
  | NResponse "'j net_env" "nat option" HttpReqTask
  | NServiceStatus "'j net_env" "string option" bool
  | NWifiStatus bool
  | NConnectivity bool
  | NTelephony bool
  | NBackend NetworkLocationBackend

primrec net_step :: "'j net_event \<Rightarrow> NetworkPositionProvider \<Rightarrow> NetworkPositionProvider option" where
  "net_step (NRequest E r) s = Some (snd (np_processRequest E r s))"
| "net_step (NEnable E) s = Some (np_enable E s)"
| "net_step NDisable s = Some (np_disable s)"
| "net_step NSetCallback s = Some (np_setCallback True s)"
| "net_step (NTimer E) s = (if mTimeoutId s \<in> set (net_timers s) then networkUpdateCallback E s else Some s)"
| "net_step (NCell E p) s = Some (cellDataCb E p s)"
| "net_step (NWifi E p) s = wifiAccessPointsCb E p s"
| "net_step (NResponse E t k) s = Some (handleResponse E t k s)"
| "net_step (NServiceStatus E v up) s = Some (snd (serviceStatusCb E v up s))"
| "net_step (NWifiStatus b) s = Some (np_Handle_WifiNotification b s)"
| "net_step (NConnectivity b) s = Some (np_Handle_ConnectivityNotification b s)"
| "net_step (NTelephony b) s = Some (np_Handle_TelephonyNotification b s)"
| "net_step (NBackend b) s = Some (setCurrentBackend b s)"

definition net_ostep :: "'j net_event \<Rightarrow> NetworkPositionProvider option \<Rightarrow> NetworkPositionProvider option" where
  "net_ostep e os = (case os of None \<Rightarrow> None | Some s \<Rightarrow> net_step e s)"

definition net_run :: "'j net_event list \<Rightarrow> NetworkPositionProvider \<Rightarrow> NetworkPositionProvider option" where
  "net_run es s = fold net_ostep es (Some s)"

lemma net_simps [simp]: "net_ostep e None = None" "net_ostep e (Some s) = net_step e s"
  by (simp_all add: net_ostep_def)

text \<open>
  At most one timer source exists, it is the one remembered, and then a real request runs on an
  enabled provider. As long as the provider is not disabled (\<open>x\<close>; the service never does) a
  request has its timer.
\<close>

definition np_good :: "bool \<Rightarrow> bool \<times> bool \<times> bool \<times> nat \<times> nat list \<Rightarrow> bool" where
  "np_good x = (\<lambda>(en, cb, run, tm, ts). (tm \<noteq> 0 \<longrightarrow> run \<and> en) \<and> (x \<and> run \<longrightarrow> tm \<noteq> 0) \<and> ts = (if tm \<noteq> 0 then [tm] else []))"

primrec net_timer_ok :: "'j net_event \<Rightarrow> bool" where
  "net_timer_ok (NRequest E r) = (ne_timer E \<noteq> 0)"
| "net_timer_ok (NEnable E) = True" | "net_timer_ok NDisable = True"
| "net_timer_ok NSetCallback = True" | "net_timer_ok (NTimer E) = True"
| "net_timer_ok (NCell E p) = True" | "net_timer_ok (NWifi E p) = True" | "net_timer_ok (NResponse E t k) = True"
| "net_timer_ok (NServiceStatus E v b) = True"
| "net_timer_ok (NWifiStatus b) = True" | "net_timer_ok (NConnectivity b) = True"
| "net_timer_ok (NTelephony b) = True" | "net_timer_ok (NBackend b) = True"

lemma start_view:
  "np_view ((snd (registerServiceStatus E v c (snd (registerServiceStatus E v' c'
      ((snd (lunaServiceCall E u p s))\<lparr>mProcessRequestInProgress := True\<rparr>)))))\<lparr>mTimeoutId := t, net_timers := ts\<rparr>)
    = (np_enabled s, np_callback s, True, t, ts)"
  by (simp add: np_view_def registerServiceStatus_def lunaServiceCall_def)

lemma stop_view:
  "np_view ((upd_pd resetData (if mTimeoutId t \<noteq> 0
      then t\<lparr>net_timers := remove1 (mTimeoutId t) (net_timers t), mTimeoutId := 0\<rparr> else t))\<lparr>misFirstCellResponse := True\<rparr>)
    = (np_enabled t, np_callback t, mProcessRequestInProgress t, 0,
       if mTimeoutId t \<noteq> 0 then remove1 (mTimeoutId t) (net_timers t) else net_timers t)"
  by (simp add: np_view_def)

definition np_unregister_all :: "'j net_env \<Rightarrow> NetworkPositionProvider \<Rightarrow> NetworkPositionProvider" where
  "np_unregister_all E s =
    snd (unregisterServiceStatus E TelephonyCookie (snd (unregisterServiceStatus E WifiCookie
      (snd (unregisterForCellInfo E (snd (unregisterForWifiAccessPoints E s)))))))"

lemma unregister_all_view [simp]: "np_view (np_unregister_all E s) = np_view s"
  by (simp add: np_unregister_all_def)

lemma np_view_fields:
  "np_view s = (en, cb, run, tm, ts) \<longleftrightarrow>
    np_enabled s = en \<and> np_callback s = cb \<and> mProcessRequestInProgress s = run \<and> mTimeoutId s = tm \<and> net_timers s = ts"
  by (auto simp: np_view_def)

lemma position_view:
  assumes "mRequestType r = POSITION_CMD"
  shows "np_view (snd (np_processRequest E r s)) = np_view s
    \<or> (np_enabled s \<and> \<not> mProcessRequestInProgress s
       \<and> np_view (snd (np_processRequest E r s)) = (np_enabled s, np_callback s, True, ne_timer E, net_timers s @ [ne_timer E]))"
proof -
  let ?s1 = "snd (currentBackend E s)"
  have v: "np_view ?s1 = np_view s" by simp
  then have f: "np_enabled ?s1 = np_enabled s" "np_callback ?s1 = np_callback s" "net_timers ?s1 = net_timers s"
    by (simp_all add: np_view_def)
  show ?thesis
  proof (cases "np_enabled s \<and> \<not> network_mocked s \<and> \<not> mProcessRequestInProgress s")
    case True
    then show ?thesis
      using assms f by (simp add: np_processRequest_def Let_def case_prod_unfold start_view)
  next
    case False
    then show ?thesis
      using assms by (auto simp: np_processRequest_def Let_def case_prod_unfold)
  qed
qed

lemma stop_request_view:
  assumes "mRequestType r = STOP_POSITION_CMD"
  shows "np_view (snd (np_processRequest E r s)) =
    (if np_enabled s \<and> \<not> mMockRequestInProgress s \<and> mProcessRequestInProgress s
     then (np_enabled s, np_callback s, False, 0,
           if mTimeoutId s \<noteq> 0 then remove1 (mTimeoutId s) (net_timers s) else net_timers s)
     else np_view s)"
proof -
  define t where "t = np_unregister_all E (s\<lparr>mProcessRequestInProgress := False\<rparr>)"
  have "np_view t = np_view (s\<lparr>mProcessRequestInProgress := False\<rparr>)" by (simp add: t_def)
  then have f: "np_enabled t = np_enabled s" "np_callback t = np_callback s" "\<not> mProcessRequestInProgress t"
    "mTimeoutId t = mTimeoutId s" "net_timers t = net_timers s"
    by (simp_all add: np_view_def)
  show ?thesis
    using assms f
    by (simp add: np_processRequest_def Let_def np_unregister_all_def [symmetric] t_def [symmetric] np_view_def)
qed

lemma callback_view: "np_view (np_setCallback b s) = (np_enabled s, b, mProcessRequestInProgress s, mTimeoutId s, net_timers s)"
  by (simp add: np_setCallback_def np_view_def)

lemma service_view [simp]:
  "np_view (setCurrentBackend b s) = np_view s" "np_view (wifiServiceStatusUpdate E up s) = np_view s"
  "np_view (telephonyServiceStatusUpdate E up s) = np_view s" "np_view (snd (serviceStatusCb E v up s)) = np_view s"
  by (simp_all add: setCurrentBackend_def wifiServiceStatusUpdate_def telephonyServiceStatusUpdate_def serviceStatusCb_def
      split: option.split)

lemma np_good_fields:
  "np_good x (np_view s) \<longleftrightarrow> (mTimeoutId s \<noteq> 0 \<longrightarrow> mProcessRequestInProgress s \<and> np_enabled s)
    \<and> (x \<and> mProcessRequestInProgress s \<longrightarrow> mTimeoutId s \<noteq> 0)
    \<and> net_timers s = (if mTimeoutId s \<noteq> 0 then [mTimeoutId s] else [])"
  by (simp add: np_good_def np_view_def)

lemma request_good:
  assumes "np_good x (np_view s)" and "ne_timer E \<noteq> 0"
  shows "np_good x (np_view (snd (np_processRequest E r s)))"
proof (cases "mRequestType r")
  case POSITION_CMD
  then show ?thesis
    using assms position_view [of r E s] by (auto simp: np_good_def np_view_def)
next
  case STOP_POSITION_CMD
  note v = stop_request_view [OF this, of E s]
  show ?thesis
    using assms unfolding v by (auto simp: np_good_fields) (auto simp: np_good_def)
qed (use assms in \<open>auto simp: np_processRequest_def\<close>)

lemma net_step_good:
  assumes "np_good x (np_view s)" and "net_timer_ok e \<and> (x \<longrightarrow> e \<noteq> NDisable)"
  shows "opt_all (\<lambda>s. np_good x (np_view s)) (net_step e s)"
proof (cases e)
  case (NRequest E r)
  then show ?thesis using assms request_good by simp
next
  case (NTimer E)
  then show ?thesis
    using assms timer_view [of E s] by (cases "networkUpdateCallback E s") simp_all
next
  case (NWifi E p)
  then show ?thesis
    using assms wifi_cb_view [of E p s] by (cases "wifiAccessPointsCb E p s") simp_all
next
  case (NEnable E)
  then show ?thesis using assms by (auto simp: np_enable_def np_good_def np_view_def)
next
  case NDisable
  then show ?thesis using assms by (auto simp: np_disable_def np_good_fields)
next
  case NSetCallback
  then show ?thesis using assms by (simp add: np_setCallback_def np_good_fields)
qed (use assms in simp_all)

interpretation net_machine: step_invariant net_ostep "opt_all (\<lambda>s. np_good x (np_view s))"
  "\<lambda>e. net_timer_ok e \<and> (x \<longrightarrow> e \<noteq> NDisable)" for x
  by unfold_locales (auto dest!: net_step_good simp: opt_all_def split: option.splits)

subsection \<open>The provider interface\<close>

interpretation net_provider: position_provider np_enabled "np_processRequest E" "np_enable E" np_disable for E
  by unfold_locales (simp_all add: np_processRequest_def np_enable_def np_disable_def)

subsection \<open>Query filters\<close>

text \<open>What a list of towers says: the first registered one, if all before it say they are not.\<close>

lemma cell_loop_unregistered:
  assumes "list_all (\<lambda>t. \<exists>r. jobject_get_exists J t ''registered'' = Some r \<and> jboolean_get J r False = (True, False)) ts"
  shows "cell_loop J a (ts @ us) False cur = cell_loop J a us False cur"
  using assms by (induction ts) auto

lemma cell_loop_fst: "fst (cell_loop J a ts st cur) \<longleftrightarrow> snd (cell_loop J a ts st cur) \<noteq> cur"
  by (induction J a ts st cur rule: cell_loop.induct) (auto simp: Let_def split: option.splits)

lemma parseCellData_none: "fst (parseCellData J s) = None \<longleftrightarrow> curCellid (mPositionData (snd (parseCellData J s))) = curCellid (mPositionData s)"
  by (simp add: parseCellData_def Let_def case_prod_unfold cell_loop_fst split: option.split)

lemma ht_lookup_simps [simp]: "ht_lookup [] k = 0"
  by (simp add: ht_lookup_def)

lemma signal_change_nonneg: "signal_change_sum old new \<ge> 0"
  unfolding signal_change_sum_def by (intro add_nonneg_nonneg sum_list_nonneg) auto

lemma ht_lookup_self: "distinct (List.map fst t) \<Longrightarrow> (k, v) \<in> set t \<Longrightarrow> ht_lookup t k = v"
  by (simp add: ht_lookup_def)

lemma same_scan_no_change:
  assumes "distinct (List.map fst t)"
  shows "signal_change_sum t t = 0"
proof -
  have a: "(if ht_lookup t k \<noteq> 0 then \<bar>v - ht_lookup t k\<bar> else \<bar>v\<bar>) = 0" "(if ht_lookup t k = 0 then \<bar>v\<bar> else 0) = 0"
    if "(k, v) \<in> set t" for k v
    using ht_lookup_self [OF assms that] by simp_all
  have "(\<Sum>(k, v)\<leftarrow>t. if ht_lookup t k \<noteq> 0 then \<bar>v - ht_lookup t k\<bar> else \<bar>v\<bar>) = (\<Sum>x\<leftarrow>t. 0)"
    using a by (intro arg_cong [of _ _ sum_list] map_cong) auto
  moreover have "(\<Sum>(k, v)\<leftarrow>t. if ht_lookup t k = 0 then \<bar>v\<bar> else 0) = (\<Sum>x\<leftarrow>t. 0)"
    using a by (intro arg_cong [of _ _ sum_list] map_cong) auto
  ultimately show ?thesis by (simp add: signal_change_sum_def)
qed

lemma ht_update_keys: "List.map fst (List.map (\<lambda>(a, b). if a = k then (a, v) else (a, b)) t) = List.map fst t"
  by (induction t) auto

lemma ht_insert_keys: "distinct (List.map fst t) \<Longrightarrow> distinct (List.map fst (ht_insert k v t))"
  unfolding ht_insert_def using ht_update_keys [of k v t] by (auto simp del: map_map)

end
