(* ===== verification/Service_Machine.thy ===== *)
theory Service_Machine
  imports Service_Good Gps_Machine Net_Props
begin

text \<open>
  The service as one machine over its methods, its timers, the main loop and the events of its two
  providers, whose callbacks reach the service as the code delivers them. A run is undefined when a
  provider or a handler runs into undefined behaviour.
\<close>

subsection \<open>Method tables\<close>

type_synonym ('c, 'j) handler =
  "('c, 'j) svc_env \<Rightarrow> LSMessage \<Rightarrow> ('c, 'j) LocationService \<Rightarrow> ('c, 'j) LocationService option"

definition always :: "(('c, 'j) svc_env \<Rightarrow> LSMessage \<Rightarrow> ('c, 'j) LocationService \<Rightarrow> ('c, 'j) LocationService) \<Rightarrow> ('c, 'j) handler" where
  "always h = (\<lambda>E m s. Some (h E m s))"

definition rootMethod :: "(string \<times> ('c, 'j) handler) list" where
  "rootMethod =
    [(''getNmeaData'', always getNmeaData), (''getReverseLocation'', getReverseLocation),
     (''getGeoCodeLocation'', getGeoCodeLocation), (''getAllLocationHandlers'', always getAllLocationHandlers),
     (''getGpsStatus'', always getGpsStatus), (''setState'', always setState), (''getState'', always getState),
     (''getNetworkProvider'', always getNetworkProvider), (''setNetworkProvider'', always setNetworkProvider),
     (''getLocationHandlerDetails'', always getLocationHandlerDetails), (''getGpsSatelliteData'', always getGpsSatelliteData),
     (''getTimeToFirstFix'', always getTimeToFirstFix), (''getGpsDebugData'', always getGpsDebugData),
     (''getNfwNotifications'', always getNfwNotifications), (''getLocationUpdates'', getLocationUpdates),
     (''getCachedPosition'', getCachedPosition), (''sendExtraCommand'', always sendExtraCommand),
     (''stopGPS'', always stopGPS_method), (''exitLocation'', always exitLocation), (''setGPSParameters'', always setGPSParameters)]"

definition geofenceMethod :: "(string \<times> ('c, 'j) handler) list" where
  "geofenceMethod = [(''addGeofenceArea'', always addGeofenceArea), (''removeGeofenceArea'', always removeGeofenceArea)]"

definition mockMethod :: "(string \<times> ('c, 'j) handler) list" where
  "mockMethod =
    [(''setLocation'', setMockLocation), (''enable'', \<lambda>E. setMockLocationState E True), (''disable'', \<lambda>E. setMockLocationState E False)]"

datatype category = ROOT_CATEGORY | GEOFENCE_CATEGORY | MOCK_CATEGORY

primrec methods :: "category \<Rightarrow> (string \<times> ('c, 'j) handler) list" where
  "methods ROOT_CATEGORY = rootMethod"
| "methods GEOFENCE_CATEGORY = geofenceMethod"
| "methods MOCK_CATEGORY = mockMethod"

text \<open>A call of a method the category does not have never reaches the service.\<close>

definition call_method :: "category \<Rightarrow> ('c, 'j) handler" where
  "call_method cat E m s = (case map_of (methods cat) (msg_method m) of None \<Rightarrow> Some s | Some h \<Rightarrow> h E m s)"

subsection \<open>Steps\<close>

text \<open>The replies of the services the connection watcher subscribed to.\<close>

datatype watched = WifiStatus string | ConnectivityStatus string | TelephonyStatus string | ResumeSignal string

definition notify_all :: "('c, 'j) svc_env \<Rightarrow> notification list \<Rightarrow> ('c, 'j) LocationService \<Rightarrow> ('c, 'j) LocationService" where
  "notify_all E ns s = fold (notify_listeners E) ns s"

definition observe :: "('c, 'j) svc_env \<Rightarrow> watched \<Rightarrow> ('c, 'j) LocationService \<Rightarrow> ('c, 'j) LocationService option" where
  "observe E w s =
    (case w of
       WifiStatus p \<Rightarrow> map_option (\<lambda>ns. notify_all E ns s) (wifi_status_cb (sj E) p)
     | ConnectivityStatus p \<Rightarrow> Some (notify_all E (connectivity_status_cb (sj E) p) s)
     | TelephonyStatus p \<Rightarrow> Some (notify_all E (telephony_status_cb (sj E) p) s)
     | ResumeSignal p \<Rightarrow> Some (notify_all E (resume_cb (sj E) p) s))"

definition svc_gps :: "('c, 'j) svc_env \<Rightarrow> gps_event \<Rightarrow> ('c, 'j) LocationService \<Rightarrow> ('c, 'j) LocationService option" where
  "svc_gps E e s = map_option (\<lambda>g. deliver_new E g s) (gps_step (sj E) (se_strtod E) e (mGPSProvider s))"

definition svc_net :: "('c, 'j) svc_env \<Rightarrow> 'j net_event \<Rightarrow> ('c, 'j) LocationService \<Rightarrow> ('c, 'j) LocationService option" where
  "svc_net E e s =
    (case net_step e (mNetworkProvider s) of
       None \<Rightarrow> None
     | Some n \<Rightarrow> Some (fold (deliver_net E) (drop (length (net_callbacks (mNetworkProvider s))) (net_callbacks n))
                        (s\<lparr>mNetworkProvider := n\<rparr>)))"

definition run_idle :: "('c, 'j) svc_env \<Rightarrow> 'j idle \<Rightarrow> ('c, 'j) LocationService \<Rightarrow> ('c, 'j) LocationService" where
  "run_idle E i s =
    (case i of
       SendPosition p a k1 k2 r1 r2 \<Rightarrow> sendPositionData E p a k1 k2 r1 r2 s
     | SendGeofenceAdd g p \<Rightarrow> sendGeofenceAddData E g p s
     | SendGeofenceRemove g st p \<Rightarrow> sendGeofenceRemoveData E g st p s
     | SendGeofenceBreach g p \<Rightarrow> sendGeofenceBreachData E g p s
     | SendNmeaData p \<Rightarrow> sendNmeaData E p s
     | SendSatelliteData p \<Rightarrow> sendSatelliteData E p s
     | SendGPSStatus p \<Rightarrow> sendGPSStatus E p s
     | SendNfwNotification p \<Rightarrow> sendNfwNotification E p s)"

definition svc_idle_step :: "('c, 'j) svc_env \<Rightarrow> ('c, 'j) LocationService \<Rightarrow> ('c, 'j) LocationService" where
  "svc_idle_step E s = (case svc_idle s of [] \<Rightarrow> s | i # is \<Rightarrow> run_idle E i (s\<lparr>svc_idle := is\<rparr>))"

definition svc_cancel :: "('c, 'j) svc_env \<Rightarrow> LSMessage \<Rightarrow> ('c, 'j) LocationService \<Rightarrow> ('c, 'j) LocationService" where
  "svc_cancel E m s = (let t = cancelSubscription E m s in t\<lparr>catalogue := se_drop E m (catalogue t)\<rparr>)"

datatype ('c, 'j) svc_event =
    SCall "('c, 'j) svc_env" category LSMessage
  | SCancel "('c, 'j) svc_env" LSMessage
  | STimer "('c, 'j) svc_env" nat
  | SIdle "('c, 'j) svc_env"
  | SGps "('c, 'j) svc_env" gps_event
  | SNet "('c, 'j) svc_env" "'j net_event"
  | SHttp "('c, 'j) svc_env" nat HttpReqTask
  | SWatch "('c, 'j) svc_env" watched

text \<open>
  A request comes with a new message and a new timer id: one that is registered already cannot be
  delivered again, and the main loop does not give out the id of a live source.
\<close>

definition stale_call :: "('c, 'j) svc_env \<Rightarrow> LSMessage \<Rightarrow> ('c, 'j) LocationService \<Rightarrow> bool" where
  "stale_call E m s \<longleftrightarrow>
    m_locUpdate_req_table s (msg_id m) \<noteq> None \<or> se_timer E = 0 \<or> se_timer E \<in> fst ` set (svc_timers s)"

primrec svc_step :: "('c, 'j) svc_event \<Rightarrow> ('c, 'j) LocationService \<Rightarrow> ('c, 'j) LocationService option" where
  "svc_step (SCall E cat m) s = (if stale_call E m s then Some s else call_method cat E m s)"
| "svc_step (SCancel E m) s = Some (svc_cancel E m s)"
| "svc_step (STimer E t) s = Some (TimerCallbackLocationUpdate E t s)"
| "svc_step (SIdle E) s = Some (svc_idle_step E s)"
| "svc_step (SGps E e) s = svc_gps E e s"
| "svc_step (SNet E e) s = svc_net E e s"
| "svc_step (SHttp E t task) s = svc_http_response E t task s"
| "svc_step (SWatch E w) s = observe E w s"

definition svc_ostep :: "('c, 'j) svc_event \<Rightarrow> ('c, 'j) LocationService option \<Rightarrow> ('c, 'j) LocationService option" where
  "svc_ostep e os = (case os of None \<Rightarrow> None | Some s \<Rightarrow> svc_step e s)"

definition svc_run :: "('c, 'j) svc_event list \<Rightarrow> ('c, 'j) LocationService \<Rightarrow> ('c, 'j) LocationService option" where
  "svc_run es s = fold svc_ostep es (Some s)"

lemma svc_ostep_simps [simp]: "svc_ostep e None = None" "svc_ostep e (Some s) = svc_step e s"
  by (simp_all add: svc_ostep_def)

lemma svc_run_simps [simp]:
  "svc_run [] s = Some s" "svc_run (e # es) s = (case svc_step e s of None \<Rightarrow> None | Some t \<Rightarrow> svc_run es t)"
proof -
  have "fold svc_ostep es None = None" by (induction es) simp_all
  then show "svc_run (e # es) s = (case svc_step e s of None \<Rightarrow> None | Some t \<Rightarrow> svc_run es t)"
    by (simp add: svc_run_def split: option.split)
qed (simp add: svc_run_def)

text \<open>The bus of a run is one bus, and a message has one method.\<close>

definition env_ok :: "'c bus \<Rightarrow> (LSMessage \<Rightarrow> 'c \<Rightarrow> 'c) \<Rightarrow> ('c, 'j) svc_env \<Rightarrow> bool" where
  "env_ok B D E \<longleftrightarrow> se_bus E = B \<and> se_drop E = D"

primrec event_ok :: "'c bus \<Rightarrow> (LSMessage \<Rightarrow> 'c \<Rightarrow> 'c) \<Rightarrow> (nat \<Rightarrow> string) \<Rightarrow> ('c, 'j) svc_event \<Rightarrow> bool" where
  "event_ok B D meth (SCall E cat m) = (env_ok B D E \<and> meth (msg_id m) = msg_method m)"
| "event_ok B D meth (SCancel E m) = (env_ok B D E \<and> meth (msg_id m) = msg_method m)"
| "event_ok B D meth (STimer E t) = env_ok B D E"
| "event_ok B D meth (SIdle E) = env_ok B D E"
| "event_ok B D meth (SGps E e) = env_ok B D E"
| "event_ok B D meth (SNet E e) = env_ok B D E"
| "event_ok B D meth (SHttp E t task) = env_ok B D E"
| "event_ok B D meth (SWatch E w) = env_ok B D E"

subsection \<open>The books stay good\<close>

lemma svc_gps_good:
  assumes "svc_good B meth s" and "bus_laws B" and "se_bus E = B" and "svc_gps E e s = Some t"
  shows "svc_good B meth t"
  using assms deliver_new_good [of E meth s] by (auto simp: svc_gps_def)

lemma svc_net_good:
  assumes "svc_good B meth s" and "bus_laws B" and "se_bus E = B" and "svc_net E e s = Some t"
  shows "svc_good B meth t"
  using assms deliver_net_good [of B meth _ E] by (auto simp: svc_net_def split: option.splits)

subsection \<open>Methods, timers and cancellation\<close>

lemma run_idle_good:
  assumes "svc_good (se_bus E) meth s" and "bus_laws (se_bus E)" and "idle_keys i"
  shows "svc_good (se_bus E) meth (run_idle E i s)"
proof (cases i)
  case (SendPosition p a k1 k2 r1 r2)
  then show ?thesis
    using assms sendPosition_good [OF _ assms(2) refl, of meth s k1 k2] by (simp add: run_idle_def idle_keys_def svc_good_def)
next
  case (SendGeofenceRemove g st p)
  then show ?thesis
    using assms(1) reply_other_svc_good [OF assms(1,2), of "remove_key g" p]
      reply_other_svc_good [OF reply_other_svc_good [OF assms(1,2)] assms(2), of "remove_key g" "add_key g" p p]
    by (simp add: run_idle_def sendGeofenceRemoveData_def Let_def svc_good_def)
qed (use assms in \<open>simp_all add: run_idle_def sendNmeaData_def sendSatelliteData_def sendGPSStatus_def
      sendNfwNotification_def reply_other_svc_good, simp_all add: svc_good_def\<close>)

lemma idle_step_good:
  assumes "svc_good (se_bus E) meth s" and "bus_laws (se_bus E)"
  shows "svc_good (se_bus E) meth (svc_idle_step E s)"
proof (cases "svc_idle s")
  case (Cons i rest)
  have "svc_good (se_bus E) meth (s\<lparr>svc_idle := rest\<rparr>)" "idle_keys i" using assms(1) Cons by (simp_all add: svc_good_def)
  then show ?thesis using Cons run_idle_good [OF _ assms(2)] by (simp add: svc_idle_step_def)
qed (use assms in \<open>simp add: svc_idle_step_def\<close>)

lemma timed_out_drops_only:
  assumes "bus_laws B" and "se_bus E = B" and "k \<in> set upd_keys"
  shows "drops_only B k meth (timed_out E m k)"
  unfolding drops_only_def
proof (intro allI impI)
  fix x :: LSMessage and s :: "('a, 'b) LocationService"
  assume g: "upd_good B meth s" and x: "msg_id x \<in> set (lids B k (catalogue s))"
  have "books (release_wakelock E m (subs_remove E k x s)) = books (subs_remove E k x s)" by simp
  from upd_good_books [OF removeReq_books [OF this]] upd_good_finish [OF g assms x]
  show "upd_good B meth (timed_out E m k x s)
    \<and> (catalogue (timed_out E m k x s) = catalogue s \<or> catalogue (timed_out E m k x s) = LSSubscriptionRemove B k x (catalogue s))"
    using g assms(2) by (simp add: timed_out_def)
qed

lemma timer_good:
  assumes "upd_good B meth s" and "bus_laws B" and "se_bus E = B"
  shows "upd_good B meth (TimerCallbackLocationUpdate E t s)"
proof (cases "map_of (svc_timers s) t")
  case (Some td)
  let ?k = "td_key td"
  let ?s = "LSMessageReply (td_message td) (LSMessageGetErrorReply (loc_error_num LOCATION_TIME_OUT)) s"
  have g: "upd_good B meth ?s" using assms(1) by simp
  have k: "?k \<in> set upd_keys"
    using assms(1) map_of_SomeD [OF Some] by (fastforce simp: upd_good_def timers_ok_def)
  have "upd_good B meth (fold (timed_out E (td_message td) ?k) ms ?s)"
    if "LSSubscriptionAcquire B ?k (catalogue s) = Some ms" for ms
  proof (rule drops_only_fold [OF timed_out_drops_only [OF assms(2,3) k] assms(2) g])
    show "distinct (List.map msg_id ms)"
      using assms(1) distinct_lids [OF _ k, of B "catalogue s"] acquire_lids(2) [OF that] by (simp add: upd_good_def)
    show "msg_id ` set ms \<subseteq> set (lids B ?k (catalogue ?s))" using acquire_lids(2) [OF that] by simp
  qed
  then show ?thesis
    using Some g assms(3) by (auto simp: TimerCallbackLocationUpdate_def Let_def intro!: upd_good_source_remove split: option.split)
qed (use assms in \<open>simp add: TimerCallbackLocationUpdate_def\<close>)

lemma listed_absent:
  "upd_good B meth s \<Longrightarrow> meth i \<noteq> GET_LOC_UPDATE_KEY \<Longrightarrow> filter (\<lambda>x. x \<noteq> i) (listed B (catalogue s)) = listed B (catalogue s)"
  by (rule filter_absent) (auto simp: upd_good_def)

lemma lids_drop: "drop_laws B D \<Longrightarrow> set (lids B k (D m c)) \<subseteq> set (lids B k c)"
  by (auto simp: drop_laws_def lids_def)

lemma timers_ok_cat: "timers_ok (s\<lparr>catalogue := c\<rparr>) = timers_ok s"
  by (simp add: timers_ok_def)

lemma upd_good_minus:
  assumes "upd_good B meth r" and "timers_ok q" and "dom (m_locUpdate_req_table q) = dom (m_locUpdate_req_table r) - {i}"
    and "set (listed B c) = set (listed B (catalogue r)) - {i}" and "distinct (listed B c)"
    and "set (svc_timers q) \<subseteq> set (svc_timers r)"
    and "\<And>k. k \<in> set upd_keys \<Longrightarrow> set (lids B k c) \<subseteq> set (lids B k (catalogue r))"
  shows "upd_good B meth (q\<lparr>catalogue := c\<rparr>)"
proof -
  have "timers_ok (q\<lparr>catalogue := c\<rparr>)" using assms(2) by (simp add: timers_ok_cat)
  moreover have "timers_keyed B (q\<lparr>catalogue := c\<rparr>)"
    by (rule timers_keyed_mono [of B r]) (use assms(1,6,7) in \<open>simp_all add: upd_good_def\<close>)
  moreover have "catalogue (q\<lparr>catalogue := c\<rparr>) = c" "m_locUpdate_req_table (q\<lparr>catalogue := c\<rparr>) = m_locUpdate_req_table q"
    by simp_all
  ultimately show ?thesis using assms(1,5) unfolding upd_good_def by (simp only: assms(3,4)) auto
qed

lemma cancel_good:
  assumes "upd_good B meth s" and "drop_laws B (se_drop E)" and "meth (msg_id m) = msg_method m"
  shows "upd_good B meth (svc_cancel E m s)"
proof (cases "msg_method m = GET_LOC_UPDATE_KEY")
  case True
  let ?r = "getLocRequestStopSubscription E m (release_wakelock E m s)"
  let ?q = "snd (LSMessageRemoveReqList m ?r)"
  have g: "upd_good B meth ?r" using assms(1) by simp
  then have t: "timers_ok ?q" by (simp add: upd_good_def timers_ok_removeReq)
  have c: "catalogue ?r = catalogue s" by simp
  have r: "set (lids B k (se_drop E m (catalogue s))) \<subseteq> set (lids B k (catalogue s))" for k
    by (rule lids_drop [OF assms(2)])
  have l: "set (listed B (se_drop E m (catalogue s))) = set (listed B (catalogue s)) - {msg_id m}"
      "distinct (listed B (catalogue s)) \<Longrightarrow> distinct (listed B (se_drop E m (catalogue s)))"
    by (auto simp: listed_drop [OF assms(2)])
  have d: "dom (m_locUpdate_req_table ?q) = dom (m_locUpdate_req_table ?r) - {msg_id m}" by simp
  have "distinct (listed B (catalogue s))" using assms(1) by (simp add: upd_good_def)
  then have x: "distinct (listed B (se_drop E m (catalogue s)))" by (rule l(2))
  have e: "set (listed B (se_drop E m (catalogue s))) = set (listed B (catalogue ?r)) - {msg_id m}" by (simp only: c l(1))
  have "upd_good B meth (?q\<lparr>catalogue := se_drop E m (catalogue s)\<rparr>)" by (rule upd_good_minus [OF g t d e x]) (use r in \<open>simp_all add: timers_shrink c\<close>)
  moreover have "svc_cancel E m s = ?q\<lparr>catalogue := se_drop E m (catalogue s)\<rparr>"
    using True by (simp add: svc_cancel_def cancelSubscription_def Let_def)
  ultimately show ?thesis by simp
next
  case False
  let ?t = "cancelSubscription E m s"
  have g: "upd_good B meth ?t" using False assms(1) by (simp add: cancelSubscription_def Let_def)
  then have "listed B (se_drop E m (catalogue ?t)) = listed B (catalogue ?t)"
    using False assms(3) by (simp add: listed_drop [OF assms(2)] listed_absent)
  then show ?thesis
    by (intro upd_good_listed [OF g]) (simp_all add: svc_cancel_def Let_def lids_drop [OF assms(2)])
qed

subsection \<open>Every step keeps the books good\<close>

text \<open>A handler of a table keeps the books good when its call is not stale.\<close>

definition keeps_books :: "string \<Rightarrow> ('c, 'j) handler \<Rightarrow> bool" where
  "keeps_books k h \<longleftrightarrow>
    (\<forall>E m s t meth. svc_good (se_bus E) meth s \<longrightarrow> bus_laws (se_bus E) \<longrightarrow> msg_method m = k \<longrightarrow> meth (msg_id m) = k \<longrightarrow>
       \<not> stale_call E m s \<longrightarrow> h E m s = Some t \<longrightarrow> svc_good (se_bus E) meth t)"

lemma keeps_books_always:
  "(\<And>E m s meth. svc_good (se_bus E) meth s \<Longrightarrow> bus_laws (se_bus E) \<Longrightarrow> svc_good (se_bus E) meth (h E m s)) \<Longrightarrow> keeps_books k (always h)"
  by (auto simp: keeps_books_def always_def)

lemma keeps_books_partial:
  "(\<And>E m s t meth. svc_good (se_bus E) meth s \<Longrightarrow> bus_laws (se_bus E) \<Longrightarrow> h E m s = Some t \<Longrightarrow> svc_good (se_bus E) meth t)
    \<Longrightarrow> keeps_books k h"
  by (auto simp: keeps_books_def)

lemma updates_keeps_books: "keeps_books GET_LOC_UPDATE_KEY getLocationUpdates"
proof -
  have "svc_good (se_bus E) meth t"
    if "svc_good (se_bus E) meth s" "bus_laws (se_bus E)" "meth (msg_id m) = GET_LOC_UPDATE_KEY" "\<not> stale_call E m s"
      "getLocationUpdates E m s = Some t" for E :: "('a, 'b) svc_env" and m s t meth
    using that updates_good [of "se_bus E" meth s E m t] svc_idle_updates [OF that(5)]
    by (simp add: svc_good_def stale_call_def)
  then show ?thesis unfolding keeps_books_def by blast
qed

lemma geo_svc_good:
  assumes "svc_good (se_bus E) meth s" and "bus_laws (se_bus E)"
  shows "svc_good (se_bus E) meth (addGeofenceArea E m s)" "svc_good (se_bus E) meth (removeGeofenceArea E m s)"
proof -
  have "svc_idle (addGeofenceArea E m s) = svc_idle s" "svc_idle (removeGeofenceArea E m s) = svc_idle s"
    by (simp_all add: addGeofenceArea_def removeGeofenceArea_def LSMessageValidateSchemaReplyOnError_def Let_def case_prod_unfold
        split: option.split)
  then show "svc_good (se_bus E) meth (addGeofenceArea E m s)" "svc_good (se_bus E) meth (removeGeofenceArea E m s)"
    using assms geo_add_good [OF _ assms(2) refl] geo_remove_good [OF _ assms(2) refl] by (simp_all add: svc_good_def)
qed

lemma tables_keep_books:
  "list_all (\<lambda>(k, h). keeps_books k h) rootMethod" "list_all (\<lambda>(k, h). keeps_books k h) geofenceMethod"
  "list_all (\<lambda>(k, h). keeps_books k h) mockMethod"
proof -
  show "list_all (\<lambda>(k, h). keeps_books k h) rootMethod"
    unfolding rootMethod_def
    by (simp add: updates_keeps_books; intro conjI keeps_books_partial;
        auto simp: always_def setState_good cached_good geocode_methods_good)
  show "list_all (\<lambda>(k, h). keeps_books k h) geofenceMethod"
    unfolding geofenceMethod_def by (simp; intro conjI keeps_books_partial; auto simp: always_def geo_svc_good)
  show "list_all (\<lambda>(k, h). keeps_books k h) mockMethod"
    unfolding mockMethod_def
    by (simp; intro conjI keeps_books_partial; auto simp: mock_state_good mock_location_good)
qed

lemma methods_keep_books: "(k, h) \<in> set (methods cat) \<Longrightarrow> keeps_books k h"
  using tables_keep_books by (cases cat) (auto simp: list_all_iff)

lemma notify_all_good [simp]: "svc_good B meth (notify_all E ns s) = svc_good B meth s"
  unfolding notify_all_def by (induction ns arbitrary: s) simp_all

lemma svc_step_good:
  assumes "svc_good B meth s" and "event_ok B D meth e" and "bus_laws B" and "drop_laws B D" and "svc_step e s = Some t"
  shows "svc_good B meth t"
proof (cases e)
  case (SCall E cat m)
  then show ?thesis
    using assms methods_keep_books [OF map_of_SomeD, of cat "msg_method m"]
    by (fastforce simp: call_method_def env_ok_def keeps_books_def split: if_splits option.splits)
next
  case (STimer E t')
  then have "t = TimerCallbackLocationUpdate E t' s" "se_bus E = B" using assms(2,5) by (simp_all add: env_ok_def)
  moreover have "svc_idle (TimerCallbackLocationUpdate E t' s) = svc_idle s"
    by (simp add: TimerCallbackLocationUpdate_def Let_def svc_idle_fold timed_out_def split: option.split)
  ultimately show ?thesis using assms(1,3) timer_good [of B meth s E t'] by (simp add: svc_good_def)
next
  case (SCancel E m)
  have "svc_idle (svc_cancel E m s) = svc_idle s"
    by (simp add: svc_cancel_def cancelSubscription_def cancel_geofence_def Let_def split: option.split)
  then show ?thesis using SCancel assms cancel_good [of B meth s E m] by (simp add: svc_good_def env_ok_def)
next
  case (SIdle E)
  then show ?thesis using assms idle_step_good [of E meth s] by (auto simp: env_ok_def)
next
  case (SGps E g)
  then show ?thesis using assms svc_gps_good [of B meth s E g t] by (simp add: env_ok_def)
next
  case (SNet E n)
  then show ?thesis using assms svc_net_good [of B meth s E n t] by (simp add: env_ok_def)
next
  case (SHttp E i task)
  then show ?thesis using assms http_response_good [of E i task s t] by simp
next
  case (SWatch E w)
  then show ?thesis using assms by (cases w) (auto simp: observe_def)
qed

end
