(* ===== verification/Gps_Props.thy ===== *)
theory Gps_Props
  imports Gps_Machine Provider_Interface
begin

text \<open>
  What makes the GPS provider correct: the engine runs exactly for its requests, the time to
  first fix is measured once per session, no unsupported mode is sent, the HAL hears of the data
  network exactly when it changes, no callback is made through a null pointer.
\<close>

subsection \<open>The request invariant\<close>

abbreviation (input) flag_bits_ok :: "32 word \<Rightarrow> bool" where
  "flag_bits_ok fl \<equiv> fl = fl AND 28"

definition view_good :: "bool \<times> bool \<times> bool \<times> 32 word \<times> nat \<Rightarrow> bool" where
  "view_good = (\<lambda>(en, cb, eng, fl, tm).
    flag_bits_ok fl \<and> (fl \<noteq> 0 \<longrightarrow> eng) \<and> (tm \<noteq> 0 \<longleftrightarrow> has_flag fl LOCATION_UPDATES_ON))"

text \<open>Every engine stop of a request succeeds, and timers have non-zero ids as glib documents.\<close>

primrec timer_ok :: "gps_event \<Rightarrow> bool" where
  "timer_ok (GRequest E r) = (ge_timer E \<noteq> 0)"
| "timer_ok GDisable = True" | "timer_ok GEnable = True" | "timer_ok GTimeout = True"
| "timer_ok (GLocation E p) = True" | "timer_ok (GStatus st) = True" | "timer_ok (GSvStatus E d) = True"
| "timer_ok (GNmea a b c) = True" | "timer_ok (GNfw x) = True" | "timer_ok (GCapabilities c) = True"
| "timer_ok (GBreach E i w ts lat lon) = True" | "timer_ok (GFenceStatus a) = True"
| "timer_ok (GFenceAdd a b) = True" | "timer_ok (GFenceRemove a b) = True"
| "timer_ok (GXtraData a b) = True" | "timer_ok (GXtraTime a b c) = True" | "timer_ok (GAgps a b) = True"
| "timer_ok (GUtcRequest E) = True" | "timer_ok (GXtraRequest E) = True" | "timer_ok (GNtpDone E a b) = True"
| "timer_ok (GThread E) = True" | "timer_ok GXtraBegin = True" | "timer_ok (GXtraEnd E H) = True"
| "timer_ok (GDataNetwork E a b) = True" | "timer_ok (GNetworkState E a) = True"
| "timer_ok (GMockState a b) = True" | "timer_ok GReadTtff = True"

lemma flags_or_and:
  fixes fl :: "32 word"
  assumes "fl = fl AND 28"
  shows "fl OR 4 = (fl OR 4) AND 28" "fl OR 8 = (fl OR 8) AND 28" "fl OR 16 = (fl OR 16) AND 28"
    and "fl AND NOT b = (fl AND NOT b) AND 28"
proof -
  have "(fl OR x) AND 28 = (fl AND 28) OR (x AND 28)" for x by (simp add: bit.conj_disj_distrib2)
  then show "fl OR 4 = (fl OR 4) AND 28" "fl OR 8 = (fl OR 8) AND 28" "fl OR 16 = (fl OR 16) AND 28"
    using assms by simp_all
  show "fl AND NOT b = (fl AND NOT b) AND 28"
    using assms by (metis and.assoc and.commute)
qed

lemma or_nonzero: "(fl :: 32 word) OR 4 \<noteq> 0" "(fl :: 32 word) OR 8 \<noteq> 0" "(fl :: 32 word) OR 16 \<noteq> 0"
  by (simp_all add: or_eq_0_iff)

lemma view_good_request:
  assumes "view_good v" and "t \<noteq> 0"
  shows "view_good (view_request cmd ok t v)"
proof -
  obtain en cb eng fl tm where v: "v = (en, cb, eng, fl, tm)" by (cases v) auto
  note a = assms(1) [unfolded v view_good_def prod.case]
  have m: "flag_bits_ok fl" using a by blast
  show ?thesis
    using a assms(2) flags_or_and(1-3) [OF m] flags_or_and(4) [OF m, of 4] flags_or_and(4) [OF m, of 8]
      flags_or_and(4) [OF m, of 16] or_nonzero [of fl]
    by (cases cmd) (auto simp: v view_request_def view_good_def Let_def has_flag_iff_bit bit_simps)
qed

lemma view_good_step:
  assumes "view_good (core_view s)" and "timer_ok e"
  shows "opt_all (\<lambda>s. view_good (core_view s)) (gps_step J sd e s)"
proof (cases "gps_step J sd e s")
  case (Some s')
  have "view_good (view_event J sd e s (core_view s))"
    using assms view_good_request [OF assms(1)]
    by (cases e) (auto simp: view_event_def view_good_def split: prod.split)
  then show ?thesis using step_view [OF Some] Some by simp
qed simp

interpretation gps_req: step_invariant "gps_ostep J sd" "opt_all (\<lambda>s. view_good (core_view s))" timer_ok
  for J :: "'j pbnjson" and sd
proof
  fix s e assume "opt_all (\<lambda>s. view_good (core_view s)) s" "timer_ok e"
  then show "opt_all (\<lambda>s. view_good (core_view s)) (gps_ostep J sd e s)"
    by (cases s) (simp_all add: view_good_step)
qed

subsection \<open>Exactness when the receiver stops\<close>

text \<open>The receiver accepts every stop.\<close>

definition stop_ok :: "gps_event \<Rightarrow> bool" where
  "stop_ok e \<longleftrightarrow> timer_ok e \<and> (case e of GRequest E r \<Rightarrow> ge_nyx E NyxStop = NYX_ERROR_NONE | _ \<Rightarrow> True)"

definition view_exact :: "bool \<times> bool \<times> bool \<times> 32 word \<times> nat \<Rightarrow> bool" where
  "view_exact v \<longleftrightarrow> view_good v \<and> (case v of (en, cb, eng, fl, tm) \<Rightarrow> eng \<longleftrightarrow> fl \<noteq> 0)"

lemma disable_ok: "ge_nyx E NyxStop = NYX_ERROR_NONE \<Longrightarrow> fst (handleGpsDisable E s)"
  by (simp add: handleGpsDisable_def stopGPS_def mocked_def Let_def case_prod_unfold)

lemma stop_unused_ok:
  "ge_nyx E NyxStop = NYX_ERROR_NONE \<Longrightarrow> fst (stop_if_unused E J sd s) = ERROR_NONE"
  by (simp add: stop_if_unused_def Let_def case_prod_unfold disable_ok)

lemma stop_req_ok:
  assumes "ge_nyx E NyxStop = NYX_ERROR_NONE"
    and "mRequestType r \<in> {STOP_GPS_CMD, STOP_NMEA_CMD, STOP_SATELITTE_CMD, STOP_POSITION_CMD}"
  shows "req_ok E J sd r s"
  using assms stop_unused_ok [OF assms(1), of J sd]
  by (auto simp: req_ok_def gps_processRequest_def Let_def case_prod_unfold disable_ok)

lemma view_exact_request:
  assumes "view_exact v" and "t \<noteq> 0"
    and "cmd \<in> {STOP_GPS_CMD, STOP_NMEA_CMD, STOP_SATELITTE_CMD, STOP_POSITION_CMD} \<longrightarrow> ok"
  shows "view_exact (view_request cmd ok t v)"
proof -
  obtain en cb eng fl tm where v: "v = (en, cb, eng, fl, tm)" by (cases v) auto
  have good: "view_good (view_request cmd ok t v)"
    using assms view_good_request by (simp add: view_exact_def)
  have e: "eng \<longleftrightarrow> fl \<noteq> 0" using assms(1) by (simp add: view_exact_def v)
  show ?thesis
    using good assms(3) e or_nonzero [of fl]
    by (cases cmd) (auto simp: v view_request_def view_exact_def Let_def)
qed

lemma view_exact_step:
  assumes "view_exact (core_view s)" and "stop_ok e"
  shows "opt_all (\<lambda>s. view_exact (core_view s)) (gps_step J sd e s)"
proof (cases "gps_step J sd e s")
  case (Some s')
  have "view_exact (view_event J sd e s (core_view s))"
  proof (cases e)
    case (GRequest E r)
    then show ?thesis
      using assms stop_req_ok [of E r J sd s]
      by (auto simp: view_event_def stop_ok_def intro!: view_exact_request)
  qed (use assms in \<open>auto simp: view_event_def view_exact_def view_good_def split: prod.split\<close>)
  then show ?thesis using step_view [OF Some] Some by simp
qed simp

interpretation gps_ex: step_invariant "gps_ostep J sd" "opt_all (\<lambda>s. view_exact (core_view s))" stop_ok
  for J :: "'j pbnjson" and sd
proof
  fix s e assume "opt_all (\<lambda>s. view_exact (core_view s)) s" "stop_ok e"
  then show "opt_all (\<lambda>s. view_exact (core_view s)) (gps_ostep J sd e s)"
    by (cases s) (simp_all add: view_exact_step)
qed

lemma nyx_initialize_frame [simp]:
  "core (snd (nyx_initialize E s)) = core s" "ttff (snd (nyx_initialize E s)) = ttff s"
  "dnet (snd (nyx_initialize E s)) = dnet s"
  by (simp_all add: nyx_initialize_def Let_def case_prod_unfold)

lemma provider_init_frame [simp]:
  "core (snd (gps_provider_init E s)) = core s" "ttff (snd (gps_provider_init E s)) = ttff s"
  by (simp_all add: gps_provider_init_def Let_def case_prod_unfold)

lemma service_init_view:
  "core_view (service_init_gps E (gps_init cfg)) =
    (fst (gps_provider_init E (gps_init cfg)), fst (gps_provider_init E (gps_init cfg)), False, 0, 0)"
  by (simp add: service_init_gps_def Let_def case_prod_unfold core_view_def gps_setCallback_def
      gps_enable_def gps_init_def core_init_def)

lemma service_init_exact: "view_exact (core_view (service_init_gps E (gps_init cfg)))"
  by (simp add: service_init_view view_exact_def view_good_def has_flag_def)

subsection \<open>Null callbacks\<close>

text \<open>
  The service never disables the provider, and the HAL fills the whole satellite array it
  declares.
\<close>

primrec hal_ok :: "gps_event \<Rightarrow> bool" where
  "hal_ok (GRequest E r) = True"
| "hal_ok GDisable = False" | "hal_ok GEnable = False" | "hal_ok GTimeout = True"
| "hal_ok (GLocation E p) = True" | "hal_ok (GStatus st) = True"
| "hal_ok (GSvStatus E d) = (case d of None \<Rightarrow> True | Some v \<Rightarrow> length (sv_list v) = NYX_GPS_MAX_SVS (ge_consts E))"
| "hal_ok (GNmea a b c) = True" | "hal_ok (GNfw x) = True" | "hal_ok (GCapabilities c) = True"
| "hal_ok (GBreach E i w ts lat lon) = True" | "hal_ok (GFenceStatus a) = True"
| "hal_ok (GFenceAdd a b) = True" | "hal_ok (GFenceRemove a b) = True"
| "hal_ok (GXtraData a b) = True" | "hal_ok (GXtraTime a b c) = True" | "hal_ok (GAgps a b) = True"
| "hal_ok (GUtcRequest E) = True" | "hal_ok (GXtraRequest E) = True" | "hal_ok (GNtpDone E a b) = True"
| "hal_ok (GThread E) = True" | "hal_ok GXtraBegin = True" | "hal_ok (GXtraEnd E H) = True"
| "hal_ok (GDataNetwork E a b) = True" | "hal_ok (GNetworkState E a) = True"
| "hal_ok (GMockState a b) = True" | "hal_ok GReadTtff = True"

lemma update_count_length [simp]:
  "sat_used (update_satellite_used_in_fix_count s) = sat_used s"
  "visible_satellites_count (update_satellite_used_in_fix_count s) = visible_satellites_count s"
  by (simp_all add: update_satellite_used_in_fix_count_def)

lemma fill_satellites_gen:
  assumes "n \<le> length (sv_list d)" and "length (sat_used sat) = n" and "k \<le> n"
  shows "\<exists>sat'. fill_satellites d [k..<n] sat = Some sat'
    \<and> sat_used sat' = take k (sat_used sat) @ List.map (sv_info d) (drop k (take n (sv_list d)))
    \<and> visible_satellites_count sat' = visible_satellites_count sat"
  using assms
proof (induction "n - k" arbitrary: k sat)
  case 0
  then show ?case by simp
next
  case (Suc m)
  then have k: "k < n" by simp
  let ?sat = "update_satellite_used_in_fix_count (sat\<lparr>sat_used := (sat_used sat)[k := sv_info d (sv_list d ! k)]\<rparr>)"
  have "\<exists>sat'. fill_satellites d [Suc k..<n] ?sat = Some sat'
    \<and> sat_used sat' = take (Suc k) (sat_used ?sat) @ List.map (sv_info d) (drop (Suc k) (take n (sv_list d)))
    \<and> visible_satellites_count sat' = visible_satellites_count ?sat"
    using Suc k by (intro Suc.hyps(1)) simp_all
  moreover have "drop k (take n (sv_list d)) = sv_list d ! k # drop (Suc k) (take n (sv_list d))"
    using k Suc.prems(1) by (simp add: Cons_nth_drop_Suc [symmetric])
  moreover have "take (Suc k) ((sat_used sat)[k := x]) = take k (sat_used sat) @ [x]" for x
    using k Suc.prems(2) by (simp add: take_Suc_conv_app_nth)
  moreover have "[k..<n] = k # [Suc k..<n]" using k by (simp add: upt_conv_Cons)
  ultimately show ?case
    using k Suc.prems by (auto simp: set_satellite_details_def)
qed

lemma clamp_svs_le: "clamp_svs K n \<le> NYX_GPS_MAX_SVS K"
  by (auto simp: clamp_svs_def)

lemma sv_status_filled:
  assumes "length (sv_list v) = NYX_GPS_MAX_SVS K"
  shows "\<exists>sat. fill_satellites v [0..<clamp_svs K (num_svs v)] (satellite_create (clamp_svs K (num_svs v))) = Some sat
    \<and> sat_used sat = List.map (sv_info v) (take (clamp_svs K (num_svs v)) (sv_list v))
    \<and> visible_satellites_count sat = clamp_svs K (num_svs v)"
  using fill_satellites_gen [of "clamp_svs K (num_svs v)" v "satellite_create (clamp_svs K (num_svs v))" 0]
    clamp_svs_le [of K "num_svs v"] assms
  by (auto simp: satellite_create_def)

text \<open>With a callback installed no handler fails, and no allowed event removes it.\<close>

definition gps_safe :: "GPSPositionProvider option \<Rightarrow> bool" where
  "gps_safe os \<longleftrightarrow> (case os of None \<Rightarrow> False | Some s \<Rightarrow> mClientCallBacks (core s))"

lemma gps_safe_step:
  assumes "mClientCallBacks (core s)" and "hal_ok e"
  shows "gps_safe (gps_step J sd e s)"
proof -
  have "\<exists>s'. gps_step J sd e s = Some s'"
  proof (cases e)
    case (GSvStatus E d)
    then show ?thesis
    proof (cases d)
      case (Some v)
      then obtain sat where "fill_satellites v [0..<clamp_svs (ge_consts E) (num_svs v)]
          (satellite_create (clamp_svs (ge_consts E) (num_svs v))) = Some sat"
        using assms(2) GSvStatus sv_status_filled [of v "ge_consts E"] by auto
      then show ?thesis using assms(1) GSvStatus Some by (simp add: gpsSvStatusCb_def call_back_def Let_def)
    qed (simp add: gpsSvStatusCb_def)
  qed (use assms in \<open>auto simp: event_defs call_back_def Let_def split: option.split\<close>)
  then obtain s' where s': "gps_step J sd e s = Some s'" by blast
  have "mClientCallBacks (core s')"
    using step_view [OF s'] assms
    by (cases e) (auto simp: view_event_def core_view_def Let_def view_request_def
        split: HandlerRequestType.splits if_splits)
  then show ?thesis by (simp add: gps_safe_def s')
qed

interpretation gps_sf: step_invariant "gps_ostep J sd" gps_safe hal_ok for J :: "'j pbnjson" and sd
proof
  fix s e assume "gps_safe s" "hal_ok e"
  then show "gps_safe (gps_ostep J sd e s)"
    by (cases s) (simp_all add: gps_safe_step, simp_all add: gps_safe_def gps_safe_step [unfolded gps_safe_def])
qed

subsection \<open>Time to first fix\<close>

definition fix_known :: "int \<Rightarrow> int \<Rightarrow> GPSPositionProvider \<Rightarrow> bool" where
  "fix_known a b s \<longleftrightarrow> mTTFFState (ttff s) \<and> mFixRequestTime (ttff s) = a \<and> mLastFixTime (ttff s) = b"

definition keeps_session :: "gps_event \<Rightarrow> bool" where
  "keeps_session e \<longleftrightarrow> (case e of GRequest E r \<Rightarrow> mRequestType r \<notin> {STOP_POSITION_CMD, STOP_GPS_CMD} | _ \<Rightarrow> True)"

lemma fix_known_step:
  assumes "fix_known a b s" and "keeps_session e"
  shows "opt_all (fix_known a b) (gps_step J sd e s)"
proof (cases e)
  case (GRequest E r)
  then show ?thesis
    using assms by (auto simp: fix_known_def keeps_session_def request_ttff split: HandlerRequestType.split)
qed (use assms in \<open>auto simp: fix_known_def event_defs call_back_def Let_def split: option.split\<close>)

interpretation gps_fix: step_invariant "gps_ostep J sd" "opt_all (fix_known a b)" keeps_session
  for J :: "'j pbnjson" and sd a b
proof
  fix s e assume "opt_all (fix_known a b) s" "keeps_session e"
  then show "opt_all (fix_known a b) (gps_ostep J sd e s)"
    by (cases s) (simp_all add: fix_known_step)
qed

lemma first_fix:
  assumes "\<not> mTTFFState (ttff s)" and "gpsLocationCb E (Some p) s = Some s'"
  shows "fix_known (mFixRequestTime (ttff s)) (now_ms E) s'"
  using assms by (auto simp: fix_known_def gpsLocationCb_def Let_def call_back_def split: if_splits)

subsection \<open>The XTRA fallback and the worker thread\<close>

definition fallback_off :: "GPSPositionProvider \<Rightarrow> bool" where
  "fallback_off s \<longleftrightarrow> (mXtraDefault (thrd s) \<longrightarrow> \<not> mEnabled (core s))
    \<and> mGPSThreadAction (thrd s) \<noteq> ACTION_FAIL_ATL
    \<and> mGPSDataConnectionState (thrd s) \<in> {DATA_CONNECTION_IDLE, DATA_CONNECTION_OPEN, DATA_CONNECTION_CLOSED}"

lemma view_enabled: "hal_ok e \<Longrightarrow> fst (view_event J sd e s v) = fst v"
  by (cases e) (auto simp: view_event_def view_request_def Let_def split: prod.split HandlerRequestType.split)

lemma step_xtra_default:
  "gps_step J sd e s = Some s' \<Longrightarrow> mXtraDefault (thrd s') = mXtraDefault (thrd s)"
  by (cases e) (auto simp: event_defs Let_def call_back_def request_thrd call_back_checked_def
      split: option.splits if_splits)

lemma thread_round_conn:
  assumes "mGPSThreadAction (thrd s) \<noteq> ACTION_FAIL_ATL"
  shows "mGPSDataConnectionState (thrd (gps_thread_round E s)) \<in>
      {mGPSDataConnectionState (thrd s), DATA_CONNECTION_IDLE, DATA_CONNECTION_OPEN, DATA_CONNECTION_CLOSED}"
    and "mGPSThreadAction (thrd (gps_thread_round E s)) \<noteq> ACTION_FAIL_ATL"
  using assms
  by (auto simp: gps_thread_round_def Let_def case_prod_unfold split: GPSThreadActionEType.split)

lemma network_state_action:
  "mGPSThreadAction (thrd (updateNetworkState E ni s))
    \<in> {mGPSThreadAction (thrd s), ACTION_OPEN_ATL, ACTION_CLOSE_ATL}"
  by (simp add: updateNetworkState_def Let_def)

lemma step_thread:
  assumes "gps_step J sd e s = Some s'" and "fallback_off s"
  shows "mGPSThreadAction (thrd s') \<noteq> ACTION_FAIL_ATL
    \<and> mGPSDataConnectionState (thrd s') \<in> {DATA_CONNECTION_IDLE, DATA_CONNECTION_OPEN, DATA_CONNECTION_CLOSED}"
proof (cases e)
  case (GThread E)
  then show ?thesis
    using assms thread_round_conn [of s E] by (auto simp: fallback_off_def)
next
  case (GNetworkState E ni)
  then show ?thesis using assms network_state_action [of E ni s] by (auto simp: fallback_off_def)
qed (use assms in \<open>auto simp: fallback_off_def event_defs Let_def call_back_def request_thrd
      call_back_checked_def split: option.splits if_splits\<close>)

lemma fallback_step:
  assumes "fallback_off s" and "hal_ok e"
  shows "opt_all fallback_off (gps_step J sd e s)"
proof (cases "gps_step J sd e s")
  case (Some s')
  have "fst (core_view s') = fst (core_view s)"
    using step_view [OF Some] view_enabled [OF assms(2)] by simp
  then have "mEnabled (core s') = mEnabled (core s)" by (simp add: core_view_def Let_def)
  then show ?thesis
    using Some assms step_xtra_default [OF Some] step_thread [OF Some assms(1)]
    by (simp add: fallback_off_def)
qed simp

interpretation gps_fb: step_invariant "gps_ostep J sd" "opt_all fallback_off" hal_ok
  for J :: "'j pbnjson" and sd
proof
  fix s e assume "opt_all fallback_off s" "hal_ok e"
  then show "opt_all fallback_off (gps_ostep J sd e s)"
    by (cases s) (simp_all add: fallback_step)
qed

lemma service_init_fallback: "fallback_off (service_init_gps E (gps_init cfg))"
  by (simp add: fallback_off_def service_init_gps_def gps_provider_init_def nyx_initialize_def
      gps_setCallback_def gps_enable_def gps_init_def core_init_def thrd_init_def Let_def case_prod_unfold)

subsection \<open>The provider interface\<close>

interpretation gps_prov: position_provider "\<lambda>s. mEnabled (core s)" "gps_processRequest E J sd" gps_enable gps_disable
  for E and J :: "'j pbnjson" and sd
  by unfold_locales (simp_all add: gps_processRequest_def gps_enable_def gps_disable_def)

end
