(* ===== verification/Gps_Claims.thy ===== *)
theory Gps_Claims
  imports Gps_Props
begin

text \<open>The properties of the GPS provider, over runs from the state the service initialises.\<close>

subsection \<open>A concrete run\<close>

definition demo_env :: gps_env where
  "demo_env = \<lparr>ge_consts = nyx_demo_consts, ge_nyx = (\<lambda>_. NYX_ERROR_NONE), ge_now = Some 1700000000000,
     ge_boottime = Some 5000, ge_timer = 7, ge_thread_ok = True, ge_wan_up = True\<rparr>"

definition demo_start :: GPSPositionProvider where
  "demo_start = service_init_gps demo_env (gps_init (loadDefaults 1))"

definition demo_strtod :: "string \<Rightarrow> double" where
  "demo_strtod s = 0"

definition demo_json :: "json pbnjson" where
  "demo_json = json_api []"

definition demo_req :: "HandlerRequestType \<Rightarrow> gps_event" where
  "demo_req t = GRequest demo_env (position_request ''GPS'' t)"

lemma demo_env_fields [simp]:
  "ge_nyx demo_env c = NYX_ERROR_NONE" "ge_thread_ok demo_env" "ge_timer demo_env = 7"
  "now_ms demo_env = 1700000000000"
  by (simp_all add: demo_env_def now_ms_def)

lemma init_ok: "(\<And>c. ge_nyx E c = NYX_ERROR_NONE) \<Longrightarrow> ge_thread_ok E \<Longrightarrow> fst (gps_provider_init E s)"
  by (simp add: gps_provider_init_def nyx_initialize_def Let_def case_prod_unfold)

lemma demo_start_view: "core_view demo_start = (True, True, False, 0, 0)"
  by (simp add: demo_start_def service_init_view init_ok)

lemma demo_start_enabled [simp]: "mEnabled (core demo_start)" "mClientCallBacks (core demo_start)"
  "\<not> mEngineStarted (core demo_start)" "mAPIProgressFlag (core demo_start) = 0" "mPosTimer (core demo_start) = 0"
  using demo_start_view by (simp_all add: core_view_def Let_def)

subsection \<open>Properties\<close>

text \<open>
  C9: the engine runs exactly for its requests: as long as the receiver accepts every stop, in any
  run from the service's initialisation the engine is started exactly when a position, NMEA or
  satellite request is in progress.
\<close>

theorem engine_runs_exactly_for_requests:
  assumes "gps_run J sd es (service_init_gps E (gps_init cfg)) = Some s" and "list_all stop_ok es"
  shows "mEngineStarted (core s) \<longleftrightarrow> mAPIProgressFlag (core s) \<noteq> 0"
proof -
  have "opt_all (\<lambda>s. view_exact (core_view s)) (gps_run J sd es (service_init_gps E (gps_init cfg)))"
    unfolding gps_run_def by (rule gps_ex.run_good [OF _ assms(2)]) (simp add: service_init_exact)
  then show ?thesis using assms(1) by (simp add: view_exact_def core_view_def Let_def)
qed

lemma all_ok_requests:
  assumes "\<And>c. ge_nyx E c = NYX_ERROR_NONE"
    and "mRequestType r \<in> {POSITION_CMD, NMEA_CMD, SATELITTE_CMD, STOP_POSITION_CMD, STOP_NMEA_CMD, STOP_SATELITTE_CMD, STOP_GPS_CMD}"
  shows "req_ok E J sd r s"
proof -
  have "fst (requestGpsEngineStart E J sd t) = ERROR_NONE" for t
    using assms(1) by (simp add: requestGpsEngineStart_def handlePeriodicUpdates_def handleGpsEnable_def
        startGPS_def mocked_def Let_def case_prod_unfold)
  then show ?thesis
    using assms(2) stop_req_ok [OF assms(1), of r J sd s]
    by (auto simp: req_ok_def gps_processRequest_def Let_def case_prod_unfold)
qed

lemma demo_run:
  "\<exists>s. gps_run demo_json demo_strtod [demo_req POSITION_CMD, demo_req NMEA_CMD, demo_req STOP_POSITION_CMD] demo_start = Some s
     \<and> mAPIProgressFlag (core s) = 4"
proof -
  define p where "p t s = snd (gps_processRequest demo_env demo_json demo_strtod (position_request ''GPS'' t) s)" for t s
  have v: "core_view (p t s) = view_request t True 7 (core_view s)"
    if "t \<in> {POSITION_CMD, NMEA_CMD, STOP_POSITION_CMD}" for t s
    using that request_view [of demo_env demo_json demo_strtod "position_request ''GPS'' t" s]
      all_ok_requests [of demo_env "position_request ''GPS'' t" demo_json demo_strtod s]
    by (auto simp: p_def)
  let ?s = "p STOP_POSITION_CMD (p NMEA_CMD (p POSITION_CMD demo_start))"
  have "core_view ?s = (True, True, True, 4, 0)"
    by (simp add: v demo_start_view view_request_def has_flag_def)
  then show ?thesis
    by (simp add: gps_run_def demo_req_def p_def core_view_def Let_def)
qed

theorem engine_runs_exactly_for_requests_witness:
  "\<exists>s. gps_run demo_json demo_strtod [demo_req POSITION_CMD, demo_req NMEA_CMD, demo_req STOP_POSITION_CMD] demo_start = Some s
     \<and> mEngineStarted (core s)"
proof -
  obtain s where s: "gps_run demo_json demo_strtod
      [demo_req POSITION_CMD, demo_req NMEA_CMD, demo_req STOP_POSITION_CMD] demo_start = Some s"
    and f: "mAPIProgressFlag (core s) = 4"
    using demo_run by blast
  have "list_all stop_ok [demo_req POSITION_CMD, demo_req NMEA_CMD, demo_req STOP_POSITION_CMD]"
    by (simp add: stop_ok_def demo_req_def)
  then show ?thesis
    using engine_runs_exactly_for_requests [OF s [unfolded demo_start_def]] s f by simp
qed

text \<open>
  C5: whatever the receiver answers, in any run no request is in progress on a stopped engine, only
  the three request bits are ever set, and the provider remembers a 12 minute position timer (its id is not 0)
  exactly while a position request is in progress. The source of a remembered timer may be gone: the callback
  that ends it leaves the id and the request in place.
\<close>

theorem gps_request_state_consistent:
  assumes "gps_run J sd es (service_init_gps E (gps_init cfg)) = Some s" and "list_all timer_ok es"
  shows "(mAPIProgressFlag (core s) \<noteq> 0 \<longrightarrow> mEngineStarted (core s))
    \<and> mAPIProgressFlag (core s) = mAPIProgressFlag (core s) AND 28
    \<and> (mPosTimer (core s) \<noteq> 0 \<longleftrightarrow> has_flag (mAPIProgressFlag (core s)) LOCATION_UPDATES_ON)"
proof -
  have "opt_all (\<lambda>s. view_good (core_view s)) (gps_run J sd es (service_init_gps E (gps_init cfg)))"
    unfolding gps_run_def
    by (rule gps_req.run_good [OF _ assms(2)])
      (use service_init_exact [of E cfg] in \<open>simp add: view_exact_def\<close>)
  then show ?thesis using assms(1) by (simp add: view_good_def core_view_def Let_def)
qed

theorem gps_request_state_consistent_witness:
  "\<exists>s. gps_run demo_json demo_strtod [demo_req POSITION_CMD, demo_req NMEA_CMD, demo_req STOP_POSITION_CMD] demo_start = Some s
     \<and> mPosTimer (core s) = 0"
proof -
  obtain s where s: "gps_run demo_json demo_strtod
      [demo_req POSITION_CMD, demo_req NMEA_CMD, demo_req STOP_POSITION_CMD] demo_start = Some s"
    and f: "mAPIProgressFlag (core s) = 4"
    using demo_run by blast
  have "list_all timer_ok [demo_req POSITION_CMD, demo_req NMEA_CMD, demo_req STOP_POSITION_CMD]"
    by (simp add: demo_req_def)
  then show ?thesis
    using gps_request_state_consistent [OF s [unfolded demo_start_def]] s f by (simp add: has_flag_def)
qed

text \<open>
  C11: after a successful initialisation no handler of the GPS provider calls through a null
  callback, as long as the service does not disable the provider and the HAL fills the satellite
  array it announces.
\<close>

theorem gps_never_calls_null:
  assumes "fst (gps_provider_init E (gps_init cfg))" and "list_all hal_ok es"
  shows "\<exists>s. gps_run J sd es (service_init_gps E (gps_init cfg)) = Some s"
proof -
  have "mClientCallBacks (core (service_init_gps E (gps_init cfg)))"
    using service_init_view [of E cfg] assms(1) by (simp add: core_view_def Let_def)
  then have "gps_safe (Some (service_init_gps E (gps_init cfg)))" by (simp add: gps_safe_def)
  from gps_sf.run_good [OF this assms(2), of J sd] show ?thesis
    by (auto simp: gps_run_def gps_safe_def split: option.splits)
qed

theorem gps_never_calls_null_witness:
  "\<exists>s. gps_run demo_json demo_strtod [GStatus (Some NYX_GPS_STATUS_ENGINE_ON), GTimeout] demo_start = Some s"
  unfolding demo_start_def
  by (rule gps_never_calls_null) (simp_all add: init_ok)

text \<open>
  The callback is installed only after the receiver has been initialised, so a receiver that
  reports its engine on during \<^verbatim>\<open>nyx_gps_init\<close> makes the service call through a null pointer.
\<close>

theorem early_status_is_fatal:
  "gps_step J sd (GStatus (Some NYX_GPS_STATUS_ENGINE_ON)) (snd (gps_provider_init E (gps_init cfg))) = None"
  by (simp add: gpsStatusCb_def call_back_def gps_init_def core_init_def Let_def)

text \<open>
  C10: a request drives the provider's request state through the table \<open>view_request\<close>: which bit it
  sets or clears, when the engine starts and stops and when the timer is armed; a refused request
  changes none of them.
\<close>

theorem request_refines_table:
  "core_view (snd (gps_processRequest E J sd r s))
    = view_request (mRequestType r) (fst (gps_processRequest E J sd r s) \<noteq> ERROR_NOT_AVAILABLE)
        (ge_timer E) (core_view s)"
  using request_view [of E J sd r s] by (simp add: req_ok_def)

text \<open>
  C24: the time to first fix of a session is the time from the request to the first fix: later fixes and any
  other event, except the two that end the session (STOP_POSITION_CMD and STOP_GPS_CMD), do not change it, and
  STOP_POSITION_CMD resets it to 0.
\<close>

theorem ttff_is_first_fix:
  assumes "\<not> mTTFFState (ttff s)" and "gpsLocationCb E (Some p) s = Some s1"
    and "gps_run J sd es s1 = Some s2" and "list_all keeps_session es"
    and "mFixRequestTime (ttff s) < now_ms E"
  shows "fst (getTimeToFirstFixValue s2) = now_ms E - mFixRequestTime (ttff s)
    \<and> (mEnabled (core s2) \<longrightarrow>
        fst (getTimeToFirstFixValue (snd (gps_processRequest E' J sd (position_request name STOP_POSITION_CMD) s2))) = 0)"
proof -
  have "opt_all (fix_known (mFixRequestTime (ttff s)) (now_ms E)) (Some s1)"
    using first_fix [OF assms(1,2)] by simp
  then have "opt_all (fix_known (mFixRequestTime (ttff s)) (now_ms E)) (gps_run J sd es s1)"
    unfolding gps_run_def by (rule gps_fix.run_good [OF _ assms(4)])
  then show ?thesis
    using assms(3,5) by (simp add: fix_known_def getTimeToFirstFixValue_def request_ttff position_request_def Let_def)
qed

text \<open>STOP_GPS_CMD ends the session as well, but keeps the old value.\<close>

lemma stop_gps_keeps_ttff:
  "mRequestType r = STOP_GPS_CMD \<Longrightarrow>
    fst (getTimeToFirstFixValue (snd (gps_processRequest E J sd r s))) = fst (getTimeToFirstFixValue s)"
  by (simp add: request_ttff getTimeToFirstFixValue_def Let_def)

definition demo_fix :: nyx_gps_location where
  "demo_fix = \<lparr>ngl_flags = 1, ngl_latitude = 1, ngl_longitude = 2, ngl_altitude = 3, ngl_speed = 4,
     ngl_bearing = 5, ngl_accuracy = 6, ngl_vertical_accuracy = 7, ngl_timestamp = 8\<rparr>"

theorem ttff_is_first_fix_witness:
  "\<exists>s1. gpsLocationCb demo_env (Some demo_fix) demo_start = Some s1
     \<and> fst (getTimeToFirstFixValue s1) = 1700000000000"
proof -
  have t: "ttff demo_start = ttff_init"
    by (simp add: demo_start_def service_init_gps_def gps_setCallback_def gps_enable_def Let_def
        case_prod_unfold gps_init_def)
  have "\<exists>s1. gpsLocationCb demo_env (Some demo_fix) demo_start = Some s1"
    by (simp add: gpsLocationCb_def Let_def has_flag_def call_back_def)
  then obtain s1 where s1: "gpsLocationCb demo_env (Some demo_fix) demo_start = Some s1" ..
  have "fst (getTimeToFirstFixValue s1) = now_ms demo_env - mFixRequestTime (ttff demo_start)"
    by (rule conjunct1 [OF ttff_is_first_fix [OF _ s1, where es = "[]" and J = demo_json and sd = demo_strtod]])
      (simp_all add: t ttff_init_def gps_run_def keeps_session_def)
  then show ?thesis
    using s1 by (simp add: t ttff_init_def)
qed

text \<open>
  The receiver is never asked for a mode or an interval it did not announce: MS-based and
  MS-assisted positioning only with their capability, the standalone mode otherwise, and the default
  interval of one second without the scheduling capability.
\<close>

theorem position_mode_is_supported:
  assumes "NYX_GPS_POSITION_MODE_MS_BASED (ge_consts E) \<noteq> NYX_GPS_POSITION_MODE_MS_ASSISTED (ge_consts E)"
    and "NYX_GPS_POSITION_MODE_STANDALONE (ge_consts E) \<noteq> NYX_GPS_POSITION_MODE_MS_BASED (ge_consts E)"
    and "NYX_GPS_POSITION_MODE_STANDALONE (ge_consts E) \<noteq> NYX_GPS_POSITION_MODE_MS_ASSISTED (ge_consts E)"
  shows "\<exists>m i. nyx_calls (setPosModeWithCapability E mode rec interval s)
        = nyx_calls s @ [NyxSetPositionMode m rec i 0 0]
    \<and> (m = NYX_GPS_POSITION_MODE_MS_BASED (ge_consts E)
        \<longleftrightarrow> mode = NYX_GPS_POSITION_MODE_MS_BASED (ge_consts E) \<and> hasCapability (core s) (NYX_GPS_CAPABILITY_MSB (ge_consts E)))
    \<and> (m = NYX_GPS_POSITION_MODE_MS_ASSISTED (ge_consts E)
        \<longleftrightarrow> mode = NYX_GPS_POSITION_MODE_MS_ASSISTED (ge_consts E) \<and> hasCapability (core s) (NYX_GPS_CAPABILITY_MSA (ge_consts E)))
    \<and> (m \<in> {NYX_GPS_POSITION_MODE_STANDALONE (ge_consts E), mode})
    \<and> (i = (if hasCapability (core s) (NYX_GPS_CAPABILITY_SCHEDULING (ge_consts E)) then interval else DEFAULT_FIX_INTERVAL))"
  using assms
  by (auto simp: setPosModeWithCapability_def setPositionMode_def capable_mode_def capable_interval_def)

theorem position_mode_is_supported_witness:
  "\<exists>m i. nyx_calls (setPosModeWithCapability demo_env 2 0 500 (demo_start\<lparr>core := (core demo_start)\<lparr>mGEngineCapabilities := 2\<rparr>\<rparr>))
     = nyx_calls demo_start @ [NyxSetPositionMode m 0 i 0 0] \<and> i = DEFAULT_FIX_INTERVAL"
  using position_mode_is_supported [of demo_env 2 0 500 "demo_start\<lparr>core := (core demo_start)\<lparr>mGEngineCapabilities := 2\<rparr>\<rparr>"]
  by (auto simp: demo_env_def nyx_demo_consts_def hasCapability_def has_flag_def)

text \<open>
  The HAL hears of the data network exactly when it changes: a report it accepts is the only
  call of an update that differs from the last one sent, an equal update makes no call, and an
  update that is repeated makes no second call.
\<close>

theorem data_network_told_on_change:
  assumes "mNyxReady (dnet s)" and "ge_nyx E (NyxUpdateNetworkState up ty False) = NYX_ERROR_NONE"
  shows "nyx_calls (updateDataNetwork E up ty s) = nyx_calls s
      @ (if mDataNetworkSent (dnet s) \<and> mSentDataNetworkConnected (dnet s) = up \<and> mSentDataNetworkType (dnet s) = ty
         then [] else [NyxUpdateNetworkState up ty False])
    \<and> nyx_calls (updateDataNetwork E' up ty (updateDataNetwork E up ty s)) = nyx_calls (updateDataNetwork E up ty s)"
  using assms by (simp add: updateDataNetwork_def sendDataNetworkLocked_def Let_def case_prod_unfold)

theorem data_network_told_on_change_witness:
  "nyx_calls (updateDataNetwork demo_env True 1 (demo_start\<lparr>dnet := dnet_init\<lparr>mNyxReady := True\<rparr>\<rparr>))
    = nyx_calls demo_start @ [NyxUpdateNetworkState True 1 False]"
  using data_network_told_on_change [of "demo_start\<lparr>dnet := dnet_init\<lparr>mNyxReady := True\<rparr>\<rparr>" demo_env True 1 demo_env]
  by (simp add: dnet_init_def demo_env_def)

text \<open>
  C40: the fallback for a receiver whose XTRA client fails to start is never used: the failure also
  fails the initialisation, so in every run in which the fallback is selected the provider is not
  enabled and refuses every request.
\<close>

theorem xtra_fallback_is_unreachable:
  assumes "gps_run J sd es (service_init_gps E (gps_init cfg)) = Some s" and "list_all hal_ok es"
    and "mXtraDefault (thrd s)"
  shows "gps_processRequest E' J' sd' r s = (ERROR_NOT_STARTED, s)"
proof -
  have "opt_all fallback_off (gps_run J sd es (service_init_gps E (gps_init cfg)))"
    unfolding gps_run_def by (rule gps_fb.run_good [OF _ assms(2)]) (simp add: service_init_fallback)
  then have "\<not> mEnabled (core s)" using assms by (simp add: fallback_off_def)
  then show ?thesis by (rule gps_prov.disabled_rejects)
qed

definition demo_qcom_env :: gps_env where
  "demo_qcom_env = demo_env\<lparr>ge_nyx := \<lambda>c. case c of NyxInitXtraClient a b \<Rightarrow> NYX_ERROR_NOT_IMPLEMENTED | _ \<Rightarrow> NYX_ERROR_NONE\<rparr>"

definition demo_qcom :: GPSPositionProvider where
  "demo_qcom = service_init_gps demo_qcom_env (gps_init ((loadDefaults 1)\<lparr>mChipsetID := ''Qcom''\<rparr>))"

lemma init_selects_fallback:
  assumes "ge_thread_ok E" and "ge_nyx E (NyxDeviceOpen ''Qcom'') = NYX_ERROR_NONE" and "ge_nyx E NyxInit = NYX_ERROR_NONE"
    and "ge_nyx E (xtra_config cfg) \<noteq> NYX_ERROR_NONE" and "mChipsetID cfg = ''Qcom''"
  shows "mXtraDefault (thrd (service_init_gps E (gps_init cfg)))"
proof -
  have c: "mGPSConf (gps_init cfg) = cfg" by (simp add: gps_init_def)
  show ?thesis
    using assms by (simp add: service_init_gps_def gps_provider_init_def nyx_initialize_def c Let_def case_prod_unfold)
qed

theorem xtra_fallback_is_unreachable_witness:
  "gps_processRequest demo_env demo_json demo_strtod (position_request ''GPS'' POSITION_CMD) demo_qcom
    = (ERROR_NOT_STARTED, demo_qcom)"
proof (rule xtra_fallback_is_unreachable)
  show "gps_run demo_json demo_strtod [] (service_init_gps demo_qcom_env (gps_init ((loadDefaults 1)\<lparr>mChipsetID := ''Qcom''\<rparr>)))
      = Some demo_qcom"
    by (simp add: gps_run_def demo_qcom_def)
  show "mXtraDefault (thrd demo_qcom)"
    unfolding demo_qcom_def by (rule init_selects_fallback) (simp_all add: demo_qcom_env_def xtra_config_def)
qed simp

text \<open>
  The worker's single action slot loses assistance data: XTRA data that is followed by XTRA time
  before the worker runs is never injected, its download stays marked as running, and later
  download requests are ignored.
\<close>

theorem xtra_data_can_be_lost:
  assumes "mDownloadXtraDataStatus (thrd s) = DOWNLOADING" and "\<not> gps_thread_quit (thrd s)"
  shows "\<exists>s'. gps_run J sd [GXtraData (Some d) n, GXtraTime u r k, GThread E] s = Some s'
    \<and> nyx_calls s' = nyx_calls s @ [NyxInjectTime u r k]
    \<and> mGPSThreadAction (thrd s') = ACTION_NONE
    \<and> mDownloadXtraDataStatus (thrd s') = DOWNLOADING
    \<and> gps_step J sd (GXtraRequest E') s' = Some s'"
  using assms
  by (simp add: gps_run_def xtraDataCb_def xtraTimeCb_def gps_thread_round_def injectExtraTime_def
      gpsXtraDownloadRequestCb_def Let_def)

theorem xtra_data_can_be_lost_witness:
  "\<exists>s'. gps_run demo_json demo_strtod [GXtraData (Some ''blob'') 4, GXtraTime 1 2 3, GThread demo_env]
      (demo_start\<lparr>thrd := thrd_init\<lparr>mDownloadXtraDataStatus := DOWNLOADING\<rparr>\<rparr>) = Some s'
    \<and> mDownloadXtraDataStatus (thrd s') = DOWNLOADING"
  using xtra_data_can_be_lost [of "demo_start\<lparr>thrd := thrd_init\<lparr>mDownloadXtraDataStatus := DOWNLOADING\<rparr>\<rparr>"
      demo_json demo_strtod "''blob''" 4 1 2 3 demo_env demo_env]
  by (auto simp: thrd_init_def)

text \<open>
  The guard against a second NTP download has no effect once the clock is set: injecting the
  system time resets the mark, so a request made during a download starts another one.
\<close>

theorem ntp_guard_is_ineffective:
  assumes "ge_now E = Some t" and "GPS_PLAUSIBLE_TIME_MS \<le> t" and "\<not> mXtraDefault (thrd s)"
    and "mDownloadNtpDataStatus (thrd s) = DOWNLOADING"
  shows "\<exists>b. nyx_calls (gpsRequestUtcTimeCb E s) = nyx_calls s
      @ [NyxInjectTime t b GPS_SYSTEM_TIME_UNCERTAINTY_MS, NyxDownloadNtpTime]"
  using assms by (simp add: gpsRequestUtcTimeCb_def injectSystemTime_def injectExtraTime_def Let_def)

theorem ntp_guard_is_ineffective_witness:
  "\<exists>b. nyx_calls (gpsRequestUtcTimeCb demo_env (demo_start\<lparr>thrd := thrd_init\<lparr>mDownloadNtpDataStatus := DOWNLOADING\<rparr>\<rparr>))
    = nyx_calls demo_start @ [NyxInjectTime 1700000000000 b 1000, NyxDownloadNtpTime]"
  using ntp_guard_is_ineffective [of demo_env 1700000000000 "demo_start\<lparr>thrd := thrd_init\<lparr>mDownloadNtpDataStatus := DOWNLOADING\<rparr>\<rparr>"]
  by (simp add: thrd_init_def) (simp add: demo_env_def)

text \<open>
  Satellite data: from an array of the announced size the service is told, when it asked, of
  exactly the satellites the HAL counts, clamped to the array, in order, with the flags of the masks
  for identifiers 1 to 32 and none for others.
\<close>

theorem satellites_reported:
  assumes "length (sv_list v) = NYX_GPS_MAX_SVS (ge_consts E)" and "mClientCallBacks (core s)"
    and "has_flag (mAPIProgressFlag (core s)) SATELLITE_GET_DATA_ON" and "0 < clamp_svs (ge_consts E) (num_svs v)"
  shows "\<exists>sat. gpsSvStatusCb E (Some v) s = Some (s\<lparr>callbacks := callbacks s @ [CbSatellite sat]\<rparr>)
    \<and> sat_used sat = List.map (sv_info v) (take (clamp_svs (ge_consts E) (num_svs v)) (sv_list v))
    \<and> visible_satellites_count sat = clamp_svs (ge_consts E) (num_svs v)"
proof -
  obtain sat where "fill_satellites v [0..<clamp_svs (ge_consts E) (num_svs v)]
      (satellite_create (clamp_svs (ge_consts E) (num_svs v))) = Some sat"
    and "sat_used sat = List.map (sv_info v) (take (clamp_svs (ge_consts E) (num_svs v)) (sv_list v))"
    and "visible_satellites_count sat = clamp_svs (ge_consts E) (num_svs v)"
    using sv_status_filled [OF assms(1)] by blast
  then show ?thesis
    using assms by (auto simp: gpsSvStatusCb_def call_back_def intro!: exI [of _ sat])
qed

definition demo_svs :: nyx_sv_status where
  "demo_svs = \<lparr>num_svs = 40, sv_list = replicate 2 \<lparr>sv_prn = 1, sv_snr = 2, sv_elevation = 3, sv_azimuth = 4\<rparr>,
     used_in_fix_mask = 1, ephemeris_mask = 0, almanac_mask = 0\<rparr>"

theorem satellites_reported_witness:
  "\<exists>sat. gpsSvStatusCb (demo_env\<lparr>ge_consts := nyx_demo_consts\<lparr>NYX_GPS_MAX_SVS := 2\<rparr>\<rparr>) (Some demo_svs)
      (demo_start\<lparr>core := (core demo_start)\<lparr>mAPIProgressFlag := 8\<rparr>\<rparr>)
    = Some (demo_start\<lparr>core := (core demo_start)\<lparr>mAPIProgressFlag := 8\<rparr>, callbacks := callbacks demo_start @ [CbSatellite sat]\<rparr>)
    \<and> visible_satellites_count sat = 2"
  using satellites_reported [of demo_svs "demo_env\<lparr>ge_consts := nyx_demo_consts\<lparr>NYX_GPS_MAX_SVS := 2\<rparr>\<rparr>"
      "demo_start\<lparr>core := (core demo_start)\<lparr>mAPIProgressFlag := 8\<rparr>\<rparr>"]
  by (auto simp: demo_svs_def nyx_demo_consts_def clamp_svs_def has_flag_def)

text \<open>
  A disabled provider is inert: after \<^verbatim>\<open>disable\<close>, every request of any kind answers
  \<^verbatim>\<open>ERROR_NOT_STARTED\<close> and changes nothing.
\<close>

theorem gps_disabled_is_inert:
  "gps_processRequest E J sd r (fold (\<lambda>r t. snd (gps_processRequest E J sd r t)) rs (gps_disable s))
    = (ERROR_NOT_STARTED, gps_disable s)"
  by (rule gps_prov.after_disable)

end
