(* ===== verification/Net_Claims.thy ===== *)
theory Net_Claims
  imports Net_Props
begin

text \<open>The properties of the network provider.\<close>

subsection \<open>Lemmas\<close>

lemma cell_loop_again:
  "cell_loop J a ts st (snd (cell_loop J a ts st cur)) = (False, snd (cell_loop J a ts st cur))"
  by (induction J a ts st cur rule: cell_loop.induct) (auto simp: Let_def split: option.splits)

lemma parseCellData_settled:
  assumes "cellInfo (mPositionData t) = cellInfo (mPositionData (snd (parseCellData J s)))"
    and "curCellid (mPositionData t) = curCellid (mPositionData (snd (parseCellData J s)))"
  shows "parseCellData J t = (None, t)"
  using assms
  by (auto simp: parseCellData_def Let_def case_prod_unfold cell_loop_again split: option.splits if_splits)

definition distinct_scan :: "NetworkPositionProvider \<Rightarrow> bool" where
  "distinct_scan s = (case wifiAccessPointsList (mPositionData s) of None \<Rightarrow> True | Some t \<Rightarrow> distinct (List.map fst t))"

lemma parseWifiData_settled:
  assumes "distinct_scan s"
    and "wifiAccessPointsList (mPositionData t) = wifiAccessPointsList (mPositionData (snd (parseWifiData s :: (string \<times> 'j jout) list option \<times> _)))"
    and "lastAps (mPositionData t) = lastAps (mPositionData (snd (parseWifiData s :: (string \<times> 'j jout) list option \<times> _)))"
  shows "parseWifiData t = ((None, t) :: (string \<times> 'j jout) list option \<times> _)"
  using assms same_scan_no_change
  by (auto simp: distinct_scan_def parseWifiData_def Let_def avg_exceeds_def split: option.splits if_splits)

lemma parse_frames [simp]:
  "mwifiStatus (snd (parseCellData J s)) = mwifiStatus s" "mtelephonyPowerd (snd (parseCellData J s)) = mtelephonyPowerd s"
  "mwifiStatus (snd (parseWifiData s)) = mwifiStatus s" "mtelephonyPowerd (snd (parseWifiData s)) = mtelephonyPowerd s"
  "wifiAccessPointsList (mPositionData (snd (parseCellData J s))) = wifiAccessPointsList (mPositionData s)"
  "wifiAccessPointsList (mPositionData (snd (parseWifiData s))) = wifiAccessPointsList (mPositionData s)"
  "lastAps (mPositionData (snd (parseCellData J s))) = lastAps (mPositionData s)"
  "cellInfo (mPositionData (snd (parseWifiData s))) = cellInfo (mPositionData s)"
  "curCellid (mPositionData (snd (parseWifiData s))) = curCellid (mPositionData s)"
  "distinct_scan (snd (parseCellData J s)) = distinct_scan s"
  by (simp_all add: distinct_scan_def parseCellData_def parseWifiData_def Let_def case_prod_unfold split: option.split)

lemma post_frames [simp]:
  "mPositionData (snd (networkPostQuery E p k s)) = mPositionData s"
  "mwifiStatus (snd (networkPostQuery E p k s)) = mwifiStatus s"
  "mtelephonyPowerd (snd (networkPostQuery E p k s)) = mtelephonyPowerd s"
  by (simp_all add: networkPostQuery_def currentBackend_def Let_def case_prod_unfold split: option.split)

lemmas queries = createCellQuery_def createWifiQuery_def createCellWifiCombinedQuery_def

lemma trigger_settled:
  fixes s and E :: "'j net_env" defines "t \<equiv> snd (triggerPostQuery E s)"
  assumes "distinct_scan s"
  shows "triggerPostQuery E t = (False, t)"
proof -
  have w: "mwifiStatus t = mwifiStatus s" "mtelephonyPowerd t = mtelephonyPowerd s"
    by (simp_all add: t_def triggerPostQuery_def queries Let_def case_prod_unfold split: option.split)
  consider (none) "\<not> mwifiStatus s \<and> \<not> mtelephonyPowerd s" | (cell) "\<not> mwifiStatus s \<and> mtelephonyPowerd s"
    | (wifi) "mwifiStatus s \<and> \<not> mtelephonyPowerd s" | (both) "mwifiStatus s \<and> mtelephonyPowerd s" by blast
  then show ?thesis
  proof cases
    case none
    then show ?thesis by (simp add: w triggerPostQuery_def)
  next
    case cell
    then have "mPositionData t = mPositionData (snd (parseCellData (ne_json E) s))"
      by (auto simp: t_def triggerPostQuery_def queries Let_def case_prod_unfold split: option.split)
    then show ?thesis
      using cell parseCellData_settled [of t "ne_json E" s] by (simp add: w triggerPostQuery_def queries)
  next
    case wifi
    then have "mPositionData t = mPositionData (snd (parseWifiData s :: (string \<times> 'j jout) list option \<times> _))"
      by (auto simp: t_def triggerPostQuery_def queries Let_def case_prod_unfold split: option.split)
    then have "parseWifiData t = ((None, t) :: (string \<times> 'j jout) list option \<times> _)"
      by (intro parseWifiData_settled [OF assms(2)]) simp_all
    then show ?thesis
      using wifi by (simp add: w triggerPostQuery_def queries)
  next
    case both
    let ?c = "snd (parseCellData (ne_json E) s)"
    have d: "mPositionData t = mPositionData (snd (parseWifiData ?c :: (string \<times> 'j jout) list option \<times> _))"
      using both by (auto simp: t_def triggerPostQuery_def queries Let_def case_prod_unfold split: option.split)
    have "parseCellData (ne_json E) t = (None, t)"
      by (rule parseCellData_settled [of _ _ s]) (simp_all add: d)
    moreover have "parseWifiData t = ((None, t) :: (string \<times> 'j jout) list option \<times> _)"
      by (rule parseWifiData_settled [of ?c]) (simp_all add: d assms(2))
    ultimately show ?thesis
      using both by (simp add: w triggerPostQuery_def queries)
  qed
qed

lemma dropWhile_block: "list_all P a \<Longrightarrow> xs \<noteq> [] \<Longrightarrow> \<not> P (hd xs) \<Longrightarrow> dropWhile P (a @ xs) = xs"
  by (induction a) (auto simp: neq_Nil_conv)

lemma trim_key_id:
  assumes "list_all isSpaceChar a" and "list_all isSpaceChar b" and "key \<noteq> []" and "list_all (\<lambda>c. \<not> isSpaceChar c) key"
  shows "trim_key (a @ key @ b) = key"
proof -
  have h: "\<not> isSpaceChar (hd key)" "\<not> isSpaceChar (last key)"
    using assms(3,4) by (auto simp: list_all_iff)
  have 1: "dropWhile isSpaceChar (a @ key @ b) = key @ b"
    using assms(1,3) h by (intro dropWhile_block) simp_all
  have 2: "dropWhile isSpaceChar (rev b @ rev key) = rev key"
    using assms(2,3) h by (intro dropWhile_block) (simp_all add: hd_rev list_all_iff)
  show ?thesis by (simp add: trim_key_def 1 2)
qed

lemma key_not_space: "isKeyChar c \<Longrightarrow> \<not> isSpaceChar c"
  by (auto simp: isKeyChar_def isSpaceChar_def char_in_def)

subsection \<open>A concrete environment\<close>

definition net_demo_json :: "json pbnjson" where
  "net_demo_json = json_api
     [(''fix'', JObj [(''location'', JObj [(''lat'', JInt 52), (''lng'', JInt 13)]), (''accuracy'', JInt 40)]),
      (''zero'', JObj [(''error'', JObj [(''code'', JInt 0)])])]"

definition net_demo :: "json net_env" where
  "net_demo = \<lparr>ne_json = net_demo_json, ne_tostring = (\<lambda>_. ''{}''),
     ne_base64 = \<lparr>g_base64_decode = id, locSecurityBase64DecodeData = (\<lambda>_. None)\<rparr>,
     ne_keyfile = None, ne_prefs = None, ne_now = 1700000000000, ne_timer = 9, ne_port = ''5050'', ne_task = Some 1,
     ne_prep_ok = True, ne_add_ok = True, ne_bus_ok = (\<lambda>_. True), ne_cancel_ok = True\<rparr>"

definition net_demo_on :: NetworkPositionProvider where
  "net_demo_on = np_setCallback True (np_enable net_demo np_init)"

definition net_demo_running :: NetworkPositionProvider where
  "net_demo_running = snd (np_processRequest net_demo (position_request ''network'' POSITION_CMD) net_demo_on)"

lemma net_demo_mock: "\<not> network_mocked net_demo_on"
  by code_simp

subsection \<open>Properties\<close>

text \<open>
  C6: in any run from the initial state there is at most one timer source, the remembered one, and
  only while a request runs on an enabled provider; and unless the provider is disabled in between a
  running request has its timer.
\<close>

theorem network_timer_matches_request:
  assumes "net_run es np_init = Some s" and "list_all net_timer_ok es"
  shows "(mTimeoutId s \<noteq> 0 \<longrightarrow> mProcessRequestInProgress s \<and> np_enabled s)
    \<and> net_timers s = (if mTimeoutId s \<noteq> 0 then [mTimeoutId s] else [])
    \<and> (NDisable \<notin> set es \<longrightarrow> (mProcessRequestInProgress s \<longleftrightarrow> mTimeoutId s \<noteq> 0))"
proof -
  have g: "np_good x (np_view s)" if "x \<longrightarrow> NDisable \<notin> set es" for x
  proof -
    have "opt_all (\<lambda>s. np_good x (np_view s)) (net_run es np_init)"
      unfolding net_run_def
      by (rule net_machine.run_good)
        (use assms(2) that in \<open>auto simp: np_good_fields np_init_def list_all_iff\<close>)
    then show ?thesis by (simp add: assms(1))
  qed
  show ?thesis using g [of False] g [of True] by (auto simp: np_good_fields)
qed

theorem network_timer_matches_request_witness:
  "\<exists>s. net_run [NEnable net_demo, NRequest net_demo (position_request ''network'' POSITION_CMD)] np_init = Some s
     \<and> net_timers s = [9]"
proof -
  let ?es = "[NEnable net_demo, NRequest net_demo (position_request ''network'' POSITION_CMD)]"
  obtain s where s: "net_run ?es np_init = Some s" by (simp add: net_run_def)
  have t: "mTimeoutId (the (net_run ?es np_init)) = 9" by code_simp
  then have "mTimeoutId s = 9" by (simp only: s option.sel)
  moreover have "list_all net_timer_ok ?es" by (simp add: net_demo_def)
  ultimately show ?thesis using network_timer_matches_request [OF s] s by simp
qed

text \<open>
  C20: a position request on an enabled provider without a mock succeeds, except that a fresh
  request to the Google server needs a key (the stored one, else that of the key file); exactly a
  fresh successful one starts the scans, registers the services and arms the timer.
\<close>

theorem network_request_starts:
  assumes "np_enabled s" and "\<not> network_mocked s" and "mRequestType r = POSITION_CMD"
  shows "let keyless = (fst (currentBackend E s) = Google \<and> nwGeolocationKey (mPositionData s) = None \<and> readApiKey E = None);
             (err, s') = np_processRequest E r s
         in err = (if \<not> mProcessRequestInProgress s \<and> keyless then ERROR_LICENSE_KEY_INVALID else ERROR_NONE)
          \<and> (mProcessRequestInProgress s' \<longleftrightarrow> mProcessRequestInProgress s \<or> \<not> keyless)
          \<and> net_calls s' = net_calls s @ (if \<not> mProcessRequestInProgress s \<and> \<not> keyless then [(SCAN_METHOD, SCAN_PAYLOAD)] else [])
          \<and> net_timers s' = net_timers s @ (if \<not> mProcessRequestInProgress s \<and> \<not> keyless then [ne_timer E] else [])
          \<and> regs s' = (if \<not> mProcessRequestInProgress s \<and> \<not> keyless
                       then (regs s)\<lparr>mTelephonyCookie := ne_bus_ok E TELEPHONY_SERVICE \<or> mTelephonyCookie (regs s),
                                     mWifiCookie := ne_bus_ok E WIFI_SERVICE \<or> mWifiCookie (regs s)\<rparr> else regs s)"
  using assms
  by (auto simp: np_processRequest_def currentBackend_def registerServiceStatus_def lunaServiceCall_def net_call_back_def Let_def
      case_prod_unfold split: option.split)

theorem network_request_starts_witness:
  "fst (np_processRequest net_demo (position_request ''network'' POSITION_CMD) (setCurrentBackend Google net_demo_on))
     = ERROR_LICENSE_KEY_INVALID"
proof -
  let ?s = "setCurrentBackend Google net_demo_on"
  have "np_enabled ?s" "\<not> network_mocked ?s" by code_simp+
  moreover have "fst (currentBackend net_demo ?s) = Google \<and> nwGeolocationKey (mPositionData ?s) = None
      \<and> readApiKey net_demo = None \<and> \<not> mProcessRequestInProgress ?s"
    by code_simp
  ultimately show ?thesis
    using network_request_starts [of ?s "position_request ''network'' POSITION_CMD" net_demo]
    by (simp add: Let_def case_prod_unfold)
qed

text \<open>
  C21: a good reply always becomes the last fix, and it is written to the position file and the callback
  is called with it exactly when it differs from the last fix before; the transaction is dropped.
\<close>

theorem network_reply_reported_on_change:
  assumes "httpResponseCode k = HTTP_STATUS_CODE_SUCCESS"
    and "parseHTTPResponse (ne_json E) (responseData k) = (0, lat, lng, acc)"
  shows "let s' = handleResponse E (Some t) k s; d = mPositionData s; d' = mPositionData s'
         in (lastLatitude d', lastLongitude d', lastAccuracy d', lastTimeStamp d') = (lat, lng, acc, ne_now E)
          \<and> net_callbacks s' = net_callbacks s
              @ (if np_callback s \<and> (lat, lng, acc) \<noteq> (lastLatitude d, lastLongitude d, lastAccuracy d)
                 then [NetLocation (geo_location lat lng (-1) acc (of_int (ne_now E)) (-1) (-1) (-1) (-1)) ERROR_NONE]
                 else [])
          \<and> net_stored s' = net_stored s
              @ (if (lat, lng, acc) \<noteq> (lastLatitude d, lastLongitude d, lastAccuracy d)
                 then [geo_location lat lng (-1) acc (of_int (ne_now E)) (-1) (-1) (-1) (-1)] else [])
          \<and> http s' = clearTransaction t (http s)"
  using assms by (auto simp: handleResponse_def network_fix_def currentBackend_def net_call_back_def Let_def split: option.split)

definition demo_reply :: "string \<Rightarrow> HttpReqTask" where
  "demo_reply b = \<lparr>responseData = Some b, responseSize = length b, curlResultOk = True, httpResponseCode = HTTP_STATUS_CODE_SUCCESS\<rparr>"

theorem network_reply_reported_on_change_witness:
  "net_callbacks (handleResponse net_demo (Some 1) (demo_reply ''fix'') net_demo_running)
     = [NetLocation (geo_location 52 13 (-1) 40 1700000000000 (-1) (-1) (-1) (-1)) ERROR_NONE]"
proof -
  have "parseHTTPResponse (ne_json net_demo) (responseData (demo_reply ''fix'')) = (0, 52, 13, 40)"
    by (simp add: parseHTTPResponse_def field_f64_def demo_reply_def net_demo_def net_demo_json_def json_api_def)
  moreover have "np_callback net_demo_running \<and> lastLatitude (mPositionData net_demo_running) = 0
      \<and> net_callbacks net_demo_running = []"
    by code_simp
  moreover have "httpResponseCode (demo_reply ''fix'') = HTTP_STATUS_CODE_SUCCESS" by (simp add: demo_reply_def)
  ultimately show ?thesis
    using network_reply_reported_on_change [of "demo_reply ''fix''" net_demo 52 13 40 1 net_demo_running]
    by (simp add: Let_def net_demo_def)
qed

text \<open>An error object with code 0 makes a fix at latitude and longitude 0 of a reply without a position.\<close>

lemma zero_error_is_fix:
  assumes "jdom_parse J SCHEMA_ALL b = p" and "\<not> jis_null J p"
    and "jobject_get_exists J p ''error'' = Some e" and "get_i32 J e ''code'' ERROR_NO_DATA = 0"
  shows "parseHTTPResponse J (Some b) = (0, 0, 0, 0)"
  using assms by (simp add: parseHTTPResponse_def)

text \<open>
  C22: nothing is posted twice for the same scan data: after a query was tried, trying again with
  unchanged cell data and access points posts nothing and changes nothing, even if the post failed.
\<close>

theorem same_data_is_not_posted_again:
  assumes "distinct_scan s"
  shows "triggerPostQuery E (snd (triggerPostQuery E s)) = (False, snd (triggerPostQuery E s))"
  using trigger_settled [OF assms] .

theorem same_data_is_not_posted_again_witness:
  "let s = (onUpdateWifiData net_demo [(''a'', -40), (''b'', -60)] (np_Handle_WifiNotification True net_demo_running))
   in posted (http s) = [(1, ''https://api.beacondb.net/v1/geolocate'', Some ''{}'')] \<and> triggerPostQuery net_demo s = (False, s)"
proof -
  let ?t = "upd_pd (\<lambda>d. d\<lparr>wifiAccessPointsList := Some [(''a'', -40), (''b'', -60)]\<rparr>) (np_Handle_WifiNotification True net_demo_running)"
  have "distinct_scan ?t" by (simp add: distinct_scan_def)
  from same_data_is_not_posted_again [OF this, of net_demo]
  have "triggerPostQuery net_demo (snd (triggerPostQuery net_demo ?t)) = (False, snd (triggerPostQuery net_demo ?t))" .
  moreover have "posted (http (snd (triggerPostQuery net_demo ?t)))
      = [(1, ''https://api.beacondb.net/v1/geolocate'', Some ''{}'')]"
    by code_simp
  ultimately show ?thesis by (simp add: onUpdateWifiData_def Let_def)
qed

text \<open>
  C37: a Google query has a URL exactly when the key, stripped of surrounding white space, is a
  nonempty string of key characters and the URL fits the buffer: no other byte of the configuration
  reaches the request line.
\<close>

theorem google_url_is_safe:
  "buildGeolocateUrl (Some (networkLocationBackendUrl Google)) (Some k) n = Some u \<longleftrightarrow>
    (\<exists>a key b. k = a @ key @ b \<and> list_all isSpaceChar a \<and> list_all isSpaceChar b \<and> key \<noteq> [] \<and> list_all isKeyChar key
       \<and> u = ''https://www.googleapis.com/geolocation/v1/geolocate?key='' @ key \<and> length u < n)"
  (is "?l \<longleftrightarrow> ?r")
proof
  assume ?l
  then have "trim_key k \<noteq> [] \<and> list_all isKeyChar (trim_key k) \<and> length u < n
      \<and> u = ''https://www.googleapis.com/geolocation/v1/geolocate?key='' @ trim_key k"
    by (auto simp: buildGeolocateUrl_def Let_def split: if_splits)
  then show ?r using trim_key_split [of k] by metis
next
  assume ?r
  then obtain a key b where k: "k = a @ key @ b" "list_all isSpaceChar a" "list_all isSpaceChar b" "key \<noteq> []"
      "list_all isKeyChar key" "u = ''https://www.googleapis.com/geolocation/v1/geolocate?key='' @ key" "length u < n"
    by blast
  have "trim_key k = key"
    unfolding k(1) using k(2-5) by (intro trim_key_id) (auto simp: list_all_iff key_not_space)
  then show ?l using k(4-7) by (auto simp: buildGeolocateUrl_def Let_def)
qed

text \<open>
  Stopping while a mocked query is outstanding leaves a real request that runs beside it: the
  scan registrations, the timer and the in-progress flag stay, and its fix data are wiped; a second
  stop is needed to end it.
\<close>

theorem mock_stop_leaves_request:
  assumes "np_enabled s" and "mMockRequestInProgress s" and "mRequestType r = STOP_POSITION_CMD"
  shows "let s' = snd (np_processRequest E r s)
         in fst (np_processRequest E r s) = ERROR_NONE
          \<and> mProcessRequestInProgress s' = mProcessRequestInProgress s
          \<and> net_timers s' = net_timers s \<and> regs s' = regs s
          \<and> mPositionData s' = resetData (mPositionData s)
          \<and> \<not> mProcessRequestInProgress (snd (np_processRequest E r s'))"
  using assms
  by (simp add: np_processRequest_def Let_def unregisterForWifiAccessPoints_def unregisterForCellInfo_def unregisterServiceStatus_def)

theorem mock_stop_leaves_request_witness:
  "mProcessRequestInProgress (snd (np_processRequest net_demo (position_request ''network'' STOP_POSITION_CMD)
     (net_demo_running\<lparr>mMockRequestInProgress := True\<rparr>)))"
proof -
  let ?s = "net_demo_running\<lparr>mMockRequestInProgress := True\<rparr>"
  have "np_enabled ?s" "mProcessRequestInProgress ?s" by code_simp+
  then show ?thesis
    using mock_stop_leaves_request [of ?s "position_request ''network'' STOP_POSITION_CMD" net_demo]
    by (simp add: Let_def)
qed

end
