(* ===== verification/Service_Claims.thy ===== *)
theory Service_Claims
  imports Service_Machine Gps_Claims Net_Claims
begin

text \<open>
  What the service guarantees its clients, from the machine of \<^theory_text>\<open>Service_Machine\<close>: its books,
  its replies, its geofences, the handler states and the stored position, each with a concrete run.
\<close>

subsection \<open>The machine keeps its books\<close>

definition books_inv :: "'c bus \<Rightarrow> (LSMessage \<Rightarrow> 'c \<Rightarrow> 'c) \<Rightarrow> (nat \<Rightarrow> string) \<Rightarrow> ('c, 'j) LocationService option \<Rightarrow> bool" where
  "books_inv B D meth os \<longleftrightarrow> (bus_laws B \<and> drop_laws B D \<longrightarrow> opt_all (svc_good B meth) os)"

lemma books_inv_step: "books_inv B D meth os \<Longrightarrow> event_ok B D meth e \<Longrightarrow> books_inv B D meth (svc_ostep e os)"
  using svc_step_good [of B meth _ D e] by (cases os; cases "svc_ostep e os") (auto simp: books_inv_def)

interpretation svc_books: step_invariant svc_ostep "books_inv B D meth" "event_ok B D meth"
  for B :: "'c bus" and D meth
  by unfold_locales (rule books_inv_step)

lemma svc_init_fields [simp]:
  "catalogue (svc_init E c cfg) = c" "m_locUpdate_req_table (svc_init E c cfg) = (\<lambda>_. None)"
  "svc_timers (svc_init E c cfg) = []" "svc_idle (svc_init E c cfg) = []"
  "is_geofenceId_used (svc_init E c cfg) = replicate MAX_GEOFENCE_ID False"
  "mGpsStatus (svc_init E c cfg) = loadHandlerStatus (se_prefs E) [] GPS"
  "mNwStatus (svc_init E c cfg) = loadHandlerStatus (se_prefs E) [] NETWORK"
  "isInternetConnectionAvailable (svc_init E c cfg) = False" "m_enableSuspendBlocker (svc_init E c cfg) = False"
  "svc_replies (svc_init E c cfg) = []"
  by (simp_all add: svc_init_def svc_new_def Let_def)

lemma svc_init_good:
  assumes "\<And>k. sublist_of B k c = []"
  shows "svc_good B meth (svc_init E c cfg)"
proof -
  have "listed B c = []" by (simp add: listed_def lids_def assms)
  then show ?thesis by (simp add: svc_good_def upd_good_def timers_ok_def timers_keyed_def)
qed

lemma svc_run_good:
  assumes "bus_laws B" and "drop_laws B D" and "\<And>k. sublist_of B k c = []"
    and "list_all (event_ok B D meth) es" and "svc_run es (svc_init E c cfg) = Some s"
  shows "svc_good B meth s"
proof -
  have "books_inv B D meth (fold svc_ostep es (Some (svc_init E c cfg)))"
    by (rule svc_books.run_good [OF _ assms(4)]) (simp add: books_inv_def svc_init_good assms(3))
  then show ?thesis using assms(1,2,5) by (simp add: books_inv_def svc_run_def)
qed

subsection \<open>A concrete environment\<close>

definition svc_demo_json :: "json pbnjson" where
  "svc_demo_json = json_api
     [(''passive'', JObj [(''Handler'', JStr ''passive''), (''responseTimeout'', JInt 30)]),
      (''gps'', JObj [(''Handler'', JStr ''gps''), (''subscribe'', JBool True)]),
      (''gps off'', JObj [(''Handler'', JStr ''gps''), (''state'', JBool False)]),
      (''fence'', JObj [(''latitude'', JInt 1), (''longitude'', JInt 2), (''radius'', JInt 3)]),
      (''mock'', JObj [(''name'', JStr ''gps'')]), (''any'', JObj []),
      (''online'', JObj [(''returnValue'', JBool True), (''isInternetConnectionAvailable'', JBool True)])]"

definition prefs_demo :: luna_prefs where
  "prefs_demo =
    \<lparr>LPAppGetHandle = True,
     LPAppCopyValueInt = (\<lambda>ws k. case k of None \<Rightarrow> None
       | Some n \<Rightarrow> (case map_of (rev ws) n of Some (PInt v) \<Rightarrow> Some v | Some (PStr s) \<Rightarrow> None | None \<Rightarrow> Some 1)),
     LPAppSetValueString = True\<rparr>"

definition svc_demo :: "(string \<Rightarrow> LSMessage list, json) svc_env" where
  "svc_demo =
    \<lparr>se_bus = list_bus, se_drop = (\<lambda>m c k. filter (\<lambda>x. msg_id x \<noteq> msg_id m) (c k)), se_gps = demo_env,
     se_strtod = demo_strtod, se_net = net_demo\<lparr>ne_json := svc_demo_json\<rparr>, se_now = 1700000000000, se_timer = 11,
     se_ls = (\<lambda>_. True), se_draws = (\<lambda>i. 1000 + int i), se_distance = (\<lambda>_ _ _ _. 0), se_prefs = prefs_demo,
     se_stored = (\<lambda>_ out. (ERROR_NOT_AVAILABLE, out)), se_wsp = JNull, se_http = http_up, se_feed = (\<lambda>_. None),
     se_tostring = (\<lambda>_. []), se_handle = True, se_debug = [], se_junk = 0,
     se_bits = \<lparr>NYX_GPS_LOCATION_HAS_LAT_LONG = 1, NYX_GPS_LOCATION_HAS_ALTITUDE = 2, NYX_GPS_LOCATION_HAS_SPEED = 4,
       NYX_GPS_LOCATION_HAS_BEARING = 8, NYX_GPS_LOCATION_HAS_ACCURACY = 16, NYX_GPS_LOCATION_HAS_VERTICAL_ACCURACY = 32\<rparr>\<rparr>"

definition demo_msg :: "nat \<Rightarrow> string \<Rightarrow> string \<Rightarrow> bool \<Rightarrow> LSMessage" where
  "demo_msg i k p sub = \<lparr>msg_id = i, msg_method = k, msg_payload = p, msg_is_subscription = sub, msg_sender = ''app''\<rparr>"

definition svc_demo_start :: "(string \<Rightarrow> LSMessage list, json) LocationService" where
  "svc_demo_start = svc_init svc_demo (\<lambda>_. []) (loadDefaults 1)"

lemma svc_demo_fields [simp]:
  "se_bus svc_demo = list_bus" "se_gps svc_demo = demo_env" "sj svc_demo = svc_demo_json" "se_now svc_demo = 1700000000000"
  "se_timer svc_demo = 11" "se_prefs svc_demo = prefs_demo" "se_strtod svc_demo = demo_strtod"
  "se_draws svc_demo = (\<lambda>i. 1000 + int i)"
  by (simp_all add: svc_demo_def)

lemma demo_msg_fields [simp]:
  "msg_id (demo_msg i k p b) = i" "msg_method (demo_msg i k p b) = k" "msg_payload (demo_msg i k p b) = p"
  "msg_is_subscription (demo_msg i k p b) = b"
  by (simp_all add: demo_msg_def)

lemma demo_json_api [simp]:
  "jdom_parse svc_demo_json = jdom_parse (json_api
     [(''passive'', JObj [(''Handler'', JStr ''passive''), (''responseTimeout'', JInt 30)]),
      (''gps'', JObj [(''Handler'', JStr ''gps''), (''subscribe'', JBool True)]),
      (''gps off'', JObj [(''Handler'', JStr ''gps''), (''state'', JBool False)]),
      (''fence'', JObj [(''latitude'', JInt 1), (''longitude'', JInt 2), (''radius'', JInt 3)]),
      (''mock'', JObj [(''name'', JStr ''gps'')]), (''any'', JObj []),
      (''online'', JObj [(''returnValue'', JBool True), (''isInternetConnectionAvailable'', JBool True)])])"
  "jis_null svc_demo_json = jis_null (json_api [])" "jobject_get_exists svc_demo_json = jobject_get_exists (json_api [])"
  "jstring_get svc_demo_json = jstring_get (json_api [])" "jboolean_get svc_demo_json = jboolean_get (json_api [])"
  "jnumber_get_i32 svc_demo_json = jnumber_get_i32 (json_api [])" "jnumber_get_f64 svc_demo_json = jnumber_get_f64 (json_api [])"
  by (simp_all add: svc_demo_json_def json_api_def)

lemma svc_demo_laws: "bus_laws list_bus" "drop_laws list_bus (se_drop svc_demo)" "se_bus svc_demo = list_bus"
  "adds_ok list_bus" "sublist_of list_bus k (\<lambda>_. []) = []"
  by (simp_all add: list_bus_laws drop_laws_def svc_demo_def adds_ok_def)
    (simp_all add: list_bus_def sublist_of_def)

subsection \<open>Properties\<close>

text \<open>
  A request whose subscription fails stays in the table, with its response timer armed; its client has been told.
\<close>

lemma failed_subscription_stays:
  assumes "LSSubscriptionAdd (se_bus E) k m (catalogue s) = (False, c)" and "rt \<noteq> 0"
  shows "m_locUpdate_req_table (accept_request E m h rt w k st s) (msg_id m) = Some (new_request E h rt)"
    and "(se_timer E, \<lparr>td_message = m, td_key = k\<rparr>) \<in> set (svc_timers (accept_request E m h rt w k st s))"
  using assms by (simp_all add: accept_request_def register_request_def reply_code_def LSMessageReplyError_def LSMessageReply_def)

text \<open>
  C1: in every run from the start each listed request is listed once and has a table entry, and every live
  response timer belongs to a request that still owns the data the timer will read; on a bus that accepts
  every subscription the table holds nothing but the listed requests.
\<close>

theorem request_books_balanced:
  assumes "bus_laws B" and "drop_laws B D" and "\<And>k. sublist_of B k c = []"
    and "list_all (event_ok B D meth) es" and "svc_run es (svc_init E c cfg) = Some s"
  shows "distinct (listed B (catalogue s)) \<and> set (listed B (catalogue s)) \<subseteq> dom (m_locUpdate_req_table s)
    \<and> (adds_ok B \<longrightarrow> dom (m_locUpdate_req_table s) = set (listed B (catalogue s)))
    \<and> (\<forall>(t, td) \<in> set (svc_timers s).
         \<exists>r. m_locUpdate_req_table s (msg_id (td_message td)) = Some r \<and> m_timerID r = t \<and> m_timerdata r)"
  using svc_run_good [OF assms] by (fastforce simp: svc_good_def upd_good_def timers_ok_def)

lemma root_methods [simp]:
  "map_of rootMethod ''getLocationUpdates'' = Some getLocationUpdates" "map_of rootMethod ''setState'' = Some (always setState)"
  "map_of rootMethod ''getState'' = Some (always getState)"
  by (simp_all add: rootMethod_def)

lemma demo_register:
  "\<exists>s. svc_run [SCall svc_demo ROOT_CATEGORY (demo_msg 1 ''getLocationUpdates'' ''passive'' True)] svc_demo_start = Some s
    \<and> svc_timers s = [(11, \<lparr>td_message = demo_msg 1 ''getLocationUpdates'' ''passive'' True, td_key = PASSIVE_KEY\<rparr>)]"
proof -
  let ?m = "demo_msg 1 ''getLocationUpdates'' ''passive'' True"
  have "\<not> stale_call svc_demo ?m svc_demo_start" by (simp add: stale_call_def svc_demo_start_def)
  moreover have "getLocationUpdates svc_demo ?m svc_demo_start
      = Some (accept_request svc_demo ?m (-1) 30 False PASSIVE_KEY 0 svc_demo_start)"
    by (simp add: getLocationUpdates_def LSMessageValidateSchemaReplyOnError_def Let_def json_api_def
        getHandlerStatus_def svc_demo_start_def loadHandlerStatus_def prefs_demo_def
        get_i32_def get_bool_def getHandlerVal_def enableHandlers_def)
  ultimately show ?thesis
    by (simp add: call_method_def accept_request_def register_request_def case_prod_unfold Let_def
        start_providers_def has_flag_def svc_demo_start_def list_bus_def)
qed

theorem request_books_balanced_witness:
  "\<exists>s. svc_run [SCall svc_demo ROOT_CATEGORY (demo_msg 1 ''getLocationUpdates'' ''passive'' True)] svc_demo_start = Some s
    \<and> dom (m_locUpdate_req_table s) = set (listed list_bus (catalogue s)) \<and> m_locUpdate_req_table s 1 \<noteq> None"
proof -
  obtain s where s: "svc_run [SCall svc_demo ROOT_CATEGORY (demo_msg 1 ''getLocationUpdates'' ''passive'' True)] svc_demo_start = Some s"
    and t: "svc_timers s = [(11, \<lparr>td_message = demo_msg 1 ''getLocationUpdates'' ''passive'' True, td_key = PASSIVE_KEY\<rparr>)]"
    using demo_register by blast
  have e: "list_all (event_ok list_bus (se_drop svc_demo) (\<lambda>_. ''getLocationUpdates''))
      [SCall svc_demo ROOT_CATEGORY (demo_msg 1 ''getLocationUpdates'' ''passive'' True)]"
    by (simp add: env_ok_def)
  show ?thesis
    using request_books_balanced [OF svc_demo_laws(1,2,5) e s [unfolded svc_demo_start_def]] s t svc_demo_laws(4)
    by auto
qed

text \<open>The replies a request accepts out of a series of positions, as the times they are sent.\<close>

primrec accepted_times ::
  "LSMessage \<Rightarrow> int \<Rightarrow> int \<Rightarrow> (('c, 'j) svc_env \<times> Position \<times> Accuracy) list \<Rightarrow> ('c, 'j) LocationService \<Rightarrow> int list" where
  "accepted_times m mi md [] s = []"
| "accepted_times m mi md (x # xs) s =
    (let (ok, s') = meetsCriteria (fst x) m (fst (snd x)) (snd (snd x)) mi md s
     in (if ok then [se_now (fst x)] else []) @ accepted_times m mi md xs s')"

lemma meets_cases:
  assumes "m_locUpdate_req_table s (msg_id m) = Some r" and "mi > 0" and "meetsCriteria E m p a mi md s = (ok, s')"
  shows "(\<not> ok \<and> \<not> m_isFirstReply r \<and> s' = s)
    \<or> (ok \<and> (m_isFirstReply r \<or> se_now E - m_requestTime r > mi) \<and>
       (\<exists>r'. m_locUpdate_req_table s' (msg_id m) = Some r' \<and> m_requestTime r' = se_now E \<and> \<not> m_isFirstReply r'))"
  using assms by (auto simp: meetsCriteria_def Let_def split: if_splits)

lemma accepted_spaced:
  assumes "m_locUpdate_req_table s (msg_id m) = Some r" and "mi > 0"
  shows "successively (\<lambda>a b. b - a > mi)
    (if m_isFirstReply r then accepted_times m mi md xs s else m_requestTime r # accepted_times m mi md xs s)"
  using assms(1)
proof (induction xs arbitrary: s r)
  case (Cons x xs)
  obtain ok s' where m: "meetsCriteria (fst x) m (fst (snd x)) (snd (snd x)) mi md s = (ok, s')" by fastforce
  show ?case
    using meets_cases [OF Cons.prems assms(2) m] Cons.IH [of s r] Cons.IH [of s'] Cons.prems m by auto
qed simp

text \<open>
  C13: the first position is always replied, and whatever positions follow, two consecutive replies
  of a request are further apart than its minimum interval.
\<close>

theorem replies_are_throttled:
  assumes "m_locUpdate_req_table s (msg_id m) = Some r" and "mi > 0"
  shows "successively (\<lambda>a b. b - a > mi) (accepted_times m mi md xs s)
    \<and> (m_isFirstReply r \<and> xs \<noteq> [] \<longrightarrow>
        accepted_times m mi md xs s \<noteq> [] \<and> hd (accepted_times m mi md xs s) = se_now (fst (hd xs)))"
proof (intro conjI impI)
  show "successively (\<lambda>a b. b - a > mi) (accepted_times m mi md xs s)"
    using accepted_spaced [OF assms, of md xs] by (cases "accepted_times m mi md xs s") (auto split: if_splits)
next
  assume f: "m_isFirstReply r \<and> xs \<noteq> []"
  then obtain x ys where xs: "xs = x # ys" by (cases xs) auto
  obtain ok s' where m: "meetsCriteria (fst x) m (fst (snd x)) (snd (snd x)) mi md s = (ok, s')" by fastforce
  show "accepted_times m mi md xs s \<noteq> []" "hd (accepted_times m mi md xs s) = se_now (fst (hd xs))"
    using meets_cases [OF assms m] f m by (auto simp: xs)
qed

definition demo_at :: "int \<Rightarrow> (string \<Rightarrow> LSMessage list, json) svc_env \<times> Position \<times> Accuracy" where
  "demo_at t = (svc_demo\<lparr>se_now := t\<rparr>, position_zero\<lparr>p_timestamp := t\<rparr>, accuracy_zero)"

definition demo_request :: "(string \<Rightarrow> LSMessage list, json) LocationService" where
  "demo_request = svc_demo_start\<lparr>m_locUpdate_req_table := [1 \<mapsto> new_request svc_demo (-1) 0]\<rparr>"

theorem replies_are_throttled_witness:
  "accepted_times (demo_msg 1 ''getLocationUpdates'' ''gps'' True) 1000 0 [demo_at 5000, demo_at 5500, demo_at 6500] demo_request = [5000, 6500]
    \<and> successively (\<lambda>a b. b - a > 1000)
        (accepted_times (demo_msg 1 ''getLocationUpdates'' ''gps'' True) 1000 0 [demo_at 5000, demo_at 5500, demo_at 6500] demo_request)"
proof
  show "accepted_times (demo_msg 1 ''getLocationUpdates'' ''gps'' True) 1000 0 [demo_at 5000, demo_at 5500, demo_at 6500] demo_request = [5000, 6500]"
    by (simp add: demo_at_def demo_request_def meetsCriteria_def new_request_def position_zero_def Let_def)
  show "successively (\<lambda>a b. b - a > 1000)
      (accepted_times (demo_msg 1 ''getLocationUpdates'' ''gps'' True) 1000 0 [demo_at 5000, demo_at 5500, demo_at 6500] demo_request)"
    by (rule conjunct1 [OF replies_are_throttled [where r = "new_request svc_demo (-1) 0"]]) (simp_all add: demo_request_def)
qed

subsection \<open>Geofence identifiers\<close>

lemma pick_id_free:
  assumes "pick_id draws i n used = Some (g, used')"
  shows "\<exists>slot. geofenceSlot g = Some slot \<and> \<not> used ! slot \<and> used' = used[slot := True]"
  using assms by (induction draws i n used rule: pick_id.induct) (auto split: option.splits if_splits)

lemma geofenceSlot_range: "geofenceSlot g = Some slot \<Longrightarrow> slot < MAX_GEOFENCE_ID \<and> g = MIN_GEOFENCE_RANGE + int slot"
  by (auto simp: geofenceSlot_def Let_def split: if_splits)

lemma gps_request_frame [simp]:
  "is_geofenceId_used (snd (gps_request E r s)) = is_geofenceId_used s" "htPseudoGeofence (snd (gps_request E r s)) = htPseudoGeofence s"
  "svc_replies (snd (gps_request E r s)) = svc_replies s"
  by (simp_all add: gps_request_def case_prod_unfold Let_def)

lemma error_replies:
  "svc_replies (LSMessageReplyCustomError m (loc_error_num LOCATION_INVALID_INPUT) s)
    = svc_replies s @ [(msg_id m, LSMessageGetErrorReply (loc_error_num LOCATION_INVALID_INPUT))]"
  "e \<noteq> LOCATION_SUCCESS \<Longrightarrow> svc_replies (reply_error_unless m e s)
    = svc_replies s @ [(msg_id m, LSMessageGetErrorReply (loc_error_num e))]"
  using loc_error_num_range [of e]
  by (simp_all add: reply_error_unless_def LSMessageReplyError_def LSMessageReply_def LSMessageGetErrorReply_def
      LSMessageReplyCustomError_def locationErrorReply_def mapLocErrorText_def loc_error_num_def all_loc_errors_def)

lemma error_frames:
  "is_geofenceId_used (reply_error_unless m e s) = is_geofenceId_used s" "htPseudoGeofence (reply_error_unless m e s) = htPseudoGeofence s"
  "is_geofenceId_used (LSMessageReplyCustomError m c s) = is_geofenceId_used s"
  "htPseudoGeofence (LSMessageReplyCustomError m c s) = htPseudoGeofence s"
  by (simp_all add: reply_error_unless_def LSMessageReplyError_def LSMessageReplyCustomError_def LSMessageReply_def)

lemma map_of_ht_put: "map_of (ht_put k v t) = (map_of t)(k \<mapsto> v)"
proof
  fix x
  have "map_of (filter (\<lambda>y. fst y \<noteq> k) t) x = (if x = k then None else map_of t x)" by (induction t) auto
  then show "map_of (ht_put k v t) x = ((map_of t)(k \<mapsto> v)) x" by (simp add: ht_put_def)
qed

text \<open>
  C14: a call of addGeofenceArea either changes neither the slots nor the table of geofence clients and sends its
  client one error, or takes exactly one slot, one that was free and is in range. Then either the client is
  remembered with the id of that slot, everyone else's id stays, and nothing is sent yet, or nothing is
  remembered and the client is sent the unknown error.
\<close>

theorem geofence_slot_allocation:
  "let s' = addGeofenceArea E m s
   in (is_geofenceId_used s' = is_geofenceId_used s \<and> htPseudoGeofence s' = htPseudoGeofence s
        \<and> (\<exists>e \<in> {LOCATION_INVALID_INPUT, LOCATION_LOCATION_OFF, LOCATION_GEOFENCE_TOO_MANY_GEOFENCE}.
              svc_replies s' = svc_replies s @ [(msg_id m, LSMessageGetErrorReply (loc_error_num e))]))
    \<or> (\<exists>slot. slot < MAX_GEOFENCE_ID \<and> is_geofenceId_used s ! slot = False
        \<and> is_geofenceId_used s' = (is_geofenceId_used s)[slot := True]
        \<and> (map_of (htPseudoGeofence s') = (map_of (htPseudoGeofence s))(msg_id m \<mapsto> MIN_GEOFENCE_RANGE + int slot)
             \<and> svc_replies s' = svc_replies s
           \<or> htPseudoGeofence s' = htPseudoGeofence s
             \<and> svc_replies s' = svc_replies s @ [(msg_id m, LSMessageGetErrorReply (loc_error_num LOCATION_UNKNOWN_ERROR))]))"
proof (cases "jis_null (sj E) (jdom_parse (sj E) ''JSCHEMA_ADD_GEOFENCE_AREA'' (msg_payload m))")
  case True
  then show ?thesis
    by (simp add: addGeofenceArea_def LSMessageValidateSchemaReplyOnError_def Let_def error_replies error_frames)
next
  case False
  show ?thesis
  proof (cases "getHandlerStatus GPS s")
    case off: False
    then show ?thesis
      using False
      by (simp add: addGeofenceArea_def LSMessageValidateSchemaReplyOnError_def Let_def error_replies error_frames)
  next
    case on: True
    show ?thesis
    proof (cases "pick_id (se_draws E) 0 MAX_GEOFENCE_ID (is_geofenceId_used s)")
      case None
      then show ?thesis
        using False on
        by (simp add: addGeofenceArea_def LSMessageValidateSchemaReplyOnError_def Let_def error_replies error_frames)
    next
      case (Some p)
      obtain g used where p: "p = (g, used)" by fastforce
      obtain slot where slot: "geofenceSlot g = Some slot" "\<not> is_geofenceId_used s ! slot" "used = (is_geofenceId_used s)[slot := True]"
        using pick_id_free Some p by blast
      show ?thesis
        using False on Some p slot(2,3) geofenceSlot_range [OF slot(1)] unfolding Let_def
        by (intro disjI2 exI [of _ slot])
          (simp add: addGeofenceArea_def LSMessageValidateSchemaReplyOnError_def Let_def case_prod_unfold error_replies
            error_frames map_of_ht_put)
    qed
  qed
qed

text \<open>A geofence the receiver refuses keeps its slot, and nothing remembers the id.\<close>

lemma failed_geofence_leaks:
  assumes "\<not> jis_null (sj E) (jdom_parse (sj E) ''JSCHEMA_ADD_GEOFENCE_AREA'' (msg_payload m))" and "mGpsStatus s"
    and "pick_id (se_draws E) 0 MAX_GEOFENCE_ID (is_geofenceId_used s) = Some (gid, used)"
    and "\<And>r t. mRequestType r = ADD_GEOFENCE_CMD \<Longrightarrow> fst (gps_request E r t) \<noteq> ERROR_NONE"
  shows "is_geofenceId_used (addGeofenceArea E m s) = used" and "htPseudoGeofence (addGeofenceArea E m s) = htPseudoGeofence s"
  using assms
  by (simp_all add: addGeofenceArea_def LSMessageValidateSchemaReplyOnError_def Let_def case_prod_unfold error_frames
      getHandlerStatus_def position_request_def)

lemma root_geofence [simp]: "map_of geofenceMethod ''addGeofenceArea'' = Some (always addGeofenceArea)"
  by (simp add: geofenceMethod_def)

definition demo_fence :: "(string \<Rightarrow> LSMessage list, json) LocationService" where
  "demo_fence = addGeofenceArea svc_demo (demo_msg 5 ''addGeofenceArea'' ''fence'' True) svc_demo_start"

lemma demo_pick: "pick_id (\<lambda>i. 1000 + int i) 0 MAX_GEOFENCE_ID (replicate MAX_GEOFENCE_ID False)
    = Some (1000, (replicate MAX_GEOFENCE_ID False)[0 := True])"
  using pick_id.simps(2) [of "\<lambda>i. 1000 + int i" 0 199 "replicate MAX_GEOFENCE_ID False"] by (simp add: geofenceSlot_def)

lemma svc_demo_start_fields [simp]:
  "is_geofenceId_used svc_demo_start = replicate MAX_GEOFENCE_ID False" "mGpsStatus svc_demo_start = True"
  "mNwStatus svc_demo_start = True" "m_locUpdate_req_table svc_demo_start = (\<lambda>_. None)" "svc_replies svc_demo_start = []"
  by (simp_all add: svc_demo_start_def loadHandlerStatus_def prefs_demo_def)

lemma demo_fence_slot: "is_geofenceId_used demo_fence ! 0"
proof -
  note p = demo_pick
  show ?thesis
    by (simp add: demo_fence_def addGeofenceArea_def LSMessageValidateSchemaReplyOnError_def json_api_def Let_def p case_prod_unfold
        getHandlerStatus_def reply_error_unless_def LSMessageReplyError_def LSMessageReply_def)
qed

theorem geofence_slot_allocation_witness:
  "\<exists>slot. slot < MAX_GEOFENCE_ID \<and> is_geofenceId_used demo_fence = (replicate MAX_GEOFENCE_ID False)[slot := True]"
proof -
  have "is_geofenceId_used demo_fence \<noteq> is_geofenceId_used svc_demo_start"
    using demo_fence_slot by (auto simp: svc_demo_start_def)
  then show ?thesis
    using geofence_slot_allocation [of svc_demo "demo_msg 5 ''addGeofenceArea'' ''fence'' True" svc_demo_start]
    by (auto simp: demo_fence_def svc_demo_start_def Let_def)
qed

subsection \<open>The response timer\<close>

lemma removeReq_table [simp]:
  "m_locUpdate_req_table (snd (LSMessageRemoveReqList m s)) = (m_locUpdate_req_table s)(msg_id m := None)"
  by (auto simp: LSMessageRemoveReqList_def split: option.split)

lemma timeout_frame [simp]:
  "m_locUpdate_req_table (release_wakelock E m s) = m_locUpdate_req_table s"
  "m_locUpdate_req_table (LSMessageReply m p s) = m_locUpdate_req_table s"
  "m_locUpdate_req_table (getLocRequestStopSubscription E m s) = m_locUpdate_req_table s"
  "svc_replies (release_wakelock E m s) = svc_replies s" "svc_replies (subs_remove E k m s) = svc_replies s"
  "svc_replies (snd (LSMessageRemoveReqList m s)) = svc_replies s" "svc_replies (g_source_remove t s) = svc_replies s"
  "svc_replies (stopSubcription E k s) = svc_replies s" "svc_replies (getLocRequestStopSubscription E m s) = svc_replies s"
  "svc_replies (LSMessageReply m p s) = svc_replies s @ [(msg_id m, p)]"
  by (simp_all add: release_wakelock_def LSMessageReply_def getLocRequestStopSubscription_def stopSubcription_def subs_remove_def
      LSMessageRemoveReqList_def stop_timer_def g_source_remove_def gps_request_def nw_request_def Let_def case_prod_unfold
      split: option.split)

lemma timed_request_listed:
  assumes "upd_good B meth s" and "adds_ok B" and "(t, td) \<in> set (svc_timers s)"
  shows "msg_id (td_message td) \<in> set (lids B (td_key td) (catalogue s))"
proof -
  have "msg_id (td_message td) \<in> dom (m_locUpdate_req_table s)"
    using assms(1,3) by (fastforce simp: upd_good_def timers_ok_def)
  then have "msg_id (td_message td) \<in> set (listed B (catalogue s))" using assms(1,2) by (auto simp: upd_good_def)
  then obtain k where "k \<in> set upd_keys" "msg_id (td_message td) \<in> set (lids B k (catalogue s))" by (auto simp: listed_def)
  then show ?thesis using assms(1,3) by (fastforce simp: upd_good_def timers_keyed_def)
qed

lemma timed_out_fold:
  "m_locUpdate_req_table (fold (timed_out E m k) ms s)
    = (if \<exists>x \<in> set ms. msg_id x = msg_id m then (m_locUpdate_req_table s)(msg_id m := None) else m_locUpdate_req_table s)"
  "svc_replies (fold (timed_out E m k) ms s) = svc_replies s"
  by (induction ms arbitrary: s) (auto simp: timed_out_def)

text \<open>
  C8: on a bus that accepts every subscription, when the response timer of a request fires in a state reached by a
  run, its client is told of the time out, once, the timer is gone, and the request is on no list and in no table.
  (Where a subscription fails, its request stays in the table with its timer, see \<open>failed_subscription_stays\<close>.)
\<close>

theorem response_timeout_is_answered:
  assumes "bus_laws B" and "drop_laws B D" and "adds_ok B" and "\<And>k. sublist_of B k c = []"
    and "list_all (event_ok B D meth) es" and "svc_run es (svc_init E0 c cfg) = Some s"
    and "se_bus E = B" and "map_of (svc_timers s) t = Some td" and "t' = TimerCallbackLocationUpdate E t s"
  shows "svc_replies t' = svc_replies s @ [(msg_id (td_message td), LSMessageGetErrorReply (loc_error_num LOCATION_TIME_OUT))]
    \<and> t \<notin> fst ` set (svc_timers t')
    \<and> m_locUpdate_req_table t' (msg_id (td_message td)) = None \<and> msg_id (td_message td) \<notin> set (listed B (catalogue t'))"
proof -
  let ?m = "td_message td"
  have g: "svc_good B meth s" by (rule svc_run_good [OF assms(1,2,4-6)])
  then have g': "upd_good B meth t'"
    using timer_good [OF _ assms(1,7), of meth s t] assms(9) by (simp add: svc_good_def)
  have 1: "svc_replies t' = svc_replies s @ [(msg_id ?m, LSMessageGetErrorReply (loc_error_num LOCATION_TIME_OUT))]"
    using assms(7-9) by (simp add: TimerCallbackLocationUpdate_def Let_def timed_out_fold split: option.split)
  have 2: "t \<notin> fst ` set (svc_timers t')"
    using assms(8,9) by (auto simp: TimerCallbackLocationUpdate_def Let_def g_source_remove_def)
  have "m_locUpdate_req_table t' (msg_id ?m) = None \<and> msg_id ?m \<notin> set (listed B (catalogue t'))"
  proof -
    have l: "msg_id ?m \<in> set (lids B (td_key td) (catalogue s))"
      using g assms(3) map_of_SomeD [OF assms(8)] by (intro timed_request_listed [of B meth s t]) (simp_all add: svc_good_def)
    obtain ms where ms: "LSSubscriptionAcquire B (td_key td) (catalogue s) = Some ms"
      using l by (cases "LSSubscriptionAcquire B (td_key td) (catalogue s)") (auto simp: lids_def sublist_of_def)
    have "\<exists>x \<in> set ms. msg_id x = msg_id ?m" using l acquire_lids(2) [OF ms] by auto
    then have n: "m_locUpdate_req_table t' (msg_id ?m) = None"
      using assms(7-9) ms by (simp add: TimerCallbackLocationUpdate_def Let_def timed_out_fold)
    then show ?thesis using g' by (auto simp: upd_good_def)
  qed
  then show ?thesis using 1 2 by blast
qed

theorem response_timeout_is_answered_witness:
  "\<exists>s. svc_run [SCall svc_demo ROOT_CATEGORY (demo_msg 1 ''getLocationUpdates'' ''passive'' True)] svc_demo_start = Some s
    \<and> svc_replies (TimerCallbackLocationUpdate svc_demo 11 s) = svc_replies s @ [(1, LSMessageGetErrorReply 1)]"
proof -
  obtain s where s: "svc_run [SCall svc_demo ROOT_CATEGORY (demo_msg 1 ''getLocationUpdates'' ''passive'' True)] svc_demo_start = Some s"
    and t: "svc_timers s = [(11, \<lparr>td_message = demo_msg 1 ''getLocationUpdates'' ''passive'' True, td_key = PASSIVE_KEY\<rparr>)]"
    using demo_register by blast
  have e: "list_all (event_ok list_bus (se_drop svc_demo) (\<lambda>_. ''getLocationUpdates''))
      [SCall svc_demo ROOT_CATEGORY (demo_msg 1 ''getLocationUpdates'' ''passive'' True)]"
    by (simp add: env_ok_def)
  show ?thesis
    using response_timeout_is_answered [OF svc_demo_laws(1,2,4,5) e s [unfolded svc_demo_start_def] svc_demo_laws(3) _ refl, of 11] s t
    by (auto simp: loc_error_num_def all_loc_errors_def)
qed

end
