(* ===== verification/Handler_Claims.thy ===== *)
theory Handler_Claims
  imports Service_Claims
begin

text \<open>
  What the service promises about the handlers a user switches: the state a handler is set to is the
  state it has, is reported and is loaded after a restart; the newest stored position is the cached
  position; what a mock switch and a kernel resume do to the streams of the GPS engine.
\<close>

subsection \<open>The settings of the handlers\<close>

definition settings :: "('c, 'j) LocationService \<Rightarrow> bool \<times> bool \<times> (string \<times> pref_value) list" where
  "settings s = (mGpsStatus s, mNwStatus s, lp_writes s)"

lemma settings_frame [simp]:
  "settings (LSMessageReply m p s) = settings s" "settings (release_wakelock E m s) = settings s"
  "settings (subs_remove E k m s) = settings s" "settings (snd (gps_request E r s)) = settings s"
  "settings (snd (nw_request E r s)) = settings s" "settings (removeTimer m s) = settings s"
  "settings (snd (LSMessageRemoveReqList m s)) = settings s" "settings (snd (meetsCriteria E m a b i d s)) = settings s"
  "settings (stopSubcription E k s) = settings s" "settings (force_release E s) = settings s"
  by (simp_all add: settings_def LSMessageReply_def release_wakelock_def subs_remove_def gps_request_def nw_request_def
      removeTimer_def LSMessageRemoveReqList_def meetsCriteria_def stopSubcription_def stop_timer_def g_source_remove_def
      force_release_def Let_def case_prod_unfold split: option.split)

lemma settings_fold: "(\<And>m s. settings (f m s) = settings s) \<Longrightarrow> settings (fold f ms s) = settings s"
  by (induction ms arbitrary: s) simp_all

lemma settings_replies [simp]:
  "settings (LSMessageReplyLocUpdateCase E m k p s) = settings s" "settings (reply_loc E pos acc k p m s) = settings s"
  "settings (LSSubscriptionReply E k p s) = settings s" "settings (reply_and_drop E k p m s) = settings s"
proof -
  show 1: "settings (LSMessageReplyLocUpdateCase E m k p s) = settings s" for s
    by (simp add: LSMessageReplyLocUpdateCase_def Let_def)
  show "settings (reply_loc E pos acc k p m s) = settings s"
    by (cases pos; cases acc) (simp_all add: reply_loc_def Let_def case_prod_unfold 1)
  show "settings (LSSubscriptionReply E k p s) = settings s"
    unfolding LSSubscriptionReply_def by (rule settings_fold) simp
  show "settings (reply_and_drop E k p m s) = settings s" by (simp add: reply_and_drop_def Let_def)
qed

lemma settings_replies2 [simp]:
  "settings (LSSubNonSubReplyLocUpdateCase E pos acc k p s) = settings s"
  "settings (LSSubscriptionNonSubscriptionReply E k p s) = settings s"
  by (simp_all add: LSSubNonSubReplyLocUpdateCase_def LSSubscriptionNonSubscriptionReply_def Let_def settings_fold
      split: option.split)

lemma settings_if_filled: "(\<And>t. settings (f t) = settings t) \<Longrightarrow> settings (reply_if_filled E k f s) = settings s"
  by (simp add: reply_if_filled_def)

lemma settings_off [simp]: "settings (replyErrorToGpsNwReq E h s) = settings s" "settings (publish_state E k b s) = settings s"
  by (cases h; simp add: replyErrorToGpsNwReq_def settings_if_filled Let_def) (simp add: publish_state_def)

lemma settings_switch:
  "settings (switch_gps E key b s) = (b, mNwStatus s, lp_writes s)"
  "settings (switch_network E key b s) = (mGpsStatus s, b, lp_writes s)"
  by (simp_all add: switch_gps_def switch_network_def Let_def) (simp_all add: settings_def)

lemma settings_switch_handler:
  "settings (switch_handler E h key b s)
    = (if h = GPS then b else mGpsStatus s, if h = NETWORK then b else mNwStatus s, lp_writes s)"
proof -
  have "settings (if \<not> mNwStatus t \<and> \<not> mGpsStatus t then replyErrorToGpsNwReq E HANDLER_HYBRID (force_release E t) else t)
      = settings t" for t :: "('a, 'b) LocationService" by simp
  then show ?thesis by (simp add: switch_handler_def Let_def settings_switch) (simp add: settings_def)
qed

lemma settings_sel:
  "mGpsStatus s = fst (settings s)" "mNwStatus s = fst (snd (settings s))" "lp_writes s = snd (snd (settings s))"
  by (simp_all add: settings_def)

text \<open>A call that names a handler the key buffer holds, on a device with luna-prefs.\<close>

definition state_call :: "('c, 'j) svc_env \<Rightarrow> string \<Rightarrow> LSMessage \<Rightarrow> string \<Rightarrow> 'j \<Rightarrow> bool" where
  "state_call E schema m h parsed \<longleftrightarrow> jdom_parse (sj E) schema (msg_payload m) = parsed \<and> \<not> jis_null (sj E) parsed
    \<and> get_str (sj E) parsed ''Handler'' None = Some h \<and> LPAppGetHandle (se_prefs E)"

lemma setState_settings:
  assumes "state_call E ''JSCHEMA_SET_STATE'' m h parsed" and "h = GPS \<or> h = NETWORK"
    and "get_bool (sj E) parsed ''state'' False = b"
  shows "settings (setState E m s) = (if h = GPS then b else mGpsStatus s, if h = NETWORK then b else mNwStatus s,
      lp_writes s @ [(h, PInt (of_bool b))])"
proof -
  obtain key where k: "buildGetStateSubscriptionKey (Some h) = Some key"
    using assms(2) by (auto simp: buildGetStateSubscriptionKey_def)
  have v: "LSMessageValidateSchemaReplyOnError E m ''JSCHEMA_SET_STATE'' s = (Some parsed, s)"
    using assms(1) by (simp add: LSMessageValidateSchemaReplyOnError_def state_call_def)
  show ?thesis
    using assms k by (simp add: setState_def v state_call_def Let_def settings_switch_handler reply_fields_def)
      (simp add: LSMessageReply_def)
qed

text \<open>
  C12: a handler set to a state has that state: the service acts on it, a later \<open>getState\<close>
  answers it, the other handler keeps its own, and a service started again loads it.
\<close>

theorem set_state_is_read_back:
  assumes "\<And>ws v. LPAppCopyValueInt (se_prefs E) (ws @ [(h, PInt v)]) (Some h) = Some v"
    and "state_call E ''JSCHEMA_SET_STATE'' m h parsed" and "h = GPS \<or> h = NETWORK"
    and "get_bool (sj E) parsed ''state'' False = b" and "s' = setState E m s"
    and "state_call E ''JSCHEMA_GET_STATE'' m' h parsed'" and "jdom_parse (sj E) SCHEMA_ALL (msg_payload m') = parsed'"
    and "jobject_get_exists (sj E) parsed' ''subscribe'' = None"
  shows "getHandlerStatus h s' = b \<and> loadHandlerStatus (se_prefs E) (lp_writes s') h = b
    \<and> (h = GPS \<longrightarrow> getHandlerStatus NETWORK s' = getHandlerStatus NETWORK s)
    \<and> (h = NETWORK \<longrightarrow> getHandlerStatus GPS s' = getHandlerStatus GPS s)
    \<and> svc_replies (getState E m' s') = svc_replies s'
        @ [(msg_id m', Some (OObj (location_util_form_json_reply True LOCATION_SUCCESS @ [(''state'', OInt (of_bool b))])))]"
proof -
  have e: "settings s' = (if h = GPS then b else mGpsStatus s, if h = NETWORK then b else mNwStatus s,
      lp_writes s @ [(h, PInt (of_bool b))])"
    unfolding assms(5) by (rule setState_settings [OF assms(2-4)])
  have g: "mGpsStatus s' = (if h = GPS then b else mGpsStatus s)" "mNwStatus s' = (if h = NETWORK then b else mNwStatus s)"
    by (simp_all only: settings_sel(1,2) [of s'] e fst_conv snd_conv)
  have p: "LPAppGetHandle (se_prefs E)" using assms(2) by (simp add: state_call_def)
  have v: "LPAppCopyValueInt (se_prefs E) (lp_writes s') (Some h) = Some (of_bool b)"
    by (simp add: settings_sel(3) e assms(1))
  have "svc_replies (getState E m' s') = svc_replies s'
        @ [(msg_id m', Some (OObj (location_util_form_json_reply True LOCATION_SUCCESS @ [(''state'', OInt (of_bool b))])))]"
    using assms(6-8) v
    by (simp add: getState_def LSMessageValidateSchemaReplyOnError_def state_call_def isSubscribeTypeValid_def Let_def
        reply_fields_def LSMessageReply_def)
  moreover have "getHandlerStatus h s' = b \<and> (h = GPS \<longrightarrow> getHandlerStatus NETWORK s' = getHandlerStatus NETWORK s)
    \<and> (h = NETWORK \<longrightarrow> getHandlerStatus GPS s' = getHandlerStatus GPS s)"
    using assms(3) g by (auto simp: getHandlerStatus_def)
  ultimately show ?thesis by (simp add: loadHandlerStatus_def Let_def p v)
qed

theorem set_state_is_read_back_witness:
  "getHandlerStatus GPS svc_demo_start
    \<and> \<not> getHandlerStatus GPS (setState svc_demo (demo_msg 1 ''setState'' ''gps off'' False) svc_demo_start)"
  using set_state_is_read_back [of svc_demo GPS "demo_msg 1 ''setState'' ''gps off'' False"
      "JObj [(''Handler'', JStr ''gps''), (''state'', JBool False)]" False _ svc_demo_start
      "demo_msg 2 ''getState'' ''gps off'' False" "JObj [(''Handler'', JStr ''gps''), (''state'', JBool False)]"]
  by (simp add: state_call_def json_api_def prefs_demo_def get_str_def get_bool_def getHandlerStatus_def)

subsection \<open>The cached position\<close>

lemma compare_newest:
  assumes "comparePositionTimeStamps gp np ga na = (p, a)"
  shows "(p, a) \<in> {(gp, ga), (np, na)}" "p_timestamp gp \<le> p_timestamp p" "p_timestamp np \<le> p_timestamp p"
    "p_timestamp gp = p_timestamp np \<Longrightarrow> horizAccuracy a \<le> horizAccuracy ga \<and> horizAccuracy a \<le> horizAccuracy na"
  using assms by (auto simp: comparePositionTimeStamps_def split: if_splits)

text \<open>
  C19: without a handler, or with the hybrid or the passive one, the cached position is the stored
  position of the GPS or of the network that is newest, the more accurate of two equally old ones;
  it is refused when a coordinate is zero or it is older than asked for.
\<close>

theorem cached_position_is_newest:
  assumes "jdom_parse (sj E) ''JSCHEMA_GET_CACHED_POSITION'' (msg_payload m) = parsed" and "\<not> jis_null (sj E) parsed"
    and "get_str (sj E) parsed ''Handler'' (Some HYBRID) = Some h" and "h = HYBRID \<or> h = PASSIVE"
    and "se_stored E ''/var/location/location_gps.xml'' (position_zero, accuracy_zero) = (e1, gp, ga)"
    and "se_stored E ''/var/location/location_network.xml'' (position_zero, accuracy_zero) = (e2, np, na)"
    and "max_age = get_i32 (sj E) parsed ''maximumAge'' 0"
  shows "\<exists>p a. (p, a) \<in> {(gp, ga), (np, na)} \<and> p_timestamp gp \<le> p_timestamp p \<and> p_timestamp np \<le> p_timestamp p
    \<and> (p_timestamp gp = p_timestamp np \<longrightarrow> horizAccuracy a \<le> min (horizAccuracy ga) (horizAccuracy na))
    \<and> getCachedPosition E m s = Some (LSMessageReply m
        (if p_latitude p = 0 \<or> p_longitude p = 0 \<or> max_age > 0 \<and> se_now E - p_timestamp p > max_age
         then LSMessageGetErrorReply (loc_error_num LOCATION_POS_NOT_AVAILABLE)
         else Some (OObj (location_util_form_json_reply True LOCATION_SUCCESS
                @ location_util_add_pos_json (se_now E) (Some p) @ location_util_add_acc_json (Some a)))) s)"
proof -
  obtain p a where pa: "comparePositionTimeStamps gp np ga na = (p, a)" by fastforce
  have c: "cached_position E h = (p, a)"
    using assms(4-6) pa by (auto simp: cached_position_def getLastPosition_def Let_def)
  have h: "(case jobject_get_exists (sj E) parsed ''Handler'' of None \<Rightarrow> Some HYBRID | Some h \<Rightarrow> jstring_get (sj E) h) = Some h"
    using assms(3) by (simp add: get_str_def split: option.splits)
  have "getCachedPosition E m s = Some (LSMessageReply m
        (if p_latitude p = 0 \<or> p_longitude p = 0 \<or> max_age > 0 \<and> se_now E - p_timestamp p > max_age
         then LSMessageGetErrorReply (loc_error_num LOCATION_POS_NOT_AVAILABLE)
         else Some (OObj (location_util_form_json_reply True LOCATION_SUCCESS
                @ location_util_add_pos_json (se_now E) (Some p) @ location_util_add_acc_json (Some a)))) s)"
    using assms(1,2) h c loc_error_num_range [of LOCATION_POS_NOT_AVAILABLE]
    by (simp add: getCachedPosition_def LSMessageValidateSchemaReplyOnError_def Let_def cached_error_def reply_fields_def
        LSMessageReplyError_def LSMessageGetErrorReply_def assms(7))
  then show ?thesis using compare_newest [OF pa] by (intro exI [of _ p] exI [of _ a]) auto
qed

definition demo_stored :: "(string \<Rightarrow> LSMessage list, json) svc_env" where
  "demo_stored = svc_demo\<lparr>se_stored := (\<lambda>path out.
     (ERROR_NONE, position_zero\<lparr>p_timestamp := if path = ''/var/location/location_gps.xml'' then 5 else 9,
        p_latitude := 1, p_longitude := 2\<rparr>, accuracy_zero))\<rparr>"

lemma demo_stored_fields [simp]:
  "sj demo_stored = svc_demo_json" "se_now demo_stored = 1700000000000"
  "se_stored demo_stored path out = (ERROR_NONE, position_zero\<lparr>p_timestamp := if path = ''/var/location/location_gps.xml''
     then 5 else 9, p_latitude := 1, p_longitude := 2\<rparr>, accuracy_zero)"
  by (simp_all add: demo_stored_def)

theorem cached_position_is_newest_witness:
  "\<exists>p. p_timestamp p = 9 \<and> getCachedPosition demo_stored (demo_msg 1 ''getCachedPosition'' ''any'' False) svc_demo_start
    = Some (LSMessageReply (demo_msg 1 ''getCachedPosition'' ''any'' False)
        (Some (OObj (location_util_form_json_reply True LOCATION_SUCCESS
                @ location_util_add_pos_json 1700000000000 (Some p) @ location_util_add_acc_json (Some accuracy_zero)))) svc_demo_start)"
proof -
  have "jdom_parse (sj demo_stored) ''JSCHEMA_GET_CACHED_POSITION'' (msg_payload (demo_msg 1 ''getCachedPosition'' ''any'' False)) = JObj []"
    "\<not> jis_null (sj demo_stored) (JObj [])" "get_str (sj demo_stored) (JObj []) ''Handler'' (Some HYBRID) = Some HYBRID"
    "HYBRID = HYBRID \<or> HYBRID = PASSIVE" "0 = get_i32 (sj demo_stored) (JObj []) ''maximumAge'' 0"
    by (simp_all add: json_api_def get_str_def get_i32_def)
  from cached_position_is_newest [OF this(1-4) demo_stored_fields(3) demo_stored_fields(3) this(5), of svc_demo_start]
  show ?thesis
    by (intro exI [of _ "position_zero\<lparr>p_timestamp := 9, p_latitude := 1, p_longitude := 2\<rparr>"]) auto
qed

subsection \<open>A kernel resume\<close>

lemma start_ok: "ge_nyx E NyxStart = NYX_ERROR_NONE \<Longrightarrow> fst (requestGpsEngineStart E J sd s) = ERROR_NONE"
  by (simp add: requestGpsEngineStart_def handlePeriodicUpdates_def handleGpsEnable_def startGPS_def mocked_def Let_def
      case_prod_unfold)

abbreviation progress :: "('c, 'j) LocationService \<Rightarrow> 32 word" where
  "progress s \<equiv> mAPIProgressFlag (core (mGPSProvider s))"

definition stream_flag :: "HandlerRequestType \<Rightarrow> 32 word" where
  "stream_flag c = (if c = NMEA_CMD then NMEA_GET_DATA_ON else if c = SATELITTE_CMD then SATELLITE_GET_DATA_ON
     else LOCATION_UPDATES_ON)"

lemma or_bit: "f OR push_bit n 1 = f \<longleftrightarrow> bit f n" if "n < 32" for f :: "32 word"
proof
  assume "f OR push_bit n 1 = f"
  then have "bit (f OR push_bit n 1) n = bit f n" by simp
  then show "bit f n" using that by (simp add: bit_simps)
qed (auto intro!: bit_word_eqI simp: bit_simps)

lemma or_flag: "f = f OR 4 \<longleftrightarrow> has_flag f 4" "f = f OR 8 \<longleftrightarrow> has_flag f 8" "f = f OR 16 \<longleftrightarrow> has_flag f 16"
  for f :: "32 word"
  using or_bit [of 2 f] or_bit [of 3 f] or_bit [of 4 f] by (simp_all add: has_flag_iff_bit push_bit_eq_mult eq_commute [of f])

lemma start_cmd_flag:
  assumes "cmd \<in> {NMEA_CMD, SATELITTE_CMD, POSITION_CMD}" and "ge_nyx (se_gps E) NyxStart = NYX_ERROR_NONE"
    and "mEnabled (core (mGPSProvider s))"
  shows "progress (snd (gps_request E (position_request ''GPS'' cmd) s)) = progress s OR stream_flag cmd"
    "mEnabled (core (mGPSProvider (snd (gps_request E (position_request ''GPS'' cmd) s))))"
proof -
  note d = gps_request_def gps_processRequest_def Let_def case_prod_unfold stream_flag_def or_flag
    engine_start_frame set_progress_def add_pos_timer_def
  from assms(1) consider "cmd = NMEA_CMD" | "cmd = SATELITTE_CMD" | "cmd = POSITION_CMD" by blast
  then show "progress (snd (gps_request E (position_request ''GPS'' cmd) s)) = progress s OR stream_flag cmd"
    using assms(3) by cases (simp_all add: d start_ok [OF assms(2)])
  from assms(1) consider "cmd = NMEA_CMD" | "cmd = SATELITTE_CMD" | "cmd = POSITION_CMD" by blast
  then show "mEnabled (core (mGPSProvider (snd (gps_request E (position_request ''GPS'' cmd) s))))"
    using assms(3) by cases (simp_all add: d start_ok [OF assms(2)])
qed

lemma duplicate_is_noop:
  assumes "cmd \<in> {NMEA_CMD, SATELITTE_CMD, POSITION_CMD}" and "has_flag (progress s) (stream_flag cmd)"
  shows "snd (gps_request E (position_request ''GPS'' cmd) s) = s"
  using assms by (auto simp: gps_request_def gps_processRequest_def stream_flag_def)

lemma resume_listed:
  assumes "cmd \<in> {NMEA_CMD, SATELITTE_CMD, POSITION_CMD}" and "ge_nyx (se_gps E) NyxStart = NYX_ERROR_NONE"
    and "mEnabled (core (mGPSProvider s))"
  shows "progress (resume_if_listed E b cmd s) = (if b then progress s OR stream_flag cmd else progress s)"
    "mEnabled (core (mGPSProvider (resume_if_listed E b cmd s)))"
  using start_cmd_flag [OF assms] assms(3) by (simp_all add: resume_if_listed_def)

lemma resume_listed_frame [simp]: "catalogue (resume_if_listed E b cmd s) = catalogue s"
  by (simp add: resume_if_listed_def gps_request_def case_prod_unfold Let_def)

text \<open>The stream of a command has a client.\<close>

definition stream_listed :: "('c, 'j) svc_env \<Rightarrow> ('c, 'j) LocationService \<Rightarrow> HandlerRequestType \<Rightarrow> bool" where
  "stream_listed E s cmd =
    (if cmd = NMEA_CMD then isSubscListFilled E None SUBSC_GPS_GET_NMEA_KEY False s
     else if cmd = SATELITTE_CMD then isSubscListFilled E None SUBSC_GET_GPS_SATELLITE_DATA False s
     else isSubscListFilled E None GPS_KEY False s \<or> isSubscListFilled E None HYBRID_KEY False s)"

lemma listed_frame: "catalogue t = catalogue s \<Longrightarrow> isSubscListFilled E m k c t = isSubscListFilled E m k c s"
  by (simp add: isSubscListFilled_def)

lemma resume_as_listed:
  "mGpsStatus s \<Longrightarrow> resumeGpsEngine E s = resume_if_listed E (stream_listed E s POSITION_CMD) POSITION_CMD
    (resume_if_listed E (stream_listed E s SATELITTE_CMD) SATELITTE_CMD
      (resume_if_listed E (stream_listed E s NMEA_CMD) NMEA_CMD s))"
proof -
  let ?s1 = "resume_if_listed E (stream_listed E s NMEA_CMD) NMEA_CMD s"
  have 1: "isSubscListFilled E None k False ?s1 = isSubscListFilled E None k False s" for k by (rule listed_frame) simp
  have 2: "isSubscListFilled E None k False (resume_if_listed E b SATELITTE_CMD ?s1) = isSubscListFilled E None k False s" for k b
    by (rule listed_frame) simp
  assume "mGpsStatus s"
  then show ?thesis
    using 1 2 by (auto simp: resumeGpsEngine_def stream_listed_def Let_def) (simp_all add: resume_if_listed_def)
qed

text \<open>When every listed stream has its request, a resume changes nothing, not even a stopped engine.\<close>

lemma resume_is_noop:
  assumes "mGpsStatus s"
    and "\<forall>cmd \<in> {NMEA_CMD, SATELITTE_CMD, POSITION_CMD}. stream_listed E s cmd \<longrightarrow> has_flag (progress s) (stream_flag cmd)"
  shows "svc_Handle E Notify_KernelResume s = s"
proof -
  have "resume_if_listed E (stream_listed E s cmd) cmd s = s" if "cmd \<in> {NMEA_CMD, SATELITTE_CMD, POSITION_CMD}" for cmd
    using that assms(2) duplicate_is_noop [of cmd s E] by (auto simp: resume_if_listed_def)
  then show ?thesis by (simp add: resume_as_listed [OF assms(1), of E])
qed

lemma resume_engine:
  assumes "cmd \<in> {NMEA_CMD, SATELITTE_CMD, POSITION_CMD}" and "ge_nyx (se_gps E) NyxStart = NYX_ERROR_NONE"
    and "mEnabled (core (mGPSProvider s))"
  shows "mEngineStarted (core (mGPSProvider (resume_if_listed E b cmd s)))
    \<longleftrightarrow> mEngineStarted (core (mGPSProvider s)) \<or> b \<and> \<not> has_flag (progress s) (stream_flag cmd)"
proof -
  note d = gps_request_def gps_processRequest_def Let_def case_prod_unfold stream_flag_def engine_start_frame set_progress_def
    add_pos_timer_def resume_if_listed_def
  from assms(1) consider "cmd = NMEA_CMD" | "cmd = SATELITTE_CMD" | "cmd = POSITION_CMD" by blast
  then show ?thesis using assms(3) by cases (auto simp: d start_ok [OF assms(2)])
qed


lemma demo_gps_provider [simp]: "mGPSProvider svc_demo_start = demo_start"
  by (simp add: svc_demo_start_def svc_init_def svc_new_def Let_def demo_start_def svc_demo_def)

definition demo_nmea :: "(string \<Rightarrow> LSMessage list, json) LocationService" where
  "demo_nmea = svc_demo_start\<lparr>catalogue := (\<lambda>k. if k = ''getNmeaData'' then [demo_msg 1 ''getNmeaData'' ''any'' True] else [])\<rparr>"

lemma demo_nmea_listed: "stream_listed svc_demo demo_nmea cmd = (cmd = NMEA_CMD)"
  by (simp add: stream_listed_def isSubscListFilled_def demo_nmea_def list_bus_def)


subsection \<open>A mock switch\<close>

lemma disable_mock:
  assumes "mEngineStarted (core s)"
  shows "gps_mock (snd (handleGpsDisable E s)) = mock_step (MockGpsStop (ge_nyx E NyxStop = NYX_ERROR_NONE)) (gps_mock s)"
proof -
  have "gps_mock (snd (stopGPS E t)) = mock_step (MockGpsStop (ge_nyx E NyxStop = NYX_ERROR_NONE)) (gps_mock t)" for t
    by (simp add: stopGPS_def mocked_def mock_step_def gps_mock_stop_def Let_def case_prod_unfold)
  then show ?thesis using assms by (simp add: handleGpsDisable_def Let_def case_prod_unfold)
qed

lemma stop_mock:
  assumes "mEnabled (core s)" and "mEngineStarted (core s)"
  shows "gps_mock (snd (gps_processRequest E J sd (position_request ''GPS'' STOP_GPS_CMD) s))
    = mock_step (MockGpsStop (ge_nyx E NyxStop = NYX_ERROR_NONE)) (gps_mock s)"
  using assms by (simp add: gps_processRequest_def remove_pos_timer_def Let_def case_prod_unfold disable_mock)

lemma inject_mock [simp]: "gps_mock (injectSystemTime E s) = gps_mock s"
  by (simp add: injectSystemTime_def injectExtraTime_def split: option.split)

lemma enable_mock:
  assumes "\<not> mEngineStarted (core s)"
  shows "gps_mock (snd (handleGpsEnable E s)) = mock_step (MockGpsStart (ge_nyx E NyxStart = NYX_ERROR_NONE)) (gps_mock s)"
proof -
  have "gps_mock (snd (startGPS E s)) = mock_step (MockGpsStart (ge_nyx E NyxStart = NYX_ERROR_NONE)) (gps_mock s)"
    by (simp add: startGPS_def mocked_def mock_step_def gps_mock_start_def Let_def case_prod_unfold)
  then show ?thesis using assms by (simp add: handleGpsEnable_def Let_def case_prod_unfold)
qed

lemma engine_start_mock:
  assumes "\<not> mEngineStarted (core s)"
  shows "gps_mock (snd (requestGpsEngineStart E J sd s))
    = mock_step (MockGpsStart (ge_nyx E NyxStart = NYX_ERROR_NONE)) (gps_mock s)"
  using assms by (simp add: requestGpsEngineStart_def handlePeriodicUpdates_def Let_def case_prod_unfold enable_mock)

lemma start_mock:
  assumes "mEnabled (core s)" and "\<not> mEngineStarted (core s)" and "\<not> has_flag (mAPIProgressFlag (core s)) LOCATION_UPDATES_ON"
  shows "gps_mock (snd (gps_processRequest E J sd (position_request ''GPS'' POSITION_CMD) s))
    = mock_step (MockGpsStart (ge_nyx E NyxStart = NYX_ERROR_NONE)) (gps_mock s)"
proof -
  have u: "core (upd_ttff f s) = core s" "gps_mock (upd_ttff f s) = gps_mock s" for f by simp_all
  have p: "gps_mock (set_progress x t) = gps_mock t" "gps_mock (add_pos_timer E t) = gps_mock t" for x t
    by (simp_all add: set_progress_def add_pos_timer_def)
  show ?thesis
    using assms by (simp add: gps_processRequest_def Let_def case_prod_unfold p engine_start_mock)
qed

lemma mock_call_frame:
  "mGPSProvider (snd (gps_request E r s)) = snd (gps_processRequest (se_gps E) (sj E) (se_strtod E) r (mGPSProvider s))"
  "catalogue (snd (gps_request E r s)) = catalogue s"
  "mGPSProvider (upd_mocks f s) = (mGPSProvider s)\<lparr>gps_mock := f (gps_mock (mGPSProvider s))\<rparr>"
  "catalogue (upd_mocks f s) = catalogue s"
  "mGPSProvider (LSMessageReplyError m e s) = mGPSProvider s" "catalogue (LSMessageReplyError m e s) = catalogue s"
  by (simp_all add: gps_request_def upd_mocks_def LSMessageReplyError_def LSMessageReply_def Let_def case_prod_unfold)

text \<open>Stop, switch, start, in the provider.\<close>

lemma mock_switch_flags:
  assumes "flag_good f"
  shows "has_flag (gps_flag_step (MockGpsStart y) (provider_set_state b (gps_flag_step (MockGpsStop x) f))) MOCKLOC_FLAG_STARTED \<longleftrightarrow> b"
  using assms by (auto simp: flag_good_def gps_flag_step_def provider_set_state_def has_flag_iff_bit bit_simps)

text \<open>Stop, switch and start, in the provider.\<close>

lemma mock_switch_provider:
  assumes "mEnabled (core s)" and "mEngineStarted (core s)" and "has_gps (gps_mock s)"
    and "ge_nyx E NyxStop = NYX_ERROR_NONE" and "ge_nyx E NyxStart = NYX_ERROR_NONE"
    and g1: "g1 = snd (gps_processRequest E J sd (position_request ''GPS'' STOP_GPS_CMD) s)"
    and g2: "g2 = g1\<lparr>gps_mock := snd (set_mock_location_state GPS b (gps_mock g1))\<rparr>"
    and g3: "g3 = snd (gps_processRequest E J sd (position_request ''GPS'' POSITION_CMD) g2)"
  shows "mEngineStarted (core g3)" "mAPIProgressFlag (core g3) = LOCATION_UPDATES_ON"
    "gps_flag (gps_mock g3) = gps_flag_step (MockGpsStart True) (provider_set_state b
      (gps_flag_step (MockGpsStop True) (gps_flag (gps_mock s))))"
proof -
  have "core_view s = (True, mClientCallBacks (core s), True, mAPIProgressFlag (core s), mPosTimer (core s))"
    using assms(1,2) by (simp add: core_view_def Let_def)
  then have "core_view g1 = (True, mClientCallBacks (core s), False, 0, 0)"
    using stop_req_ok [OF assms(4), of "position_request ''GPS'' STOP_GPS_CMD" J sd]
    by (simp add: g1 request_view view_request_def)
  then have c2: "mEnabled (core g2)" "\<not> mEngineStarted (core g2)" "mAPIProgressFlag (core g2) = 0"
    by (simp_all add: g2 core_view_def Let_def)
  then show "mEngineStarted (core g3)" "mAPIProgressFlag (core g3) = LOCATION_UPDATES_ON"
    by (simp_all add: g3 start_ok [OF assms(5)] gps_processRequest_def Let_def case_prod_unfold engine_start_frame
        set_progress_def add_pos_timer_def has_flag_def)
  have "gps_mock g1 = mock_step (MockGpsStop True) (gps_mock s)"
    unfolding g1 by (simp only: stop_mock [OF assms(1,2)] assms(4) simp_thms)
  moreover have "gps_mock g2 = mock_step (MockSet GPS b) (gps_mock g1)" by (simp add: g2 mock_step_def)
  moreover have "gps_mock g3 = mock_step (MockGpsStart True) (gps_mock g2)"
    using c2 by (simp add: g3 start_mock assms(5) has_flag_def)
  ultimately show "gps_flag (gps_mock g3) = gps_flag_step (MockGpsStart True) (provider_set_state b
      (gps_flag_step (MockGpsStop True) (gps_flag (gps_mock s))))"
    using assms(3) by (simp add: gps_flag_mock_step svc_inv) (simp add: gps_flag_step_def)
qed

text \<open>
  C28: a mock switch while clients wait for GPS positions takes effect at once: the engine runs again,
  for the mock exactly when it was switched on, with the position request alone. The requests of the
  NMEA and satellite streams are gone, though their clients stay listed.
\<close>

theorem mock_switch_restarts_positions:
  assumes "jdom_parse (sj E) ''MOCK_STATE_SCHEMA'' (msg_payload m) = parsed" and "\<not> jis_null (sj E) parsed"
    and "jobject_get_exists (sj E) parsed ''name'' = Some obj" and "\<not> jis_null (sj E) obj"
    and "jstring_get (sj E) obj = Some GPS" and "isSubscListFilled E None GPS_KEY False s"
    and "mEnabled (core (mGPSProvider s))" and "mEngineStarted (core (mGPSProvider s))"
    and "has_gps (gps_mock (mGPSProvider s))" and "flag_good (gps_flag (gps_mock (mGPSProvider s)))"
    and "ge_nyx (se_gps E) NyxStop = NYX_ERROR_NONE" and "ge_nyx (se_gps E) NyxStart = NYX_ERROR_NONE"
  shows "\<exists>t. setMockLocationState E b m s = Some t \<and> mEngineStarted (core (mGPSProvider t))
    \<and> progress t = LOCATION_UPDATES_ON \<and> catalogue t = catalogue s
    \<and> (has_flag (gps_flag (gps_mock (mGPSProvider t))) MOCKLOC_FLAG_STARTED \<longleftrightarrow> b)"
proof -
  let ?s1 = "snd (gps_request E (position_request ''GPS'' STOP_GPS_CMD) s)"
  let ?s3 = "snd (gps_request E (position_request ''GPS'' POSITION_CMD)
    (upd_mocks (\<lambda>ms. snd (set_mock_location_state GPS b ms)) ?s1))"
  let ?t = "LSMessageReplyError m (loc_error_num (fst (set_mock_location_state GPS b (mock_of GPS ?s1)))) ?s3"
  have "setMockLocationState E b m s = Some ?t"
    using assms(1-6) by (simp add: setMockLocationState_def LSMessageValidateSchemaReplyOnError_def Let_def)
  moreover have "mEngineStarted (core (mGPSProvider ?t))" "progress ?t = LOCATION_UPDATES_ON"
    "has_flag (gps_flag (gps_mock (mGPSProvider ?t))) MOCKLOC_FLAG_STARTED \<longleftrightarrow> b"
    using mock_switch_provider [OF assms(7-9,11,12) refl refl refl, of "sj E" "se_strtod E" b]
      mock_switch_flags [OF assms(10), of True b True]
    by (simp_all add: mock_call_frame)
  moreover have "catalogue ?t = catalogue s" by (simp add: mock_call_frame)
  ultimately show ?thesis by blast
qed

definition demo_mocking :: "(string \<Rightarrow> LSMessage list, json) LocationService" where
  "demo_mocking = svc_demo_start
    \<lparr>catalogue := (\<lambda>k. if k = ''gps/getLocationUpdate'' then [demo_msg 1 ''getLocationUpdates'' ''gps'' True] else []),
     mGPSProvider := upd_core (\<lambda>c. c\<lparr>mEnabled := True, mEngineStarted := True, mAPIProgressFlag := 20\<rparr>) (gps_init (loadDefaults 1))\<rparr>"

theorem mock_switch_restarts_positions_witness:
  "\<exists>t. setMockLocationState svc_demo True (demo_msg 2 ''enable'' ''mock'' False) demo_mocking = Some t
    \<and> progress demo_mocking = 20 \<and> progress t = 16"
proof -
  have 1: "jdom_parse (sj svc_demo) ''MOCK_STATE_SCHEMA'' (msg_payload (demo_msg 2 ''enable'' ''mock'' False)) = JObj [(''name'', JStr GPS)]"
    "\<not> jis_null (sj svc_demo) (JObj [(''name'', JStr GPS)])"
    "jobject_get_exists (sj svc_demo) (JObj [(''name'', JStr GPS)]) ''name'' = Some (JStr GPS)"
    "\<not> jis_null (sj svc_demo) (JStr GPS)" "jstring_get (sj svc_demo) (JStr GPS) = Some GPS"
    by (simp_all add: json_api_def)
  have 2: "isSubscListFilled svc_demo None GPS_KEY False demo_mocking" "mEnabled (core (mGPSProvider demo_mocking))"
    "mEngineStarted (core (mGPSProvider demo_mocking))" "progress demo_mocking = 20"
    by (simp_all add: isSubscListFilled_def demo_mocking_def list_bus_def)
  have 3: "has_gps (gps_mock (mGPSProvider demo_mocking))" "flag_good (gps_flag (gps_mock (mGPSProvider demo_mocking)))"
    by (simp_all add: demo_mocking_def gps_init_def mock_init_def has_gps_def gps_flag_def flag_good_def has_flag_def)
  show ?thesis
    using mock_switch_restarts_positions [OF 1 2(1-3) 3, of True] 2(4) by (auto simp: demo_env_def)
qed

end
