(* ===== verification/Delivery.thy ===== *)
theory Delivery
  imports Handler_Claims
begin

text \<open>
  From the receiver to the clients: a fix the HAL reports runs through the provider, the service's
  callback, the main loop and the three lists of location clients; each client gets it exactly when
  its criteria are met.
\<close>

subsection \<open>What one client is sent\<close>

definition replies_to :: "nat \<Rightarrow> ('c, 'j) LocationService \<Rightarrow> 'j jout option list" where
  "replies_to i s = List.map snd (filter (\<lambda>x. fst x = i) (svc_replies s))"

text \<open>Whether a request takes a position: its interval and distance against its last reply.\<close>

definition criteria_met ::
  "('c, 'j) svc_env \<Rightarrow> Position \<Rightarrow> Accuracy \<Rightarrow> LSMessage \<Rightarrow> ('c, 'j) LocationService \<Rightarrow> bool" where
  "criteria_met E p a m s =
    (let parsed = jdom_parse (sj E) SCHEMA_ALL (msg_payload m);
         null = jis_null (sj E) parsed
     in fst (meetsCriteria E m p a (if null then 0 else get_i32 (sj E) parsed ''minimumInterval'' 0)
          (if null then 0 else get_i32 (sj E) parsed ''minimumDistance'' 0) s))"

lemma criteria_table:
  "m_locUpdate_req_table s (msg_id m) = m_locUpdate_req_table t (msg_id m) \<Longrightarrow> criteria_met E p a m s = criteria_met E p a m t"
  by (simp add: criteria_met_def meetsCriteria_def Let_def split: option.split)

lemma meets_frame [simp]:
  "svc_replies (snd (meetsCriteria E m p a i d s)) = svc_replies s" "catalogue (snd (meetsCriteria E m p a i d s)) = catalogue s"
  "k \<noteq> msg_id m \<Longrightarrow> m_locUpdate_req_table (snd (meetsCriteria E m p a i d s)) k = m_locUpdate_req_table s k"
  by (simp_all add: meetsCriteria_def Let_def split: option.split)

lemma removeTimer_frame [simp]:
  "svc_replies (removeTimer m s) = svc_replies s" "catalogue (removeTimer m s) = catalogue s"
  "k \<noteq> msg_id m \<Longrightarrow> m_locUpdate_req_table (removeTimer m s) k = m_locUpdate_req_table s k"
  by (simp_all add: removeTimer_def stop_timer_def g_source_remove_def split: option.split)

lemma timeout_catalogue [simp]:
  "catalogue (snd (LSMessageRemoveReqList m s)) = catalogue s" "catalogue (release_wakelock E m s) = catalogue s"
  "catalogue (subs_remove E k m s) = LSSubscriptionRemove (se_bus E) k m (catalogue s)"
  "m_locUpdate_req_table (subs_remove E k m s) = m_locUpdate_req_table s"
  "catalogue (stopSubcription E k s) = catalogue s" "m_locUpdate_req_table (stopSubcription E k s) = m_locUpdate_req_table s"
  by (simp_all add: LSMessageRemoveReqList_def release_wakelock_def subs_remove_def stopSubcription_def gps_request_def
      nw_request_def Let_def case_prod_unfold split: option.split)

lemma reply_case_effect:
  "svc_replies (LSMessageReplyLocUpdateCase E m k pl s) = svc_replies s @ [(msg_id m, pl)]"
  "i \<noteq> msg_id m \<Longrightarrow> m_locUpdate_req_table (LSMessageReplyLocUpdateCase E m k pl s) i = m_locUpdate_req_table s i"
  "catalogue (LSMessageReplyLocUpdateCase E m k pl s)
    = (if msg_is_subscription m then catalogue s else LSSubscriptionRemove (se_bus E) k m (catalogue s))"
  by (simp_all add: LSMessageReplyLocUpdateCase_def Let_def LSMessageReply_def)

lemma reply_loc_effect:
  "replies_to i (reply_loc E (Some p) (Some a) k pl m s)
    = replies_to i s @ (if i = msg_id m \<and> criteria_met E p a m s then [pl] else [])"
  "i \<noteq> msg_id m \<Longrightarrow> m_locUpdate_req_table (reply_loc E (Some p) (Some a) k pl m s) i = m_locUpdate_req_table s i"
  "catalogue (reply_loc E (Some p) (Some a) k pl m s) \<in> {catalogue s, LSSubscriptionRemove (se_bus E) k m (catalogue s)}"
  by (auto simp: reply_loc_def criteria_met_def replies_to_def Let_def case_prod_unfold reply_case_effect)

lemma reply_loc_fold_absent:
  assumes "i \<notin> msg_id ` set ms"
  shows "replies_to i (fold (reply_loc E (Some p) (Some a) k pl) ms s) = replies_to i s"
    and "m_locUpdate_req_table (fold (reply_loc E (Some p) (Some a) k pl) ms s) i = m_locUpdate_req_table s i"
  using assms by (induction ms arbitrary: s) (simp_all add: reply_loc_effect(1,2))

lemma reply_loc_fold:
  assumes "distinct (List.map msg_id ms)" and "m \<in> set ms"
  shows "replies_to (msg_id m) (fold (reply_loc E (Some p) (Some a) k pl) ms s)
      = replies_to (msg_id m) s @ (if criteria_met E p a m s then [pl] else [])"
  using assms
proof (induction ms arbitrary: s)
  case (Cons x ms)
  show ?case
  proof (cases "m = x")
    case True
    then show ?thesis using Cons.prems by (simp add: reply_loc_fold_absent reply_loc_effect(1))
  next
    case False
    then have m: "m \<in> set ms" "msg_id m \<noteq> msg_id x" using Cons.prems by (auto simp: image_iff)
    then have "criteria_met E p a m (reply_loc E (Some p) (Some a) k pl x s) = criteria_met E p a m s"
      by (intro criteria_table reply_loc_effect(2)) simp
    then show ?thesis using Cons.IH [OF _ m(1)] Cons.prems(1) m(2) by (simp add: reply_loc_effect(1))
  qed
qed simp

lemma reply_loc_fold_other:
  assumes "bus_laws (se_bus E)" and "k' \<noteq> k"
  shows "sublist_of (se_bus E) k' (catalogue (fold (reply_loc E (Some p) (Some a) k pl) ms s)) = sublist_of (se_bus E) k' (catalogue s)"
proof (induction ms arbitrary: s)
  case (Cons m ms)
  have "sublist_of (se_bus E) k' (catalogue (reply_loc E (Some p) (Some a) k pl m s)) = sublist_of (se_bus E) k' (catalogue s)"
    using reply_loc_effect(3) [of E p a k pl m s] bus_remove_other [OF assms] by auto
  then show ?case using Cons.IH by simp
qed simp

lemma replies_to_stop [simp]: "replies_to i (stopSubcription E k s) = replies_to i s"
  by (simp add: replies_to_def)

lemma reply_list_as_fold:
  "replies_to i (LSSubNonSubReplyLocUpdateCase E pos acc k pl s)
    = replies_to i (fold (reply_loc E pos acc k pl) (sublist_of (se_bus E) k (catalogue s)) s)"
  "m_locUpdate_req_table (LSSubNonSubReplyLocUpdateCase E pos acc k pl s)
    = m_locUpdate_req_table (fold (reply_loc E pos acc k pl) (sublist_of (se_bus E) k (catalogue s)) s)"
  "catalogue (LSSubNonSubReplyLocUpdateCase E pos acc k pl s)
    = catalogue (fold (reply_loc E pos acc k pl) (sublist_of (se_bus E) k (catalogue s)) s)"
  by (simp_all add: LSSubNonSubReplyLocUpdateCase_def sublist_of_def Let_def split: option.split)

lemma reply_list_hit:
  assumes "distinct (lids (se_bus E) k (catalogue s))" and "m \<in> set (sublist_of (se_bus E) k (catalogue s))"
  shows "replies_to (msg_id m) (LSSubNonSubReplyLocUpdateCase E (Some p) (Some a) k pl s)
    = replies_to (msg_id m) s @ (if criteria_met E p a m s then [pl] else [])"
  using assms by (simp add: reply_list_as_fold reply_loc_fold lids_def)

lemma reply_list_miss:
  assumes "i \<notin> set (lids (se_bus E) k (catalogue s))"
  shows "replies_to i (LSSubNonSubReplyLocUpdateCase E (Some p) (Some a) k pl s) = replies_to i s"
    "m_locUpdate_req_table (LSSubNonSubReplyLocUpdateCase E (Some p) (Some a) k pl s) i = m_locUpdate_req_table s i"
  using assms by (simp_all add: reply_list_as_fold reply_loc_fold_absent lids_def)

lemma reply_list_other:
  assumes "bus_laws (se_bus E)" and "k' \<noteq> k"
  shows "sublist_of (se_bus E) k' (catalogue (LSSubNonSubReplyLocUpdateCase E (Some p) (Some a) k pl s))
    = sublist_of (se_bus E) k' (catalogue s)"
  using reply_loc_fold_other [OF assms] by (simp add: reply_list_as_fold)

subsection \<open>Several lists in a row\<close>

definition reply_lists ::
  "('c, 'j) svc_env \<Rightarrow> Position \<Rightarrow> Accuracy \<Rightarrow> (string \<times> 'j jout option) list \<Rightarrow> ('c, 'j) LocationService \<Rightarrow> ('c, 'j) LocationService" where
  "reply_lists E p a kps s = fold (\<lambda>(k, pl). LSSubNonSubReplyLocUpdateCase E (Some p) (Some a) k pl) kps s"

lemma sendPositionData_lists:
  "sendPositionData E p a k1 k2 r1 r2 s = reply_lists E p a [(k1, r1), (k2, r1), (PASSIVE_KEY, Some r2)] s"
  by (simp add: sendPositionData_def reply_lists_def)

lemma reply_lists_miss:
  assumes "bus_laws (se_bus E)" and "distinct (List.map fst kps)"
    and "\<And>k. k \<in> fst ` set kps \<Longrightarrow> i \<notin> set (lids (se_bus E) k (catalogue s))"
  shows "replies_to i (reply_lists E p a kps s) = replies_to i s"
  using assms(2,3)
proof (induction kps arbitrary: s)
  case (Cons kp kps)
  obtain k pl where kp: "kp = (k, pl)" by fastforce
  let ?s = "LSSubNonSubReplyLocUpdateCase E (Some p) (Some a) k pl s"
  have "i \<notin> set (lids (se_bus E) k' (catalogue ?s))" if "k' \<in> fst ` set kps" for k'
  proof -
    have "k' \<noteq> k" using that Cons.prems(1) kp by auto
    then show ?thesis using Cons.prems(2) [of k'] that kp by (simp add: lids_def reply_list_other [OF assms(1)])
  qed
  then show ?case using Cons.IH [of ?s] Cons.prems kp by (simp add: reply_lists_def reply_list_miss)
qed (simp add: reply_lists_def)

lemma reply_lists_hit:
  assumes "bus_laws (se_bus E)" and "distinct (List.map fst kps)" and "(k, pl) \<in> set kps"
    and "m \<in> set (sublist_of (se_bus E) k (catalogue s))" and "distinct (lids (se_bus E) k (catalogue s))"
    and "\<And>k'. k' \<in> fst ` set kps \<Longrightarrow> k' \<noteq> k \<Longrightarrow> msg_id m \<notin> set (lids (se_bus E) k' (catalogue s))"
  shows "replies_to (msg_id m) (reply_lists E p a kps s)
    = replies_to (msg_id m) s @ (if criteria_met E p a m s then [pl] else [])"
  using assms(2-6)
proof (induction kps arbitrary: s)
  case (Cons kp kps)
  obtain k0 pl0 where kp: "kp = (k0, pl0)" by fastforce
  let ?s = "LSSubNonSubReplyLocUpdateCase E (Some p) (Some a) k0 pl0 s"
  have away: "sublist_of (se_bus E) k' (catalogue ?s) = sublist_of (se_bus E) k' (catalogue s)" if "k' \<noteq> k0" for k'
    by (rule reply_list_other [OF assms(1) that])
  show ?case
  proof (cases "k = k0")
    case True
    then have "pl = pl0" and k: "k \<notin> fst ` set kps" using Cons.prems(1,2) kp by (auto simp: image_iff)
    have "msg_id m \<notin> set (lids (se_bus E) k' (catalogue ?s))" if "k' \<in> fst ` set kps" for k'
    proof -
      have "k' \<noteq> k0" using that k True by auto
      then show ?thesis using Cons.prems(5) [of k'] that True by (simp add: lids_def away)
    qed
    then have "replies_to (msg_id m) (reply_lists E p a kps ?s) = replies_to (msg_id m) ?s"
      using Cons.prems(1) by (intro reply_lists_miss [OF assms(1)]) simp_all
    then show ?thesis using Cons.prems(3,4) True kp \<open>pl = pl0\<close> by (simp add: reply_lists_def reply_list_hit)
  next
    case False
    then have a: "msg_id m \<notin> set (lids (se_bus E) k0 (catalogue s))" and k: "(k, pl) \<in> set kps"
      using Cons.prems(2,5) kp by auto
    have "msg_id m \<notin> set (lids (se_bus E) k' (catalogue ?s))" if "k' \<in> fst ` set kps" "k' \<noteq> k" for k'
    proof -
      have "k' \<noteq> k0" using that Cons.prems(1) kp by auto
      then show ?thesis using Cons.prems(5) [of k'] that by (simp add: lids_def away)
    qed
    moreover have "criteria_met E p a m ?s = criteria_met E p a m s"
      by (rule criteria_table) (rule reply_list_miss(2) [OF a])
    ultimately show ?thesis
      using Cons.IH [of ?s] Cons.prems(1,3,4) False kp k reply_list_miss(1) [OF a]
      by (simp add: reply_lists_def lids_def away)
  qed
qed simp

subsection \<open>A fix reaches the clients\<close>

text \<open>
  What a client asked for, and when its request takes a position: the first one always; a later one if it has a
  time, if more than the minimum interval passed since its last reply and if it is at least the minimum distance
  from the position of that reply, where the client gave one; a hybrid client moreover takes it only after a minute
  without a reply or if it is accurate.
\<close>

definition asked_for :: "('c, 'j) svc_env \<Rightarrow> LSMessage \<Rightarrow> string \<Rightarrow> int" where
  "asked_for E m field =
    (let request = jdom_parse (sj E) SCHEMA_ALL (msg_payload m)
     in if jis_null (sj E) request then 0
        else (case jobject_get_exists (sj E) request field of None \<Rightarrow> 0 | Some v \<Rightarrow> snd (jnumber_get_i32 (sj E) v 0)))"

definition takes_fix ::
  "('c, 'j) svc_env \<Rightarrow> Position \<Rightarrow> Accuracy \<Rightarrow> LSMessage \<Rightarrow> LocationUpdateRequest option \<Rightarrow> bool" where
  "takes_fix E p a m entry \<longleftrightarrow>
    (case entry of
       None \<Rightarrow> False
     | Some r \<Rightarrow>
         let passed = se_now E - m_requestTime r; interval = asked_for E m ''minimumInterval'';
             dist = asked_for E m ''minimumDistance''
         in m_isFirstReply r
          \<or> p_timestamp p \<noteq> 0 \<and> (interval > 0 \<longrightarrow> passed > interval)
            \<and> (dist > 0 \<longrightarrow> se_distance E (p_latitude p) (p_longitude p) (m_lastlat r) (m_lastlong r) \<ge> of_int dist)
            \<and> (m_handler_type r = HANDLER_HYBRID_INT \<longrightarrow> passed > 60000 \<or> horizAccuracy a < MINIMAL_ACCURACY))"

lemma criteria_met_takes: "criteria_met E p a m s = takes_fix E p a m (m_locUpdate_req_table s (msg_id m))"
proof -
  have "get_i32 (sj E) j k 0 = (case jobject_get_exists (sj E) j k of None \<Rightarrow> 0 | Some v \<Rightarrow> snd (jnumber_get_i32 (sj E) v 0))"
    for j k by (simp add: get_i32_def)
  then show ?thesis
    by (cases "m_locUpdate_req_table s (msg_id m)")
      (auto simp: criteria_met_def meetsCriteria_def takes_fix_def asked_for_def Let_def)
qed

definition fix_position :: "nyx_gps_location \<Rightarrow> Position" where
  "fix_position p =
    \<lparr>p_timestamp = ngl_timestamp p, p_latitude = ngl_latitude p, p_longitude = ngl_longitude p, p_altitude = ngl_altitude p,
     p_speed = ngl_speed p, p_direction = ngl_bearing p, p_climb = -1\<rparr>"

definition fix_accuracy :: "nyx_gps_location \<Rightarrow> Accuracy" where
  "fix_accuracy p = \<lparr>horizAccuracy = ngl_accuracy p, vertAccuracy = ngl_vertical_accuracy p\<rparr>"

definition fix_reply :: "int \<Rightarrow> nyx_gps_location \<Rightarrow> 'j jout" where
  "fix_reply now p =
    OObj [(''returnValue'', OBool True), (''errorCode'', OInt 0),
      (''timestamp'', OInt (if ngl_timestamp p = 0 then now else ngl_timestamp p)),
      (''latitude'', OReal (ngl_latitude p)), (''longitude'', OReal (ngl_longitude p)), (''altitude'', OReal (ngl_altitude p)),
      (''direction'', OReal (ngl_bearing p)), (''speed'', OReal (ngl_speed p)),
      (''horizAccuracy'', OReal (ngl_accuracy p)), (''vertAccuracy'', OReal (ngl_vertical_accuracy p))]"

lemma to_int64_of_int [simp]: "to_int64 (of_int n) = n"
  by (simp add: to_int64_def flip: of_int_minus)

lemma fix_callback:
  "getLocationUpdateCb E (geo_location (ngl_latitude p) (ngl_longitude p) (ngl_altitude p) (ngl_accuracy p)
      (of_int (ngl_timestamp p)) (ngl_bearing p) (-1) (ngl_speed p) (ngl_vertical_accuracy p)) ERROR_NONE HANDLER_GPS s
    = to_idle (SendPosition (fix_position p) (fix_accuracy p) GPS_KEY HYBRID_KEY (Some (fix_reply (se_now E) p)) (fix_reply (se_now E) p)) s"
  by (simp add: getLocationUpdateCb_def getLocationUpdate_reply_def geo_location_def fix_position_def fix_accuracy_def fix_reply_def
      location_util_form_json_reply_def location_util_add_pos_json_def location_util_add_acc_json_def loc_error_num_def
      all_loc_errors_def Let_def)

lemma fix_step:
  assumes "has_flag (mAPIProgressFlag (core (mGPSProvider s))) LOCATION_UPDATES_ON" and "svc_idle s = []"
    and "svc_run [SGps E (GLocation G (Some p)), SIdle E'] s = Some t"
  shows "\<exists>g. t = sendPositionData E' (fix_position p) (fix_accuracy p) GPS_KEY HYBRID_KEY (Some (fix_reply (se_now E) p))
      (fix_reply (se_now E) p) (s\<lparr>mGPSProvider := g\<rparr>)"
proof -
  obtain g where g: "gpsLocationCb G (Some p) (mGPSProvider s) = Some g" and t: "t = svc_idle_step E' (deliver_new E g s)"
    using assms(3) by (auto simp: svc_gps_def split: option.splits)
  have "drop (length (callbacks (mGPSProvider s))) (callbacks g)
      = [CbLocation (geo_location (ngl_latitude p) (ngl_longitude p) (ngl_altitude p) (ngl_accuracy p)
          (of_int (ngl_timestamp p)) (ngl_bearing p) (-1) (ngl_speed p) (ngl_vertical_accuracy p)) ERROR_NONE HANDLER_GPS]"
    using g assms(1) by (auto simp: gpsLocationCb_def Let_def call_back_def split: if_splits)
  then have "deliver_new E g s = to_idle (SendPosition (fix_position p) (fix_accuracy p) GPS_KEY HYBRID_KEY
      (Some (fix_reply (se_now E) p)) (fix_reply (se_now E) p)) (s\<lparr>mGPSProvider := g\<rparr>)"
    by (simp add: deliver_new_def deliver_gps_def fix_callback)
  then have "t = sendPositionData E' (fix_position p) (fix_accuracy p) GPS_KEY HYBRID_KEY (Some (fix_reply (se_now E) p))
      (fix_reply (se_now E) p) (s\<lparr>mGPSProvider := g, svc_idle := []\<rparr>)"
    using t assms(2) by (simp add: svc_idle_step_def to_idle_def run_idle_def)
  moreover have "s\<lparr>mGPSProvider := g, svc_idle := []\<rparr> = s\<lparr>mGPSProvider := g\<rparr>" using assms(2) by (cases s) simp
  ultimately show ?thesis by (intro exI [of _ g]) (simp only:)
qed

text \<open>
  C2: in a state reached by a run in which positions are requested from the receiver and the main loop has no
  other work, a fix of the receiver is sent to a client of the GPS, the hybrid or the passive list, once
  and with its fields, exactly when its request takes it, which is decided by the request's interval, distance
  and, for hybrid clients, the accuracy, against its last reply (\<open>takes_fix\<close>); no one else is sent anything.
\<close>

theorem fix_reaches_clients:
  assumes "bus_laws B" and "drop_laws B D" and "\<And>k. sublist_of B k c = []"
    and "list_all (event_ok B D meth) es" and "svc_run es (svc_init E0 c cfg) = Some s"
    and "has_flag (mAPIProgressFlag (core (mGPSProvider s))) LOCATION_UPDATES_ON" and "svc_idle s = []"
    and "svc_run [SGps E (GLocation G (Some p)), SIdle E'] s = Some t" and "se_bus E' = B"
  shows "(\<forall>k \<in> {GPS_KEY, HYBRID_KEY, PASSIVE_KEY}. \<forall>m \<in> set (sublist_of B k (catalogue s)).
      replies_to (msg_id m) t = replies_to (msg_id m) s
        @ (if takes_fix E' (fix_position p) (fix_accuracy p) m (m_locUpdate_req_table s (msg_id m))
           then [Some (fix_reply (se_now E) p)] else []))
    \<and> (\<forall>i. i \<notin> set (lids B GPS_KEY (catalogue s) @ lids B HYBRID_KEY (catalogue s) @ lids B PASSIVE_KEY (catalogue s))
        \<longrightarrow> replies_to i t = replies_to i s)"
proof (intro conjI ballI allI impI)
  let ?r = "fix_reply (se_now E) p"
  let ?kps = "[(GPS_KEY, Some ?r), (HYBRID_KEY, Some ?r), (PASSIVE_KEY, Some ?r)]"
  have B: "bus_laws (se_bus E')" using assms(1,9) by simp
  have d: "distinct (listed B (catalogue s))"
    using svc_run_good [OF assms(1-5)] by (simp add: svc_good_def upd_good_def)
  obtain g where t: "t = reply_lists E' (fix_position p) (fix_accuracy p) ?kps (s\<lparr>mGPSProvider := g\<rparr>)"
    using fix_step [OF assms(6-8)] unfolding sendPositionData_lists by blast
  have c: "catalogue (s\<lparr>mGPSProvider := g\<rparr>) = catalogue s" by simp
  have same: "replies_to i (s\<lparr>mGPSProvider := g\<rparr>) = replies_to i s"
      "criteria_met E' q a m (s\<lparr>mGPSProvider := g\<rparr>) = criteria_met E' q a m s" for i q a m
    by (simp add: replies_to_def, rule criteria_table, simp)
  {
    fix k m assume k: "k \<in> {GPS_KEY, HYBRID_KEY, PASSIVE_KEY}" and m: "m \<in> set (sublist_of B k (catalogue s))"
    have ks: "k' \<in> set upd_keys" if "k' \<in> {GPS_KEY, HYBRID_KEY, PASSIVE_KEY}" for k' using that by (auto simp: upd_keys_def)
    have "msg_id m \<notin> set (lids B k' (catalogue s))" if "k' \<in> {GPS_KEY, HYBRID_KEY, PASSIVE_KEY}" "k' \<noteq> k" for k'
    proof
      assume "msg_id m \<in> set (lids B k' (catalogue s))"
      moreover have "msg_id m \<in> set (lids B k (catalogue s))" using m by (simp add: lids_def)
      ultimately show False using listed_once [OF d ks [OF k] ks [OF that(1)]] that(2) by blast
    qed
    then show "replies_to (msg_id m) t = replies_to (msg_id m) s
        @ (if takes_fix E' (fix_position p) (fix_accuracy p) m (m_locUpdate_req_table s (msg_id m)) then [Some ?r] else [])"
      unfolding criteria_met_takes [symmetric] t same(1) [of "msg_id m", symmetric] same(2) [symmetric]
      using k m distinct_lids [OF d ks [OF k]]
      by (intro reply_lists_hit [OF B, of ?kps k]) (auto simp: assms(9))
  next
    fix i assume "i \<notin> set (lids B GPS_KEY (catalogue s) @ lids B HYBRID_KEY (catalogue s) @ lids B PASSIVE_KEY (catalogue s))"
    then show "replies_to i t = replies_to i s"
      unfolding t same(1) [of i, symmetric] by (intro reply_lists_miss [OF B]) (auto simp: assms(9))
  }
qed

abbreviation (input) gps_client :: LSMessage where "gps_client \<equiv> demo_msg 1 ''getLocationUpdates'' ''gps'' True"

lemma demo_gps_view:
  assumes "mGPSProvider s = demo_start"
  shows "core_view (mGPSProvider (snd (gps_request svc_demo (position_request ''GPS'' POSITION_CMD) s)))
    = view_request POSITION_CMD True 7 (True, True, False, 0, 0)"
    and "fst (gps_request svc_demo (position_request ''GPS'' POSITION_CMD) s) \<noteq> ERROR_NOT_AVAILABLE"
proof -
  let ?r = "position_request ''GPS'' POSITION_CMD"
  have "req_ok demo_env (sj svc_demo) (se_strtod svc_demo) ?r demo_start" by (rule all_ok_requests) simp_all
  then show "core_view (mGPSProvider (snd (gps_request svc_demo ?r s))) = view_request POSITION_CMD True 7 (True, True, False, 0, 0)"
    and "fst (gps_request svc_demo ?r s) \<noteq> ERROR_NOT_AVAILABLE"
    using request_view [of demo_env "sj svc_demo" "se_strtod svc_demo" ?r demo_start]
    by (simp_all add: gps_request_def case_prod_unfold Let_def assms demo_start_view req_ok_def)
qed

lemma demo_gps_registers:
  "\<exists>s. svc_run [SCall svc_demo ROOT_CATEGORY gps_client] svc_demo_start = Some s
    \<and> progress s = LOCATION_UPDATES_ON \<and> mClientCallBacks (core (mGPSProvider s)) \<and> svc_idle s = []
    \<and> sublist_of list_bus GPS_KEY (catalogue s) = [gps_client] \<and> svc_replies s = []
    \<and> m_locUpdate_req_table s 1 = Some (new_request svc_demo (-1) 0)"
proof -
  let ?s = "snd (register_request svc_demo gps_client (-1) 0 GPS_KEY svc_demo_start)"
  let ?r = "gps_request svc_demo (position_request ''GPS'' POSITION_CMD) ?s"
  have n: "\<not> stale_call svc_demo gps_client svc_demo_start" by (simp add: stale_call_def svc_demo_start_def)
  have a: "getLocationUpdates svc_demo gps_client svc_demo_start
      = Some (accept_request svc_demo gps_client (-1) 0 False GPS_KEY HANDLER_GPS_BIT svc_demo_start)"
    by (simp add: getLocationUpdates_def LSMessageValidateSchemaReplyOnError_def Let_def json_api_def
        getHandlerStatus_def svc_demo_start_def loadHandlerStatus_def prefs_demo_def
        get_i32_def get_bool_def getHandlerVal_def enableHandlers_def enableGpsHandler_def)
  have g: "mGPSProvider ?s = demo_start" by (simp add: register_request_def case_prod_unfold Let_def)
  have v: "core_view (mGPSProvider (snd ?r)) = (True, True, True, 16, 7)"
    by (rule trans [OF demo_gps_view(1) [OF g]]) (simp add: view_request_def has_flag_def)
  have f: "fst (register_request svc_demo gps_client (-1) 0 GPS_KEY svc_demo_start)"
    by (simp add: register_request_def case_prod_unfold Let_def list_bus_def)
  have x: "accept_request svc_demo gps_client (-1) 0 False GPS_KEY HANDLER_GPS_BIT svc_demo_start = snd ?r"
  proof -
    have "\<not> m_enableSuspendBlocker ?s" by (simp add: register_request_def case_prod_unfold Let_def svc_demo_start_def)
    moreover have "error_num (fst ?r) \<noteq> 5" using demo_gps_view(2) [OF g] by (cases "fst ?r") simp_all
    ultimately show ?thesis
      using f by (simp add: accept_request_def start_providers_def case_prod_unfold Let_def has_flag_def loc_error_num_def
          all_loc_errors_def)
  qed
  have "svc_run [SCall svc_demo ROOT_CATEGORY gps_client] svc_demo_start = Some (snd ?r)"
    using n a x by (simp add: call_method_def)
  moreover have "progress (snd ?r) = 16" "mClientCallBacks (core (mGPSProvider (snd ?r)))"
    using v by (simp_all add: core_view_def Let_def)
  moreover have "svc_idle (snd ?r) = []" "sublist_of list_bus GPS_KEY (catalogue (snd ?r)) = [gps_client]"
    "svc_replies (snd ?r) = []" "m_locUpdate_req_table (snd ?r) 1 = Some (new_request svc_demo (-1) 0)"
    by (simp_all add: gps_request_def case_prod_unfold Let_def register_request_def svc_demo_start_def list_bus_def sublist_of_def)
  ultimately show ?thesis by blast
qed

theorem fix_reaches_clients_witness:
  "\<exists>s t. svc_run [SCall svc_demo ROOT_CATEGORY gps_client] svc_demo_start = Some s
    \<and> svc_run [SGps svc_demo (GLocation demo_env (Some demo_fix)), SIdle svc_demo] s = Some t
    \<and> replies_to 1 t = [Some (fix_reply 1700000000000 demo_fix)]"
proof -
  obtain s where s: "svc_run [SCall svc_demo ROOT_CATEGORY gps_client] svc_demo_start = Some s"
    and p: "progress s = LOCATION_UPDATES_ON" and cb: "mClientCallBacks (core (mGPSProvider s))" and i: "svc_idle s = []"
    and l: "sublist_of list_bus GPS_KEY (catalogue s) = [gps_client]" and r: "svc_replies s = []"
    and q: "m_locUpdate_req_table s 1 = Some (new_request svc_demo (-1) 0)"
    using demo_gps_registers by blast
  have f: "has_flag (progress s) LOCATION_UPDATES_ON" using p by (simp add: has_flag_def)
  have "\<exists>g. gpsLocationCb demo_env (Some demo_fix) (mGPSProvider s) = Some g"
    using cb f by (auto simp: gpsLocationCb_def Let_def call_back_def)
  then obtain t where t: "svc_run [SGps svc_demo (GLocation demo_env (Some demo_fix)), SIdle svc_demo] s = Some t"
    by (auto simp: svc_gps_def)
  have e: "list_all (event_ok list_bus (se_drop svc_demo) (\<lambda>_. ''getLocationUpdates'')) [SCall svc_demo ROOT_CATEGORY gps_client]"
    by (simp add: env_ok_def)
  have m: "takes_fix svc_demo (fix_position demo_fix) (fix_accuracy demo_fix) gps_client (m_locUpdate_req_table s 1)"
    using q by (simp add: takes_fix_def new_request_def Let_def)
  have "replies_to 1 t = replies_to 1 s @ [Some (fix_reply 1700000000000 demo_fix)]"
    using bspec [OF bspec [OF conjunct1 [OF fix_reaches_clients [OF svc_demo_laws(1,2,5) e s [unfolded svc_demo_start_def]
      f i t svc_demo_laws(3)]]], of GPS_KEY gps_client] l m by simp
  then show ?thesis using s t r by (auto simp: replies_to_def)
qed

end
