(* ===== verification/Service_Ambient.thy ===== *)
theory Service_Ambient
  imports Delivery
begin

text \<open>
  What no method, callback or timer of the service touches, only the connection watcher: the status
  of wifi, connectivity and telephony, in the service and in the network provider; and that no
  life-cycle monitor is ever made.
\<close>

subsection \<open>The network provider\<close>

definition statuses :: "NetworkPositionProvider \<Rightarrow> bool \<times> bool \<times> bool" where
  "statuses n = (mwifiStatus n, mConnectivityStatus n, mtelephonyPowerd n)"

lemma statuses_updates [simp]:
  "statuses (n\<lparr>np_enabled := b\<rparr>) = statuses n" "statuses (n\<lparr>np_callback := b\<rparr>) = statuses n"
  "statuses (n\<lparr>mPositionData := d\<rparr>) = statuses n" "statuses (n\<lparr>net_mock := m\<rparr>) = statuses n"
  "statuses (n\<lparr>sBackend := k\<rparr>) = statuses n" "statuses (n\<lparr>regs := r\<rparr>) = statuses n"
  "statuses (n\<lparr>mTimeoutId := t\<rparr>) = statuses n" "statuses (n\<lparr>net_timers := ts\<rparr>) = statuses n"
  "statuses (n\<lparr>http := h\<rparr>) = statuses n" "statuses (n\<lparr>net_calls := x\<rparr>) = statuses n"
  "statuses (n\<lparr>mFixBackend := f\<rparr>) = statuses n" "statuses (n\<lparr>misFirstCellResponse := b\<rparr>) = statuses n"
  "statuses (n\<lparr>mProcessRequestInProgress := b\<rparr>) = statuses n" "statuses (n\<lparr>mMockRequestInProgress := b\<rparr>) = statuses n"
  "statuses (n\<lparr>net_callbacks := c\<rparr>) = statuses n" "statuses (n\<lparr>net_stored := ss\<rparr>) = statuses n"
  by (simp_all add: statuses_def)

lemma statuses_query [simp]:
  "statuses (snd (currentBackend E n)) = statuses n" "statuses (snd (parseCellData J n)) = statuses n"
  "statuses (snd (parseWifiData n)) = statuses n" "statuses (net_call_back c n) = statuses n"
  "statuses (snd (registerServiceStatus E v ck n)) = statuses n" "statuses (snd (unregisterServiceStatus E ck n)) = statuses n"
  "statuses (snd (lunaServiceCall E u q n)) = statuses n"
  "statuses (snd (unregisterForCellInfo E n)) = statuses n" "statuses (snd (unregisterForWifiAccessPoints E n)) = statuses n"
  "statuses (registerForCellInfo E n) = statuses n" "statuses (registerForWifiAccessPoints E n) = statuses n"
  by (simp_all add: currentBackend_def parseCellData_def parseWifiData_def net_call_back_def registerServiceStatus_def lunaServiceCall_def
      unregisterServiceStatus_def unregisterForCellInfo_def unregisterForWifiAccessPoints_def registerForCellInfo_def
      registerForWifiAccessPoints_def Let_def case_prod_unfold split: option.split)

lemma statuses_post [simp]:
  "statuses (snd (networkPostQuery E p k n)) = statuses n" "statuses (snd (triggerPostQuery E n)) = statuses n"
proof -
  show 1: "statuses (snd (networkPostQuery E p k n)) = statuses n" for p k n
    by (simp add: networkPostQuery_def Let_def case_prod_unfold split: option.split)
  show "statuses (snd (triggerPostQuery E n)) = statuses n"
    by (simp add: triggerPostQuery_def createCellQuery_def createWifiQuery_def createCellWifiCombinedQuery_def
        Let_def case_prod_unfold 1 split: option.split)
qed

lemma statuses_handlers [simp]:
  "statuses (onUpdateCellData E c n) = statuses n" "statuses (onUpdateWifiData E a n) = statuses n"
  "statuses (cellDataCb E p n) = statuses n" "statuses (handleResponse E t k n) = statuses n"
  "statuses (np_enable E n) = statuses n" "statuses (np_disable n) = statuses n"
  "statuses (np_setCallback b n) = statuses n" "statuses (setCurrentBackend k' n) = statuses n"
  "statuses (wifiServiceStatusUpdate E b n) = statuses n" "statuses (telephonyServiceStatusUpdate E b n) = statuses n"
  "statuses (snd (serviceStatusCb E v b n)) = statuses n"
  by (simp_all add: onUpdateCellData_def onUpdateWifiData_def cellDataCb_def handleResponse_def np_enable_def np_disable_def
      np_setCallback_def setCurrentBackend_def wifiServiceStatusUpdate_def telephonyServiceStatusUpdate_def serviceStatusCb_def
      Let_def case_prod_unfold split: option.split)

lemma statuses_request [simp]: "statuses (snd (np_processRequest E r n)) = statuses n"
  by (cases "mRequestType r")
    (simp_all add: np_processRequest_def Let_def case_prod_unfold)

lemma statuses_partial:
  "wifiAccessPointsCb E p n = Some t \<Longrightarrow> statuses t = statuses n"
  "networkUpdateCallback E n = Some t \<Longrightarrow> statuses t = statuses n"
  by (auto simp: wifiAccessPointsCb_def networkUpdateCallback_def Let_def split: option.splits if_splits)

definition sets_status :: "'j net_event \<Rightarrow> bool" where
  "sets_status e = (case e of NWifiStatus b \<Rightarrow> True | NConnectivity b \<Rightarrow> True | NTelephony b \<Rightarrow> True | _ \<Rightarrow> False)"

lemma statuses_step: "\<not> sets_status e \<Longrightarrow> net_step e n = Some t \<Longrightarrow> statuses t = statuses n"
  by (cases e) (auto simp: sets_status_def dest: statuses_partial split: if_splits)

subsection \<open>The service\<close>

definition ambient :: "('c, 'j) LocationService \<Rightarrow> (bool \<times> bool \<times> bool) \<times> (bool \<times> bool \<times> bool) \<times> bool" where
  "ambient s = ((wifistate s, isInternetConnectionAvailable s, isTelephonyAvailable s),
     statuses (mNetworkProvider s), m_lifeCycleMonitor s = None)"

lemma ambient_updates [simp]:
  "ambient (s\<lparr>mGPSProvider := g\<rparr>) = ambient s" "ambient (s\<lparr>catalogue := c\<rparr>) = ambient s"
  "ambient (s\<lparr>svc_timers := t\<rparr>) = ambient s" "ambient (s\<lparr>svc_idle := i\<rparr>) = ambient s"
  "ambient (s\<lparr>svc_replies := r\<rparr>) = ambient s" "ambient (s\<lparr>m_locUpdate_req_table := q\<rparr>) = ambient s"
  "ambient (s\<lparr>is_geofenceId_used := u\<rparr>) = ambient s" "ambient (s\<lparr>htPseudoGeofence := h\<rparr>) = ambient s"
  "ambient (s\<lparr>mCachedGpsEngineStatus := b\<rparr>) = ambient s" "ambient (s\<lparr>mGpsStatus := b\<rparr>) = ambient s"
  "ambient (s\<lparr>mNwStatus := b\<rparr>) = ambient s" "ambient (s\<lparr>m_enableSuspendBlocker := b\<rparr>) = ambient s"
  "ambient (s\<lparr>mLBSProvider := l\<rparr>) = ambient s" "ambient (s\<lparr>lp_writes := w\<rparr>) = ambient s"
  "ambient (s\<lparr>mMainLoop_running := b\<rparr>) = ambient s" "ambient (s\<lparr>isWifiInternetAvailable := b\<rparr>) = ambient s"
  "ambient (s\<lparr>m_lifeCycleMonitor := map_option f (m_lifeCycleMonitor s)\<rparr>) = ambient s"
  "statuses n = statuses (mNetworkProvider s) \<Longrightarrow> ambient (s\<lparr>mNetworkProvider := n\<rparr>) = ambient s"
  by (simp_all add: ambient_def)

lemma ambient_fold: "(\<And>m s. ambient (f m s) = ambient s) \<Longrightarrow> ambient (fold f ms s) = ambient s"
  by (induction ms arbitrary: s) simp_all

lemma ambient_basic [simp]:
  "ambient (LSMessageReply m p s) = ambient s" "ambient (LSMessageReplyError m c s) = ambient s"
  "ambient (LSMessageReplyCustomError m c s) = ambient s" "ambient (reply_code m c s) = ambient s"
  "ambient (reply_fields m fs s) = ambient s" "ambient (LSMessageReplySubscriptionSuccess m s) = ambient s"
  "ambient (reply_error_unless m e s) = ambient s" "ambient (release_wakelock E m s) = ambient s"
  "ambient (force_release E s) = ambient s" "ambient (subs_remove E k m s) = ambient s"
  "ambient (snd (subs_add E k m s)) = ambient s" "ambient (snd (gps_request E r s)) = ambient s"
  "ambient (snd (nw_request E r s)) = ambient s" "ambient (stopSubcription E k s) = ambient s"
  "ambient (to_idle i s) = ambient s" "ambient (free_slot g s) = ambient s"
  "ambient (removeTimer m s) = ambient s" "ambient (snd (LSMessageRemoveReqList m s)) = ambient s"
  "ambient (snd (meetsCriteria E m a b x d s)) = ambient s" "ambient (g_source_remove t s) = ambient s"
  "ambient (snd (LSMessageValidateSchemaReplyOnError E m k s)) = ambient s"
  by (simp_all add: LSMessageReply_def LSMessageReplyError_def LSMessageReplyCustomError_def reply_code_def reply_fields_def
      LSMessageReplySubscriptionSuccess_def reply_error_unless_def release_wakelock_def force_release_def subs_remove_def
      subs_add_def gps_request_def nw_request_def stopSubcription_def to_idle_def free_slot_def removeTimer_def
      LSMessageRemoveReqList_def meetsCriteria_def stop_timer_def g_source_remove_def LSMessageValidateSchemaReplyOnError_def
      Let_def case_prod_unfold split: option.split)

lemma ambient_replies [simp]:
  "ambient (LSMessageReplyLocUpdateCase E m k p s) = ambient s" "ambient (reply_loc E pos acc k p m s) = ambient s"
  "ambient (LSSubscriptionReply E k p s) = ambient s" "ambient (reply_and_drop E k p m s) = ambient s"
proof -
  show 1: "ambient (LSMessageReplyLocUpdateCase E m k p s) = ambient s" for s
    by (simp add: LSMessageReplyLocUpdateCase_def Let_def)
  show "ambient (reply_loc E pos acc k p m s) = ambient s"
    by (cases pos; cases acc) (simp_all add: reply_loc_def Let_def case_prod_unfold 1)
  show "ambient (LSSubscriptionReply E k p s) = ambient s"
    unfolding LSSubscriptionReply_def by (rule ambient_fold) simp
  show "ambient (reply_and_drop E k p m s) = ambient s" by (simp add: reply_and_drop_def Let_def)
qed

lemma ambient_replies2 [simp]:
  "ambient (LSSubNonSubReplyLocUpdateCase E pos acc k p s) = ambient s"
  "ambient (LSSubscriptionNonSubscriptionReply E k p s) = ambient s"
  by (simp_all add: LSSubNonSubReplyLocUpdateCase_def LSSubscriptionNonSubscriptionReply_def Let_def ambient_fold
      split: option.split)

lemma ambient_idle [simp]: "ambient (run_idle E i s) = ambient s" "ambient (svc_idle_step E s) = ambient s"
proof -
  show 1: "ambient (run_idle E i s) = ambient s" for i s
    by (cases i) (simp_all add: run_idle_def sendPositionData_def sendGeofenceAddData_def sendGeofenceBreachData_def
        sendGeofenceRemoveData_def sendNmeaData_def sendSatelliteData_def sendGPSStatus_def sendNfwNotification_def Let_def)
  show "ambient (svc_idle_step E s) = ambient s" by (simp add: svc_idle_step_def 1 split: list.split)
qed

lemma ambient_callbacks [simp]:
  "ambient (getLocationUpdateCb E l e t s) = ambient s" "ambient (deliver_gps E c s) = ambient s"
  "ambient (deliver_net E d s) = ambient s" "ambient (deliver_new E g s) = ambient s"
proof -
  show 1: "ambient (getLocationUpdateCb E l e t s) = ambient s" for l e t s
    by (simp add: getLocationUpdateCb_def getLocationUpdate_reply_def Let_def)
  show 2: "ambient (deliver_gps E c s) = ambient s" for c s
    by (cases c) (simp_all add: deliver_gps_def 1 getGpsStatusCb_def getGpsSatelliteDataCb_def getNmeaDataCb_def
        svc_nfwNotifyCb_def geofence_add_reply_def geofence_remove_reply_def geofence_breach_reply_def Let_def)
  show "ambient (deliver_net E d s) = ambient s" by (cases d) (simp add: deliver_net_def 1)
  show "ambient (deliver_new E g s) = ambient s" by (simp add: deliver_new_def ambient_fold 2)
qed

lemma ambient_valid [simp]:
  "ambient (snd (snd (isSubscribeTypeValid E m b s))) = ambient s" "ambient (snd (snd (subscribe_if_asked E k m s))) = ambient s"
proof -
  show 1: "ambient (snd (snd (isSubscribeTypeValid E m b s))) = ambient s" for b s
    by (simp add: isSubscribeTypeValid_def case_prod_unfold split: option.split)
  show "ambient (snd (snd (subscribe_if_asked E k m s))) = ambient s"
    by (simp add: subscribe_if_asked_def Let_def case_prod_unfold 1)
qed

lemma ambient_streams [simp]:
  "ambient (getNmeaData E m s) = ambient s" "ambient (getGpsSatelliteData E m s) = ambient s"
  "ambient (getNfwNotifications E m s) = ambient s" "ambient (getGpsStatus E m s) = ambient s"
  "ambient (getTimeToFirstFix E m s) = ambient s" "ambient (getGpsDebugData E m s) = ambient s"
  by (simp_all add: getNmeaData_def getGpsSatelliteData_def getNfwNotifications_def getGpsStatus_def getTimeToFirstFix_def
      getGpsDebugData_def Let_def case_prod_unfold split: option.split)

lemma ambient_control [simp]:
  "ambient (stopGpsEngine E s) = ambient s" "ambient (setGPSParameters E m s) = ambient s"
  "ambient (upd_mocks f s) = ambient s" "ambient (exitLocation E m s) = ambient s"
  "ambient (stopGPS_method E m s) = ambient s" "ambient (sendExtraCommand E m s) = ambient s"
  by (simp_all add: stopGpsEngine_def setGPSParameters_def upd_mocks_def exitLocation_def stopGPS_method_def
      sendExtraCommand_def Let_def case_prod_unfold split: option.split)

lemma ambient_resume [simp]: "ambient (resumeGpsEngine E s) = ambient s"
  by (simp add: resumeGpsEngine_def resume_if_listed_def Let_def)

lemma ambient_handlers [simp]:
  "ambient (getLocationHandlerDetails E m s) = ambient s" "ambient (getAllLocationHandlers E m s) = ambient s"
  "ambient (getState E m s) = ambient s" "ambient (getNetworkProvider E m s) = ambient s"
  "ambient (setNetworkProvider E m s) = ambient s"
  by (simp_all add: getLocationHandlerDetails_def getAllLocationHandlers_def getState_def getNetworkProvider_def
      setNetworkProvider_def Let_def case_prod_unfold split: option.split)

lemma ambient_switch [simp]:
  "ambient (replyErrorToGpsNwReq E h s) = ambient s" "ambient (switch_handler E n k b s) = ambient s"
proof -
  show 1: "ambient (replyErrorToGpsNwReq E h s) = ambient s" for h s
    by (cases h) (simp_all add: replyErrorToGpsNwReq_def reply_if_filled_def Let_def)
  have "ambient (switch_gps E k b s) = ambient s" "ambient (switch_network E k b s) = ambient s"
    by (simp_all add: switch_gps_def switch_network_def publish_state_def Let_def 1)
  then show "ambient (switch_handler E n k b s) = ambient s" by (simp add: switch_handler_def Let_def 1)
qed

lemma ambient_setState [simp]: "ambient (setState E m s) = ambient s"
  by (simp add: setState_def Let_def case_prod_unfold split: option.split)

lemma ambient_geofence [simp]:
  "ambient (addGeofenceArea E m s) = ambient s" "ambient (removeGeofenceArea E m s) = ambient s"
  "ambient (cancel_geofence E m s) = ambient s"
  by (simp_all add: addGeofenceArea_def removeGeofenceArea_def cancel_geofence_def Let_def case_prod_unfold split: option.split)

lemma ambient_stop [simp]:
  "ambient (getLocRequestStopSubscription E m s) = ambient s" "ambient (cancelSubscription E m s) = ambient s"
  "ambient (svc_cancel E m s) = ambient s" "ambient (timed_out E m k x s) = ambient s"
  "ambient (TimerCallbackLocationUpdate E t s) = ambient s"
proof -
  show 1: "ambient (getLocRequestStopSubscription E m s) = ambient s" for m s
    by (simp add: getLocRequestStopSubscription_def Let_def)
  show 2: "ambient (cancelSubscription E m s) = ambient s"
    by (simp add: cancelSubscription_def Let_def 1)
  show "ambient (svc_cancel E m s) = ambient s" by (simp add: svc_cancel_def Let_def 2)
  show 3: "ambient (timed_out E m k x s) = ambient s" for m k x s by (simp add: timed_out_def)
  show "ambient (TimerCallbackLocationUpdate E t s) = ambient s"
    by (simp add: TimerCallbackLocationUpdate_def Let_def 1 ambient_fold 3 split: option.split)
qed

lemma ambient_start [simp]:
  "ambient (snd (nw_position_request E s)) = ambient s" "ambient (start_providers E m b s) = ambient s"
  "ambient (accept_request E m h r w k b s) = ambient s"
proof -
  show 1: "ambient (snd (nw_position_request E s)) = ambient s" for s
    by (simp add: nw_position_request_def Let_def case_prod_unfold ambient_fold)
  show 2: "ambient (start_providers E m b s) = ambient s" for s
    by (simp add: start_providers_def Let_def case_prod_unfold 1)
  have "ambient (snd (register_request E m h r k s)) = ambient s"
    by (simp add: register_request_def Let_def case_prod_unfold)
  then show "ambient (accept_request E m h r w k b s) = ambient s"
    by (simp add: accept_request_def Let_def case_prod_unfold 2)
qed

abbreviation keeps_ambient :: "('c, 'j) LocationService \<Rightarrow> ('c, 'j) LocationService option \<Rightarrow> bool" where
  "keeps_ambient s \<equiv> opt_all (\<lambda>t. ambient t = ambient s)"

lemma ambient_updates_method: "keeps_ambient s (getLocationUpdates E m s)"
  by (simp add: getLocationUpdates_def Let_def case_prod_unfold opt_all_def split: option.split)

lemma ambient_cached: "keeps_ambient s (getCachedPosition E m s)"
  by (simp add: getCachedPosition_def Let_def case_prod_unfold opt_all_def split: option.split)

lemma ambient_lbs:
  "lbs_prepare E k m s = Inl t \<Longrightarrow> ambient t = ambient s" "lbs_prepare E k m s = Inr (p, t) \<Longrightarrow> ambient t = ambient s"
  "ambient (lbs_query E f d m s) = ambient s"
proof -
  have "ambient (case lbs_prepare E k m s of Inl t \<Rightarrow> t | Inr x \<Rightarrow> snd x) = ambient s"
    by (simp add: lbs_prepare_def Let_def case_prod_unfold split: option.split)
  then show "lbs_prepare E k m s = Inl t \<Longrightarrow> ambient t = ambient s" "lbs_prepare E k m s = Inr (p, t) \<Longrightarrow> ambient t = ambient s"
    by simp_all
  show "ambient (lbs_query E f d m s) = ambient s" by (simp add: lbs_query_def Let_def case_prod_unfold)
qed

lemma ambient_geocoding: "keeps_ambient s (getReverseLocation E m s)" "keeps_ambient s (getGeoCodeLocation E m s)"
  by (auto simp: getReverseLocation_def getGeoCodeLocation_def opt_all_def ambient_lbs(3) dest: ambient_lbs(1,2)
      split: sum.split option.split prod.split)

lemma ambient_http: "keeps_ambient s (svc_http_response E i task s)"
  by (auto simp: svc_http_response_def geocodingReply_def Let_def opt_all_def split: option.split prod.split)

lemma ambient_mock: "keeps_ambient s (setMockLocationState E b m s)" "keeps_ambient s (setMockLocation E m s)"
  by (simp add: setMockLocationState_def Let_def case_prod_unfold opt_all_def split: option.split)
    (auto simp: setMockLocation_def Let_def case_prod_unfold opt_all_def split: option.split)

lemma ambient_call: "keeps_ambient s (call_method cat E m s)"
proof -
  have "keeps_ambient s (h E m s)" if "(k, h) \<in> set (methods cat)" for k h
    using that
    by (cases cat) (auto simp: rootMethod_def geofenceMethod_def mockMethod_def always_def ambient_updates_method
        ambient_cached ambient_geocoding ambient_mock)
  then show ?thesis
    using map_of_SomeD by (fastforce simp: call_method_def split: option.split)
qed

subsection \<open>Runs\<close>

text \<open>An event that does not bring a status: every one but the watcher's and the provider's own.\<close>

definition brings_status :: "('c, 'j) svc_event \<Rightarrow> bool" where
  "brings_status e = (case e of SWatch E w \<Rightarrow> True | SNet E n \<Rightarrow> sets_status n | _ \<Rightarrow> False)"

lemma ambient_step:
  assumes "\<not> brings_status e"
  shows "keeps_ambient s (svc_step e s)"
proof (cases e)
  case (SNet E n)
  then have "net_step n (mNetworkProvider s) = Some t \<Longrightarrow> ambient (s\<lparr>mNetworkProvider := t\<rparr>) = ambient s" for t
    using assms statuses_step [of n "mNetworkProvider s" t] by (simp add: brings_status_def)
  then show ?thesis using SNet by (auto simp: svc_net_def opt_all_def ambient_fold split: option.split)
next
  case (SGps E g)
  then show ?thesis by (auto simp: svc_gps_def opt_all_def split: option.split)
qed (use assms in \<open>auto simp: brings_status_def opt_all_def[symmetric] ambient_call ambient_http\<close>)

subsection \<open>The listeners of the connection watcher\<close>

definition listeners_agree :: "('c, 'j) LocationService \<Rightarrow> bool" where
  "listeners_agree s \<longleftrightarrow> wifistate s = mwifiStatus (mNetworkProvider s)
    \<and> isInternetConnectionAvailable s = mConnectivityStatus (mNetworkProvider s)
    \<and> isTelephonyAvailable s = mtelephonyPowerd (mNetworkProvider s)"

lemma resume_listeners:
  "listeners_agree (resumeGpsEngine E s) = listeners_agree s"
  by (simp add: resumeGpsEngine_def Let_def resume_if_listed_def gps_request_def case_prod_unfold listeners_agree_def)

lemma notify_agree: "listeners_agree s \<Longrightarrow> listeners_agree (notify_listeners E n s)"
proof (cases n)
  case Notify_KernelResume
  then show "listeners_agree s \<Longrightarrow> ?thesis" using resume_listeners [of E s] by (simp add: notify_listeners_def)
qed (auto simp: notify_listeners_def listeners_agree_def np_Handle_WifiNotification_def np_Handle_ConnectivityNotification_def
    np_Handle_TelephonyNotification_def Let_def)

lemma notify_all_agree: "listeners_agree s \<Longrightarrow> listeners_agree (notify_all E ns s)"
  unfolding notify_all_def by (induction ns arbitrary: s) (simp_all add: notify_agree)

text \<open>
  Only the watcher brings statuses to the network provider, which has no source of its own for them;
  the provider's machine lets them arrive at any time, a run of the service does not.
\<close>

definition watched_only :: "('c, 'j) svc_event \<Rightarrow> bool" where
  "watched_only e = (case e of SNet E n \<Rightarrow> \<not> sets_status n | _ \<Rightarrow> True)"

lemma ambient_agree: "ambient t = ambient s \<Longrightarrow> listeners_agree t = listeners_agree s"
  by (simp add: ambient_def statuses_def listeners_agree_def)

interpretation watch_inv: step_invariant svc_ostep "opt_all listeners_agree" watched_only
proof
  fix e :: "('c, 'j) svc_event" and os :: "('c, 'j) LocationService option"
  assume a: "opt_all listeners_agree os" "watched_only e"
  show "opt_all listeners_agree (svc_ostep e os)"
  proof (cases "brings_status e")
    case True
    then obtain E w where "e = SWatch E w" using a(2) by (cases e) (auto simp: brings_status_def watched_only_def)
    then show ?thesis using a(1) by (cases os; cases w) (auto simp: observe_def notify_all_agree opt_all_def split: option.split)
  next
    case False
    then show ?thesis
    proof (cases os)
      case (Some s)
      have "keeps_ambient s (svc_step e s)" by (rule ambient_step [OF False])
      then show ?thesis using a(1) Some ambient_agree [of _ s] by (cases "svc_step e s") auto
    qed simp
  qed
qed

text \<open>
  C25: in every run of the service, whatever its clients, its providers and its timers do, the service
  and the network provider have the same view of wifi, connectivity and telephony.
\<close>

theorem watcher_keeps_listeners_agreed:
  assumes "list_all watched_only es" and "svc_run es (svc_init E c cfg) = Some s"
  shows "listeners_agree s"
proof -
  have "listeners_agree (svc_init E c cfg)"
    by (simp add: listeners_agree_def svc_init_def svc_new_def Let_def np_setCallback_def np_enable_def np_init_def)
  then have "opt_all listeners_agree (fold svc_ostep es (Some (svc_init E c cfg)))"
    by (intro watch_inv.run_good [OF _ assms(1)]) simp
  then show ?thesis using assms(2) by (simp add: svc_run_def)
qed

lemma svc_demo_start_idle: "svc_idle svc_demo_start = []"
  by (simp add: svc_demo_start_def)

theorem watcher_keeps_listeners_agreed_witness:
  "\<exists>s. svc_run [SWatch svc_demo (ConnectivityStatus ''online''), SIdle svc_demo] svc_demo_start = Some s
    \<and> isInternetConnectionAvailable s \<and> mConnectivityStatus (mNetworkProvider s)"
proof -
  obtain s where s: "svc_run [SWatch svc_demo (ConnectivityStatus ''online''), SIdle svc_demo] svc_demo_start = Some s"
    and i: "isInternetConnectionAvailable s"
    by (simp add: observe_def connectivity_status_cb_def Let_def json_api_def connectivity_notify_def notify_all_def
        notify_listeners_def svc_idle_step_def svc_demo_start_idle)
  have "listeners_agree s"
    by (rule watcher_keeps_listeners_agreed [OF _ s [unfolded svc_demo_start_def]]) (simp add: watched_only_def)
  then show ?thesis using s i by (simp add: listeners_agree_def)
qed

subsection \<open>The suspend blocker\<close>

lemma notify_monitor: "m_lifeCycleMonitor (notify_all E ns s) = m_lifeCycleMonitor s" if "m_lifeCycleMonitor s = None"
proof -
  have "m_lifeCycleMonitor (notify_listeners E n s) = None" if "m_lifeCycleMonitor s = None" for n and s :: "('a, 'b) LocationService"
  proof (cases n)
    case Notify_KernelResume
    then show ?thesis using ambient_resume [of E s] that by (simp add: notify_listeners_def Let_def ambient_def)
  qed (use that in \<open>simp_all add: notify_listeners_def Let_def\<close>)
  then show ?thesis using that unfolding notify_all_def by (induction ns arbitrary: s) simp_all
qed

interpretation no_monitor: step_invariant svc_ostep "opt_all (\<lambda>s. m_lifeCycleMonitor s = None)" "\<lambda>_. True"
proof
  fix e :: "('c, 'j) svc_event" and os :: "('c, 'j) LocationService option"
  assume a: "opt_all (\<lambda>s. m_lifeCycleMonitor s = None) os"
  have net: "m_lifeCycleMonitor t = None" if "svc_net E n s = Some t" "m_lifeCycleMonitor s = None" for E n s and t :: "('c, 'j) LocationService"
  proof -
    obtain u cs where "t = fold (deliver_net E) cs (s\<lparr>mNetworkProvider := u\<rparr>)" using \<open>svc_net E n s = Some t\<close>
      by (auto simp: svc_net_def split: option.splits)
    then have "ambient t = ambient (s\<lparr>mNetworkProvider := u\<rparr>)" by (simp add: ambient_fold)
    then show ?thesis using that(2) by (simp add: ambient_def)
  qed
  have "opt_all (\<lambda>s. m_lifeCycleMonitor s = None) (svc_step e s)" if "m_lifeCycleMonitor s = None" for s
  proof (cases "brings_status e")
    case True
    then show ?thesis using that net notify_monitor [OF that]
      by (cases e) (auto simp: brings_status_def observe_def opt_all_def split: option.split watched.split)
  next
    case False
    then show ?thesis using ambient_step [OF False, of s] that by (auto simp: opt_all_def ambient_def split: option.splits)
  qed
  then show "opt_all (\<lambda>s. m_lifeCycleMonitor s = None) (svc_ostep e os)" using a by (cases os) simp_all
qed

text \<open>
  C39: no run makes a life-cycle monitor, the suspend blocker switched on or not, so a client that asks
  for a wake lock never gets one: the monitor is only made at the start, when the blocker is off.
\<close>

theorem no_wakelock_is_ever_taken:
  assumes "svc_run es (svc_init E c cfg) = Some s"
  shows "m_lifeCycleMonitor s = None"
proof -
  have "m_lifeCycleMonitor (svc_init E c cfg) = None" by (simp add: svc_init_def svc_new_def Let_def)
  then have "opt_all (\<lambda>s. m_lifeCycleMonitor s = None) (fold svc_ostep es (Some (svc_init E c cfg)))"
    by (intro no_monitor.run_good) (simp_all add: list_all_iff)
  then show ?thesis using assms by (simp add: svc_run_def)
qed

definition demo_blocker :: "(string \<Rightarrow> LSMessage list, json) svc_env" where
  "demo_blocker = svc_demo\<lparr>se_net := net_demo\<lparr>ne_json := json_api [(''on'', JObj [(''command'', JStr ''enable_suspend_blocker'')])]\<rparr>\<rparr>"

theorem no_wakelock_is_ever_taken_witness:
  "\<exists>s. svc_run [SCall demo_blocker ROOT_CATEGORY (demo_msg 1 ''sendExtraCommand'' ''on'' False)] svc_demo_start = Some s
    \<and> m_enableSuspendBlocker s \<and> m_lifeCycleMonitor s = None"
proof -
  obtain s where s: "svc_run [SCall demo_blocker ROOT_CATEGORY (demo_msg 1 ''sendExtraCommand'' ''on'' False)] svc_demo_start = Some s"
    and b: "m_enableSuspendBlocker s"
    by (simp add: stale_call_def svc_demo_start_def call_method_def rootMethod_def always_def sendExtraCommand_def
        LSMessageValidateSchemaReplyOnError_def demo_blocker_def json_api_def get_str_def reply_fields_def LSMessageReply_def)
  then show ?thesis using no_wakelock_is_ever_taken [OF s [unfolded svc_demo_start_def]] by blast
qed

end
