(* ===== verification/Schema_Claims.thy ===== *)
theory Schema_Claims
  imports Schemas Service_Ambient "HOL-Library.Sublist"
begin

text \<open>
  What the schemas give the methods: no call the bus accepts runs into undefined behaviour, every
  method that can answers at once, and a geofence the receiver is asked for is on the globe.
\<close>

subsection \<open>Validated payloads\<close>

lemma validated:
  assumes "LSMessageValidateSchemaReplyOnError E m name s = (Some p, t)"
  shows "p = jdom_parse (sj E) name (msg_payload m)" "\<not> jis_null (sj E) (jdom_parse (sj E) name (msg_payload m))" "t = s"
  using assms by (auto simp: LSMessageValidateSchemaReplyOnError_def Let_def split: if_splits)

lemma schema_tables [simp]:
  "prop_of ''JSCEHMA_GET_LOCATION_UPDATES'' ''Handler'' = Some (ENUM_PROP [GPS, NETWORK, PASSIVE, HYBRID])"
  "prop_of ''JSCHEMA_GET_CACHED_POSITION'' ''Handler'' = Some (ENUM_PROP [GPS, NETWORK, PASSIVE, HYBRID])"
  "prop_of ''JSCHEMA_SET_STATE'' ''Handler'' = Some (ENUM_PROP [GPS, NETWORK, PASSIVE, HYBRID])"
  "requires ''JSCHEMA_SET_STATE'' ''Handler''"
  "prop_of ''JSCHEMA_GET_GOOGLE_GEOCODE_LOCATION'' ''address'' = Some (PROP_OF T_string)"
  "prop_of ''MOCK_STATE_SCHEMA'' ''name'' = Some (ENUM_PROP [''gps'', ''network''])"
  "prop_of ''JSCHEMA_SEND_EXTRA_COMMAND'' ''command'' = Some (PROP_OF T_string)"
  "requires ''JSCHEMA_SEND_EXTRA_COMMAND'' ''command''"
  "prop_of ''JSCHEMA_ADD_GEOFENCE_AREA'' ''latitude'' = Some (PROP_WITH_OPT T_number [Minimum (-90), Maximum 90])"
  "prop_of ''JSCHEMA_ADD_GEOFENCE_AREA'' ''longitude'' = Some (PROP_WITH_OPT T_number [Minimum (-180), Maximum 180])"
  "prop_of ''JSCHEMA_ADD_GEOFENCE_AREA'' ''radius'' = Some (PROP_WITH_OPT T_number [Minimum 0, ExclusiveMinimum True])"
  "requires ''JSCHEMA_ADD_GEOFENCE_AREA'' ''latitude''" "requires ''JSCHEMA_ADD_GEOFENCE_AREA'' ''longitude''"
  "requires ''JSCHEMA_ADD_GEOFENCE_AREA'' ''radius''"
  by (simp_all add: prop_of_def requires_def schema_of_def JSCEHMA_GET_LOCATION_UPDATES_def JSCHEMA_GET_CACHED_POSITION_def
      JSCHEMA_SET_STATE_def JSCHEMA_GET_GOOGLE_GEOCODE_LOCATION_def MOCK_STATE_SCHEMA_def JSCHEMA_SEND_EXTRA_COMMAND_def
      JSCHEMA_ADD_GEOFENCE_AREA_def)

context json_tree
begin

lemma enum_named:
  assumes "prop_of name k = Some (ENUM_PROP es)"
    and "\<not> jis_null J (jdom_parse J name p)" and "jobject_get_exists J (jdom_parse J name p) k = Some v"
  shows "\<exists>s \<in> set es. jstring_get J v = Some s"
  by (rule enum_conforms, rule valid_field(2) [OF assms])

lemma text_given:
  assumes "prop_of name k = Some (PROP_OF T_string)"
    and "\<not> jis_null J (jdom_parse J name p)" and "jobject_get_exists J (jdom_parse J name p) k = Some v"
  shows "jstring_get J v \<noteq> None"
  by (rule string_conforms, rule valid_field(2) [OF assms])

lemma required_enum:
  assumes "prop_of name k = Some (ENUM_PROP es)" and "requires name k" and "\<not> jis_null J (jdom_parse J name p)"
  shows "\<exists>s \<in> set es. get_str J (jdom_parse J name p) k x = Some s"
  using valid_field(1) [OF assms(1,3,2)] enum_named [OF assms(1,3)] by (auto simp: get_str_def)

lemma required_text:
  assumes "prop_of name k = Some (PROP_OF T_string)" and "requires name k" and "\<not> jis_null J (jdom_parse J name p)"
  shows "get_str J (jdom_parse J name p) k x \<noteq> None"
  using valid_field(1) [OF assms(1,3,2)] text_given [OF assms(1,3)] by (auto simp: get_str_def)

lemma number_in_range:
  assumes "prop_of name k = Some (PROP_WITH_OPT t opts)" and "requires name k" and "\<not> jis_null J (jdom_parse J name p)"
  shows "list_all (num_holds opts (get_f64 J (jdom_parse J name p) k y)) opts"
proof -
  obtain v where v: "jobject_get_exists J (jdom_parse J name p) k = Some v"
    using valid_field(1) [OF assms(1,3,2)] by blast
  have "conforms (PROP_WITH_OPT t opts) (tree v)" by (rule valid_field(2) [OF assms(1,3) v])
  then obtain x where "jnumber_get_f64 J v y = (True, x)" "list_all (num_holds opts x) opts" using range_conforms by blast
  then show ?thesis by (simp add: get_f64_def v)
qed

end

subsection \<open>No undefined behaviour\<close>

lemma updates_defined:
  assumes "json_tree (sj E) tree"
  shows "getLocationUpdates E m s \<noteq> None"
proof (cases "LSMessageValidateSchemaReplyOnError E m ''JSCEHMA_GET_LOCATION_UPDATES'' s")
  case (Pair p t)
  show ?thesis
  proof (cases p)
    case (Some j)
    have "\<exists>h. jstring_get (sj E) v = Some h" if "jobject_get_exists (sj E) j ''Handler'' = Some v" for v
      using json_tree.enum_named [OF assms schema_tables(1) validated(2) [OF Pair [unfolded Some]]] that
        validated(1) [OF Pair [unfolded Some]] by blast
    then show ?thesis
      by (cases "jobject_get_exists (sj E) j ''Handler''")
        (auto simp: getLocationUpdates_def Pair Some Let_def case_prod_unfold)
  qed (simp add: getLocationUpdates_def Pair)
qed

lemma cached_defined:
  assumes "json_tree (sj E) tree"
  shows "getCachedPosition E m s \<noteq> None"
proof (cases "LSMessageValidateSchemaReplyOnError E m ''JSCHEMA_GET_CACHED_POSITION'' s")
  case (Pair p t)
  show ?thesis
  proof (cases p)
    case (Some j)
    have "\<exists>h. jstring_get (sj E) v = Some h" if "jobject_get_exists (sj E) j ''Handler'' = Some v" for v
      using json_tree.enum_named [OF assms schema_tables(2) validated(2) [OF Pair [unfolded Some]]] that
        validated(1) [OF Pair [unfolded Some]] by blast
    then show ?thesis
      by (cases "jobject_get_exists (sj E) j ''Handler''")
        (auto simp: getCachedPosition_def Pair Some Let_def case_prod_unfold)
  qed (simp add: getCachedPosition_def Pair)
qed

lemma geocode_defined:
  assumes "json_tree (sj E) tree"
  shows "getGeoCodeLocation E m s \<noteq> None"
proof (cases "lbs_prepare E ''JSCHEMA_GET_GOOGLE_GEOCODE_LOCATION'' m s")
  case (Inr r)
  obtain j t where r: "r = (j, t)" by fastforce
  have j: "j = jdom_parse (sj E) ''JSCHEMA_GET_GOOGLE_GEOCODE_LOCATION'' (msg_payload m)" "\<not> jis_null (sj E) j"
    using Inr by (auto simp: r lbs_prepare_def Let_def LSMessageValidateSchemaReplyOnError_def case_prod_unfold split: if_splits)
  have "jstring_get (sj E) v \<noteq> None" if "jobject_get_exists (sj E) j ''address'' = Some v" for v
    using json_tree.text_given [OF assms, of "''JSCHEMA_GET_GOOGLE_GEOCODE_LOCATION''" "''address''"] j that
    by auto
  then have "geocode_address (sj E) j \<noteq> None" by (auto simp: geocode_address_def split: option.split)
  then show ?thesis by (auto simp: getGeoCodeLocation_def Inr r)
qed (simp add: getGeoCodeLocation_def)

lemma mock_state_defined:
  assumes "json_tree (sj E) tree"
  shows "setMockLocationState E b m s \<noteq> None"
proof (cases "LSMessageValidateSchemaReplyOnError E m ''MOCK_STATE_SCHEMA'' s")
  case (Pair p t)
  show ?thesis
  proof (cases p)
    case (Some j)
    have "\<exists>h. jstring_get (sj E) v = Some h" if "jobject_get_exists (sj E) j ''name'' = Some v" for v
      using json_tree.enum_named [OF assms schema_tables(6) validated(2) [OF Pair [unfolded Some]]] that
        validated(1) [OF Pair [unfolded Some]] by blast
    then show ?thesis
      by (cases "jobject_get_exists (sj E) j ''name''") (auto simp: setMockLocationState_def Pair Some Let_def)
  qed (simp add: setMockLocationState_def Pair)
qed

text \<open>
  C4: no method of any category runs into undefined behaviour, whatever is sent to it: what passes its
  schema has strings where the code takes their pointers. Injecting a mock location is not a question of
  the payload and is left to the mock's own properties.
\<close>

theorem methods_are_defined:
  assumes "json_tree (sj E) tree" and "msg_method m \<noteq> ''setLocation''"
  shows "call_method cat E m s \<noteq> None"
proof -
  note d = updates_defined [OF assms(1)] cached_defined [OF assms(1)] geocode_defined [OF assms(1)] mock_state_defined [OF assms(1)]
  have r: "getReverseLocation E m s \<noteq> None" by (simp add: getReverseLocation_def split: sum.split prod.split)
  have "h E m s \<noteq> None" if "map_of (methods cat) (msg_method m) = Some h" for h
    using map_of_SomeD [OF that] assms(2)
    by (cases cat) (auto simp: rootMethod_def geofenceMethod_def mockMethod_def always_def d [unfolded not_None_eq] r [unfolded not_None_eq])
  then show ?thesis by (auto simp: call_method_def split: option.split)
qed

subsection \<open>Answers\<close>

definition answered :: "LSMessage \<Rightarrow> ('c, 'j) LocationService \<Rightarrow> ('c, 'j) LocationService \<Rightarrow> bool" where
  "answered m s t \<longleftrightarrow> (\<exists>rs. rs \<noteq> [] \<and> replies_to (msg_id m) t = replies_to (msg_id m) s @ rs)"

text \<open>Replies are only ever added.\<close>

abbreviation more_replies :: "('c, 'j) LocationService \<Rightarrow> ('c, 'j) LocationService \<Rightarrow> bool" where
  "more_replies s t \<equiv> prefix (svc_replies s) (svc_replies t)"

lemma more_replies_fold: "(\<And>x s. more_replies s (f x s)) \<Longrightarrow> more_replies s (fold f xs s)"
  by (induction xs arbitrary: s) (auto intro: prefix_order.trans)

lemma answered_more: "answered m s t \<Longrightarrow> more_replies t u \<Longrightarrow> answered m s u"
  by (auto simp: answered_def replies_to_def prefix_def)

lemma more_answered: "more_replies s t \<Longrightarrow> answered m t u \<Longrightarrow> answered m s u"
  by (auto simp: answered_def replies_to_def prefix_def)

lemma answered_replies: "svc_replies s = svc_replies s' \<Longrightarrow> answered m s t = answered m s' t"
  by (simp add: answered_def replies_to_def)

lemma replied [simp]: "answered m s (LSMessageReply m p s)" "answered m s (reply_fields m fs s)"
  "answered m s (LSMessageReplyError m (loc_error_num e) s)" "answered m s (LSMessageReplyCustomError m (loc_error_num e) s)"
  "answered m s (LSMessageReplySubscriptionSuccess m s)"
proof -
  show 1: "answered m s (LSMessageReply m p s)" for p by (simp add: answered_def replies_to_def LSMessageReply_def)
  show "answered m s (reply_fields m fs s)" "answered m s (LSMessageReplySubscriptionSuccess m s)"
    by (simp_all add: reply_fields_def LSMessageReplySubscriptionSuccess_def 1)
  have "\<not> (loc_error_num e < 0 \<or> loc_error_num e \<ge> LOCATION_ERROR_MAX)" using loc_error_num_range [of e] by auto
  then show "answered m s (LSMessageReplyError m (loc_error_num e) s)" "answered m s (LSMessageReplyCustomError m (loc_error_num e) s)"
    by (simp_all only: LSMessageReplyError_def LSMessageReplyCustomError_def if_False 1)
qed

lemma invalid_answered:
  "LSMessageValidateSchemaReplyOnError E m name s = (None, t) \<Longrightarrow> answered m s t"
  by (auto simp: LSMessageValidateSchemaReplyOnError_def Let_def split: if_splits)

text \<open>The methods that answer their caller before they return.\<close>

primrec answering :: "category \<Rightarrow> string list" where
  "answering ROOT_CATEGORY =
    [''getAllLocationHandlers'', ''getGpsStatus'', ''setState'', ''getState'', ''getNetworkProvider'', ''setNetworkProvider'',
     ''getLocationHandlerDetails'', ''getTimeToFirstFix'', ''getGpsDebugData'', ''getNfwNotifications'', ''getCachedPosition'',
     ''sendExtraCommand'', ''stopGPS'', ''exitLocation'', ''setGPSParameters'']"
| "answering GEOFENCE_CATEGORY = []"
| "answering MOCK_CATEGORY = [''enable'', ''disable'']"

lemma same_replies [simp]:
  "svc_replies (snd (nw_request E r s)) = svc_replies s" "svc_replies (stopSubcription E k s) = svc_replies s"
  "svc_replies (release_wakelock E m s) = svc_replies s" "svc_replies (force_release E s) = svc_replies s"
  "svc_replies (subs_remove E k m s) = svc_replies s" "svc_replies (snd (subs_add E k m s)) = svc_replies s"
  by (simp_all add: nw_request_def stopSubcription_def release_wakelock_def force_release_def subs_remove_def subs_add_def
      Let_def case_prod_unfold)

lemma one_reply [simp]: "svc_replies (LSMessageReply m p s) = svc_replies s @ [(msg_id m, p)]"
  by (simp add: LSMessageReply_def)

lemma more_errors: "more_replies s (LSMessageReplyError m c s)" "more_replies s (LSMessageReplyCustomError m c s)"
  by (simp_all add: LSMessageReplyError_def LSMessageReplyCustomError_def)

lemma more_lists:
  "more_replies s (reply_loc E None None k p m s)" "more_replies s (LSSubscriptionReply E k p s)" "more_replies s (reply_and_drop E k p m s)"
proof -
  show "more_replies s (reply_loc E None None k p m s)" by (simp add: reply_loc_def reply_case_effect(1))
  show "more_replies s (LSSubscriptionReply E k p s)" unfolding LSSubscriptionReply_def by (rule more_replies_fold) simp
  show "more_replies s (reply_and_drop E k p m s)" by (simp add: reply_and_drop_def Let_def)
qed

lemma more_lists2:
  "more_replies s (LSSubNonSubReplyLocUpdateCase E None None k p s)" "more_replies s (LSSubscriptionNonSubscriptionReply E k p s)"
proof -
  have 1: "more_replies s (fold (reply_loc E None None k p) ms s)" "more_replies s (fold (reply_and_drop E k p) ms s)" for k ms
    by (rule more_replies_fold, rule more_lists)+
  show "more_replies s (LSSubNonSubReplyLocUpdateCase E None None k p s)"
    by (simp add: LSSubNonSubReplyLocUpdateCase_def Let_def 1 split: option.split)
  show "more_replies s (LSSubscriptionNonSubscriptionReply E k p s)"
    by (simp add: LSSubscriptionNonSubscriptionReply_def Let_def 1 split: option.split)
qed

lemma more_switch:
  "more_replies s (replyErrorToGpsNwReq E h s)" "more_replies s (publish_state E k b s)" "more_replies s (switch_handler E n k b s)"
proof -
  have f: "more_replies s t \<Longrightarrow> (\<And>u. more_replies u (f u)) \<Longrightarrow> more_replies s (reply_if_filled E k f t)" for k f s t
    by (auto simp: reply_if_filled_def intro: prefix_order.trans)
  show 1: "more_replies s (replyErrorToGpsNwReq E h s)" for h s
    by (cases h) (simp_all add: replyErrorToGpsNwReq_def Let_def f more_lists2)
  show 2: "more_replies s (publish_state E k b s)" for k b s
    unfolding publish_state_def by (rule prefix_order.trans) (rule more_lists(2))+
  have 3: "more_replies s (replyErrorToGpsNwReq E h t)" if "more_replies s t" for s t h
    using that 1 by (rule prefix_order.trans)
  have "more_replies s (switch_gps E k b s)" "more_replies s (switch_network E k b s)"
    using 2 [of "s\<lparr>mGpsStatus := b\<rparr>" k b] 2 [of "s\<lparr>mNwStatus := b\<rparr>" k b]
    by (cases b; simp add: switch_gps_def switch_network_def Let_def 3)+
  then show "more_replies s (switch_handler E n k b s)" by (simp add: switch_handler_def Let_def 3)
qed

lemma more_subscribe:
  "more_replies s (snd (snd (isSubscribeTypeValid E m b s)))" "more_replies s (snd (snd (subscribe_if_asked E k m s)))"
  "\<not> fst (subscribe_if_asked E k m s) \<Longrightarrow> answered m s (snd (snd (subscribe_if_asked E k m s)))"
proof -
  show 1: "more_replies s (snd (snd (isSubscribeTypeValid E m b s)))" for b
    by (auto simp: isSubscribeTypeValid_def LSMessageValidateSchemaReplyOnError_def Let_def more_errors split: option.split)
  let ?t = "snd (subs_add E k m (snd (snd (isSubscribeTypeValid E m False s))))"
  have 2: "more_replies s ?t" using 1 by simp
  show "more_replies s (snd (snd (subscribe_if_asked E k m s)))"
    using 1 [of False] prefix_order.trans [OF 2 more_errors(1)] by (simp add: subscribe_if_asked_def Let_def case_prod_unfold)
  show "answered m s (snd (snd (subscribe_if_asked E k m s)))" if "\<not> fst (subscribe_if_asked E k m s)"
    using that more_answered [OF 2 replied(3)] by (auto simp: subscribe_if_asked_def Let_def case_prod_unfold split: if_splits)
qed

lemma answered_updates [simp]:
  "answered m s (t\<lparr>mGPSProvider := g\<rparr>) = answered m s t" "answered m s (t\<lparr>mMainLoop_running := b\<rparr>) = answered m s t"
  by (simp_all add: answered_def replies_to_def)

text \<open>Answering from a state that has at least the replies of the first.\<close>

lemma reply_later:
  assumes "more_replies s t"
  shows "answered m s (LSMessageReply m p t)" "answered m s (reply_fields m fs t)"
    "answered m s (LSMessageReplyError m (loc_error_num e) t)" "answered m s (LSMessageReplySubscriptionSuccess m t)"
  using more_answered [OF assms] replied by blast+

lemma validate_cases:
  "LSMessageValidateSchemaReplyOnError E m n s =
    (if jis_null (sj E) (jdom_parse (sj E) n (msg_payload m)) then (None, LSMessageReplyCustomError m (loc_error_num LOCATION_INVALID_INPUT) s)
     else (Some (jdom_parse (sj E) n (msg_payload m)), s))"
  by (simp add: LSMessageValidateSchemaReplyOnError_def Let_def)

lemma streams_answer:
  "answered m s (getNfwNotifications E m s)" "answered m s (getTimeToFirstFix E m s)" "answered m s (getGpsDebugData E m s)"
  "answered m s (stopGPS_method E m s)" "answered m s (setGPSParameters E m s)" "answered m s (exitLocation E m s)"
  "answered m s (getLocationHandlerDetails E m s)"
  by (simp_all add: getNfwNotifications_def getTimeToFirstFix_def getGpsDebugData_def stopGPS_method_def setGPSParameters_def
      exitLocation_def stopGpsEngine_def upd_mocks_def getLocationHandlerDetails_def validate_cases Let_def case_prod_unfold
      reply_later split: option.split)

lemma subscribers_answer:
  "answered m s (getGpsStatus E m s)" "answered m s (getAllLocationHandlers E m s)" "answered m s (getNetworkProvider E m s)"
  "answered m s (getState E m s)"
proof -
  let ?u = "s\<lparr>mCachedGpsEngineStatus := (mGPSStatus (core (mGPSProvider s)) = GPS_STATUS_AVAILABLE)\<rparr>"
  have "answered m s (snd (snd (subscribe_if_asked E ''getGpsStatus'' m ?u)))" if "\<not> fst (subscribe_if_asked E ''getGpsStatus'' m ?u)"
    using more_subscribe(3) [OF that] answered_replies [of ?u s m] by simp
  moreover have "more_replies s (snd (snd (subscribe_if_asked E ''getGpsStatus'' m ?u)))"
    using more_subscribe(2) [where s = ?u] by simp
  ultimately show "answered m s (getGpsStatus E m s)"
    by (simp add: getGpsStatus_def validate_cases Let_def case_prod_unfold reply_later)
  show "answered m s (getAllLocationHandlers E m s)" "answered m s (getNetworkProvider E m s)"
    by (simp_all add: getAllLocationHandlers_def getNetworkProvider_def validate_cases Let_def case_prod_unfold reply_later more_subscribe)
  show "answered m s (getState E m s)"
    by (simp add: getState_def validate_cases Let_def case_prod_unfold reply_later more_subscribe split: option.split)
qed

lemma error_code_answers: "e \<noteq> LOCATION_SUCCESS \<Longrightarrow> more_replies s t \<Longrightarrow> answered m s (reply_code m (loc_error_num e) t)"
  using loc_error_num_inj [of e LOCATION_SUCCESS] reply_later(3) [of s t m e] by (auto simp: reply_code_def)

lemma setters_answer:
  assumes "json_tree (sj E) tree"
  shows "answered m s (setState E m s)" "answered m s (sendExtraCommand E m s)" "answered m s (setNetworkProvider E m s)"
proof -
  have "answered m s (LSSubscriptionReply E k p (LSMessageReply m q t))" if "more_replies s t" for k p q t
    by (rule answered_more [OF reply_later(1) [OF that] more_lists(2)])
  then show "answered m s (setNetworkProvider E m s)" by (simp add: setNetworkProvider_def validate_cases Let_def reply_later)
  have c: "get_str (sj E) (jdom_parse (sj E) ''JSCHEMA_SEND_EXTRA_COMMAND'' (msg_payload m)) ''command'' None \<noteq> None"
    if "\<not> jis_null (sj E) (jdom_parse (sj E) ''JSCHEMA_SEND_EXTRA_COMMAND'' (msg_payload m))"
    by (rule json_tree.required_text [OF assms schema_tables(7,8) that])
  then show "answered m s (sendExtraCommand E m s)"
    by (auto simp: sendExtraCommand_def validate_cases Let_def case_prod_unfold reply_later)
  have h: "\<exists>h. get_str (sj E) (jdom_parse (sj E) ''JSCHEMA_SET_STATE'' (msg_payload m)) ''Handler'' None = Some h"
    if "\<not> jis_null (sj E) (jdom_parse (sj E) ''JSCHEMA_SET_STATE'' (msg_payload m))"
    using json_tree.required_enum [OF assms schema_tables(3,4) that] by blast
  have k: "answered m s (switch_handler E h k b (reply_fields m [] t))" if "more_replies s t" for h k b t
    by (rule answered_more [OF reply_later(2) [OF that] more_switch(3)])
  have r: "more_replies s (reply_fields m [] t)" if "more_replies s t" for t
    using that by (simp add: reply_fields_def)
  show "answered m s (setState E m s)"
    using h by (auto simp: setState_def validate_cases Let_def error_code_answers k r split: option.split)
qed

lemma cached_answers:
  assumes "getCachedPosition E m s = Some t"
  shows "answered m s t"
  using assms by (auto simp: getCachedPosition_def validate_cases Let_def case_prod_unfold reply_later split: option.splits if_splits)

lemma mock_answers:
  assumes "setMockLocationState E b m s = Some t"
  shows "answered m s t"
  using assms
  by (auto simp: setMockLocationState_def validate_cases Let_def reply_later upd_mocks_def split: option.splits if_splits)

text \<open>
  C3: a call of a method that can answer at once is answered before the method returns, with a
  position, a value, or an error; one whose payload does not pass its schema as well.
\<close>

theorem requests_are_answered:
  assumes "json_tree (sj E) tree" and "msg_method m \<in> set (answering cat)"
  shows "\<exists>t. call_method cat E m s = Some t \<and> answered m s t"
proof -
  note a = streams_answer subscribers_answer setters_answer [OF assms(1)] cached_answers mock_answers
  note d = cached_defined [OF assms(1), unfolded not_None_eq] mock_state_defined [OF assms(1), unfolded not_None_eq]
  have m: "\<exists>t. getCachedPosition E m s = Some t \<and> answered m s t" "\<exists>t. setMockLocationState E b m s = Some t \<and> answered m s t" for b
    using d a(15,16) by blast+
  show ?thesis
    using assms(2) m
    by (cases cat) (auto simp: call_method_def rootMethod_def mockMethod_def always_def a)
qed

definition demo_valid :: "(string \<Rightarrow> LSMessage list, json) svc_env" where
  "demo_valid = svc_demo\<lparr>se_net := net_demo\<lparr>ne_json := json_checked
     [(''state'', JObj [(''Handler'', JStr ''gps''), (''state'', JBool True)]), (''no handler'', JObj [(''state'', JBool True)]),
      (''fence'', JObj [(''latitude'', JInt 1), (''longitude'', JInt 2), (''radius'', JInt 3)])]\<rparr>\<rparr>"

lemma demo_valid_tree: "json_tree (sj demo_valid) (\<lambda>j. j)"
  by (simp add: demo_valid_def checked.json_tree_axioms)

theorem methods_are_defined_witness:
  "call_method ROOT_CATEGORY demo_valid (demo_msg 1 ''setState'' ''no handler'' False) svc_demo_start \<noteq> None"
  by (rule methods_are_defined [OF demo_valid_tree]) simp

theorem requests_are_answered_witness:
  "\<exists>t. call_method ROOT_CATEGORY demo_valid (demo_msg 1 ''setState'' ''no handler'' False) svc_demo_start = Some t
    \<and> answered (demo_msg 1 ''setState'' ''no handler'' False) svc_demo_start t"
  by (rule requests_are_answered [OF demo_valid_tree]) simp

subsection \<open>Geofences are on the globe\<close>

definition on_globe :: "nyx_call \<Rightarrow> bool" where
  "on_globe c = (case c of
     NyxAddGeofence i lat lon radius f g t u \<Rightarrow>
       1000 \<le> i \<and> i < 1200 \<and> - 90 \<le> lat \<and> lat \<le> 90 \<and> - 180 \<le> lon \<and> lon \<le> 180 \<and> radius > 0
   | _ \<Rightarrow> False)"

lemma pick_id_range: "pick_id draws i n used = Some (gid, used') \<Longrightarrow> 1000 \<le> gid \<and> gid < 1200"
  by (induction draws i n used rule: pick_id.induct)
    (auto simp: geofenceSlot_def Let_def split: option.splits if_splits)

lemma geofence_call:
  assumes "1000 \<le> mGeofenceID r" "mGeofenceID r < 1200" "- 90 \<le> mGeofenceLatitude r" "mGeofenceLatitude r \<le> 90"
    and "- 180 \<le> mGeofenceLongitude r" "mGeofenceLongitude r \<le> 180" "mGeofenceRadius r > 0" "mRequestType r = ADD_GEOFENCE_CMD"
  shows "\<exists>cs. nyx_calls (snd (gps_processRequest E J sd r g)) = nyx_calls g @ cs \<and> length cs \<le> 1 \<and> list_all on_globe cs"
  using assms
  by (auto simp: gps_processRequest_def Let_def case_prod_unfold handleAddGeofenceCommand_def geofenceAdd_def nyx_def on_globe_def)

lemma fence_numbers:
  assumes "json_tree J tree" and "\<not> jis_null J (jdom_parse J ''JSCHEMA_ADD_GEOFENCE_AREA'' p)"
  defines "j \<equiv> jdom_parse J ''JSCHEMA_ADD_GEOFENCE_AREA'' p"
  shows "- 90 \<le> get_f64 J j ''latitude'' 0" "get_f64 J j ''latitude'' 0 \<le> 90"
    "- 180 \<le> get_f64 J j ''longitude'' 0" "get_f64 J j ''longitude'' 0 \<le> 180" "get_f64 J j ''radius'' 0 > 0"
  using json_tree.number_in_range [OF assms(1) schema_tables(9,12) assms(2), of 0]
    json_tree.number_in_range [OF assms(1) schema_tables(10,13) assms(2), of 0]
    json_tree.number_in_range [OF assms(1) schema_tables(11,14) assms(2), of 0]
  by (simp_all add: j_def num_holds_def)

lemma reply_provider [simp]:
  "mGPSProvider (LSMessageReplyCustomError m c t) = mGPSProvider t"
  "mGPSProvider (reply_error_unless m e t) = mGPSProvider t"
  by (simp_all add: LSMessageReplyCustomError_def reply_error_unless_def LSMessageReplyError_def LSMessageReply_def)

definition fence_request :: "('c, 'j) svc_env \<Rightarrow> LSMessage \<Rightarrow> int \<Rightarrow> PositionRequest" where
  "fence_request E m gid =
    (let j = jdom_parse (sj E) ''JSCHEMA_ADD_GEOFENCE_AREA'' (msg_payload m)
     in (position_request ''GPS'' ADD_GEOFENCE_CMD)
       \<lparr>mGeofenceLatitude := get_f64 (sj E) j ''latitude'' 0, mGeofenceLongitude := get_f64 (sj E) j ''longitude'' 0,
        mGeofenceRadius := get_f64 (sj E) j ''radius'' 0, mGeofenceID := gid\<rparr>)"

lemma addGeofenceArea_provider:
  obtains "mGPSProvider (addGeofenceArea E m s) = mGPSProvider s"
  | gid used where "\<not> jis_null (sj E) (jdom_parse (sj E) ''JSCHEMA_ADD_GEOFENCE_AREA'' (msg_payload m))"
      "pick_id (se_draws E) 0 MAX_GEOFENCE_ID (is_geofenceId_used s) = Some (gid, used)"
      "mGPSProvider (addGeofenceArea E m s)
        = snd (gps_processRequest (se_gps E) (sj E) (se_strtod E) (fence_request E m gid) (mGPSProvider s))"
proof (cases "jis_null (sj E) (jdom_parse (sj E) ''JSCHEMA_ADD_GEOFENCE_AREA'' (msg_payload m)) \<or> \<not> getHandlerStatus GPS s
    \<or> pick_id (se_draws E) 0 MAX_GEOFENCE_ID (is_geofenceId_used s) = None")
  case True
  then have "mGPSProvider (addGeofenceArea E m s) = mGPSProvider s"
    by (auto simp: addGeofenceArea_def validate_cases)
  then show ?thesis by (rule that(1))
next
  case False
  then obtain gid used where p: "pick_id (se_draws E) 0 MAX_GEOFENCE_ID (is_geofenceId_used s) = Some (gid, used)" by auto
  have "mGPSProvider (addGeofenceArea E m s)
      = snd (gps_processRequest (se_gps E) (sj E) (se_strtod E) (fence_request E m gid) (mGPSProvider s))"
    using False p by (simp add: addGeofenceArea_def validate_cases fence_request_def gps_request_def Let_def case_prod_unfold)
  with False p show ?thesis by (intro that(2)) simp_all
qed

text \<open>
  C15: a call of \<open>addGeofenceArea\<close> asks the receiver for at most one geofence, with an id of the
  service's range, a latitude and longitude that exist and a positive radius.
\<close>

theorem geofence_is_on_globe:
  assumes "json_tree (sj E) tree"
  shows "\<exists>cs. nyx_calls (mGPSProvider (addGeofenceArea E m s)) = nyx_calls (mGPSProvider s) @ cs
    \<and> length cs \<le> 1 \<and> list_all on_globe cs"
proof (cases rule: addGeofenceArea_provider [of E m s])
  case 1
  then show ?thesis by simp
next
  case (2 gid used)
  show ?thesis
    unfolding 2(3)
    by (rule geofence_call)
      (use fence_numbers [OF assms 2(1)] pick_id_range [OF 2(2)] in \<open>simp_all add: fence_request_def Let_def\<close>)
qed

theorem geofence_is_on_globe_witness:
  "\<exists>cs. nyx_calls (mGPSProvider (addGeofenceArea demo_valid (demo_msg 1 ''addGeofenceArea'' ''fence'' True) svc_demo_start))
    = nyx_calls demo_start @ cs \<and> length cs \<le> 1 \<and> list_all on_globe cs"
  using geofence_is_on_globe [OF demo_valid_tree, of "demo_msg 1 ''addGeofenceArea'' ''fence'' True" svc_demo_start] by simp

end
