(* ===== verification/Mock_Server.thy ===== *)
theory Mock_Server
  imports Mock C_Numbers
begin

text \<open>
  The server of the network mock (\<^verbatim>\<open>NetworkMockLocation.c\<close>): a thread that answers the network
  provider's HTTP query with the location that was injected last. What the thread and the main thread do
  are the steps of one machine; sockets are the environment: whether \<^verbatim>\<open>socket\<close> and \<^verbatim>\<open>bind\<close> succeed,
  who connects, and what \<^verbatim>\<open>recv\<close> returns (\<open>[]\<close> for an end or an error).
\<close>

subsection \<open>The answer\<close>

definition CRLF :: string where "CRLF = [CHR 0x0D, CHR 0x0A]"

definition nlp_header :: "nat \<Rightarrow> string" where
  "nlp_header n = ''HTTP/1.1 200 OK'' @ CRLF @ ''Content-Length: '' @ pct_d (int n) @ CRLF @ ''Connection: close'' @ CRLF @ CRLF"

definition nlp_body :: "double \<Rightarrow> double \<Rightarrow> double \<Rightarrow> string" where
  "nlp_body lat lon acc =
    ''{\"location\":{\"lat\":'' @ printf_f 6 lat @ '',\"lng\":'' @ printf_f 6 lon @ ''},\"accuracy\":'' @ printf_f 6 acc
      @ ''}'' @ CRLF @ CRLF"

text \<open>\<^verbatim>\<open>snprintf\<close> into \<open>n\<close> bytes, the last for the terminator. Both texts are written to one buffer.\<close>

definition snprintf_n :: "nat \<Rightarrow> string \<Rightarrow> string" where
  "snprintf_n n t = take (n - 1) t"

definition nlp_answer :: "double \<Rightarrow> double \<Rightarrow> double \<Rightarrow> string \<times> string" where
  "nlp_answer lat lon acc =
    (let b = snprintf_n 1024 (nlp_body lat lon acc); h = snprintf_n (1024 - length b) (nlp_header (length b)) in (h, b))"

subsection \<open>The state\<close>

text \<open>
  \<open>Reading p\<close> looks for the end of the request, \<open>Waiting\<close> is the \<^verbatim>\<open>select\<close> for a location. \<open>srv_sent\<close>
  records the answers: the peer's address, the header and the body.
\<close>

datatype server_phase = Not_running | Accepting | Reading nat | Waiting | Finished

record NetServer =
  network_mock_lon :: double
  network_mock_lat :: double
  network_mock_acc :: double
  network_event :: nat
  network_mock_server :: bool
  network_mock_client :: "32 word option"
  srv_phase :: server_phase
  srv_mock :: MockState
  srv_sent :: "(32 word \<times> string \<times> string) list"

definition srv_init :: NetServer where
  "srv_init = \<lparr>network_mock_lon = 0, network_mock_lat = 0, network_mock_acc = 0, network_event = 0,
    network_mock_server = False, network_mock_client = None, srv_phase = Not_running, srv_mock = mock_init, srv_sent = []\<rparr>"

subsection \<open>The thread\<close>

definition network_flag :: "MockState \<Rightarrow> 32 word" where
  "network_flag m = (case get_mock_location_provider ''network'' (mock_location_provider m) of None \<Rightarrow> 0 | Some p \<Rightarrow> mp_flag p)"

definition loop_head :: "NetServer \<Rightarrow> NetServer" where
  "loop_head s = s\<lparr>srv_phase := (if has_flag (network_flag (srv_mock s)) MOCKLOC_FLAG_FINALIZE then Finished else Accepting)\<rparr>"

definition server_thread_begins :: "bool \<Rightarrow> bool \<Rightarrow> NetServer \<Rightarrow> NetServer" where
  "server_thread_begins socket_ok bind_ok s =
    (let s1 = s\<lparr>network_mock_server := socket_ok, network_event := network_event s + 1\<rparr>
     in if socket_ok then (if bind_ok then loop_head s1 else s1\<lparr>network_mock_server := False, srv_phase := Finished\<rparr>)
        else s1\<lparr>srv_phase := Finished\<rparr>)"

definition end_connection :: "NetServer \<Rightarrow> NetServer" where
  "end_connection s =
    loop_head (s\<lparr>network_mock_client := None, srv_mock := snd (with_provider ''network'' stop_mock_location (srv_mock s))\<rparr>)"

definition LOCALHOST :: "32 word" where "LOCALHOST = 0x7f000001"

definition srv_accept :: "32 word option \<Rightarrow> NetServer \<Rightarrow> NetServer" where
  "srv_accept peer s =
    (if srv_phase s = Accepting then
       (case peer of
          None \<Rightarrow> loop_head s
        | Some addr \<Rightarrow>
            let s1 = s\<lparr>network_mock_client := Some addr\<rparr>
            in if addr = LOCALHOST then s1\<lparr>srv_phase := Reading 0\<rparr> else end_connection s1)
     else s)"

definition srv_recv :: "string \<Rightarrow> NetServer \<Rightarrow> NetServer" where
  "srv_recv b s =
    (case srv_phase s of
       Reading p \<Rightarrow>
         s\<lparr>srv_phase := (if b = [] then Waiting else case match_chunk p b of None \<Rightarrow> Waiting | Some p' \<Rightarrow> Reading p')\<rparr>
     | _ \<Rightarrow> s)"

definition send_location :: "NetServer \<Rightarrow> NetServer" where
  "send_location s =
    (case network_mock_client s of
       None \<Rightarrow> s
     | Some addr \<Rightarrow>
         let (h, b) = nlp_answer (network_mock_lat s) (network_mock_lon s) (network_mock_acc s)
         in s\<lparr>srv_sent := srv_sent s @ [(addr, h, b)]\<rparr>)"

text \<open>A round of the \<^verbatim>\<open>select\<close> loop; without an event it is the client that is readable.\<close>

definition srv_select :: "string \<Rightarrow> NetServer \<Rightarrow> NetServer" where
  "srv_select b s =
    (if srv_phase s = Waiting then
       if network_event s > 0 then end_connection (send_location (s\<lparr>network_event := 0\<rparr>))
       else if b = [] then end_connection s else s
     else s)"

subsection \<open>The main thread\<close>

text \<open>
  The null location comes from \<^verbatim>\<open>finalize_mock_location\<close>: the sockets are closed and the thread is joined.
  A thread in \<^verbatim>\<open>recv\<close> leaves its connection and ends; one in \<^verbatim>\<open>select\<close> comes back to \<^verbatim>\<open>FD_ISSET\<close> with the
  descriptor -1, which is undefined (\<open>None\<close>).
\<close>

definition network_mock_location :: "MockLoc option \<Rightarrow> NetServer \<Rightarrow> NetServer option" where
  "network_mock_location arg s =
    (case arg of
       Some loc \<Rightarrow> Some (s\<lparr>network_mock_lon := longitude loc, network_mock_lat := latitude loc,
           network_mock_acc := horizontalAccuracy loc, network_event := network_event s + 1\<rparr>)
     | None \<Rightarrow>
         let s1 = s\<lparr>network_mock_client := None, network_mock_server := False\<rparr>
         in (case srv_phase s of
               Waiting \<Rightarrow> None
             | Reading p \<Rightarrow> Some (end_connection s1)
             | Accepting \<Rightarrow> Some (loop_head s1)
             | _ \<Rightarrow> Some s1))"

definition srv_url :: "bool \<Rightarrow> bool \<Rightarrow> string \<Rightarrow> NetServer \<Rightarrow> string \<times> NetServer" where
  "srv_url socket_ok bind_ok url s =
    (let (u, running, m) = network_location_provider_url ''10080'' url (network_mock_server s, srv_mock s);
         started = (fst (with_provider ''network'' start_mock_location (srv_mock s)) = LOCATION_SUCCESS);
         s1 = (if started \<and> \<not> network_mock_server s
               then (server_thread_begins socket_ok bind_ok (s\<lparr>network_event := 0\<rparr>))\<lparr>network_event := 0\<rparr> else s)
     in (u, s1\<lparr>srv_mock := m\<rparr>))"

definition srv_set_location :: "MockLoc \<Rightarrow> NetServer \<Rightarrow> (LocationErrorCode \<times> NetServer) option" where
  "srv_set_location loc s =
    (case set_mock_location ''network'' loc (srv_mock s) of
       None \<Rightarrow> None
     | Some (e, m) \<Rightarrow>
         if e = LOCATION_SUCCESS
         then (case network_mock_location (Some loc) (s\<lparr>srv_mock := m\<rparr>) of None \<Rightarrow> None | Some t \<Rightarrow> Some (e, t))
         else Some (e, s\<lparr>srv_mock := m\<rparr>))"

definition network_location_installed :: "MockState \<Rightarrow> bool" where
  "network_location_installed m =
    (case get_mock_location_provider ''network'' (mock_location_provider m) of None \<Rightarrow> False | Some p \<Rightarrow> mp_location p \<noteq> None)"

definition srv_finalize :: "NetServer \<Rightarrow> NetServer option" where
  "srv_finalize s =
    (let s1 = s\<lparr>srv_mock := finalize_mock_location (srv_mock s)\<rparr>
     in if network_location_installed (srv_mock s) then network_mock_location None s1 else Some s1)"

datatype srv_event =
    SUrl bool bool string
  | SSetState bool
  | SLocate MockLoc
  | SFinalize
  | SAccept "32 word option"
  | SRecv string
  | SSelect string

fun srv_step :: "srv_event \<Rightarrow> NetServer \<Rightarrow> NetServer option" where
  "srv_step (SUrl so bi url) s = Some (snd (srv_url so bi url s))"
| "srv_step (SSetState b) s = Some (s\<lparr>srv_mock := snd (set_mock_location_state ''network'' b (srv_mock s))\<rparr>)"
| "srv_step (SLocate loc) s = map_option snd (srv_set_location loc s)"
| "srv_step SFinalize s = srv_finalize s"
| "srv_step (SAccept peer) s = Some (srv_accept peer s)"
| "srv_step (SRecv b) s = Some (srv_recv b s)"
| "srv_step (SSelect b) s = Some (srv_select b s)"

definition srv_ostep :: "srv_event \<Rightarrow> NetServer option \<Rightarrow> NetServer option" where
  "srv_ostep e os = (case os of None \<Rightarrow> None | Some s \<Rightarrow> srv_step e s)"

definition srv_run :: "srv_event list \<Rightarrow> NetServer \<Rightarrow> NetServer option" where
  "srv_run es s = fold srv_ostep es (Some s)"

lemma srv_ostep_simps [simp]: "srv_ostep e None = None" "srv_ostep e (Some s) = srv_step e s"
  by (simp_all add: srv_ostep_def)

subsection \<open>What the answer holds\<close>

lemma round_even_le: "x \<le> of_int n \<Longrightarrow> round_even x \<le> n"
  by (auto simp: round_even_def Let_def) linarith+

lemma length_printf_f:
  assumes "\<bar>x\<bar> \<le> 10 ^ k" and "0 < n"
  shows "length (printf_f n x) \<le> k + n + 3"
proof -
  have "\<bar>x\<bar> * 10 ^ n \<le> 10 ^ k * 10 ^ n" by (rule mult_right_mono [OF assms(1)]) simp
  then have "round_even (\<bar>x\<bar> * 10 ^ n) \<le> 10 ^ k * 10 ^ n" by (intro round_even_le) (simp only: of_int_mult of_int_power of_int_numeral)
  then have "nat (round_even (\<bar>x\<bar> * 10 ^ n)) \<le> 10 ^ k * 10 ^ n" by (simp only: nat_le_iff of_nat_mult of_nat_power of_nat_numeral)
  then have "nat (round_even (\<bar>x\<bar> * 10 ^ n)) div 10 ^ n \<le> 10 ^ k * 10 ^ n div 10 ^ n" by (rule div_le_mono)
  also have "\<dots> = 10 ^ k" by simp
  also have "(10 ^ k :: nat) < 10 ^ Suc k" by simp
  finally have "length (dec_nat (nat (round_even (\<bar>x\<bar> * 10 ^ n)) div 10 ^ n)) \<le> Suc k" by (rule length_dec_nat) simp
  then show ?thesis by (cases "x < 0") (simp_all add: printf_f_def Let_def)
qed

text \<open>
  An answer is complete: the header announces the length of the body, and the body has three decimals,
  each within half a millionth of the number it stands for.
\<close>

definition answer_complete :: "(string \<Rightarrow> double) \<Rightarrow> double \<Rightarrow> double \<Rightarrow> double \<Rightarrow> string \<times> string \<Rightarrow> bool" where
  "answer_complete strtod lat lon acc = (\<lambda>(h, b). h = nlp_header (length b)
    \<and> (\<exists>x y z. b = ''{\"location\":{\"lat\":'' @ x @ '',\"lng\":'' @ y @ ''},\"accuracy\":'' @ z @ ''}'' @ CRLF @ CRLF
        \<and> \<bar>strtod x - lat\<bar> \<le> 1 / (2 * 10 ^ 6) \<and> \<bar>strtod y - lon\<bar> \<le> 1 / (2 * 10 ^ 6) \<and> \<bar>strtod z - acc\<bar> \<le> 1 / (2 * 10 ^ 6)))"

lemma answer_is_complete:
  assumes "strtod_ok strtod" and "\<bar>lat\<bar> \<le> 10 ^ 290" "\<bar>lon\<bar> \<le> 10 ^ 290" "\<bar>acc\<bar> \<le> 10 ^ 290"
  shows "answer_complete strtod lat lon acc (nlp_answer lat lon acc)"
proof -
  note l = length_printf_f [of _ 290 6]
  have b: "length (nlp_body lat lon acc) \<le> 941"
    using l [OF assms(2)] l [OF assms(3)] l [OF assms(4)] by (simp add: nlp_body_def CRLF_def)
  have "length (dec_nat (length (nlp_body lat lon acc))) \<le> 3" by (rule length_dec_nat) (use b in simp_all)
  then have "length (nlp_header (length (nlp_body lat lon acc))) \<le> 60" by (simp add: nlp_header_def pct_d_def CRLF_def)
  then have "nlp_answer lat lon acc = (nlp_header (length (nlp_body lat lon acc)), nlp_body lat lon acc)"
    using b by (simp add: nlp_answer_def snprintf_n_def Let_def)
  moreover have "\<bar>strtod (printf_f 6 x) - x\<bar> \<le> 1 / (2 * 10 ^ 6)" for x
    using dec_round_near [of 6 x] by (simp only: strtod_printf [OF assms(1)] zero_less_numeral)
  ultimately show ?thesis by (auto simp: answer_complete_def nlp_body_def)
qed

subsection \<open>The machine's invariant\<close>

text \<open>The locations handed to the network mock, in order.\<close>

definition net_locations :: "MockState \<Rightarrow> MockLoc list" where
  "net_locations m = List.map_filter (\<lambda>(k, l). if k = NETWORK_SINK then l else None) (delivered m)"

definition network_sink_ok :: "MockState \<Rightarrow> bool" where
  "network_sink_ok m \<longleftrightarrow>
    (\<forall>p k. get_mock_location_provider ''network'' (mock_location_provider m) = Some p \<longrightarrow> mp_location p = Some k \<longrightarrow> k = NETWORK_SINK)"

lemma with_provider_delivered [simp]: "delivered (snd (with_provider n f m)) = delivered m"
  by (simp add: with_provider_def split: option.split prod.split)

lemma with_provider_locations [simp]: "net_locations (snd (with_provider n f m)) = net_locations m"
  by (simp add: net_locations_def)

lemma with_provider_sink [simp]:
  assumes "\<And>p. mp_location (snd (f p)) \<in> {mp_location p, Some NETWORK_SINK}" and "\<And>p. mp_name (snd (f p)) = mp_name p"
    and "network_sink_ok m"
  shows "network_sink_ok (snd (with_provider ''network'' f m))"
proof (cases "get_mock_location_provider ''network'' (mock_location_provider m)")
  case (Some p)
  have "mp_name (snd (f p)) = ''network''" using assms(2) get_mock_name [OF Some] by simp
  moreover have "mp_location (snd (f p)) \<in> {None, Some NETWORK_SINK}"
    using assms(1) [of p] assms(3) Some by (cases "mp_location p") (auto simp: network_sink_ok_def)
  ultimately show ?thesis by (auto simp: network_sink_ok_def with_provider_def Some Let_def case_prod_unfold)
qed (use assms(3) in \<open>simp add: network_sink_ok_def with_provider_def\<close>)

lemma start_stop_location [simp]: "mp_location (snd (start_mock_location p)) = mp_location p"
  "mp_location (snd (stop_mock_location p)) = mp_location p"
  by (simp_all add: start_mock_location_def stop_mock_location_def Let_def)

lemma set_state_frame [simp]:
  "net_locations (snd (set_mock_location_state n b m)) = net_locations m"
  "network_sink_ok m \<Longrightarrow> network_sink_ok (snd (set_mock_location_state ''network'' b m))"
  using get_mock_name [of "''network''" "mock_location_provider m"]
  by (auto simp: set_mock_location_state_def net_locations_def network_sink_ok_def split: option.split)

lemma finalize_frame [simp]:
  "net_locations (finalize_mock_location m) = net_locations m"
  "network_sink_ok m \<Longrightarrow> network_sink_ok (finalize_mock_location m)"
proof -
  have "List.map_filter (\<lambda>(k, l). if k = NETWORK_SINK then l else None)
      (concat (List.map (\<lambda>mlp. case mp_location mlp of None \<Rightarrow> [] | Some k \<Rightarrow> [(k, None :: MockLoc option)]) ps)) = []" for ps
    by (induction ps) (auto simp: List.map_filter_def split: option.split)
  then show "net_locations (finalize_mock_location m) = net_locations m"
    by (simp add: net_locations_def finalize_mock_location_def map_filter_def)
  have "get_mock_location_provider n (List.map (\<lambda>q. q\<lparr>mp_flag := mp_flag q OR MOCKLOC_FLAG_FINALIZE\<rparr>) ps)
      = map_option (\<lambda>q. q\<lparr>mp_flag := mp_flag q OR MOCKLOC_FLAG_FINALIZE\<rparr>) (get_mock_location_provider n ps)" for n ps
    by (induction ps) auto
  then show "network_sink_ok m \<Longrightarrow> network_sink_ok (finalize_mock_location m)"
    by (auto simp: network_sink_ok_def finalize_mock_location_def)
qed

lemma set_location_frame:
  assumes "set_mock_location ''network'' loc m = Some (e, m')" and "network_sink_ok m"
  shows "network_sink_ok m'" "net_locations m' = net_locations m @ (if e = LOCATION_SUCCESS then [loc] else [])"
  using assms
  by (auto simp: set_mock_location_def network_sink_ok_def net_locations_def map_filter_def split: option.splits if_splits)

text \<open>
  The globals hold the last location handed over, an event stands for one, only a local client is served,
  and nothing was sent to another.
\<close>

primrec serving :: "server_phase \<Rightarrow> bool" where
  "serving Not_running = False"
| "serving Accepting = False"
| "serving (Reading p) = True"
| "serving Waiting = True"
| "serving Finished = False"

definition only_local :: "(32 word \<times> string \<times> string) list \<Rightarrow> bool" where
  "only_local xs \<longleftrightarrow> (\<forall>x \<in> set xs. fst x = LOCALHOST)"

lemma only_local_simps [simp]: "only_local []" "only_local (xs @ [x]) \<longleftrightarrow> only_local xs \<and> fst x = LOCALHOST"
  by (auto simp: only_local_def)

definition srv_good :: "NetServer \<Rightarrow> bool" where
  "srv_good s \<longleftrightarrow> network_sink_ok (srv_mock s)
    \<and> (net_locations (srv_mock s) \<noteq> [] \<longrightarrow>
        (let l = last (net_locations (srv_mock s))
         in network_mock_lat s = latitude l \<and> network_mock_lon s = longitude l \<and> network_mock_acc s = horizontalAccuracy l))
    \<and> (network_event s > 0 \<longrightarrow> net_locations (srv_mock s) \<noteq> [])
    \<and> (serving (srv_phase s) \<longrightarrow> network_mock_client s = Some LOCALHOST)
    \<and> only_local (srv_sent s)"

lemma srv_good_loop:
  assumes "srv_good s" and "net_locations m = net_locations (srv_mock s)" and "network_sink_ok m"
  shows "srv_good (loop_head (s\<lparr>network_mock_client := c, network_mock_server := b, srv_mock := m\<rparr>))"
  using assms by (auto simp: srv_good_def loop_head_def)

lemma srv_good_end: "srv_good s \<Longrightarrow> srv_good (end_connection s)"
  using srv_good_loop [of s "snd (with_provider ''network'' stop_mock_location (srv_mock s))" "network_mock_server s" None]
  by (simp add: end_connection_def srv_good_def)

lemma srv_good_accept: "srv_good s \<Longrightarrow> srv_good (srv_accept peer s)"
  using srv_good_loop [of s "srv_mock s" "network_mock_server s" "network_mock_client s"]
    srv_good_end [of "s\<lparr>network_mock_client := peer\<rparr>"]
  by (auto simp: srv_accept_def Let_def srv_good_def split: option.split)

lemma srv_good_recv: "srv_good s \<Longrightarrow> srv_good (srv_recv b s)"
  by (auto simp: srv_recv_def srv_good_def split: server_phase.split option.split)

lemma srv_good_select: "srv_good s \<Longrightarrow> srv_good (srv_select b s)"
proof -
  assume g: "srv_good s"
  have "srv_good (send_location (s\<lparr>network_event := 0\<rparr>))" if "srv_phase s = Waiting"
    using g that by (auto simp: srv_good_def send_location_def case_prod_unfold)
  with g show ?thesis by (simp add: srv_select_def srv_good_end)
qed

lemma srv_good_url: "srv_good s \<Longrightarrow> srv_good (snd (srv_url so bi url s))"
proof -
  assume g: "srv_good s"
  define m where "m = snd (snd (network_location_provider_url ''10080'' url (network_mock_server s, srv_mock s)))"
  have m: "net_locations m = net_locations (srv_mock s)" "network_sink_ok m"
    using g by (simp_all add: m_def net_url_state Let_def srv_good_def)
  have "srv_good (t\<lparr>network_event := 0, srv_mock := m\<rparr>)" if "t \<in> {server_thread_begins so bi (s\<lparr>network_event := 0\<rparr>)}" for t
    using g that m by (auto simp: srv_good_def server_thread_begins_def loop_head_def Let_def)
  moreover have "srv_good (s\<lparr>srv_mock := m\<rparr>)" using g m by (simp add: srv_good_def)
  ultimately show ?thesis by (auto simp: srv_url_def Let_def case_prod_unfold simp flip: m_def)
qed

lemma srv_good_locate: "srv_good s \<Longrightarrow> srv_set_location loc s = Some (e, t) \<Longrightarrow> srv_good t"
  using set_location_frame [of loc "srv_mock s"]
  by (auto simp: srv_set_location_def network_mock_location_def srv_good_def split: option.splits if_splits)

lemma srv_good_closed: "srv_good s \<Longrightarrow> network_mock_location None s = Some t \<Longrightarrow> srv_good t"
  by (cases "srv_phase s") (auto simp: network_mock_location_def Let_def srv_good_def end_connection_def loop_head_def
      split: if_splits)

lemma srv_good_finalize:
  assumes "srv_good s" and "srv_finalize s = Some t"
  shows "srv_good t"
proof -
  have "srv_good (s\<lparr>srv_mock := finalize_mock_location (srv_mock s)\<rparr>)" using assms(1) by (simp add: srv_good_def)
  with assms(2) show ?thesis by (auto simp: srv_finalize_def Let_def srv_good_closed split: if_splits)
qed

lemma srv_good_step: "srv_good s \<Longrightarrow> opt_all srv_good (srv_step e s)"
proof (cases e)
  case (SLocate loc)
  show ?thesis if "srv_good s"
    using srv_good_locate [OF that, of loc] by (cases "srv_set_location loc s") (auto simp: SLocate)
next
  case SFinalize
  show ?thesis if "srv_good s" using srv_good_finalize [OF that] by (cases "srv_finalize s") (simp_all add: SFinalize)
next
  case (SSetState b)
  show ?thesis if "srv_good s" using that by (simp add: SSetState srv_good_def)
qed (simp_all add: srv_good_accept srv_good_recv srv_good_select srv_good_url)

interpretation mock_srv: machine srv_ostep "opt_all srv_good" "\<lambda>_. True" "Some srv_init"
proof unfold_locales
  show "opt_all srv_good (srv_ostep e os)" if "opt_all srv_good os" for os e
    using that by (cases os) (simp_all add: srv_good_step)
  show "opt_all srv_good (Some srv_init)"
    by (simp add: srv_good_def srv_init_def network_sink_ok_def net_locations_def map_filter_def mock_init_def)
qed

subsection \<open>The threads as a relation\<close>

text \<open>
  What the two threads may do next: the main thread makes its calls at any time, the server's thread is
  where its phase says. Up to steps that change nothing this is the machine above.
\<close>

inductive srv_trans :: "NetServer \<Rightarrow> NetServer \<Rightarrow> bool" where
  main_url: "srv_trans s (snd (srv_url so bi url s))"
| main_state: "srv_trans s (s\<lparr>srv_mock := snd (set_mock_location_state ''network'' b (srv_mock s))\<rparr>)"
| main_locate: "srv_set_location loc s = Some (e, t) \<Longrightarrow> srv_trans s t"
| main_finalize: "srv_finalize s = Some t \<Longrightarrow> srv_trans s t"
| thread_accept: "srv_phase s = Accepting \<Longrightarrow> srv_trans s (srv_accept peer s)"
| thread_recv: "srv_phase s = Reading p \<Longrightarrow> srv_trans s (srv_recv b s)"
| thread_select: "srv_phase s = Waiting \<Longrightarrow> srv_trans s (srv_select b s)"

inductive_cases srv_transE: "srv_trans s t"

lemma srv_trans_step: "srv_trans s t \<Longrightarrow> \<exists>e. srv_step e s = Some t"
proof (induction rule: srv_trans.induct)
  case (main_url s so bi url)
  show ?case by (rule exI [of _ "SUrl so bi url"]) simp
next
  case (main_state s b)
  show ?case by (rule exI [of _ "SSetState b"]) simp
next
  case (main_locate loc s e t)
  then show ?case by (intro exI [of _ "SLocate loc"]) simp
next
  case (main_finalize s t)
  then show ?case by (intro exI [of _ SFinalize]) simp
next
  case (thread_accept s peer)
  show ?case by (rule exI [of _ "SAccept peer"]) simp
next
  case (thread_recv s p b)
  show ?case by (rule exI [of _ "SRecv b"]) simp
next
  case (thread_select s b)
  show ?case by (rule exI [of _ "SSelect b"]) simp
qed

lemma idle_thread:
  "srv_phase s \<noteq> Accepting \<Longrightarrow> srv_accept peer s = s" "(\<And>p. srv_phase s \<noteq> Reading p) \<Longrightarrow> srv_recv b s = s"
  "srv_phase s \<noteq> Waiting \<Longrightarrow> srv_select b s = s"
  by (simp_all add: srv_accept_def srv_recv_def srv_select_def split: server_phase.split)

lemma step_srv_trans: "srv_step e s = Some t \<Longrightarrow> t = s \<or> srv_trans s t"
proof (cases e)
  case (SAccept peer)
  then show "srv_step e s = Some t \<Longrightarrow> ?thesis"
    by (cases "srv_phase s = Accepting") (auto simp: idle_thread thread_accept)
next
  case (SRecv b)
  then show "srv_step e s = Some t \<Longrightarrow> ?thesis"
    by (cases "\<exists>p. srv_phase s = Reading p") (auto simp: idle_thread thread_recv)
next
  case (SSelect b)
  then show "srv_step e s = Some t \<Longrightarrow> ?thesis"
    by (cases "srv_phase s = Waiting") (auto simp: idle_thread thread_select)
next
  case (SUrl so bi url)
  then show "srv_step e s = Some t \<Longrightarrow> ?thesis" using main_url [of s so bi url] by simp
next
  case (SSetState b)
  then show "srv_step e s = Some t \<Longrightarrow> ?thesis" using main_state [of s b] by auto
next
  case (SLocate loc)
  then show "srv_step e s = Some t \<Longrightarrow> ?thesis" using main_locate [of loc s] by auto
next
  case SFinalize
  then show "srv_step e s = Some t \<Longrightarrow> ?thesis" using main_finalize [of s t] by simp
qed

lemma srv_run_snoc: "srv_run (es @ [e]) s = srv_ostep e (srv_run es s)"
  by (simp add: srv_run_def)

lemma srv_reachable_iff: "srv_trans\<^sup>*\<^sup>* srv_init s \<longleftrightarrow> (\<exists>es. srv_run es srv_init = Some s)"
proof
  show "srv_trans\<^sup>*\<^sup>* srv_init s \<Longrightarrow> \<exists>es. srv_run es srv_init = Some s"
  proof (induction rule: rtranclp_induct)
    case base
    show ?case by (rule exI [of _ "[]"]) (simp add: srv_run_def)
  next
    case (step s t)
    then obtain es e where "srv_run es srv_init = Some s" "srv_step e s = Some t" using srv_trans_step by blast
    then have "srv_run (es @ [e]) srv_init = Some t" by (simp add: srv_run_snoc)
    then show ?case ..
  qed
  have "srv_run es srv_init = Some s \<Longrightarrow> srv_trans\<^sup>*\<^sup>* srv_init s" for es s
  proof (induction es arbitrary: s rule: rev_induct)
    case (snoc e es)
    then obtain r where "srv_run es srv_init = Some r" "srv_step e r = Some s"
      by (cases "srv_run es srv_init") (auto simp: srv_run_snoc)
    then show ?case using snoc.IH [of r] step_srv_trans [of e r s] by (auto intro: rtranclp.rtrancl_into_rtrancl)
  qed (simp add: srv_run_def)
  then show "\<exists>es. srv_run es srv_init = Some s \<Longrightarrow> srv_trans\<^sup>*\<^sup>* srv_init s" by blast
qed

lemma srv_reachable_good: "srv_trans\<^sup>*\<^sup>* srv_init s \<Longrightarrow> srv_good s"
  using mock_srv.reachable_good by (auto simp: srv_reachable_iff srv_run_def list_all_iff) (metis opt_all_simps(2))

text \<open>An answer leaves in a round of \<^verbatim>\<open>select\<close> that found a location, and nowhere else.\<close>

lemma sent_frame [simp]:
  "srv_sent (loop_head s) = srv_sent s" "srv_sent (end_connection s) = srv_sent s"
  "srv_sent (server_thread_begins so bi s) = srv_sent s" "srv_sent (srv_accept peer s) = srv_sent s"
  "srv_sent (srv_recv b s) = srv_sent s" "srv_sent (snd (srv_url so bi url s)) = srv_sent s"
proof -
  show 1: "srv_sent (loop_head s) = srv_sent s" for s by (simp add: loop_head_def)
  show 2: "srv_sent (end_connection s) = srv_sent s" by (simp add: end_connection_def 1)
  show 3: "srv_sent (server_thread_begins so bi s) = srv_sent s" for s by (simp add: server_thread_begins_def Let_def 1)
  show "srv_sent (srv_accept peer s) = srv_sent s"
    by (simp add: srv_accept_def end_connection_def Let_def 1 split: option.split)
  show "srv_sent (srv_recv b s) = srv_sent s" by (simp add: srv_recv_def split: server_phase.split)
  show "srv_sent (snd (srv_url so bi url s)) = srv_sent s" by (simp add: srv_url_def Let_def case_prod_unfold 3)
qed

lemma sent_location: "network_mock_location arg s = Some t \<Longrightarrow> srv_sent t = srv_sent s"
  by (cases arg; cases "srv_phase s") (auto simp: network_mock_location_def Let_def)

lemma sent_calls:
  "srv_set_location loc s = Some (e, t) \<Longrightarrow> srv_sent t = srv_sent s" "srv_finalize s = Some t \<Longrightarrow> srv_sent t = srv_sent s"
  by (auto simp: srv_set_location_def srv_finalize_def Let_def dest!: sent_location split: option.splits if_splits)

lemma answers_leave_in_select:
  assumes "srv_trans s t" and "srv_sent t \<noteq> srv_sent s"
  shows "srv_phase s = Waiting \<and> network_event s > 0 \<and> (\<exists>b. t = srv_select b s)"
  using assms(1)
proof (rule srv_transE)
  fix b
  assume t: "t = srv_select b s" and w: "srv_phase s = Waiting"
  then have "network_event s > 0" using assms(2) by (cases "network_event s = 0") (simp_all add: srv_select_def split: if_splits)
  with t w show ?thesis by blast
qed (use assms(2) sent_calls in \<open>simp_all\<close>)

subsection \<open>Properties\<close>

text \<open>
  C27: when the network provider's query waits at the mock server and a location has been injected, the
  server answers that query, and it alone, with the location injected last, ends the session and turns to
  the next connection; the answer is a complete HTTP response whose numbers read back to half a millionth.
  This holds wherever the two threads are, and every answer they ever sent went to a client on this machine.
\<close>

theorem mock_server_answers:
  assumes "srv_trans\<^sup>*\<^sup>* srv_init s" and "srv_phase s = Waiting" and "network_event s > 0"
    and "strtod_ok strtod" and "l = last (net_locations (srv_mock s))"
    and "\<bar>latitude l\<bar> \<le> 10 ^ 290" "\<bar>longitude l\<bar> \<le> 10 ^ 290" "\<bar>horizontalAccuracy l\<bar> \<le> 10 ^ 290"
  shows "\<exists>a. srv_sent (srv_select b s) = srv_sent s @ [(LOCALHOST, a)]
    \<and> answer_complete strtod (latitude l) (longitude l) (horizontalAccuracy l) a
    \<and> srv_phase (srv_select b s) \<in> {Accepting, Finished} \<and> network_event (srv_select b s) = 0
    \<and> list_all (\<lambda>x. fst x = LOCALHOST) (srv_sent s)"
proof -
  have g: "srv_good s" using assms(1) by (rule srv_reachable_good)
  let ?a = "nlp_answer (latitude l) (longitude l) (horizontalAccuracy l)"
  have "srv_sent (srv_select b s) = srv_sent s @ [(LOCALHOST, ?a)]"
    using g assms(2,3,5) by (simp add: srv_good_def srv_select_def end_connection_def loop_head_def send_location_def case_prod_unfold Let_def)
  moreover have "srv_phase (srv_select b s) \<in> {Accepting, Finished}" "network_event (srv_select b s) = 0"
    using assms(2,3) by (simp_all add: srv_select_def end_connection_def loop_head_def send_location_def case_prod_unfold split: option.split)
  moreover have "list_all (\<lambda>x. fst x = LOCALHOST) (srv_sent s)" using g by (simp add: srv_good_def only_local_def list_all_iff)
  ultimately show ?thesis using answer_is_complete [OF assms(4,6-8)] by blast
qed

definition demo_loc :: MockLoc where
  "demo_loc = \<lparr>speed = 0, longitude = 127, latitude = 37, altitude = 0, horizontalAccuracy = 5, verticalAccuracy = 0,
    heading = 0, timestamp = 0, loc_flag = 0\<rparr>"

definition demo_query :: "srv_event list" where
  "demo_query = [SSetState True, SUrl True True ''u'', SAccept (Some LOCALHOST), SRecv (''GET'' @ CRLFCRLF), SLocate demo_loc]"

lemma demo_query_run: "\<exists>s. srv_run demo_query srv_init = Some s \<and> srv_phase s = Waiting \<and> network_event s > 0
    \<and> net_locations (srv_mock s) = [demo_loc]"
  by (simp add: demo_query_def srv_run_def srv_init_def mock_init_def srv_url_def network_location_provider_url_def with_provider_def
      start_mock_location_def set_mock_location_state_def provider_set_state_def server_thread_begins_def loop_head_def
      network_flag_def srv_accept_def srv_recv_def CRLFCRLF_def srv_set_location_def set_mock_location_def
      network_mock_location_def net_locations_def map_filter_def has_flag_def Let_def)

theorem mock_server_answers_witness:
  "\<exists>s a. srv_run demo_query srv_init = Some s \<and> srv_sent (srv_select [] s) = srv_sent s @ [(LOCALHOST, a)]
    \<and> answer_complete dec_strtod 37 127 5 a"
proof -
  obtain s where s: "srv_run demo_query srv_init = Some s" "srv_phase s = Waiting" "network_event s > 0"
    "net_locations (srv_mock s) = [demo_loc]" using demo_query_run by blast
  have l: "demo_loc = last (net_locations (srv_mock s))" by (simp add: s(4))
  have "\<bar>latitude demo_loc\<bar> \<le> 10 ^ 290" "\<bar>longitude demo_loc\<bar> \<le> 10 ^ 290" "\<bar>horizontalAccuracy demo_loc\<bar> \<le> 10 ^ 290"
    by (simp_all add: demo_loc_def)
  moreover have r: "srv_trans\<^sup>*\<^sup>* srv_init s" using s(1) srv_reachable_iff by blast
  ultimately show ?thesis
    using mock_server_answers [OF r s(2,3) dec_strtod_ok l, of "[]"] s(1) by (auto simp: demo_loc_def)
qed

text \<open>
  A connection from another machine is closed at once, but it ends the mock's session like an answered
  one: a location injected then is refused although the provider's query may be next in line.
\<close>

lemma refused_peer_ends_session:
  assumes "srv_phase s = Accepting" and "addr \<noteq> LOCALHOST"
  shows "srv_sent (srv_accept (Some addr) s) = srv_sent s"
    "srv_set_location loc (srv_accept (Some addr) s) = Some (e, t) \<Longrightarrow> e \<noteq> LOCATION_SUCCESS"
proof -
  show "srv_sent (srv_accept (Some addr) s) = srv_sent s"
    using assms by (simp add: srv_accept_def end_connection_def loop_head_def Let_def)
  have "has_flag (mp_flag p) MOCKLOC_FLAG_STARTED \<longrightarrow> \<not> has_flag (mp_flag p) MOCKLOC_FLAG_ENABLED"
    if "get_mock_location_provider ''network'' (mock_location_provider (snd (with_provider ''network'' stop_mock_location m))) = Some p" for m p
    using that get_mock_name [of "''network''" "mock_location_provider m"]
    by (auto simp: with_provider_def stop_mock_location_def Let_def has_flag_iff_bit bit_simps split: option.splits if_splits)
  then show "srv_set_location loc (srv_accept (Some addr) s) = Some (e, t) \<Longrightarrow> e \<noteq> LOCATION_SUCCESS"
    using assms
    by (auto simp: srv_accept_def end_connection_def loop_head_def Let_def srv_set_location_def set_mock_location_def
        split: option.splits if_splits)
qed

end
