(* ===== verification/Gps_Wan.thy ===== *)
theory Gps_Wan
  imports Gps_Claims
begin

text \<open>
  The interface to the WAN service (\<^verbatim>\<open>GpsWanInterface.cpp\<close>): what it asks of the bus, what it does
  with the replies, and the data connection for assisted GPS that the provider's worker opens through it.
\<close>

subsection \<open>State and calls\<close>

text \<open>
  A call on the bus: \<^verbatim>\<open>LSCall\<close> with its payload, or the cancellation of a token. \<open>ls\<close> is the token
  \<^verbatim>\<open>LSCall\<close> stores, \<open>None\<close> when it fails. The token 0 is \<^verbatim>\<open>LSMESSAGE_TOKEN_INVALID\<close>.
\<close>

datatype wan_call = WanLSCall string "unit jout" | WanLSCallCancel nat

record GpsWan =
  mServiceConnected :: bool
  mWanGetContext :: nat
  mApnName :: string
  wan_bus :: "wan_call list"

definition wan_init :: GpsWan where
  "wan_init = \<lparr>mServiceConnected = False, mWanGetContext = 0, mApnName = [], wan_bus = []\<rparr>"

definition wan_send :: "string \<Rightarrow> (string \<times> unit jout) list \<Rightarrow> GpsWan \<Rightarrow> GpsWan" where
  "wan_send url fs w = w\<lparr>wan_bus := wan_bus w @ [WanLSCall url (OObj fs)]\<rparr>"

definition WAN_SERVICE :: string where "WAN_SERVICE = ''com.webos.service.wan''"

definition WAN_FUNC :: "string \<Rightarrow> string" where
  "WAN_FUNC api = ''luna://'' @ WAN_SERVICE @ ''/'' @ api"

subsection \<open>Outgoing calls\<close>

definition registerLunaMethods :: "nat option \<Rightarrow> GpsWan \<Rightarrow> GpsWan" where
  "registerLunaMethods tok w =
    (let w1 = wan_send (WAN_FUNC ''getContexts'') [(''subscribe'', OBool True)] w
     in case tok of None \<Rightarrow> w1 | Some t \<Rightarrow> w1\<lparr>mWanGetContext := t\<rparr>)"

definition settingsServiceLunaCall :: "GpsWan \<Rightarrow> GpsWan" where
  "settingsServiceLunaCall w =
    wan_send ''luna://com.webos.settingsservice/getSystemSettings'' [(''category'', OStr ''TelephonyApnList'')] w"

definition wanServiceStatus :: "GpsWan \<Rightarrow> GpsWan" where
  "wanServiceStatus w =
    wan_send ''palm://com.palm.lunabus/signal/registerServerStatus'' [(''serviceName'', OStr WAN_SERVICE)] w"

definition wan_initialize :: "GpsWan \<Rightarrow> GpsWan" where
  "wan_initialize w = settingsServiceLunaCall (wanServiceStatus (w\<lparr>mServiceConnected := False\<rparr>))"

definition wan_connect :: "GpsWan \<Rightarrow> GpsWan" where
  "wan_connect w = wan_send (WAN_FUNC ''connect'') [(''name'', OStr ''supl'')] w"

definition wan_disconnect :: "GpsWan \<Rightarrow> GpsWan" where
  "wan_disconnect w = wan_send (WAN_FUNC ''disconnect'') [(''name'', OStr ''supl'')] w"

definition serviceStarted :: "nat option \<Rightarrow> GpsWan \<Rightarrow> GpsWan" where
  "serviceStarted tok w = (registerLunaMethods tok w)\<lparr>mServiceConnected := True\<rparr>"

definition serviceStopped :: "GpsWan \<Rightarrow> GpsWan" where
  "serviceStopped w =
    (let w1 = w\<lparr>mServiceConnected := False\<rparr>
     in if mWanGetContext w1 \<noteq> 0
        then w1\<lparr>wan_bus := wan_bus w1 @ [WanLSCallCancel (mWanGetContext w1)], mWanGetContext := 0\<rparr> else w1)"

subsection \<open>Replies\<close>

text \<open>The reply of the settings service: the apn of the first entry whose type contains \<open>supl\<close>.\<close>

fun contains :: "string \<Rightarrow> string \<Rightarrow> bool" where
  "contains p [] = (p = [])"
| "contains p (c # cs) = (has_prefix p (c # cs) \<or> contains p cs)"

text \<open>
  \<^verbatim>\<open>JValue::operator[]\<close> of a missing field is null, \<^verbatim>\<open>asString\<close> of anything but a string is empty, and
  \<open>children\<close> are the values of \<^verbatim>\<open>JValue::children\<close> in their order.
\<close>

definition wan_string :: "'j pbnjson \<Rightarrow> 'j option \<Rightarrow> string" where
  "wan_string J v = (case v of None \<Rightarrow> [] | Some x \<Rightarrow> (case jstring_get J x of None \<Rightarrow> [] | Some t \<Rightarrow> t))"

definition wan_field :: "'j pbnjson \<Rightarrow> 'j \<Rightarrow> string \<Rightarrow> 'j option" where
  "wan_field J v k = (case jobject_get_exists J v k of None \<Rightarrow> None | Some x \<Rightarrow> if jis_null J x then None else Some x)"

fun find_supl_apn :: "'j pbnjson \<Rightarrow> 'j list \<Rightarrow> string option" where
  "find_supl_apn J [] = None"
| "find_supl_apn J (v # rest) =
    (case wan_field J v ''type'' of
       None \<Rightarrow> find_supl_apn J rest
     | Some x \<Rightarrow>
         let t = wan_string J (Some x)
         in if t \<noteq> [] \<and> contains ''supl'' t then Some (wan_string J (wan_field J v ''apn'')) else find_supl_apn J rest)"

definition settingServiceCb :: "'j pbnjson \<Rightarrow> ('j \<Rightarrow> 'j list) \<Rightarrow> string \<Rightarrow> GpsWan \<Rightarrow> bool \<times> GpsWan" where
  "settingServiceCb J children payload w =
    (let root = jdom_parse J SCHEMA_ALL payload
     in if payload = [] \<or> jis_null J root then (True, w)
        else
          let ok = (case wan_field J root ''returnValue'' of None \<Rightarrow> False
                    | Some b \<Rightarrow> jis_boolean J b \<and> snd (jboolean_get J b False))
          in if \<not> ok then (False, w)
             else (True,
               case wan_field J root ''settings'' of
                 None \<Rightarrow> w
               | Some settings \<Rightarrow>
                   (case wan_field J settings ''apnList'' of
                      None \<Rightarrow> w
                    | Some apns \<Rightarrow>
                        (case find_supl_apn J (children apns) of None \<Rightarrow> w | Some a \<Rightarrow> w\<lparr>mApnName := a\<rparr>))))"

definition serviceUpCb :: "'j pbnjson \<Rightarrow> nat option \<Rightarrow> string \<Rightarrow> GpsWan \<Rightarrow> bool \<times> GpsWan" where
  "serviceUpCb J tok payload w =
    (let obj = jdom_parse J SCHEMA_ALL payload
     in if jis_null J obj then (False, w)
        else (case jobject_get_exists J obj ''connected'' of
            None \<Rightarrow> (True, w)
          | Some _ \<Rightarrow> (True, if get_bool J obj ''connected'' False then serviceStarted tok w else serviceStopped w)))"

text \<open>The replies to \<open>connect\<close> and \<open>disconnect\<close> are only parsed.\<close>

definition connectCb :: "'j pbnjson \<Rightarrow> string \<Rightarrow> bool" where
  "connectCb J payload = (\<not> jis_null J (jdom_parse J SCHEMA_ALL payload))"

definition disconnectCb :: "'j pbnjson \<Rightarrow> string \<Rightarrow> bool" where
  "disconnectCb J payload = (\<not> jis_null J (jdom_parse J SCHEMA_ALL payload))"

text \<open>
  The contexts of a \<^verbatim>\<open>getContexts\<close> reply, in order: the first one named \<open>supl\<close> decides, and
  without a \<open>connected\<close> field it ends the search.
\<close>

definition supl_info :: "'j pbnjson \<Rightarrow> nyx_consts \<Rightarrow> string \<Rightarrow> 'j \<Rightarrow> NetworkInfo option" where
  "supl_info J K apn ctx =
    (case jobject_get_exists J ctx ''connected'' of
       None \<Rightarrow> None
     | Some _ \<Rightarrow>
         let v4 = jobject_get_exists J ctx ''ipv4'' \<noteq> None; v6 = jobject_get_exists J ctx ''ipv6'' \<noteq> None
         in Some \<lparr>ni_available = get_bool J ctx ''connected'' False, ni_apn = apn,
                  ni_bearerType = (if v4 \<and> v6 then NYX_APN_IPV4V6 K else if v4 then NYX_APN_IPV4 K
                                   else if v6 then NYX_APN_IPV6 K else 0)\<rparr>)"

fun find_supl :: "'j pbnjson \<Rightarrow> 'j list \<Rightarrow> 'j option" where
  "find_supl J [] = None"
| "find_supl J (ctx # rest) =
    (case jobject_get_exists J ctx ''name'' of
       None \<Rightarrow> find_supl J rest
     | Some n \<Rightarrow> if jis_string J n \<and> jstring_get J n = Some ''supl'' then Some ctx else find_supl J rest)"

definition getContextCb ::
  "gps_env \<Rightarrow> 'j pbnjson \<Rightarrow> string \<Rightarrow> GpsWan \<Rightarrow> GPSPositionProvider \<Rightarrow> bool \<times> GPSPositionProvider" where
  "getContextCb E J payload w s =
    (let obj = jdom_parse J SCHEMA_ALL payload
     in if jis_null J obj then (False, s)
        else if \<not> get_bool J obj ''returnValue'' False then (True, s)
        else (case jobject_get_exists J obj ''contexts'' of
            None \<Rightarrow> (True, s)
          | Some arr \<Rightarrow>
              (case find_supl J (List.map (jarray_get J arr) [0..<jarray_size J arr]) of
                 None \<Rightarrow> (True, s)
               | Some ctx \<Rightarrow>
                   (case supl_info J (ge_consts E) (mApnName w) ctx of
                      None \<Rightarrow> (True, s)
                    | Some ni \<Rightarrow> (True, updateNetworkState E ni s)))))"

subsection \<open>The worker's data connection\<close>

text \<open>
  A round of the worker thread with the interface beside it: what the provider asks of it goes to the bus.
\<close>

definition wan_round :: "gps_env \<Rightarrow> GpsWan \<times> GPSPositionProvider \<Rightarrow> GpsWan \<times> GPSPositionProvider" where
  "wan_round E = (\<lambda>(w, s).
    let t = gps_thread_round (E\<lparr>ge_wan_up := mServiceConnected w\<rparr>) s;
        w1 = (if wan_connects t > wan_connects s then wan_connect w else w)
    in (if wan_disconnects t > wan_disconnects s then wan_disconnect w1 else w1, t))"

datatype wan_event =
    WServiceUp "nat option" string
  | WSettings string
  | WContexts gps_env string
  | WAgps bool bool
  | WRound gps_env

fun wan_step :: "'j pbnjson \<Rightarrow> ('j \<Rightarrow> 'j list) \<Rightarrow> wan_event \<Rightarrow> GpsWan \<times> GPSPositionProvider \<Rightarrow> GpsWan \<times> GPSPositionProvider" where
  "wan_step J ch (WServiceUp tok p) (w, s) = (snd (serviceUpCb J tok p w), s)"
| "wan_step J ch (WSettings p) (w, s) = (snd (settingServiceCb J ch p w), s)"
| "wan_step J ch (WContexts E p) (w, s) = (w, snd (getContextCb E J p w s))"
| "wan_step J ch (WAgps request release) (w, s) = (w, agpsStatusCb request release s)"
| "wan_step J ch (WRound E) (w, s) = wan_round E (w, s)"

subsection \<open>Properties\<close>

text \<open>The context a \<^verbatim>\<open>getContexts\<close> reply tells the provider of.\<close>

definition supl_reply :: "'j pbnjson \<Rightarrow> nyx_consts \<Rightarrow> string \<Rightarrow> string \<Rightarrow> NetworkInfo option" where
  "supl_reply J K apn payload =
    (let obj = jdom_parse J SCHEMA_ALL payload
     in if jis_null J obj \<or> \<not> get_bool J obj ''returnValue'' False then None
        else (case jobject_get_exists J obj ''contexts'' of
            None \<Rightarrow> None
          | Some arr \<Rightarrow>
              (case find_supl J (List.map (jarray_get J arr) [0..<jarray_size J arr]) of
                 None \<Rightarrow> None
               | Some ctx \<Rightarrow> supl_info J K apn ctx)))"

lemma getContextCb_reply:
  "snd (getContextCb E J p w s) =
    (case supl_reply J (ge_consts E) (mApnName w) p of None \<Rightarrow> s | Some ni \<Rightarrow> updateNetworkState E ni s)"
  by (simp add: getContextCb_def supl_reply_def Let_def split: option.split)

text \<open>What the worker makes of an action, and what a reply makes of the state.\<close>

lemma round_frame [simp]: "ni_available (mNetworkInfo (thrd (gps_thread_round E s))) = ni_available (mNetworkInfo (thrd s))"
  by (simp add: gps_thread_round_def Let_def nyx_def injectExtraTime_def case_prod_unfold split: GPSThreadActionEType.split)

lemma wan_round_open:
  assumes "mGPSThreadAction (thrd s) = ACTION_OPEN_ATL" and "\<not> gps_thread_quit (thrd s)"
  shows "ni_available (mNetworkInfo (thrd s)) \<Longrightarrow> wan_round E (w, s) = (w, upd_thrd (\<lambda>t. t\<lparr>mGPSDataConnectionState := DATA_CONNECTION_OPEN,
        mGPSThreadAction := ACTION_NONE\<rparr>)
      (s\<lparr>nyx_calls := nyx_calls s @ [NyxDataConnOpen (ni_apn (mNetworkInfo (thrd s))) (ni_bearerType (mNetworkInfo (thrd s)))]\<rparr>))"
    and "\<not> ni_available (mNetworkInfo (thrd s)) \<Longrightarrow> mServiceConnected w \<Longrightarrow> wan_round E (w, s) =
      (wan_connect w, upd_thrd (\<lambda>t. t\<lparr>mGPSDataConnectionState := DATA_CONNECTION_IDLE, mGPSThreadAction := ACTION_NONE\<rparr>)
        (s\<lparr>wan_connects := Suc (wan_connects s)\<rparr>))"
    and "\<not> ni_available (mNetworkInfo (thrd s)) \<Longrightarrow> \<not> mServiceConnected w \<Longrightarrow> wan_round E (w, s) =
      (w, upd_thrd (\<lambda>t. t\<lparr>mGPSThreadAction := ACTION_NONE\<rparr>) s)"
  using assms by (simp_all add: wan_round_def gps_thread_round_def nyx_def Let_def)

lemma wan_round_close:
  assumes "mGPSThreadAction (thrd s) = ACTION_CLOSE_ATL" and "\<not> gps_thread_quit (thrd s)"
  shows "ni_available (mNetworkInfo (thrd s)) \<Longrightarrow> wan_round E (w, s) =
      (wan_disconnect w, upd_thrd (\<lambda>t. t\<lparr>mGPSThreadAction := ACTION_NONE\<rparr>) (s\<lparr>wan_disconnects := Suc (wan_disconnects s)\<rparr>))"
    and "\<not> ni_available (mNetworkInfo (thrd s)) \<Longrightarrow> wan_round E (w, s) =
      (w, upd_thrd (\<lambda>t. t\<lparr>mGPSDataConnectionState := DATA_CONNECTION_CLOSED, mGPSThreadAction := ACTION_NONE\<rparr>)
        (s\<lparr>nyx_calls := nyx_calls s @ [NyxDataConnClosed]\<rparr>))"
  using assms by (simp_all add: wan_round_def gps_thread_round_def nyx_def Let_def)

definition wan_run :: "'j pbnjson \<Rightarrow> ('j \<Rightarrow> 'j list) \<Rightarrow> wan_event list \<Rightarrow> GpsWan \<times> GPSPositionProvider \<Rightarrow> GpsWan \<times> GPSPositionProvider" where
  "wan_run J ch es ws = fold (wan_step J ch) es ws"

text \<open>
  What the replies say, from their fields: a settings reply gives the apn of its first entry for \<open>supl\<close>; a contexts
  reply reports its first context named \<open>supl\<close>, whether it is connected and which addresses it has.
\<close>

definition for_supl :: "'j pbnjson \<Rightarrow> 'j \<Rightarrow> bool" where
  "for_supl J v \<longleftrightarrow> (\<exists>x y. wan_string J (wan_field J v ''type'') = x @ ''supl'' @ y)"

definition settings_give_apn :: "'j pbnjson \<Rightarrow> ('j \<Rightarrow> 'j list) \<Rightarrow> string \<Rightarrow> string \<Rightarrow> bool" where
  "settings_give_apn J children payload apn \<longleftrightarrow> payload \<noteq> [] \<and>
    (let root = jdom_parse J SCHEMA_ALL payload
     in \<not> jis_null J root
      \<and> (\<exists>b. wan_field J root ''returnValue'' = Some b \<and> jis_boolean J b \<and> snd (jboolean_get J b False))
      \<and> (\<exists>settings apns before entry after.
            wan_field J root ''settings'' = Some settings \<and> wan_field J settings ''apnList'' = Some apns
          \<and> children apns = before @ entry # after \<and> (\<forall>v \<in> set before. \<not> for_supl J v) \<and> for_supl J entry
          \<and> wan_string J (wan_field J entry ''apn'') = apn))"

definition named_supl :: "'j pbnjson \<Rightarrow> 'j \<Rightarrow> bool" where
  "named_supl J ctx \<longleftrightarrow> (\<exists>n. jobject_get_exists J ctx ''name'' = Some n \<and> jis_string J n \<and> jstring_get J n = Some ''supl'')"

definition contexts_report :: "'j pbnjson \<Rightarrow> string \<Rightarrow> bool \<Rightarrow> bool \<Rightarrow> bool \<Rightarrow> bool" where
  "contexts_report J payload up v4 v6 \<longleftrightarrow>
    (let obj = jdom_parse J SCHEMA_ALL payload
     in \<not> jis_null J obj \<and> get_bool J obj ''returnValue'' False
      \<and> (\<exists>arr before ctx after. jobject_get_exists J obj ''contexts'' = Some arr
          \<and> List.map (jarray_get J arr) [0..<jarray_size J arr] = before @ ctx # after
          \<and> (\<forall>v \<in> set before. \<not> named_supl J v) \<and> named_supl J ctx
          \<and> jobject_get_exists J ctx ''connected'' \<noteq> None \<and> get_bool J ctx ''connected'' False = up
          \<and> (jobject_get_exists J ctx ''ipv4'' \<noteq> None) = v4 \<and> (jobject_get_exists J ctx ''ipv6'' \<noteq> None) = v6))"

lemma contains_split: "contains p t \<longleftrightarrow> (\<exists>x y. t = x @ p @ y)"
proof (induction t)
  case (Cons c t)
  have "(\<exists>x y. c # t = x @ p @ y) \<longleftrightarrow> (\<exists>y. c # t = p @ y) \<or> (\<exists>x y. t = x @ p @ y)"
    by (metis append_Cons append_Nil neq_Nil_conv list.inject)
  then show ?case using Cons.IH by (simp add: has_prefix_append)
qed simp

lemma find_apn_step:
  "find_supl_apn J (v # vs) = (if for_supl J v then Some (wan_string J (wan_field J v ''apn'')) else find_supl_apn J vs)"
  by (cases "wan_field J v ''type''") (auto simp: for_supl_def wan_string_def contains_split Let_def)

lemma find_apn_first:
  "(\<forall>v \<in> set vs. \<not> for_supl J v) \<Longrightarrow> find_supl_apn J (vs @ us) = find_supl_apn J us"
  "find_supl_apn J vs = Some a \<Longrightarrow> \<exists>b e d. vs = b @ e # d \<and> (\<forall>v \<in> set b. \<not> for_supl J v) \<and> for_supl J e
    \<and> wan_string J (wan_field J e ''apn'') = a"
proof -
  show "(\<forall>v \<in> set vs. \<not> for_supl J v) \<Longrightarrow> find_supl_apn J (vs @ us) = find_supl_apn J us"
    by (induction vs) (simp_all add: find_apn_step del: find_supl_apn.simps(2))
  show "find_supl_apn J vs = Some a \<Longrightarrow> \<exists>b e d. vs = b @ e # d \<and> (\<forall>v \<in> set b. \<not> for_supl J v) \<and> for_supl J e
      \<and> wan_string J (wan_field J e ''apn'') = a"
  proof (induction vs)
    case (Cons v vs)
    show ?case
    proof (cases "for_supl J v")
      case True
      then show ?thesis
        using Cons.prems by (intro exI [of _ "[]"]) (simp add: find_apn_step del: find_supl_apn.simps(2))
    next
      case False
      then obtain b e d where "vs = b @ e # d" "\<forall>v \<in> set b. \<not> for_supl J v" "for_supl J e" "wan_string J (wan_field J e ''apn'') = a"
        using Cons.IH Cons.prems by (auto simp: find_apn_step simp del: find_supl_apn.simps(2))
      then show ?thesis using False by (intro exI [of _ "v # b"]) auto
    qed
  qed simp
qed

lemma settings_apn:
  "settings_give_apn J ch p a \<Longrightarrow> mApnName (snd (settingServiceCb J ch p w)) = a"
  "\<nexists>a. settings_give_apn J ch p a \<Longrightarrow> mApnName (snd (settingServiceCb J ch p w)) = mApnName w"
proof -
  show "settings_give_apn J ch p a \<Longrightarrow> mApnName (snd (settingServiceCb J ch p w)) = a"
    by (auto simp: settings_give_apn_def settingServiceCb_def find_apn_first(1) find_apn_step Let_def simp del: find_supl_apn.simps(2))
  assume n: "\<nexists>a. settings_give_apn J ch p a"
  show "mApnName (snd (settingServiceCb J ch p w)) = mApnName w"
  proof (rule ccontr)
    let ?root = "jdom_parse J SCHEMA_ALL p"
    assume "mApnName (snd (settingServiceCb J ch p w)) \<noteq> mApnName w"
    then obtain b st l a where r: "p \<noteq> []" "\<not> jis_null J ?root" "wan_field J ?root ''returnValue'' = Some b" "jis_boolean J b"
        "snd (jboolean_get J b False)" "wan_field J ?root ''settings'' = Some st" "wan_field J st ''apnList'' = Some l"
        and f: "find_supl_apn J (ch l) = Some a"
      by (auto simp: settingServiceCb_def Let_def split: if_splits option.splits)
    then show False using n find_apn_first(2) [OF f] unfolding settings_give_apn_def Let_def by blast
  qed
qed

lemma find_supl_first:
  "(\<forall>v \<in> set before. \<not> named_supl J v) \<Longrightarrow> named_supl J ctx \<Longrightarrow> find_supl J (before @ ctx # after) = Some ctx"
  by (induction before) (auto simp: named_supl_def split: option.splits)

lemma contexts_reply:
  assumes "contexts_report J p c v4 v6"
  shows "supl_reply J K apn p = Some \<lparr>ni_available = c, ni_apn = apn,
    ni_bearerType = (if v4 \<and> v6 then NYX_APN_IPV4V6 K else if v4 then NYX_APN_IPV4 K else if v6 then NYX_APN_IPV6 K else 0)\<rparr>"
  using assms by (auto simp: contexts_report_def supl_reply_def supl_info_def find_supl_first Let_def)

lemma apn_kept:
  assumes "\<forall>p a. WSettings p \<in> set es \<longrightarrow> \<not> settings_give_apn J ch p a"
  shows "mApnName (fst (wan_run J ch es ws)) = mApnName (fst ws)"
  using assms
proof (induction es arbitrary: ws)
  case (Cons e es)
  obtain w s where ws: "ws = (w, s)" by fastforce
  have "mApnName (fst (wan_step J ch e ws)) = mApnName w"
  proof (cases e)
    case (WSettings p)
    then show ?thesis using Cons.prems settings_apn(2) [of J ch p w] by (auto simp: ws)
  qed (simp_all add: ws serviceUpCb_def serviceStarted_def serviceStopped_def registerLunaMethods_def wan_round_def wan_send_def
      wan_connect_def wan_disconnect_def Let_def split: option.split)
  then show ?case using Cons.IH [of "wan_step J ch e ws"] Cons.prems by (simp add: wan_run_def ws)
qed (simp add: wan_run_def)

text \<open>The worker's thread turns again and again; only the first round after an event has something to do.\<close>

lemma idle_rounds:
  "mGPSThreadAction (thrd s) = ACTION_NONE \<or> gps_thread_quit (thrd s) \<Longrightarrow> fold (wan_step J ch) (List.map WRound Es) (w, s) = (w, s)"
  by (induction Es) (auto simp: wan_round_def gps_thread_round_def)

lemma rounds_once:
  assumes "Es \<noteq> []" and "\<And>E. wan_round E (w, s) = (w', s')" and "mGPSThreadAction (thrd s') = ACTION_NONE"
  shows "fold (wan_step J ch) (List.map WRound Es) (w, s) = (w', s')"
proof -
  obtain E Es' where "Es = E # Es'" using assms(1) by (cases Es) auto
  then show ?thesis using idle_rounds [of s' J ch Es' w'] assms(2,3) by simp
qed

text \<open>
  C16: a data connection for assisted GPS, from the receiver's request to its release, after any history in which
  the settings service gave an apn last: with the WAN service up and no connection, the worker asks it to connect;
  when the service reports a connected supl context, the receiver is told that the network is there and is given
  the connection, with that apn and the kind of the context's addresses; on the release the worker asks for the
  disconnection, and when the context is gone the receiver is told. The worker may turn any number of rounds
  after each event.
\<close>

theorem supl_session:
  assumes "wan_run J ch (before @ WSettings cfg # after) start = (w, s)" and "settings_give_apn J ch cfg apn" and "apn \<noteq> []"
    and "\<forall>p a. WSettings p \<in> set after \<longrightarrow> \<not> settings_give_apn J ch p a"
    and "mServiceConnected w" and "\<not> ni_available (mNetworkInfo (thrd s))" and "\<not> gps_thread_quit (thrd s)"
    and "contexts_report J up True v4 v6" and "contexts_report J down False d4 d6"
    and "Es1 \<noteq> []" and "Es2 \<noteq> []" and "Es3 \<noteq> []" and "Es4 \<noteq> []" and "K = ge_consts E"
  shows "\<exists>w' s'. wan_run J ch ([WAgps True False] @ List.map WRound Es1 @ [WContexts E up] @ List.map WRound Es2
          @ [WAgps False True] @ List.map WRound Es3 @ [WContexts E' down] @ List.map WRound Es4) (w, s) = (w', s')
    \<and> wan_bus w' = wan_bus w @ [WanLSCall (WAN_FUNC ''connect'') (OObj [(''name'', OStr ''supl'')]),
        WanLSCall (WAN_FUNC ''disconnect'') (OObj [(''name'', OStr ''supl'')])]
    \<and> nyx_calls s' = nyx_calls s @ [NyxUpdateNetworkAvailability True apn,
        NyxDataConnOpen apn (if v4 \<and> v6 then NYX_APN_IPV4V6 K else if v4 then NYX_APN_IPV4 K else if v6 then NYX_APN_IPV6 K else 0),
        NyxDataConnClosed]
    \<and> mGPSDataConnectionState (thrd s') = DATA_CONNECTION_CLOSED \<and> \<not> ni_available (mNetworkInfo (thrd s'))"
proof -
  have a: "mApnName w = apn"
    using apn_kept [OF assms(4), of "wan_step J ch (WSettings cfg) (wan_run J ch before start)"] assms(1) settings_apn(1) [OF assms(2)]
    by (cases "wan_run J ch before start") (simp add: wan_run_def)
  note r = contexts_reply [OF assms(8)] contexts_reply [OF assms(9)]
  show ?thesis
    using assms(3,5,6,7,10-14)
    by (simp add: wan_run_def agpsStatusCb_def rounds_once wan_round_open wan_round_close getContextCb_reply r a updateNetworkState_def
        nyx_def wan_connect_def wan_disconnect_def wan_send_def Let_def)
qed

definition demo_wan :: "json pbnjson" where
  "demo_wan = json_api
     [(''up'', JObj [(''connected'', JBool True)]),
      (''apns'', JObj [(''returnValue'', JBool True), (''settings'', JObj [(''apnList'', JObj
         [(''0'', JObj [(''type'', JStr ''default''), (''apn'', JStr ''net'')]),
          (''1'', JObj [(''type'', JStr ''mms,supl''), (''apn'', JStr ''agps'')])])])]),
      (''on'', JObj [(''returnValue'', JBool True), (''contexts'', JArr
         [JObj [(''name'', JStr ''supl''), (''connected'', JBool True), (''ipv4'', JNull)]])]),
      (''off'', JObj [(''returnValue'', JBool True), (''contexts'', JArr
         [JObj [(''name'', JStr ''supl''), (''connected'', JBool False)]])])]"

definition demo_children :: "json \<Rightarrow> json list" where
  "demo_children j = (case j of JObj fs \<Rightarrow> List.map snd fs | JArr xs \<Rightarrow> xs | _ \<Rightarrow> [])"

lemma demo_wan_up:
  "wan_run demo_wan demo_children [WServiceUp (Some 3) ''up'', WSettings ''apns''] (wan_initialize wan_init, s) = (w, t) \<Longrightarrow>
    mServiceConnected w \<and> mApnName w = ''agps'' \<and> t = s"
  by (auto simp: wan_run_def demo_wan_def demo_children_def json_api_def serviceUpCb_def get_bool_def serviceStarted_def registerLunaMethods_def
      wan_send_def settingServiceCb_def wan_field_def wan_string_def wan_initialize_def wan_init_def settingsServiceLunaCall_def
      wanServiceStatus_def Let_def)

theorem supl_session_witness:
  "\<exists>w s w' s'. wan_run demo_wan demo_children ([WServiceUp (Some 3) ''up''] @ WSettings ''apns'' # [])
        (wan_initialize wan_init, gps_init (loadDefaults 1)) = (w, s)
    \<and> wan_run demo_wan demo_children ([WAgps True False] @ List.map WRound [demo_env] @ [WContexts demo_env ''on'']
        @ List.map WRound [demo_env, demo_env] @ [WAgps False True] @ List.map WRound [demo_env] @ [WContexts demo_env ''off'']
        @ List.map WRound [demo_env]) (w, s) = (w', s')
    \<and> nyx_calls s' = [NyxUpdateNetworkAvailability True ''agps'', NyxDataConnOpen ''agps'' (NYX_APN_IPV4 nyx_demo_consts), NyxDataConnClosed]"
proof -
  let ?s = "gps_init (loadDefaults 1)"
  obtain w t where r: "wan_run demo_wan demo_children ([WServiceUp (Some 3) ''up''] @ WSettings ''apns'' # [])
      (wan_initialize wan_init, ?s) = (w, t)"
    by fastforce
  then have w: "mServiceConnected w" "t = ?s" using demo_wan_up [of ?s w t] by simp_all
  have s: "\<not> ni_available (mNetworkInfo (thrd t))" "\<not> gps_thread_quit (thrd t)" "nyx_calls t = []"
    by (simp_all add: w gps_init_def thrd_init_def network_info_init_def)
  note d = demo_wan_def demo_children_def json_api_def wan_field_def wan_string_def
  let ?e = "\<lambda>t a. JObj [(''type'', JStr t), (''apn'', JStr a)]"
  have f: "\<not> for_supl demo_wan (?e ''default'' ''net'')" "for_supl demo_wan (?e ''mms,supl'' ''agps'')"
    unfolding for_supl_def contains_split [symmetric] by (simp_all add: d)
  have g: "settings_give_apn demo_wan demo_children ''apns'' ''agps''"
    unfolding settings_give_apn_def Let_def
  proof (intro conjI)
    let ?l = "JObj [(''0'', ?e ''default'' ''net''), (''1'', ?e ''mms,supl'' ''agps'')]"
    show "\<exists>settings apns before entry after.
        wan_field demo_wan (jdom_parse demo_wan SCHEMA_ALL ''apns'') ''settings'' = Some settings
      \<and> wan_field demo_wan settings ''apnList'' = Some apns \<and> demo_children apns = before @ entry # after
      \<and> (\<forall>v \<in> set before. \<not> for_supl demo_wan v) \<and> for_supl demo_wan entry
      \<and> wan_string demo_wan (wan_field demo_wan entry ''apn'') = ''agps''"
      by (rule exI [of _ "JObj [(''apnList'', ?l)]"], rule exI [of _ ?l], rule exI [of _ "[?e ''default'' ''net'']"],
          rule exI [of _ "?e ''mms,supl'' ''agps''"], rule exI [of _ "[]"]) (simp add: f, simp add: d)
  qed (simp_all add: d)
  have u: "contexts_report demo_wan ''on'' True True False" "contexts_report demo_wan ''off'' False False False"
    by (simp_all add: contexts_report_def demo_wan_def json_api_def get_bool_def named_supl_def Cons_eq_append_conv)
  show ?thesis
    using supl_session [OF r g _ _ w(1) s(1,2) u, of "[demo_env]" "[demo_env, demo_env]" "[demo_env]" "[demo_env]"
      "nyx_demo_consts" demo_env demo_env] r s(3)
    by (simp add: demo_env_def) blast
qed

text \<open>
  While the WAN service is down a request is dropped: nothing is asked of the bus and the receiver is not
  told that the connection failed.
\<close>

lemma request_without_wan_is_dropped:
  assumes "\<not> mServiceConnected w" and "\<not> ni_available (mNetworkInfo (thrd s))" and "\<not> gps_thread_quit (thrd s)"
  shows "wan_run J ch [WAgps True False, WRound E] (w, s) = (w, upd_thrd (\<lambda>t. t\<lparr>mGPSThreadAction := ACTION_NONE\<rparr>) s)"
  using assms by (simp add: wan_run_def agpsStatusCb_def wan_round_open)

end
