(* ===== verification/Process_Life.thy ===== *)
theory Process_Life
  imports Service_Ambient
begin

text \<open>
  The process from its start to its end (\<^verbatim>\<open>Main.cpp\<close>, \<^verbatim>\<open>LocationService::init\<close>,
  \<^verbatim>\<open>locationServiceRegister\<close> and \<^verbatim>\<open>deinit\<close>, the registrations of \<^verbatim>\<open>ConnectionStateObserver\<close>):
  what it acquires on the bus, and what of it is given back.
\<close>

subsection \<open>Calls on the bus\<close>

datatype bus_call =
    LSRegister string
  | LSGmainAttach
  | LSRegisterCategoryAppend string "string list"
  | LSCategorySetData string
  | LSSubscriptionSetCancelFunction
  | LSRegisterServerStatusEx string
  | LSCancelServerStatus nat
  | LSCallAddmatch LSOut
  | LSUnregister

text \<open>\<open>ok\<close> says which calls succeed, \<open>cookie\<close> what a status registration stores, \<open>None\<close> when it fails.\<close>

record bus_env =
  be_ok :: "bus_call \<Rightarrow> bool"
  be_cookie :: "string \<Rightarrow> nat option"

text \<open>\<^verbatim>\<open>LSERROR_CHECK_AND_PRINT\<close> after each call: the first failure ends the sequence.\<close>

fun checked_calls :: "(bus_call \<Rightarrow> bool) \<Rightarrow> bus_call list \<Rightarrow> bool \<times> bus_call list" where
  "checked_calls ok [] = (True, [])"
| "checked_calls ok (c # cs) =
    (if ok c then (let (r, done) = checked_calls ok cs in (r, c # done)) else (False, [c]))"

definition method_names :: "category \<Rightarrow> string list" where
  "method_names cat = List.map fst (methods cat :: (string \<times> (unit, unit) handler) list)"

definition register_calls :: "bus_call list" where
  "register_calls =
    [LSRegister ''com.webos.service.location'', LSGmainAttach,
     LSRegisterCategoryAppend ''/'' (method_names ROOT_CATEGORY), LSRegisterCategoryAppend ''/'' [],
     LSCategorySetData ''/'',
     LSRegisterCategoryAppend ''/geofence'' (method_names GEOFENCE_CATEGORY), LSCategorySetData ''/geofence'',
     LSRegisterCategoryAppend ''/mock'' [''setLocation''], LSRegisterCategoryAppend ''/mock'' [''enable'', ''disable''],
     LSCategorySetData ''/mock'', LSSubscriptionSetCancelFunction]"

definition locationServiceRegister :: "bus_env \<Rightarrow> bool \<times> bus_call list" where
  "locationServiceRegister B = checked_calls (be_ok B) register_calls"

subsection \<open>The connection watcher\<close>

datatype IConnectivityListener = SERVICE_LISTENER | NETWORK_LISTENER

text \<open>A cookie is indeterminate (\<open>None\<close>) until a registration has stored it: the class has no constructor.\<close>

record ConnectionStateObserver =
  m_listeners :: "IConnectivityListener set"
  m_telephony_cookie :: "nat option"
  m_wifi_cookie :: "nat option"
  m_wan_cookie :: "nat option"

definition observer_new :: ConnectionStateObserver where
  "observer_new = \<lparr>m_listeners = {}, m_telephony_cookie = None, m_wifi_cookie = None, m_wan_cookie = None\<rparr>"

definition RegisterListener :: "IConnectivityListener option \<Rightarrow> ConnectionStateObserver \<Rightarrow> ConnectionStateObserver" where
  "RegisterListener l w = (case l of None \<Rightarrow> w | Some x \<Rightarrow> w\<lparr>m_listeners := insert x (m_listeners w)\<rparr>)"

definition UnregisterListener :: "IConnectivityListener option \<Rightarrow> ConnectionStateObserver \<Rightarrow> ConnectionStateObserver" where
  "UnregisterListener l w = (case l of None \<Rightarrow> w | Some x \<Rightarrow> w\<lparr>m_listeners := m_listeners w - {x}\<rparr>)"

abbreviation CONNMGR_SERVICE :: string where "CONNMGR_SERVICE \<equiv> ''com.webos.service.connectionmanager''"

definition keep_cookie :: "nat option \<Rightarrow> nat option \<Rightarrow> nat option" where
  "keep_cookie c old = (case c of None \<Rightarrow> old | Some _ \<Rightarrow> c)"

definition observer_init :: "bus_env \<Rightarrow> bool \<Rightarrow> ConnectionStateObserver \<Rightarrow> ConnectionStateObserver \<times> bus_call list" where
  "observer_init B handle w =
    (if \<not> handle then (w, [])
     else
       (w\<lparr>m_wifi_cookie := keep_cookie (be_cookie B WIFI_SERVICE) (m_wifi_cookie w),
          m_wan_cookie := keep_cookie (be_cookie B CONNMGR_SERVICE) (m_wan_cookie w),
          m_telephony_cookie := keep_cookie (be_cookie B TELEPHONY_SERVICE) (m_telephony_cookie w)\<rparr>,
        [LSRegisterServerStatusEx WIFI_SERVICE, LSRegisterServerStatusEx CONNMGR_SERVICE, LSRegisterServerStatusEx TELEPHONY_SERVICE,
         LSCallAddmatch (ls_out ''luna://com.webos.service.bus/signal/addmatch''
           ''{\"category\":\"/com/palm/power\", \"method\":\"resume\"}'')]))"

text \<open>Cancelling an indeterminate cookie is undefined.\<close>

definition observer_finalize :: "ConnectionStateObserver \<Rightarrow> bus_call list option" where
  "observer_finalize w =
    (case (m_telephony_cookie w, m_wifi_cookie w, m_wan_cookie w) of
       (Some t, Some wi, Some wa) \<Rightarrow> Some [LSCancelServerStatus t, LSCancelServerStatus wi, LSCancelServerStatus wa]
     | _ \<Rightarrow> None)"

subsection \<open>The prepared error replies\<close>

definition LSMessageReleaseErrorReply :: "'j jout option list \<Rightarrow> 'j jout option list" where
  "LSMessageReleaseErrorReply rs = List.map (\<lambda>_. None) rs"

definition LSMessageInitErrorReply :: "bool \<times> 'j jout option list" where
  "LSMessageInitErrorReply = (True, List.map Some locationErrorReply)"

subsection \<open>Keys from the secure storage\<close>

record StorageKeys =
  nwGeolocationKey :: "string option"
  lbsGeocodeKey :: "string option"

definition updateNwKey :: "string option \<Rightarrow> StorageKeys \<Rightarrow> StorageKeys" where
  "updateNwKey k s = (if k = None then s else s\<lparr>nwGeolocationKey := k\<rparr>)"

definition updateLbsKey :: "string option \<Rightarrow> StorageKeys \<Rightarrow> StorageKeys" where
  "updateLbsKey k s = (if k = None then s else s\<lparr>lbsGeocodeKey := k\<rparr>)"

text \<open>Two calls, the second only when the first could be made. The context tells the replies apart.\<close>

definition securestorage_get :: "(LSOut \<Rightarrow> bool) \<Rightarrow> bool \<times> (LSOut \<times> string) list" where
  "securestorage_get ls =
    (let c1 = ls_out ''luna://com.webos.service.securestorage/keystorageget'' ''{\"keyname\":\"com.webos.service.location.geolocation\"}'';
         c2 = ls_out ''luna://com.webos.service.securestorage/keystorageget'' ''{\"keyname\":\"com.webos.service.location.geocode\"}''
     in if \<not> ls c1 then (False, [(c1, ''nwkey'')])
        else (ls c2, [(c1, ''nwkey''), (c2, ''lbskey'')]))"

definition secure_storage_get_cb ::
  "('c, 'j) svc_env \<Rightarrow> LSMessage \<Rightarrow> string option \<Rightarrow> ('c, 'j) LocationService \<times> StorageKeys \<Rightarrow> ('c, 'j) LocationService \<times> StorageKeys" where
  "secure_storage_get_cb E reply ctx = (\<lambda>(s, k).
    case ctx of
      None \<Rightarrow> (s, k)
    | Some c \<Rightarrow>
        (case LSMessageValidateSchemaReplyOnError E reply SCHEMA_ALL s of
           (None, s1) \<Rightarrow> (s1, k)
         | (Some parsed, s1) \<Rightarrow>
             (s1, case jobject_get_exists (sj E) parsed ''buff'' of
                    None \<Rightarrow> k
                  | Some v \<Rightarrow>
                      if c = ''nwkey'' then updateNwKey (jstring_get (sj E) v) k
                      else if c = ''lbskey'' then updateLbsKey (jstring_get (sj E) v) k else k)))"

subsection \<open>Start and end\<close>

text \<open>\<open>p_left\<close> are the listeners the watcher still had when it was deleted.\<close>

record ('c, 'j) Process =
  p_service :: "('c, 'j) LocationService"
  p_handle :: bool
  p_observer :: "ConnectionStateObserver option"
  p_errors :: "'j jout option list"
  p_keys :: StorageKeys
  p_network :: bool
  p_left :: "IConnectivityListener set"
  p_bus :: "bus_call list"

definition process_new :: "'c \<Rightarrow> GPSServiceConfig \<Rightarrow> ('c, 'j) Process" where
  "process_new c cfg =
    \<lparr>p_service = svc_new c cfg, p_handle = False, p_observer = None, p_errors = replicate (length all_loc_errors) None,
     p_keys = \<lparr>nwGeolocationKey = None, lbsGeocodeKey = None\<rparr>, p_network = False, p_left = {}, p_bus = []\<rparr>"

text \<open>
  \<^verbatim>\<open>init\<close>: after a failed registration nothing is built. \<open>svc_init\<close> is what it does to the service and
  its providers.
\<close>

definition process_init :: "bus_env \<Rightarrow> ('c, 'j) svc_env \<Rightarrow> 'c \<Rightarrow> GPSServiceConfig \<Rightarrow> bool \<times> ('c, 'j) Process" where
  "process_init B E c cfg =
    (let p = process_new c cfg; (ok, calls) = locationServiceRegister B;
         p1 = p\<lparr>p_bus := calls, p_handle := (case calls of [] \<Rightarrow> False | r # _ \<Rightarrow> be_ok B r)\<rparr>
     in if \<not> ok then (False, p1)
        else
          let (ready, errors) = LSMessageInitErrorReply;
              p2 = p1\<lparr>p_network := True, p_service := svc_init E c cfg, p_errors := errors\<rparr>
          in if \<not> ready then (False, p2)
             else
               let (w, calls2) = observer_init B (p_handle p2) observer_new
               in (True, p2\<lparr>p_observer := Some (RegisterListener (Some NETWORK_LISTENER) (RegisterListener (Some SERVICE_LISTENER) w)),
                           p_bus := p_bus p2 @ calls2\<rparr>))"

text \<open>
  \<^verbatim>\<open>deinit\<close>, \<open>None\<close> when it runs into undefined behaviour. The network request manager is one object, of
  which each provider's model has its part. The engine and its requests are left as they are: only the
  destructor of the GPS provider, which runs after \<^verbatim>\<open>main\<close>, closes the receiver.
\<close>

definition stop_requests :: "('c, 'j) LocationService \<Rightarrow> ('c, 'j) LocationService" where
  "stop_requests s =
    s\<lparr>mNetworkProvider := (mNetworkProvider s)\<lparr>http := nrm_deInit (http (mNetworkProvider s))\<rparr>,
      mLBSProvider := (mLBSProvider s)\<lparr>mNetReqMgr := nrm_deInit (mNetReqMgr (mLBSProvider s))\<rparr>\<rparr>"

definition deinit :: "('c, 'j) Process \<Rightarrow> ('c, 'j) Process option" where
  "deinit p =
    (let p1 = p\<lparr>p_errors := LSMessageReleaseErrorReply (p_errors p),
                p_service := (p_service p)\<lparr>htPseudoGeofence := []\<rparr>,
                p_keys := \<lparr>nwGeolocationKey = None, lbsGeocodeKey = None\<rparr>\<rparr>
     in case p_observer p1 of
          None \<Rightarrow> None
        | Some w \<Rightarrow>
            let w1 = UnregisterListener (Some SERVICE_LISTENER) w
            in (case observer_finalize w1 of
                  None \<Rightarrow> None
                | Some cancels \<Rightarrow>
                    let w2 = UnregisterListener (Some NETWORK_LISTENER) w1;
                        s1 = stop_requests ((p_service p1)\<lparr>m_lifeCycleMonitor := None\<rparr>)
                    in Some (p1\<lparr>p_observer := None, p_left := m_listeners w2, p_bus := p_bus p1 @ cancels @ [LSUnregister],
                             p_handle := False, p_service := s1, p_network := False\<rparr>)))"

datatype exit_status = EXIT_SUCCESS | EXIT_FAILURE

text \<open>\<^verbatim>\<open>main\<close>: the events are what the main loop delivers before it is quit.\<close>

definition main_process ::
  "bool \<Rightarrow> bus_env \<Rightarrow> ('c, 'j) svc_env \<Rightarrow> 'c \<Rightarrow> GPSServiceConfig \<Rightarrow> ('c, 'j) svc_event list \<Rightarrow> (exit_status \<times> ('c, 'j) Process) option" where
  "main_process loop_made B E c cfg es =
    (if \<not> loop_made then Some (EXIT_FAILURE, process_new c cfg)
     else
       let (ok, p) = process_init B E c cfg
       in if \<not> ok then Some (EXIT_FAILURE, p)
          else (case svc_run es (p_service p) of
                  None \<Rightarrow> None
                | Some s \<Rightarrow> map_option (\<lambda>q. (EXIT_SUCCESS, q)) (deinit (p\<lparr>p_service := s\<rparr>))))"

subsection \<open>Properties\<close>

lemma checked_calls_all: "fst (checked_calls ok cs) \<longleftrightarrow> list_all ok cs"
  by (induction cs) (auto split: prod.split)

lemma checked_calls_done: "list_all ok cs \<Longrightarrow> snd (checked_calls ok cs) = cs"
  by (induction cs) (auto split: prod.split)

lemma checked_calls_failed:
  "\<not> list_all ok cs \<Longrightarrow> \<exists>c \<in> set cs. \<not> ok c \<and> snd (checked_calls ok cs) = takeWhile ok cs @ [c]"
  by (induction cs) (auto split: prod.split)

lemma register_calls_nonempty: "register_calls = LSRegister ''com.webos.service.location'' # tl register_calls"
  by (simp add: register_calls_def)

definition watch_calls :: "bus_call list" where
  "watch_calls =
    [LSRegisterServerStatusEx WIFI_SERVICE, LSRegisterServerStatusEx CONNMGR_SERVICE, LSRegisterServerStatusEx TELEPHONY_SERVICE,
     LSCallAddmatch (ls_out ''luna://com.webos.service.bus/signal/addmatch'' ''{\"category\":\"/com/palm/power\", \"method\":\"resume\"}'')]"

lemma process_init_ok:
  assumes "list_all (be_ok B) register_calls"
  shows "\<exists>w. process_init B E c cfg = (True, (process_new c cfg)\<lparr>p_service := svc_init E c cfg, p_handle := True, p_observer := Some w,
      p_errors := List.map Some locationErrorReply, p_network := True, p_bus := register_calls @ watch_calls\<rparr>)
    \<and> m_listeners w = {SERVICE_LISTENER, NETWORK_LISTENER} \<and> m_wifi_cookie w = be_cookie B WIFI_SERVICE
    \<and> m_wan_cookie w = be_cookie B CONNMGR_SERVICE \<and> m_telephony_cookie w = be_cookie B TELEPHONY_SERVICE"
proof -
  have r: "locationServiceRegister B = (True, register_calls)"
    using checked_calls_all [of "be_ok B" register_calls] checked_calls_done [of "be_ok B" register_calls] assms
    by (simp add: locationServiceRegister_def prod_eq_iff)
  have h: "(case register_calls of [] \<Rightarrow> False | r # _ \<Rightarrow> be_ok B r)"
    using assms by (subst register_calls_nonempty) (subst (asm) register_calls_nonempty, simp)
  show ?thesis
    using h by (auto simp: process_init_def r Let_def LSMessageInitErrorReply_def observer_init_def observer_new_def RegisterListener_def
        watch_calls_def keep_cookie_def process_new_def split: option.split)
qed

text \<open>
  C17: a start whose registrations on the bus succeed, those of the three status watches included, and a run
  without undefined behaviour end in success, and by then the process has given back what it took from the bus: every status watch is cancelled with the cookie it
  was given, no listener is left in the watcher, the handle is gone, the error replies are freed and no
  transaction is taken any more. The GPS provider is left as the run left it. (Where a status watch could
  not be registered the start succeeds all the same, and the end is undefined, see \<open>failed_watch_is_cancelled\<close>.)
\<close>

theorem process_shutdown:
  assumes "list_all (be_ok B) register_calls" and "be_cookie B WIFI_SERVICE = Some wi" "be_cookie B CONNMGR_SERVICE = Some wa"
    "be_cookie B TELEPHONY_SERVICE = Some te" and "svc_run es (svc_init E c cfg) = Some s"
  shows "\<exists>p. main_process True B E c cfg es = Some (EXIT_SUCCESS, p)
    \<and> p_bus p = register_calls @ watch_calls @ [LSCancelServerStatus te, LSCancelServerStatus wi, LSCancelServerStatus wa, LSUnregister]
    \<and> p_observer p = None \<and> p_left p = {} \<and> \<not> p_handle p \<and> \<not> p_network p \<and> list_all (\<lambda>r. r = None) (p_errors p)
    \<and> \<not> nrm_active (http (mNetworkProvider (p_service p))) \<and> \<not> nrm_active (mNetReqMgr (mLBSProvider (p_service p)))
    \<and> mGPSProvider (p_service p) = mGPSProvider s"
proof -
  from process_init_ok [OF assms(1), of E c cfg] obtain w where
    i: "process_init B E c cfg = (True, (process_new c cfg)\<lparr>p_service := svc_init E c cfg, p_handle := True, p_observer := Some w,
        p_errors := List.map Some locationErrorReply, p_network := True, p_bus := register_calls @ watch_calls\<rparr>)"
    and w: "m_listeners w = {SERVICE_LISTENER, NETWORK_LISTENER}" "m_wifi_cookie w = Some wi" "m_wan_cookie w = Some wa"
      "m_telephony_cookie w = Some te" using assms(2-4) by auto
  have n: "\<not> nrm_active (nrm_deInit h)" for h by (simp add: nrm_deInit_def)
  show ?thesis
    using w by (auto simp: main_process_def i assms(5) deinit_def UnregisterListener_def observer_finalize_def Let_def stop_requests_def
        LSMessageReleaseErrorReply_def list_all_iff n process_new_def)
qed

lemma process_init_failed:
  assumes "\<not> list_all (be_ok B) register_calls"
  shows "\<exists>x. \<not> be_ok B x \<and> (\<exists>h. process_init B E c cfg
    = (False, (process_new c cfg)\<lparr>p_bus := takeWhile (be_ok B) register_calls @ [x], p_handle := h\<rparr>))"
proof -
  obtain x where "\<not> be_ok B x" "snd (checked_calls (be_ok B) register_calls) = takeWhile (be_ok B) register_calls @ [x]"
    using checked_calls_failed [OF assms] by blast
  moreover have "\<not> fst (checked_calls (be_ok B) register_calls)" using assms by (simp add: checked_calls_all)
  ultimately show ?thesis by (auto simp: process_init_def locationServiceRegister_def Let_def case_prod_unfold)
qed

text \<open>
  C34: with a main loop, a start fails exactly when one of the registrations on the bus fails; then the call
  that failed was the last one made, no provider is enabled, no watcher made and no event handled.
\<close>

theorem failed_start:
  assumes "main_process True B E c cfg es = Some (r, p)"
  shows "(r = EXIT_FAILURE \<longleftrightarrow> \<not> list_all (be_ok B) register_calls)
    \<and> (r = EXIT_FAILURE \<longrightarrow> p_service p = svc_new c cfg \<and> p_observer p = None \<and> \<not> p_network p
      \<and> (\<exists>x. \<not> be_ok B x \<and> p_bus p = takeWhile (be_ok B) register_calls @ [x]))"
proof (cases "list_all (be_ok B) register_calls")
  case True
  then have "r = EXIT_SUCCESS"
    using process_init_ok [OF True, of E c cfg] assms by (auto simp: main_process_def split: option.splits)
  with True show ?thesis by simp
next
  case False
  then have "r = EXIT_FAILURE \<and> p_service p = svc_new c cfg \<and> p_observer p = None \<and> \<not> p_network p
      \<and> (\<exists>x. \<not> be_ok B x \<and> p_bus p = takeWhile (be_ok B) register_calls @ [x])"
    using process_init_failed [OF False, of E c cfg] assms by (auto simp: main_process_def process_new_def)
  with False show ?thesis by blast
qed

text \<open>
  A status watch that could not be registered leaves its cookie indeterminate, and the end of the process
  cancels it all the same.
\<close>

lemma failed_watch_is_cancelled:
  assumes "list_all (be_ok B) register_calls" and "svc_run es (svc_init E c cfg) = Some s"
    and "be_cookie B WIFI_SERVICE = None \<or> be_cookie B CONNMGR_SERVICE = None \<or> be_cookie B TELEPHONY_SERVICE = None"
  shows "main_process True B E c cfg es = None"
  using process_init_ok [OF assms(1), of E c cfg] assms(2,3)
  by (auto simp: main_process_def deinit_def UnregisterListener_def observer_finalize_def Let_def split: option.split)

subsection \<open>Examples\<close>

definition demo_bus :: bus_env where
  "demo_bus = \<lparr>be_ok = (\<lambda>_. True), be_cookie = (\<lambda>_. Some 7)\<rparr>"

definition demo_no_cancel :: bus_env where
  "demo_no_cancel = demo_bus\<lparr>be_ok := (\<lambda>c. c \<noteq> LSSubscriptionSetCancelFunction)\<rparr>"

theorem process_shutdown_witness:
  "\<exists>p. main_process True demo_bus svc_demo (\<lambda>_. []) (loadDefaults 1) [] = Some (EXIT_SUCCESS, p) \<and> p_left p = {}"
proof -
  have b: "list_all (be_ok demo_bus) register_calls" and c: "be_cookie demo_bus n = Some 7" for n
    by (simp_all add: demo_bus_def list_all_iff)
  have r: "svc_run [] (svc_init svc_demo (\<lambda>_. []) (loadDefaults 1)) = Some (svc_init svc_demo (\<lambda>_. []) (loadDefaults 1))" by simp
  show ?thesis using process_shutdown [OF b c c c r] by blast
qed

theorem failed_start_witness:
  "\<exists>r p. main_process True demo_no_cancel svc_demo (\<lambda>_. []) (loadDefaults 1) [] = Some (r, p) \<and> r = EXIT_FAILURE \<and> p_observer p = None"
proof -
  have n: "\<not> list_all (be_ok demo_no_cancel) register_calls" by (simp add: demo_no_cancel_def register_calls_def)
  obtain r p where m: "main_process True demo_no_cancel svc_demo (\<lambda>_. []) (loadDefaults 1) [] = Some (r, p)"
    using process_init_failed [OF n, of svc_demo "\<lambda>_. []" "loadDefaults 1"] by (auto simp: main_process_def)
  from failed_start [OF m] n m show ?thesis by blast
qed

end
