(* ===== verification/Reply_Util.thy ===== *)
theory Reply_Util
  imports Service_State Schemas
begin

text \<open>
  The helpers of \<^verbatim>\<open>JsonUtility.cpp\<close> and \<^verbatim>\<open>LunaLocationServiceUtil.cpp\<close> that the library exports and no
  handler of this repository calls: an address read from JSON, an error text, a checked position, a bare
  success reply, and the schemas of the two retired geocoding methods.
\<close>

text \<open>\<^verbatim>\<open>struct _Address\<close>; a null string is \<open>None\<close>.\<close>

record Address =
  freeformaddr :: "string option"
  a_locality :: "string option"
  a_region :: "string option"
  a_country :: "string option"
  a_countrycode :: "string option"
  a_area :: "string option"
  a_street :: "string option"
  a_postcode :: "string option"
  freeform :: bool

definition location_util_parsejsonAddress :: "'j pbnjson \<Rightarrow> 'j \<Rightarrow> Address option \<Rightarrow> bool \<times> Address option" where
  "location_util_parsejsonAddress J obj addr =
    (case addr of
       None \<Rightarrow> (False, None)
     | Some a \<Rightarrow>
         if jis_null J obj then (False, Some a)
         else (True, Some (a
           \<lparr>a_street := get_str J obj ''street'' (a_street a), a_country := get_str J obj ''country'' (a_country a),
            a_postcode := get_str J obj ''postcode'' (a_postcode a),
            a_countrycode := get_str J obj ''countrycode'' (a_countrycode a), a_area := get_str J obj ''area'' (a_area a),
            a_locality := get_str J obj ''locality'' (a_locality a), a_region := get_str J obj ''region'' (a_region a)\<rparr>)))"

definition location_util_add_errorText_json :: "string \<Rightarrow> (string \<times> 'j jout) list \<Rightarrow> (string \<times> 'j jout) list" where
  "location_util_add_errorText_json t obj = obj @ [(''errorText'', OStr t)]"

text \<open>\<^verbatim>\<open>LocationFields\<close>.\<close>

abbreviation (input) POSITION_FIELDS_LATITUDE :: "32 word" where "POSITION_FIELDS_LATITUDE \<equiv> 1"
abbreviation (input) POSITION_FIELDS_LONGITUDE :: "32 word" where "POSITION_FIELDS_LONGITUDE \<equiv> 2"
abbreviation (input) POSITION_FIELDS_ALTITUDE :: "32 word" where "POSITION_FIELDS_ALTITUDE \<equiv> 4"
abbreviation (input) VELOCITY_FIELDS_SPEED :: "32 word" where "VELOCITY_FIELDS_SPEED \<equiv> 8"
abbreviation (input) VELOCITY_FIELDS_DIRECTION :: "32 word" where "VELOCITY_FIELDS_DIRECTION \<equiv> 16"
abbreviation (input) VELOCITY_FIELDS_CLIMB :: "32 word" where "VELOCITY_FIELDS_CLIMB \<equiv> 32"

definition position_create ::
  "int \<Rightarrow> double \<Rightarrow> double \<Rightarrow> double \<Rightarrow> double \<Rightarrow> double \<Rightarrow> double \<Rightarrow> 32 word \<Rightarrow> Position option" where
  "position_create ts lat lon alt spd dir cl flags =
    (if lat < -90 \<or> lat > 90 then None
     else if lon < -180 \<or> lon > 180 then None
     else
       let keep = (\<lambda>bit v. if has_flag flags bit then v else 0)
       in Some \<lparr>p_timestamp = ts, p_latitude = keep POSITION_FIELDS_LATITUDE lat, p_longitude = keep POSITION_FIELDS_LONGITUDE lon,
                p_altitude = keep POSITION_FIELDS_ALTITUDE alt, p_speed = keep VELOCITY_FIELDS_SPEED spd,
                p_direction = keep VELOCITY_FIELDS_DIRECTION dir, p_climb = keep VELOCITY_FIELDS_CLIMB cl\<rparr>)"

text \<open>A position is created exactly on the globe, and what it holds is on the globe whatever the flags say.\<close>

lemma position_create_on_globe:
  "position_create ts lat lon alt spd dir cl flags \<noteq> None \<longleftrightarrow> \<bar>lat\<bar> \<le> 90 \<and> \<bar>lon\<bar> \<le> 180"
  "position_create ts lat lon alt spd dir cl flags = Some p \<Longrightarrow> \<bar>p_latitude p\<bar> \<le> 90 \<and> \<bar>p_longitude p\<bar> \<le> 180"
  by (auto simp: position_create_def Let_def split: if_splits)

text \<open>Fields the JSON object does not have are kept.\<close>

lemma address_kept:
  assumes "\<forall>k \<in> {''street'', ''country'', ''postcode'', ''countrycode'', ''area'', ''locality'', ''region''}. jobject_get_exists J obj k = None"
  shows "snd (location_util_parsejsonAddress J obj addr) = addr"
  using assms by (auto simp: location_util_parsejsonAddress_def split: option.split)

definition LSMessageReplySuccess :: "LSMessage \<Rightarrow> ('c, 'j) LocationService \<Rightarrow> ('c, 'j) LocationService" where
  "LSMessageReplySuccess m s = LSMessageReply m (Some (OObj [(''returnValue'', OBool True)])) s"

subsection \<open>Schemas no method validates with\<close>

definition JSCHEMA_GET_GEOCODE_LOCATION_1 :: schema where
  "JSCHEMA_GET_GEOCODE_LOCATION_1 = STRICT_SCHEMA [(''address'', PROP_OF T_string)] [''address'']"

definition JSCHEMA_GET_GEOCODE_LOCATION_2 :: schema where
  "JSCHEMA_GET_GEOCODE_LOCATION_2 =
    STRICT_SCHEMA
      [(''street'', PROP_OF T_string), (''locality'', PROP_OF T_string), (''area'', PROP_OF T_string), (''region'', PROP_OF T_string),
       (''country'', PROP_OF T_string), (''countrycode'', PROP_OF T_string), (''postcode'', PROP_OF T_string)] []"

definition JSCHEMA_GET_REVERSE_LOCATION :: schema where
  "JSCHEMA_GET_REVERSE_LOCATION =
    STRICT_SCHEMA
      [(''latitude'', PROP_WITH_OPT T_number [Minimum (-90), Maximum 90]),
       (''longitude'', PROP_WITH_OPT T_number [Minimum (-180), Maximum 180])]
      [''latitude'', ''longitude'']"

text \<open>A field of a conforming address request is a string, so the address read from it has no null pointer for a given field.\<close>

lemma conforming_address_read:
  assumes "conforms JSCHEMA_GET_GEOCODE_LOCATION_2 (JObj fs)" and "k \<in> {''street'', ''country'', ''area'', ''locality''}"
    and "map_of fs k \<noteq> None"
  shows "get_str (json_api tbl) (JObj fs) k x \<noteq> None"
proof -
  obtain v where v: "map_of fs k = Some v" using assms(3) by auto
  have "conforms (PROP_OF T_string) v"
    using conforms_field [OF assms(1) [unfolded JSCHEMA_GET_GEOCODE_LOCATION_2_def], of k "PROP_OF T_string"] assms(2) v by auto
  then obtain t where "v = JStr t" by (auto simp: has_type_def split: json.splits)
  then show ?thesis using v by (simp add: get_str_def json_api_def)
qed

end
