(* ===== verification/Geo_Values.thy ===== *)
theory Geo_Values
  imports Location_Prelude
begin

text \<open>
  What \<^verbatim>\<open>GeoLocation.cpp\<close>, \<^verbatim>\<open>GeoAddress.cpp\<close> and \<^verbatim>\<open>PositionRequest.h\<close> hold beside the fields every
  component uses (these are in \<^theory_text>\<open>Location_Prelude\<close>): the strings of the geocoding requests, the setters
  and the equality. Getters are the fields of the records.
\<close>

subsection \<open>Locations\<close>

record GeoLocationObject = GeoLocation +
  mStrLocation :: string
  loc_ProviderId :: string

definition geo_location_of_string :: "string \<Rightarrow> GeoLocationObject" where
  "geo_location_of_string v = GeoLocation.extend geo_default \<lparr>mStrLocation = v, loc_ProviderId = []\<rparr>"

definition setLatitude :: "double \<Rightarrow> GeoLocationObject \<Rightarrow> GeoLocationObject" where
  "setLatitude v l = l\<lparr>mLatitude := v\<rparr>"

definition setLongitude :: "double \<Rightarrow> GeoLocationObject \<Rightarrow> GeoLocationObject" where
  "setLongitude v l = l\<lparr>mLongitude := v\<rparr>"

definition setAltitude :: "double \<Rightarrow> GeoLocationObject \<Rightarrow> GeoLocationObject" where
  "setAltitude v l = l\<lparr>mAltitude := v\<rparr>"

definition setHorizontalAccuracy :: "double \<Rightarrow> GeoLocationObject \<Rightarrow> GeoLocationObject" where
  "setHorizontalAccuracy v l = l\<lparr>mHorAccuracy := v\<rparr>"

definition setVerticalAccuracy :: "double \<Rightarrow> GeoLocationObject \<Rightarrow> GeoLocationObject" where
  "setVerticalAccuracy v l = l\<lparr>mVertAccuracy := v\<rparr>"

definition setProviderId :: "string \<Rightarrow> GeoLocationObject \<Rightarrow> GeoLocationObject" where
  "setProviderId v l = l\<lparr>loc_ProviderId := v\<rparr>"

text \<open>
  \<^verbatim>\<open>operator==\<close> only asks for NaN. A \<open>double\<close> of the model is a number, so which values are NaN is an
  argument.
\<close>

definition geo_location_eq :: "(double \<Rightarrow> bool) \<Rightarrow> GeoLocationObject \<Rightarrow> GeoLocationObject \<Rightarrow> bool" where
  "geo_location_eq isnan a b =
    (let latitudeEq = (isnan (mLatitude a) \<and> isnan (mLatitude b));
         longitudeEq = (isnan (mLongitude a) \<and> isnan (mLongitude b));
         altitudeEq = (isnan (mAltitude a) \<and> isnan (mAltitude b))
     in latitudeEq \<and> longitudeEq \<and> altitudeEq)"

text \<open>A location is equal to itself exactly when all its coordinates are NaN, and then to every other such one.\<close>

lemma geo_location_eq_self:
  "geo_location_eq isnan a a \<longleftrightarrow> isnan (mLatitude a) \<and> isnan (mLongitude a) \<and> isnan (mAltitude a)"
  by (simp add: geo_location_eq_def)

lemma geo_location_eq_iff_self:
  "geo_location_eq isnan a b \<longleftrightarrow> geo_location_eq isnan a a \<and> geo_location_eq isnan b b"
  by (auto simp: geo_location_eq_def)

subsection \<open>Addresses\<close>

record GeoAddress =
  mAddressStr :: string
  mCountry :: string
  mCountryCode :: string
  mState :: string
  mCity :: string
  mDistrict :: string
  mStreet :: string
  mPostalCode :: string

definition geo_address :: "string \<Rightarrow> GeoAddress" where
  "geo_address v =
    \<lparr>mAddressStr = v, mCountry = [], mCountryCode = [], mState = [], mCity = [], mDistrict = [],
     mStreet = [], mPostalCode = []\<rparr>"

definition setCity :: "string \<Rightarrow> GeoAddress \<Rightarrow> GeoAddress" where
  "setCity v a = a\<lparr>mCity := v\<rparr>"

definition setCountry :: "string \<Rightarrow> GeoAddress \<Rightarrow> GeoAddress" where
  "setCountry v a = a\<lparr>mCountry := v\<rparr>"

definition setCountryCode :: "string \<Rightarrow> GeoAddress \<Rightarrow> GeoAddress" where
  "setCountryCode v a = a\<lparr>mCountryCode := v\<rparr>"

definition setDistrict :: "string \<Rightarrow> GeoAddress \<Rightarrow> GeoAddress" where
  "setDistrict v a = a\<lparr>mDistrict := v\<rparr>"

definition setPostalCode :: "string \<Rightarrow> GeoAddress \<Rightarrow> GeoAddress" where
  "setPostalCode v a = a\<lparr>mPostalCode := v\<rparr>"

definition setState_address :: "string \<Rightarrow> GeoAddress \<Rightarrow> GeoAddress" where
  "setState_address v a = a\<lparr>mState := v\<rparr>"

definition setStreet :: "string \<Rightarrow> GeoAddress \<Rightarrow> GeoAddress" where
  "setStreet v a = a\<lparr>mStreet := v\<rparr>"

subsection \<open>Requests\<close>

definition setGeofenceCoordinates :: "double \<Rightarrow> double \<Rightarrow> double \<Rightarrow> PositionRequest \<Rightarrow> PositionRequest" where
  "setGeofenceCoordinates longitude latitude radius r =
    r\<lparr>mGeofenceLongitude := longitude, mGeofenceLatitude := latitude, mGeofenceRadius := radius\<rparr>"

definition setGeofenceID :: "int \<Rightarrow> PositionRequest \<Rightarrow> PositionRequest" where
  "setGeofenceID i r = r\<lparr>mGeofenceID := i\<rparr>"

definition setRequestParams :: "string \<Rightarrow> PositionRequest \<Rightarrow> PositionRequest" where
  "setRequestParams v r = r\<lparr>mRequestParams := v\<rparr>"

definition setRequestType :: "HandlerRequestType \<Rightarrow> PositionRequest \<Rightarrow> PositionRequest" where
  "setRequestType t r = r\<lparr>mRequestType := t\<rparr>"

end
