(* ===== verification/Net_Log.thy ===== *)
theory Net_Log
  imports Net_Claims C_Numbers "HOL-Library.Multiset"
begin

text \<open>
  What the network provider logs while it handles scans (the \<^verbatim>\<open>LS_LOG\<close> calls of \<^verbatim>\<open>NetworkData.cpp\<close>,
  \<^verbatim>\<open>NetworkPositionProvider.cpp\<close> and \<^verbatim>\<open>NetworkRequestManager.cpp\<close> on those paths), beside the operations
  of \<^theory_text>\<open>Net_Provider\<close>. The addresses of the access points say where the device is, so the log must
  not depend on them. A walk over a hash table visits the entries in an order of their own, which depends on the hashes of
  the addresses and on how the table came about: it is a parameter \<open>ord\<close> that permutes the entries. The white space at the end of a line is left out.
\<close>

subsection \<open>Log lines\<close>

text \<open>The two tables: the access points of the scan, and those of the scan sent last.\<close>

datatype aps_table = ScanTable | LastTable

type_synonym walk = "aps_table \<Rightarrow> (string \<times> int) list \<Rightarrow> (string \<times> int) list"

definition walk_ok :: "walk \<Rightarrow> bool" where
  "walk_ok ord \<longleftrightarrow> (\<forall>w t. mset (ord w t) = mset t)"

abbreviation as_listed :: walk where "as_listed \<equiv> \<lambda>_ t. t"

datatype log_line =
    LogText string
  | LogInt string int string
  | LogReal string double

primrec show_line :: "log_line \<Rightarrow> string" where
  "show_line (LogText t) = t"
| "show_line (LogInt t n u) = t @ pct_d n @ u"
| "show_line (LogReal t x) = t @ printf_f 6 x"

subsection \<open>Reading a scan\<close>

text \<open>As in \<open>bss_loop\<close> the scan ends at an access point without a \<^verbatim>\<open>bssid\<close>: before its line if that is not a string, after it if there is none.\<close>

fun bss_log :: "'j pbnjson \<Rightarrow> 'j list \<Rightarrow> int \<Rightarrow> log_line list" where
  "bss_log J [] sig = []"
| "bss_log J (b # bs) sig =
    (let sig' = get_i32 J b ''signal'' sig;
         line = LogInt ''network handler:bssInfo signalLevel '' sig' '' gathered''
     in case jobject_get_exists J b ''bssid'' of
          None \<Rightarrow> [line]
        | Some k \<Rightarrow> if jstring_get J k = None then [] else line # bss_log J bs sig')"

fun networks_log :: "'j pbnjson \<Rightarrow> 'j list \<Rightarrow> bool \<Rightarrow> int \<Rightarrow> log_line list" where
  "networks_log J [] rng sig = []"
| "networks_log J (n # ns) rng sig =
    (case jobject_get_exists J n ''networkInfo'' of
       None \<Rightarrow> LogText ''!!no NetworkInfo object found in json data'' # networks_log J ns rng sig
     | Some info \<Rightarrow>
         (case jobject_get_exists J info ''available'' of
            None \<Rightarrow> LogText ''network Data:no field for range data , skip'' # networks_log J ns rng sig
          | Some av \<Rightarrow>
              let rng' = snd (jboolean_get J av rng)
              in if \<not> rng' then LogText ''out of range networkInfo, not considered,skip'' # networks_log J ns rng' sig
                 else (case jobject_get_exists J info ''bssInfo'' of
                     None \<Rightarrow> LogText ''network Data:bssInfo no data available, skip'' # networks_log J ns rng' sig
                   | Some arr \<Rightarrow>
                       let bs = List.map (jarray_get J arr) [0..<jarray_size J arr]
                       in bss_log J bs sig @
                          (case bss_loop J bs sig [] of None \<Rightarrow> [] | Some (sig', _) \<Rightarrow> networks_log J ns rng' sig'))))"

subsection \<open>Queries\<close>

fun cell_log :: "'j pbnjson \<Rightarrow> 'j list \<Rightarrow> bool \<Rightarrow> int \<Rightarrow> log_line list" where
  "cell_log J [] state cur = []"
| "cell_log J (t # ts) state cur =
    (case jobject_get_exists J t ''registered'' of
       None \<Rightarrow> if state then [] else cell_log J ts state cur
     | Some r \<Rightarrow>
         let state' = snd (jboolean_get J r state)
         in LogInt ''registered status of cellID '' (if state' then 1 else 0) [] #
            (if state' then
               (case jobject_get_exists J t ''cellId'' of
                  None \<Rightarrow> []
                | Some i \<Rightarrow> if snd (jnumber_get_i32 J i 0) \<noteq> cur then [] else [LogText ''no registered changed cell ID detected''])
             else cell_log J ts state' cur))"

definition parseCellData_log :: "'j pbnjson \<Rightarrow> NetworkPositionProvider \<Rightarrow> log_line list" where
  "parseCellData_log J s =
    (case cellInfo (mPositionData s) of
       None \<Rightarrow> []
     | Some info \<Rightarrow>
         let parsed = jdom_parse J SCHEMA_ALL info
         in if jis_null J parsed then [LogText ''cellInfo parsing failed'']
            else (case jobject_get_exists J parsed ''cellTowers'' of
                None \<Rightarrow> []
              | Some arr \<Rightarrow>
                  if \<not> jis_array J arr then [LogText ''cellTowers array not found in JSON schema'']
                  else cell_log J (List.map (jarray_get J arr) [0..<jarray_size J arr]) False (curCellid (mPositionData s))))"

definition compare_log :: "walk \<Rightarrow> (string \<times> int) list \<Rightarrow> (string \<times> int) list \<Rightarrow> log_line list" where
  "compare_log ord old new =
    concat (List.map (\<lambda>(k, v). LogInt ''New value: '' v [] #
      (if ht_lookup old k \<noteq> 0
       then [LogText ''Found key in existing table'', LogInt ''signal change = '' (abs (v - ht_lookup old k)) []]
       else [LogText ''Not found key'', LogInt ''signal change = '' (abs v) []])) (ord ScanTable new))
    @ concat (List.map (\<lambda>(k, v). if ht_lookup new k = 0
        then [LogText ''Existing key is vanished in new table'', LogInt ''signal change = '' (abs v) []] else []) (ord LastTable old))
    @ [LogReal ''Average signal change = '' (of_int (signal_change_sum old new) / of_nat (length new + vanished_count old new))]"

definition parseWifiData_log :: "walk \<Rightarrow> NetworkPositionProvider \<Rightarrow> log_line list" where
  "parseWifiData_log ord s =
    LogText ''NetworkPositionProvider::parseWifiData '' #
    (case wifiAccessPointsList (mPositionData s) of
       None \<Rightarrow> [LogText ''Access point empty or less than 2'']
     | Some aps \<Rightarrow>
         if length aps < 2 then [LogText ''Access point empty or less than 2'']
         else
           let isFirst = (lastAps (mPositionData s) = None);
               old = (case lastAps (mPositionData s) of None \<Rightarrow> [] | Some t \<Rightarrow> t)
           in [LogText ''Checking wifi AP list...''] @ (if isFirst then [LogText ''Checking mPositionData.lastAps null...''] else [])
              @ [LogText ''Checking mPositionData.last aps not null...'', LogInt ''Existing table size = '' (int (length old)) [],
                 LogInt ''New table size = '' (int (length aps)) []]
              @ (if isFirst then [] else compare_log ord old aps)
              @ (if isFirst \<or> avg_exceeds old aps
                 then List.map (\<lambda>(k, v). LogInt ''inserting value: '' v []) (ord ScanTable aps) @ [LogText ''table updation complete'']
                 else [LogText ''No update in wifi AP list'']))"

definition initiateTransaction_log :: "nat option \<Rightarrow> bool \<Rightarrow> NetworkRequestManager \<Rightarrow> log_line list" where
  "initiateTransaction_log task prep_ok m =
    (if \<not> nrm_active m then [LogText ''Network Manager Inactive'']
     else case task of
       None \<Rightarrow> [LogText ''Fatal error...loc_create_http failed!!'']
     | Some t \<Rightarrow> if prep_ok then [LogInt ''initiate_Transaction succesful gHttpReqTask '' (int t) ''=''] else [])"

definition networkPostQuery_log :: "'j net_env \<Rightarrow> string option \<Rightarrow> NetworkPositionProvider \<Rightarrow> log_line list" where
  "networkPostQuery_log E apiKey s =
    (let (backend, s1) = currentBackend E s;
         (urlTemplate, m) = network_location_provider_url (ne_port E) (networkLocationBackendUrl backend) (net_mock s1)
     in (case buildGeolocateUrl (Some urlTemplate) apiKey URL_LENGTH of
           None \<Rightarrow> [LogText (''networkPostQuery: no usable geolocation URL for '' @ networkLocationBackendName backend
                    @ '' (missing or malformed API key?)'')]
         | Some url \<Rightarrow> LogText (''networkPostQuery '' @ url @ '' via '' @ networkLocationBackendName backend)
             # initiateTransaction_log (ne_task E) (ne_prep_ok E) (http s1)))"

text \<open>The two halves of \<open>triggerPostQuery\<close>: the query and its lines, and posting it.\<close>

definition scan_query :: "'j pbnjson \<Rightarrow> NetworkPositionProvider \<Rightarrow> 'j jout option \<times> NetworkPositionProvider" where
  "scan_query J s =
    (if \<not> mwifiStatus s \<and> mtelephonyPowerd s then createCellQuery J s
     else if \<not> mtelephonyPowerd s \<and> mwifiStatus s then createWifiQuery s
     else if mwifiStatus s \<and> mtelephonyPowerd s then createCellWifiCombinedQuery J s else (None, s))"

definition scan_query_log :: "walk \<Rightarrow> 'j pbnjson \<Rightarrow> NetworkPositionProvider \<Rightarrow> log_line list" where
  "scan_query_log ord J s =
    (if \<not> mwifiStatus s \<and> mtelephonyPowerd s then LogText ''createCellQuery'' # parseCellData_log J s
     else if \<not> mtelephonyPowerd s \<and> mwifiStatus s then LogText ''createWifiQuery'' # parseWifiData_log ord s
     else if mwifiStatus s \<and> mtelephonyPowerd s
     then LogText ''createCellWifiCombinedQuery'' # LogText ''NetworkPositionProvider::createCellWifiCombinedQuery ''
       # parseCellData_log J s @ parseWifiData_log ord (snd (parseCellData J s))
       @ (if fst (createCellWifiCombinedQuery J s) = None then [LogText ''no data parsed''] else [])
     else [])"

definition triggerPostQuery_log :: "walk \<Rightarrow> 'j net_env \<Rightarrow> NetworkPositionProvider \<Rightarrow> log_line list" where
  "triggerPostQuery_log ord E s =
    (let (post, s1) = scan_query (ne_json E) s
     in scan_query_log ord (ne_json E) s @
       (case post of
          None \<Rightarrow> [LogText ''triggerPostQuery: no data to post'']
        | Some j \<Rightarrow> networkPostQuery_log E (nwGeolocationKey (mPositionData s1)) s1
            @ (if fst (networkPostQuery E (Some (ne_tostring E j)) (nwGeolocationKey (mPositionData s1)) s1) then []
               else [LogText ''Failed to post query!''])))"

subsection \<open>Handlers\<close>

definition onUpdateWifiData_log :: "walk \<Rightarrow> 'j net_env \<Rightarrow> (string \<times> int) list \<Rightarrow> NetworkPositionProvider \<Rightarrow> log_line list" where
  "onUpdateWifiData_log ord E aps s =
    List.map (\<lambda>(k, v). LogInt ''###### onUpdateWifiData New value: '' v []) (ord ScanTable aps)
    @ triggerPostQuery_log ord E (upd_pd (\<lambda>d. d\<lparr>wifiAccessPointsList := Some aps\<rparr>) s)"

definition wifiAccessPointsCb_log :: "walk \<Rightarrow> 'j net_env \<Rightarrow> string \<Rightarrow> NetworkPositionProvider \<Rightarrow> log_line list" where
  "wifiAccessPointsCb_log ord E payload s =
    (let J = ne_json E; parsed = jdom_parse J SCHEMA_ALL payload
     in if jis_null J parsed then []
        else (case jobject_get_exists J parsed ''foundNetworks'' of
            None \<Rightarrow> [LogText ''network handler:networkInfo no data available'']
          | Some arr \<Rightarrow>
              let ns = List.map (jarray_get J arr) [0..<jarray_size J arr]
              in networks_log J ns False 0 @
                 (case networks_loop J ns False 0 [] of None \<Rightarrow> [] | Some t \<Rightarrow> onUpdateWifiData_log ord E t s)))"

definition onUpdateCellData_log :: "walk \<Rightarrow> 'j net_env \<Rightarrow> string \<Rightarrow> NetworkPositionProvider \<Rightarrow> log_line list" where
  "onUpdateCellData_log ord E cell s =
    (let s1 = upd_pd (\<lambda>d. d\<lparr>cellInfo := Some cell\<rparr>) s
     in LogText (''############NetworkPositionProvider::onUpdateCellData = '' @ cell) #
        (if misFirstCellResponse s1 \<and> \<not> mwifiStatus s1
         then triggerPostQuery_log ord E (s1\<lparr>misFirstCellResponse := False\<rparr>) else []))"

definition cellDataCb_log :: "walk \<Rightarrow> 'j net_env \<Rightarrow> string \<Rightarrow> NetworkPositionProvider \<Rightarrow> log_line list" where
  "cellDataCb_log ord E payload s =
    (let J = ne_json E; parsed = jdom_parse J SCHEMA_ALL payload
     in LogText (''message='' @ payload) #
        (if jis_null J parsed then [LogText ''parsing failed'']
         else (case jobject_get_exists J parsed ''errorCode'' of
            None \<Rightarrow> [LogText ''errorCode doesnt exist'']
          | Some ec \<Rightarrow>
              if snd (jnumber_get_i32 J ec 0) \<noteq> 0
              then [LogInt ''network handler:Telephony error Happened '' (snd (jnumber_get_i32 J ec 0)) []]
              else (case jobject_get_exists J parsed ''data'' of
                  None \<Rightarrow> [LogText ''network handler:Telephony no data available'']
                | Some d \<Rightarrow> onUpdateCellData_log ord E (ne_tostring E (ODup d)) s))))"

definition networkUpdateCallback_log :: "walk \<Rightarrow> 'j net_env \<Rightarrow> NetworkPositionProvider \<Rightarrow> log_line list" where
  "networkUpdateCallback_log ord E s =
    (if \<not> mConnectivityStatus s then [LogText ''networkUpdateCallback no internetConnection'']
     else if mwifiStatus s then LogText (''LSCall '' @ SCAN_METHOD @ '' paylod '' @ SCAN_PAYLOAD)
       # (if ne_bus_ok E SCAN_METHOD then [] else [LogText ''LSCall failed''])
     else if mtelephonyPowerd s then triggerPostQuery_log ord E s
     else [])"

text \<open>
  The events that reach the tables of access points; the others neither read nor write them, except to clear
  them. The reply to a scan command is not an event of the machine: \<^verbatim>\<open>scanCb\<close> only logs it, as it comes.
\<close>

primrec scan_event_log :: "walk \<Rightarrow> 'j net_event \<Rightarrow> NetworkPositionProvider \<Rightarrow> log_line list" where
  "scan_event_log ord (NWifi E p) s = wifiAccessPointsCb_log ord E p s"
| "scan_event_log ord (NCell E p) s = cellDataCb_log ord E p s"
| "scan_event_log ord (NTimer E) s = (if mTimeoutId s \<in> set (net_timers s) then networkUpdateCallback_log ord E s else [])"
| "scan_event_log ord (NRequest E r) s = []" | "scan_event_log ord (NEnable E) s = []" | "scan_event_log ord NDisable s = []"
| "scan_event_log ord NSetCallback s = []" | "scan_event_log ord (NResponse E t k) s = []"
| "scan_event_log ord (NServiceStatus E v up) s = []" | "scan_event_log ord (NWifiStatus b) s = []"
| "scan_event_log ord (NConnectivity b) s = []" | "scan_event_log ord (NTelephony b) s = []" | "scan_event_log ord (NBackend b) s = []"

fun scan_log :: "walk \<Rightarrow> 'j net_event list \<Rightarrow> NetworkPositionProvider \<Rightarrow> log_line list" where
  "scan_log ord [] s = []"
| "scan_log ord (e # es) s = scan_event_log ord e s @ (case net_step e s of None \<Rightarrow> [] | Some t \<Rightarrow> scan_log ord es t)"

end
