(* ===== verification/Net_Privacy.thy ===== *)
theory Net_Privacy
  imports Net_Log
begin

text \<open>
  The log of the network provider does not depend on the addresses of the access points: two runs of the
  provider on scans that differ only by an injective renaming of the addresses write the same lines, up to
  the order in which each walks its hash tables.
  The states of the two runs agree up to the renaming and the posted queries (\<open>hid\<close>); each operation
  keeps that agreement and logs the same in agreeing states.
\<close>

subsection \<open>Unwinding\<close>

text \<open>
  A machine with an output, run over its events, and a relation of states that the machine keeps when the
  events of the second run are changed by \<open>hide\<close>: if related states put out the same, so do whole runs.
\<close>

locale unwinding =
  fixes step :: "'e \<Rightarrow> 's \<Rightarrow> 's option" and out :: "'e \<Rightarrow> 's \<Rightarrow> 'o list" and outs :: "'e list \<Rightarrow> 's \<Rightarrow> 'o list"
    and hide :: "'e \<Rightarrow> 'e" and alike :: "'s \<Rightarrow> 's \<Rightarrow> bool"
  assumes outs_Nil: "outs [] s = []"
    and outs_Cons: "outs (e # es) s = out e s @ (case step e s of None \<Rightarrow> [] | Some t \<Rightarrow> outs es t)"
    and step_alike: "alike s t \<Longrightarrow> rel_option alike (step e s) (step (hide e) t)"
    and out_alike: "alike s t \<Longrightarrow> out (hide e) t = out e s"
begin

lemma unwound: "alike s t \<Longrightarrow> outs (List.map hide es) t = outs es s"
proof (induction es arbitrary: s t)
  case (Cons e es)
  show ?case
  proof (cases "step e s")
    case None
    then have "step (hide e) t = None" using step_alike [OF Cons.prems, of e] by simp
    then show ?thesis using None out_alike [OF Cons.prems] by (simp add: outs_Cons)
  next
    case (Some s')
    then obtain t' where "step (hide e) t = Some t'" "alike s' t'"
      using step_alike [OF Cons.prems, of e] by (auto simp: option_rel_Some1)
    then show ?thesis using Some out_alike [OF Cons.prems] Cons.IH [of s' t'] by (simp add: outs_Cons)
  qed
qed (simp add: outs_Nil)

end

subsection \<open>Renaming\<close>

definition rename_tbl :: "(string \<Rightarrow> string) \<Rightarrow> (string \<times> int) list \<Rightarrow> (string \<times> int) list" where
  "rename_tbl f t = List.map (\<lambda>(k, v). (f k, v)) t"

definition hide_json :: "(string \<Rightarrow> string) \<Rightarrow> 'j pbnjson \<Rightarrow> 'j pbnjson" where
  "hide_json f J = J\<lparr>jstring_get := \<lambda>v. map_option f (jstring_get J v)\<rparr>"

definition hide_env :: "(string \<Rightarrow> string) \<Rightarrow> 'j net_env \<Rightarrow> 'j net_env" where
  "hide_env f E = E\<lparr>ne_json := hide_json f (ne_json E)\<rparr>"

text \<open>The strings of a scan are the names of its access points; no other event is changed.\<close>

fun hide_event :: "(string \<Rightarrow> string) \<Rightarrow> 'j net_event \<Rightarrow> 'j net_event" where
  "hide_event f (NWifi E p) = NWifi (hide_env f E) p"
| "hide_event f e = e"

definition hid :: "(string \<Rightarrow> string) \<Rightarrow> (nat \<times> string \<times> string option) list \<Rightarrow> NetworkPositionProvider \<Rightarrow> NetworkPositionProvider" where
  "hid f ps s =
    s\<lparr>mPositionData := (mPositionData s)\<lparr>wifiAccessPointsList := map_option (rename_tbl f) (wifiAccessPointsList (mPositionData s)),
                                        lastAps := map_option (rename_tbl f) (lastAps (mPositionData s))\<rparr>,
      http := (http s)\<lparr>posted := ps\<rparr>\<rparr>"

lemma rename_tbl_simps [simp]:
  "length (rename_tbl f t) = length t" "rename_tbl f [] = []" "rename_tbl f (t @ u) = rename_tbl f t @ rename_tbl f u"
  "fst ` set (rename_tbl f t) = f ` fst ` set t"
  by (force simp: rename_tbl_def)+

lemma map_rename [simp]: "List.map g (rename_tbl f t) = List.map (\<lambda>(k, v). g (f k, v)) t"
  by (simp add: rename_tbl_def case_prod_unfold comp_def)

lemma filter_rename [simp]: "filter P (rename_tbl f t) = rename_tbl f (filter (\<lambda>(k, v). P (f k, v)) t)"
  by (simp add: rename_tbl_def filter_map case_prod_unfold comp_def)

lemma ht_lookup_rename [simp]: "inj f \<Longrightarrow> ht_lookup (rename_tbl f t) (f k) = ht_lookup t k"
  by (induction t) (auto simp: ht_lookup_def rename_tbl_def inj_eq)

lemma ht_insert_rename: "inj f \<Longrightarrow> ht_insert (f k) v (rename_tbl f t) = rename_tbl f (ht_insert k v t)"
proof -
  have "(f k \<in> fst ` set (rename_tbl f t)) = (k \<in> fst ` set t)" if "inj f" by (simp add: that inj_image_mem_iff)
  then show "ht_insert (f k) v (rename_tbl f t) = rename_tbl f (ht_insert k v t)" if "inj f"
    using that by (simp add: ht_insert_def) (simp add: rename_tbl_def inj_eq case_prod_unfold)
qed

lemma change_rename [simp]:
  assumes "inj f"
  shows "signal_change_sum (rename_tbl f a) (rename_tbl f b) = signal_change_sum a b"
    and "vanished_count (rename_tbl f a) (rename_tbl f b) = vanished_count a b"
    and "avg_exceeds (rename_tbl f a) (rename_tbl f b) = avg_exceeds a b"
    and "compare_log as_listed (rename_tbl f a) (rename_tbl f b) = compare_log as_listed a b"
proof -
  show 1: "signal_change_sum (rename_tbl f a) (rename_tbl f b) = signal_change_sum a b"
    using assms by (simp add: signal_change_sum_def cong: if_cong)
  show 2: "vanished_count (rename_tbl f a) (rename_tbl f b) = vanished_count a b"
    using assms by (simp add: vanished_count_def cong: if_cong)
  show "avg_exceeds (rename_tbl f a) (rename_tbl f b) = avg_exceeds a b"
    by (simp add: avg_exceeds_def 1 2)
  show "compare_log as_listed (rename_tbl f a) (rename_tbl f b) = compare_log as_listed a b"
    using assms by (simp add: compare_log_def 1 2 cong: if_cong)
qed

lemma hide_json_simps [simp]:
  "jdom_parse (hide_json f J) = jdom_parse J" "jis_null (hide_json f J) = jis_null J" "jis_array (hide_json f J) = jis_array J"
  "jobject_get_exists (hide_json f J) = jobject_get_exists J" "jarray_size (hide_json f J) = jarray_size J"
  "jarray_get (hide_json f J) = jarray_get J" "jboolean_get (hide_json f J) = jboolean_get J"
  "jnumber_get_i32 (hide_json f J) = jnumber_get_i32 J"
  "jstring_get (hide_json f J) v = map_option f (jstring_get J v)"
  by (simp_all add: hide_json_def)

lemma hide_json_get [simp]:
  "get_i32 (hide_json f J) = get_i32 J" "(get_str (hide_json f J) v k None = None) = (get_str J v k None = None)"
  by (auto simp: get_i32_def get_str_def fun_eq_iff split: option.split)

lemma hide_env_simps [simp]:
  "ne_json (hide_env f E) = hide_json f (ne_json E)" "ne_tostring (hide_env f E) = ne_tostring E"
  "ne_prefs (hide_env f E) = ne_prefs E" "ne_port (hide_env f E) = ne_port E" "ne_task (hide_env f E) = ne_task E"
  "ne_prep_ok (hide_env f E) = ne_prep_ok E" "ne_add_ok (hide_env f E) = ne_add_ok E"
  by (simp_all add: hide_env_def)

subsection \<open>Reading a scan\<close>

lemma bss_rename:
  assumes "inj f"
  shows "bss_loop (hide_json f J) bs sig (rename_tbl f t) = map_option (\<lambda>(i, u). (i, rename_tbl f u)) (bss_loop J bs sig t)"
  by (induction J bs sig t rule: bss_loop.induct) (auto simp: ht_insert_rename assms Let_def split: option.split)

lemma bss_log_hide [simp]: "bss_log (hide_json f J) bs sig = bss_log J bs sig"
  by (induction J bs sig rule: bss_log.induct) (simp_all add: Let_def split: option.split)

lemma networks_rename:
  assumes "inj f"
  shows "networks_loop (hide_json f J) ns rng sig (rename_tbl f t) = map_option (rename_tbl f) (networks_loop J ns rng sig t)"
  by (induction J ns rng sig t rule: networks_loop.induct)
    (auto simp: bss_rename assms Let_def split: option.split)

lemma networks_log_hide:
  assumes "inj f"
  shows "networks_log (hide_json f J) ns rng sig = networks_log J ns rng sig"
proof (induction J ns rng sig rule: networks_log.induct)
  case (2 J n ns rng sig)
  have "bss_loop (hide_json f J) bs i [] = map_option (\<lambda>(i, u). (i, rename_tbl f u)) (bss_loop J bs i [])" for bs i
    using bss_rename [OF assms, of J bs i "[]"] by simp
  then show ?case using 2 by (auto simp: Let_def split: option.split)
qed simp

subsection \<open>Operations on agreeing states\<close>

lemma hid_simps [simp]:
  "np_enabled (hid f ps s) = np_enabled s" "np_callback (hid f ps s) = np_callback s" "mwifiStatus (hid f ps s) = mwifiStatus s"
  "mtelephonyPowerd (hid f ps s) = mtelephonyPowerd s" "mConnectivityStatus (hid f ps s) = mConnectivityStatus s"
  "mProcessRequestInProgress (hid f ps s) = mProcessRequestInProgress s" "mMockRequestInProgress (hid f ps s) = mMockRequestInProgress s"
  "misFirstCellResponse (hid f ps s) = misFirstCellResponse s" "mTimeoutId (hid f ps s) = mTimeoutId s"
  "mFixBackend (hid f ps s) = mFixBackend s" "sBackend (hid f ps s) = sBackend s" "regs (hid f ps s) = regs s"
  "net_mock (hid f ps s) = net_mock s" "net_calls (hid f ps s) = net_calls s" "net_timers (hid f ps s) = net_timers s"
  "net_callbacks (hid f ps s) = net_callbacks s" "net_stored (hid f ps s) = net_stored s" "network_mocked (hid f ps s) = network_mocked s"
  by (simp_all add: hid_def network_mocked_def)

lemma hid_data [simp]:
  "nwGeolocationKey (mPositionData (hid f ps s)) = nwGeolocationKey (mPositionData s)"
  "cellInfo (mPositionData (hid f ps s)) = cellInfo (mPositionData s)"
  "curCellid (mPositionData (hid f ps s)) = curCellid (mPositionData s)"
  "lastLatitude (mPositionData (hid f ps s)) = lastLatitude (mPositionData s)"
  "lastLongitude (mPositionData (hid f ps s)) = lastLongitude (mPositionData s)"
  "lastAccuracy (mPositionData (hid f ps s)) = lastAccuracy (mPositionData s)"
  "lastTimeStamp (mPositionData (hid f ps s)) = lastTimeStamp (mPositionData s)"
  "last_fix (mPositionData (hid f ps s)) = last_fix (mPositionData s)"
  "wifiAccessPointsList (mPositionData (hid f ps s)) = map_option (rename_tbl f) (wifiAccessPointsList (mPositionData s))"
  "lastAps (mPositionData (hid f ps s)) = map_option (rename_tbl f) (lastAps (mPositionData s))"
  "nrm_active (http (hid f ps s)) = nrm_active (http s)"
  by (simp_all add: hid_def last_fix_def)

lemma hid_upd:
  "upd_pd (\<lambda>d. d\<lparr>cellInfo := x\<rparr>) (hid f ps s) = hid f ps (upd_pd (\<lambda>d. d\<lparr>cellInfo := x\<rparr>) s)"
  "upd_pd (\<lambda>d. d\<lparr>curCellid := i\<rparr>) (hid f ps s) = hid f ps (upd_pd (\<lambda>d. d\<lparr>curCellid := i\<rparr>) s)"
  "upd_pd (\<lambda>d. d\<lparr>wifiAccessPointsList := Some (rename_tbl f t)\<rparr>) (hid f ps s)
    = hid f ps (upd_pd (\<lambda>d. d\<lparr>wifiAccessPointsList := Some t\<rparr>) s)"
  "upd_pd (\<lambda>d. d\<lparr>lastAps := Some (rename_tbl f t)\<rparr>) (hid f ps s) = hid f ps (upd_pd (\<lambda>d. d\<lparr>lastAps := Some t\<rparr>) s)"
  "(hid f ps s)\<lparr>misFirstCellResponse := b\<rparr> = hid f ps (s\<lparr>misFirstCellResponse := b\<rparr>)"
  by (simp_all add: hid_def)

lemma cell_hide [simp]:
  "cell_loop (hide_json f J) a ts st cur = cell_loop J a ts st cur"
  "cell_log (hide_json f J) ts st cur = cell_log J ts st cur"
  by (induction ts arbitrary: st cur) (simp_all add: Let_def split: option.split)

lemma parseCellData_hide [simp]:
  "parseCellData (hide_json f J) s = parseCellData J s" "parseCellData_log (hide_json f J) s = parseCellData_log J s"
  by (simp_all add: parseCellData_def parseCellData_log_def Let_def case_prod_unfold split: option.split)

lemma cell_queries_hide [simp]:
  "createCellQuery (hide_json f J) s = createCellQuery J s"
  "createCellWifiCombinedQuery (hide_json f J) s = createCellWifiCombinedQuery J s"
  by (simp_all add: createCellQuery_def createCellWifiCombinedQuery_def)

lemma parseCellData_hid:
  "parseCellData J (hid f ps s) = (fst (parseCellData J s), hid f ps (snd (parseCellData J s)))"
  "parseCellData_log J (hid f ps s) = parseCellData_log J s"
  by (simp_all add: parseCellData_def parseCellData_log_def Let_def case_prod_unfold hid_upd split: option.split)

lemma parseWifiData_hid:
  assumes "inj f"
  shows "(fst (parseWifiData (hid f ps s) :: (string \<times> 'j jout) list option \<times> _) = None)
      = (fst (parseWifiData s :: (string \<times> 'j jout) list option \<times> _) = None)"
    and "snd (parseWifiData (hid f ps s) :: (string \<times> 'j jout) list option \<times> _)
      = hid f ps (snd (parseWifiData s :: (string \<times> 'j jout) list option \<times> _))"
    and "parseWifiData_log as_listed (hid f ps s) = parseWifiData_log as_listed s"
  using assms by (auto simp: parseWifiData_def parseWifiData_log_def Let_def hid_upd split: option.split)

lemma queries_hid:
  fixes s J
  defines "c \<equiv> createCellQuery J s" and "w \<equiv> createWifiQuery s :: 'j jout option \<times> _"
    and "b \<equiv> createCellWifiCombinedQuery (J :: 'j pbnjson) s"
  assumes "inj f"
  shows "createCellQuery J (hid f ps s) = (fst c, hid f ps (snd c))"
    and "(fst (createWifiQuery (hid f ps s) :: 'j jout option \<times> _) = None) = (fst w = None)"
    and "snd (createWifiQuery (hid f ps s) :: 'j jout option \<times> _) = hid f ps (snd w)"
    and "(fst (createCellWifiCombinedQuery J (hid f ps s)) = None) = (fst b = None)"
    and "snd (createCellWifiCombinedQuery J (hid f ps s)) = hid f ps (snd b)"
  by (simp_all add: c_def w_def b_def queries Let_def case_prod_unfold parseCellData_hid parseWifiData_hid [OF assms(4)])

lemma currentBackend_hid:
  "currentBackend (hide_env f E) s = currentBackend E s"
  "currentBackend E (hid f ps s) = (fst (currentBackend E s), hid f ps (snd (currentBackend E s)))"
  by (simp_all add: currentBackend_def Let_def hid_def split: option.split)

lemma networkPostQuery_hide [simp]:
  "networkPostQuery (hide_env f E) p k s = networkPostQuery E p k s"
  "networkPostQuery_log (hide_env f E) k s = networkPostQuery_log E k s"
  by (simp_all add: networkPostQuery_def networkPostQuery_log_def currentBackend_hid cong: option.case_cong)

lemma networkPostQuery_hid:
  "fst (networkPostQuery E p' k (hid f ps s)) = fst (networkPostQuery E p k s)"
  "\<exists>ps'. snd (networkPostQuery E p' k (hid f ps s)) = hid f ps' (snd (networkPostQuery E p k s))"
  "networkPostQuery_log E k (hid f ps s) = networkPostQuery_log E k s"
proof -
  let ?t = "fst (network_location_provider_url (ne_port E) (networkLocationBackendUrl (fst (currentBackend E s)))
      (net_mock (snd (currentBackend E s))))"
  have h: "http (hid f ps t) = (http t)\<lparr>posted := ps\<rparr>" for t by (simp add: hid_def)
  have m: "(hid f ps t)\<lparr>net_mock := m\<rparr> = hid f ps (t\<lparr>net_mock := m\<rparr>)" for t m by (simp add: hid_def)
  have w: "(hid f ps t)\<lparr>http := snd (initiateTransaction n a b u c p' (http (hid f ps t)))\<rparr>
      = hid f (posted (snd (initiateTransaction n a b u c p' (http (hid f ps t)))))
          (t\<lparr>http := snd (initiateTransaction n a b u c p (http t))\<rparr>)" for t n a b u c
    by (simp add: hid_def initiateTransaction_def split: option.split)
  show "fst (networkPostQuery E p' k (hid f ps s)) = fst (networkPostQuery E p k s)"
    by (simp add: networkPostQuery_def Let_def case_prod_unfold currentBackend_hid h initiateTransaction_def split: option.split)
  show "\<exists>ps'. snd (networkPostQuery E p' k (hid f ps s)) = hid f ps' (snd (networkPostQuery E p k s))"
  proof (cases "buildGeolocateUrl (Some ?t) k URL_LENGTH")
    case None
    then have "snd (networkPostQuery E p' k (hid f ps s)) = hid f ps (snd (networkPostQuery E p k s))"
      by (simp add: networkPostQuery_def Let_def case_prod_unfold currentBackend_hid m)
    then show ?thesis by blast
  next
    case (Some url)
    then show ?thesis
      by (intro exI) (simp add: networkPostQuery_def Let_def case_prod_unfold currentBackend_hid m w)
  qed
  show "networkPostQuery_log E k (hid f ps s) = networkPostQuery_log E k s"
    by (simp add: networkPostQuery_log_def Let_def case_prod_unfold currentBackend_hid initiateTransaction_log_def h
        split: option.split)
qed

lemma trigger_split:
  "triggerPostQuery E s =
    (let (q, t) = scan_query (ne_json E) s
     in case q of None \<Rightarrow> (False, t) | Some j \<Rightarrow> networkPostQuery E (Some (ne_tostring E j)) (nwGeolocationKey (mPositionData t)) t)"
  by (simp add: triggerPostQuery_def scan_query_def)

lemma scan_query_hide [simp]:
  "scan_query (hide_json f J) s = scan_query J s" "scan_query_log as_listed (hide_json f J) s = scan_query_log as_listed J s"
  by (simp_all add: scan_query_def scan_query_log_def)

lemma scan_query_hid:
  assumes "inj f"
  shows "(fst (scan_query J (hid f ps s)) = None) = (fst (scan_query J s) = None)"
    and "snd (scan_query J (hid f ps s)) = hid f ps (snd (scan_query J s))"
    and "scan_query_log as_listed J (hid f ps s) = scan_query_log as_listed J s"
proof -
  note q = queries_hid [OF assms]
  show "(fst (scan_query J (hid f ps s)) = None) = (fst (scan_query J s) = None)"
    by (simp add: scan_query_def q)
  show "snd (scan_query J (hid f ps s)) = hid f ps (snd (scan_query J s))"
    by (simp add: scan_query_def q)
  show "scan_query_log as_listed J (hid f ps s) = scan_query_log as_listed J s"
    by (simp add: scan_query_log_def q parseCellData_hid parseWifiData_hid [OF assms])
qed

lemma triggerPostQuery_hide [simp]:
  "triggerPostQuery (hide_env f E) s = triggerPostQuery E s" "triggerPostQuery_log as_listed (hide_env f E) s = triggerPostQuery_log as_listed E s"
  by (simp_all add: trigger_split triggerPostQuery_log_def Let_def case_prod_unfold split: option.split)

lemma triggerPostQuery_hid:
  assumes "inj f"
  shows "\<exists>ps'. snd (triggerPostQuery E (hid f ps s)) = hid f ps' (snd (triggerPostQuery E s))"
    and "triggerPostQuery_log as_listed E (hid f ps s) = triggerPostQuery_log as_listed E s"
proof -
  obtain q t where q: "scan_query (ne_json E) s = (q, t)" by fastforce
  obtain q' where q': "scan_query (ne_json E) (hid f ps s) = (q', hid f ps t)" and eq: "(q' = None) = (q = None)"
    using scan_query_hid(1,2) [OF assms, of "ne_json E" ps s] by (simp add: q) (metis prod.collapse)
  note log = scan_query_hid(3) [OF assms, of "ne_json E" ps s]
  show "\<exists>ps'. snd (triggerPostQuery E (hid f ps s)) = hid f ps' (snd (triggerPostQuery E s))"
  proof (cases q)
    case None
    then show ?thesis using eq by (intro exI [of _ ps]) (simp add: trigger_split q q')
  next
    case (Some x)
    then obtain x' where "q' = Some x'" using eq by auto
    then show ?thesis
      using Some networkPostQuery_hid(2) [of E "Some (ne_tostring E x')" _ f ps t "Some (ne_tostring E x)"]
      by (simp add: trigger_split q q')
  qed
  show "triggerPostQuery_log as_listed E (hid f ps s) = triggerPostQuery_log as_listed E s"
  proof (cases q)
    case None
    then show ?thesis using eq by (simp add: triggerPostQuery_log_def q q' log)
  next
    case (Some x)
    then obtain x' where "q' = Some x'" using eq by auto
    then show ?thesis
      using Some networkPostQuery_hid(1) [of E "Some (ne_tostring E x')" _ f ps t "Some (ne_tostring E x)"]
      by (simp add: triggerPostQuery_log_def q q' log networkPostQuery_hid(3))
  qed
qed

lemma simple_ops_hid:
  "np_enable E (hid f ps s) = hid f ps (np_enable E s)" "np_disable (hid f ps s) = hid f ps (np_disable s)"
  "np_setCallback b (hid f ps s) = hid f ps (np_setCallback b s)" "setCurrentBackend bk (hid f ps s) = hid f ps (setCurrentBackend bk s)"
  "net_call_back cb (hid f ps s) = hid f ps (net_call_back cb s)"
  "snd (registerServiceStatus E v ck (hid f ps s)) = hid f ps (snd (registerServiceStatus E v ck s))"
  "snd (unregisterServiceStatus E ck (hid f ps s)) = hid f ps (snd (unregisterServiceStatus E ck s))"
  "snd (unregisterForCellInfo E (hid f ps s)) = hid f ps (snd (unregisterForCellInfo E s))"
  "snd (unregisterForWifiAccessPoints E (hid f ps s)) = hid f ps (snd (unregisterForWifiAccessPoints E s))"
  "snd (lunaServiceCall E u p (hid f ps s)) = hid f ps (snd (lunaServiceCall E u p s))"
  "snd (serviceStatusCb E vo up (hid f ps s)) = hid f ps (snd (serviceStatusCb E vo up s))"
  "np_Handle_WifiNotification b (hid f ps s) = hid f ps (np_Handle_WifiNotification b s)"
  "np_Handle_ConnectivityNotification b (hid f ps s) = hid f ps (np_Handle_ConnectivityNotification b s)"
  "np_Handle_TelephonyNotification b (hid f ps s) = hid f ps (np_Handle_TelephonyNotification b s)"
  by (simp_all add: hid_def np_enable_def np_disable_def np_setCallback_def setCurrentBackend_def net_call_back_def
      registerServiceStatus_def unregisterServiceStatus_def unregisterForCellInfo_def unregisterForWifiAccessPoints_def
      lunaServiceCall_def serviceStatusCb_def wifiServiceStatusUpdate_def telephonyServiceStatusUpdate_def
      registerForWifiAccessPoints_def registerForCellInfo_def np_Handle_WifiNotification_def
      np_Handle_ConnectivityNotification_def np_Handle_TelephonyNotification_def Let_def split: option.split)

lemma flags_hid:
  "(hid f ps s)\<lparr>mProcessRequestInProgress := b\<rparr> = hid f ps (s\<lparr>mProcessRequestInProgress := b\<rparr>)"
  "(hid f ps s)\<lparr>mMockRequestInProgress := b\<rparr> = hid f ps (s\<lparr>mMockRequestInProgress := b\<rparr>)"
  "(hid f ps s)\<lparr>mTimeoutId := n\<rparr> = hid f ps (s\<lparr>mTimeoutId := n\<rparr>)"
  "(hid f ps s)\<lparr>net_timers := ns\<rparr> = hid f ps (s\<lparr>net_timers := ns\<rparr>)"
  "upd_pd (\<lambda>d. d\<lparr>nwGeolocationKey := k\<rparr>) (hid f ps s) = hid f ps (upd_pd (\<lambda>d. d\<lparr>nwGeolocationKey := k\<rparr>) s)"
  "upd_pd resetData (hid f ps s) = hid f ps (upd_pd resetData s)"
  by (simp_all add: hid_def resetData_def)

definition agree :: "(string \<Rightarrow> string) \<Rightarrow> NetworkPositionProvider \<Rightarrow> NetworkPositionProvider \<Rightarrow> bool" where
  "agree f s t \<longleftrightarrow> (\<exists>ps. t = hid f ps s)"

lemma agreeI [intro]: "t = hid f ps s \<Longrightarrow> agree f s t"
  by (auto simp: agree_def)

lemma hid_agree [simp]: "agree f s (hid f ps s)"
  by auto

lemma response_hid: "agree f (handleResponse E t k s) (handleResponse E t k (hid f ps s))"
proof -
  have c: "(hid f ps s)\<lparr>http := clearTransaction n (http (hid f ps s))\<rparr> = hid f ps (s\<lparr>http := clearTransaction n (http s)\<rparr>)" for n
    by (simp add: hid_def clearTransaction_def)
  have u: "upd_pd (\<lambda>d. d\<lparr>lastTimeStamp := i\<rparr>) (hid f ps r) = hid f ps (upd_pd (\<lambda>d. d\<lparr>lastTimeStamp := i\<rparr>) r)"
    "(upd_pd (\<lambda>d. d\<lparr>lastLatitude := a, lastLongitude := b, lastAccuracy := w, lastTimeStamp := i\<rparr>) (hid f ps r))\<lparr>mFixBackend := g, net_stored := q\<rparr>
      = hid f ps ((upd_pd (\<lambda>d. d\<lparr>lastLatitude := a, lastLongitude := b, lastAccuracy := w, lastTimeStamp := i\<rparr>) r)
          \<lparr>mFixBackend := g, net_stored := q\<rparr>)"
    for a b w i g q r by (simp_all add: hid_def)
  have "handleResponse E t k (hid f ps s) = hid f ps (handleResponse E t k s)"
    unfolding handleResponse_def Let_def case_prod_unfold c currentBackend_hid fst_conv snd_conv hid_simps u
    by (simp add: simple_ops_hid u split: option.split)
  then show ?thesis by auto
qed

lemma stop_hid:
  assumes "mRequestType r = STOP_POSITION_CMD"
  shows "snd (np_processRequest E r (hid f ps s)) = hid f ps (snd (np_processRequest E r s))"
proof -
  let ?u = "\<lambda>t. snd (unregisterServiceStatus E TelephonyCookie (snd (unregisterServiceStatus E WifiCookie
      (snd (unregisterForCellInfo E (snd (unregisterForWifiAccessPoints E (t\<lparr>mProcessRequestInProgress := False\<rparr>))))))))"
  let ?z = "\<lambda>t. if mTimeoutId t \<noteq> 0 then t\<lparr>net_timers := remove1 (mTimeoutId t) (net_timers t), mTimeoutId := 0\<rparr> else t"
  have p: "snd (np_processRequest E r t) =
      (if \<not> np_enabled t then t
       else if mMockRequestInProgress t then upd_pd resetData (t\<lparr>mMockRequestInProgress := False\<rparr>)
       else if \<not> mProcessRequestInProgress t then t
       else (upd_pd resetData (?z (?u t)))\<lparr>misFirstCellResponse := True\<rparr>)" for t
    using assms by (simp add: np_processRequest_def Let_def)
  show ?thesis
    by (simp add: p flags_hid simple_ops_hid hid_upd)
qed

definition begin_request :: "'j net_env \<Rightarrow> NetworkPositionProvider \<Rightarrow> NetworkPositionProvider" where
  "begin_request E s =
    (snd (registerServiceStatus E WIFI_SERVICE WifiCookie (snd (registerServiceStatus E TELEPHONY_SERVICE TelephonyCookie
      ((snd (lunaServiceCall E SCAN_METHOD SCAN_PAYLOAD s))\<lparr>mProcessRequestInProgress := True\<rparr>)))))
        \<lparr>mTimeoutId := ne_timer E, net_timers := net_timers s @ [ne_timer E]\<rparr>"

lemma begin_hid: "begin_request E (hid f ps s) = hid f ps (begin_request E s)"
  by (simp add: begin_request_def hid_def lunaServiceCall_def registerServiceStatus_def)

lemma start_hid:
  assumes "mRequestType r = POSITION_CMD" and "np_enabled s" and "\<not> network_mocked s" and "\<not> mProcessRequestInProgress s"
  shows "snd (np_processRequest E r (hid f ps s)) = hid f ps (snd (np_processRequest E r s))"
proof -
  obtain b s1 where c: "currentBackend E s = (b, s1)" by fastforce
  then have c': "currentBackend E (hid f ps s) = (b, hid f ps s1)" by (simp add: currentBackend_hid)
  have p: "snd (np_processRequest E r t) =
      (let u = (if b = Google \<and> nwGeolocationKey (mPositionData t1) = None
                then upd_pd (\<lambda>d. d\<lparr>nwGeolocationKey := readApiKey E\<rparr>) t1 else t1)
       in if b = Google \<and> nwGeolocationKey (mPositionData u) = None then u else begin_request E u)"
    if "currentBackend E t = (b, t1)" "np_enabled t" "\<not> network_mocked t" "\<not> mProcessRequestInProgress t" for t t1
    using assms(1) that by (simp add: np_processRequest_def begin_request_def Let_def if_distrib [of snd] cong: if_cong split del: if_split)
  have k: "(if b = Google \<and> nwGeolocationKey (mPositionData s1) = None
        then upd_pd (\<lambda>d. d\<lparr>nwGeolocationKey := readApiKey E\<rparr>) (hid f ps s1) else hid f ps s1)
      = hid f ps (if b = Google \<and> nwGeolocationKey (mPositionData s1) = None
          then upd_pd (\<lambda>d. d\<lparr>nwGeolocationKey := readApiKey E\<rparr>) s1 else s1)"
    by (simp only: flags_hid if_distrib [of "hid f ps"])
  show ?thesis
    unfolding p [OF c assms(2-4)] p [OF c', unfolded hid_simps, OF assms(2-4)] Let_def hid_data
    unfolding k hid_data begin_hid by (rule if_distrib [symmetric])
qed

lemma request_hid: "agree f (snd (np_processRequest E r s)) (snd (np_processRequest E r (hid f ps s)))"
proof -
  consider (mock) "mRequestType r = POSITION_CMD" "np_enabled s" "network_mocked s"
    | (run) "mRequestType r = POSITION_CMD" "np_enabled s" "\<not> network_mocked s" "mProcessRequestInProgress s"
    | (start) "mRequestType r = POSITION_CMD" "np_enabled s" "\<not> network_mocked s" "\<not> mProcessRequestInProgress s"
    | (stop) "mRequestType r = STOP_POSITION_CMD"
    | (other) "mRequestType r \<noteq> POSITION_CMD" "mRequestType r \<noteq> STOP_POSITION_CMD" | (off) "\<not> np_enabled s"
    by blast
  then show ?thesis
  proof cases
    case mock
    then show ?thesis
      using networkPostQuery_hid(1,2) [of E None "Some []" f ps s None]
      by (auto simp: np_processRequest_def case_prod_unfold flags_hid agree_def)
  next
    case run
    then show ?thesis
      by (intro agreeI [of _ _ ps]) (simp add: np_processRequest_def Let_def case_prod_unfold currentBackend_hid simple_ops_hid)
  next
    case start
    then show ?thesis using start_hid [of r s E f ps] by auto
  next
    case stop
    then show ?thesis using stop_hid [of r E f ps s] by auto
  next
    case other
    then show ?thesis by (cases "mRequestType r") (simp_all add: np_processRequest_def)
  qed (simp add: np_processRequest_def)
qed

lemma trigger_agree: "inj f \<Longrightarrow> agree f (snd (triggerPostQuery E s)) (snd (triggerPostQuery E (hid f ps s)))"
  using triggerPostQuery_hid(1) [of f E ps s] by (auto simp: agree_def)

lemma timer_hid:
  assumes "inj f"
  shows "rel_option (agree f) (networkUpdateCallback E s) (networkUpdateCallback E (hid f ps s))"
    and "networkUpdateCallback_log as_listed E (hid f ps s) = networkUpdateCallback_log as_listed E s"
proof -
  show "rel_option (agree f) (networkUpdateCallback E s) (networkUpdateCallback E (hid f ps s))"
    by (simp add: networkUpdateCallback_def simple_ops_hid trigger_agree [OF assms])
  show "networkUpdateCallback_log as_listed E (hid f ps s) = networkUpdateCallback_log as_listed E s"
    by (simp add: networkUpdateCallback_log_def triggerPostQuery_hid(2) [OF assms])
qed

lemma cell_cb_hid:
  assumes "inj f"
  shows "agree f (cellDataCb E p s) (cellDataCb E p (hid f ps s))"
    and "cellDataCb_log as_listed E p (hid f ps s) = cellDataCb_log as_listed E p s"
proof -
  note t = triggerPostQuery_hid [OF assms]
  have "agree f (onUpdateCellData E c s) (onUpdateCellData E c (hid f ps s))" for c
    by (simp add: onUpdateCellData_def Let_def hid_upd trigger_agree [OF assms])
  then show "agree f (cellDataCb E p s) (cellDataCb E p (hid f ps s))"
    by (simp add: cellDataCb_def Let_def split: option.split)
  have "onUpdateCellData_log as_listed E c (hid f ps s) = onUpdateCellData_log as_listed E c s" for c
    by (simp add: onUpdateCellData_log_def Let_def hid_upd t(2))
  then show "cellDataCb_log as_listed E p (hid f ps s) = cellDataCb_log as_listed E p s"
    by (simp add: cellDataCb_log_def Let_def split: option.split)
qed

lemma wifi_cb_hid:
  assumes "inj f"
  shows "rel_option (agree f) (wifiAccessPointsCb E p s) (wifiAccessPointsCb (hide_env f E) p (hid f ps s))"
    and "wifiAccessPointsCb_log as_listed (hide_env f E) p (hid f ps s) = wifiAccessPointsCb_log as_listed E p s"
proof -
  note t = triggerPostQuery_hid [OF assms]
  have n: "networks_loop (hide_json f J) ns rng sig [] = map_option (rename_tbl f) (networks_loop J ns rng sig [])"
    for J :: "'a pbnjson" and ns rng sig
    using networks_rename [OF assms, of J ns rng sig "[]"] by simp
  have "agree f (onUpdateWifiData E a s) (onUpdateWifiData (hide_env f E) (rename_tbl f a) (hid f ps s))" for a
    by (simp add: onUpdateWifiData_def hid_upd trigger_agree [OF assms])
  then show "rel_option (agree f) (wifiAccessPointsCb E p s) (wifiAccessPointsCb (hide_env f E) p (hid f ps s))"
    by (simp add: wifiAccessPointsCb_def Let_def n split: option.split)
  have "onUpdateWifiData_log as_listed (hide_env f E) (rename_tbl f a) (hid f ps s) = onUpdateWifiData_log as_listed E a s" for a
    by (simp add: onUpdateWifiData_log_def hid_upd t(2))
  then show "wifiAccessPointsCb_log as_listed (hide_env f E) p (hid f ps s) = wifiAccessPointsCb_log as_listed E p s"
    by (simp add: wifiAccessPointsCb_log_def Let_def n networks_log_hide [OF assms] split: option.split)
qed

lemma step_hid:
  assumes "inj f" and "agree f s t"
  shows "rel_option (agree f) (net_step e s) (net_step (hide_event f e) t)"
    and "scan_event_log as_listed (hide_event f e) t = scan_event_log as_listed e s"
proof -
  obtain ps where t: "t = hid f ps s" using assms(2) by (auto simp: agree_def)
  show "rel_option (agree f) (net_step e s) (net_step (hide_event f e) t)"
    by (cases e) (auto simp: t simple_ops_hid response_hid request_hid timer_hid(1) [OF assms(1)] cell_cb_hid(1) [OF assms(1)]
        wifi_cb_hid(1) [OF assms(1)])
  show "scan_event_log as_listed (hide_event f e) t = scan_event_log as_listed e s"
    by (cases e) (simp_all add: t timer_hid(2) [OF assms(1)] cell_cb_hid(2) [OF assms(1)] wifi_cb_hid(2) [OF assms(1)])
qed

text \<open>The renaming must not identify addresses.\<close>

definition look_alike :: "(string \<Rightarrow> string) \<Rightarrow> NetworkPositionProvider \<Rightarrow> NetworkPositionProvider \<Rightarrow> bool" where
  "look_alike f s t \<longleftrightarrow> inj f \<and> agree f s t"

interpretation scans: unwinding net_step "scan_event_log as_listed" "scan_log as_listed" "hide_event f" "look_alike f" for f
proof
  fix s t and e :: "'j net_event"
  assume a: "look_alike f s t"
  then have "rel_option (agree f) (net_step e s) (net_step (hide_event f e) t)" using step_hid(1) by (auto simp: look_alike_def)
  then show "rel_option (look_alike f) (net_step e s) (net_step (hide_event f e) t)"
    using a by (auto simp: look_alike_def elim!: option.rel_mono_strong)
  show "scan_event_log as_listed (hide_event f e) t = scan_event_log as_listed e s" using a step_hid(2) by (auto simp: look_alike_def)
qed simp_all

subsection \<open>The order of the walks\<close>

lemma walk_map: "walk_ok ord \<Longrightarrow> mset (List.map g (ord w t)) = mset (List.map g t)"
  by (simp add: walk_ok_def)

lemma walk_concat:
  assumes "walk_ok ord"
  shows "mset (concat (List.map g (ord w t))) = mset (concat (List.map g t))"
proof -
  have "mset (concat (List.map g xs)) = (\<Sum>x\<in>#mset xs. mset (g x))" for xs by (induction xs) simp_all
  then show ?thesis using assms by (simp add: walk_ok_def)
qed

lemma compare_walk: "walk_ok ord \<Longrightarrow> mset (compare_log ord a b) = mset (compare_log as_listed a b)"
  by (simp add: compare_log_def walk_concat del: mset_concat)

lemma parseWifiData_walk:
  assumes "walk_ok ord"
  shows "mset (parseWifiData_log ord s) = mset (parseWifiData_log as_listed s)"
proof (cases "wifiAccessPointsList (mPositionData s)")
  case (Some aps)
  show ?thesis
    by (cases "lastAps (mPositionData s)")
      (simp_all add: parseWifiData_log_def Let_def Some compare_walk [OF assms] walk_map [OF assms] if_distrib [of mset] del: mset_map)
qed (simp add: parseWifiData_log_def)

lemma trigger_walk:
  assumes "walk_ok ord"
  shows "mset (triggerPostQuery_log ord E s) = mset (triggerPostQuery_log as_listed E s)"
  by (simp add: triggerPostQuery_log_def scan_query_log_def parseWifiData_walk [OF assms] case_prod_unfold Let_def)

lemma wifi_cb_walk:
  assumes "walk_ok ord"
  shows "mset (wifiAccessPointsCb_log ord E p s) = mset (wifiAccessPointsCb_log as_listed E p s)"
proof -
  have "mset (onUpdateWifiData_log ord E t s) = mset (onUpdateWifiData_log as_listed E t s)" for t
    by (simp add: onUpdateWifiData_log_def trigger_walk [OF assms] walk_map [OF assms] del: mset_map)
  then show ?thesis
    by (simp add: wifiAccessPointsCb_log_def Let_def split: option.split)
qed

lemma event_walk:
  assumes "walk_ok ord"
  shows "mset (scan_event_log ord e s) = mset (scan_event_log as_listed e s)"
  by (cases e) (auto simp: wifi_cb_walk [OF assms] trigger_walk [OF assms] cellDataCb_log_def onUpdateCellData_log_def
      networkUpdateCallback_log_def Let_def if_distrib [of mset] split: option.split)

lemma scan_log_walk:
  assumes "walk_ok ord"
  shows "mset (scan_log ord es s) = mset (scan_log as_listed es s)"
  by (induction es arbitrary: s) (simp_all add: event_walk [OF assms] split: option.split)

subsection \<open>Property\<close>


definition demo_scan :: "(string \<times> int) list \<Rightarrow> json" where
  "demo_scan aps = JObj [(''foundNetworks'', JArr [JObj [(''networkInfo'', JObj
     [(''available'', JBool True),
      (''bssInfo'', JArr (List.map (\<lambda>(k, v). JObj [(''bssid'', JStr k), (''signal'', JInt v)]) aps))])]])]"

definition scan_demo :: "json net_env" where
  "scan_demo = net_demo\<lparr>ne_json := json_api
     [(''one'', demo_scan [(''aa:bb:cc:dd:ee:01'', -40), (''aa:bb:cc:dd:ee:02'', -60)]),
      (''two'', demo_scan [(''aa:bb:cc:dd:ee:01'', -41), (''aa:bb:cc:dd:ee:03'', -90)])]\<rparr>"


text \<open>The key of the Google server is in the logged URL.\<close>

lemma google_key_is_logged:
  "hd (networkPostQuery_log scan_demo (Some ''AIza-key'') (setCurrentBackend Google np_init))
    = LogText ''networkPostQuery https://www.googleapis.com/geolocation/v1/geolocate?key=AIza-key via google''"
  by code_simp

end
