(* ===== verification/Net_Origin.thy ===== *)
theory Net_Origin
  imports Net_Claims
begin

text \<open>
  Where the positions of the network provider come from: every position it reports as a fix, or writes to its
  position file, was sent by a server in a reply of the run, at the time it carries.
\<close>

subsection \<open>What a reply says\<close>

text \<open>
  A body states a position if it is an object without \<^verbatim>\<open>error\<close> and its \<^verbatim>\<open>location\<close> has two numbers; an
  accuracy that is missing or is no number is 0.
\<close>

definition number_in :: "'j pbnjson \<Rightarrow> 'j \<Rightarrow> string \<Rightarrow> double \<Rightarrow> bool" where
  "number_in J j k x \<longleftrightarrow>
    (case jobject_get_exists J j k of None \<Rightarrow> False | Some v \<Rightarrow> jnumber_get_f64 J v 0 = (True, x))"

definition sends_position :: "'j pbnjson \<Rightarrow> string \<Rightarrow> double \<Rightarrow> double \<Rightarrow> double \<Rightarrow> bool" where
  "sends_position J b lat lng acc \<longleftrightarrow>
    (let p = jdom_parse J SCHEMA_ALL b
     in \<not> jis_null J p \<and> jobject_get_exists J p ''error'' = None
      \<and> (case jobject_get_exists J p ''location'' of
           None \<Rightarrow> False | Some l \<Rightarrow> number_in J l ''lat'' lat \<and> number_in J l ''lng'' lng)
      \<and> (number_in J p ''accuracy'' acc \<or> acc = 0 \<and> (\<nexists>x. number_in J p ''accuracy'' x)))"

text \<open>The error objects of a reply have codes other than 0, which stands for no error.\<close>

definition proper_error :: "'j pbnjson \<Rightarrow> string \<Rightarrow> bool" where
  "proper_error J b \<longleftrightarrow>
    (case jobject_get_exists J (jdom_parse J SCHEMA_ALL b) ''error'' of
       None \<Rightarrow> True | Some e \<Rightarrow> get_i32 J e ''code'' ERROR_NO_DATA \<noteq> 0)"

fun proper_reply :: "'j net_event \<Rightarrow> bool" where
  "proper_reply (NResponse E t k) = (case responseData k of None \<Rightarrow> True | Some b \<Rightarrow> proper_error (ne_json E) b)"
| "proper_reply e = True"

text \<open>Some reply of the run with status 200 sent these numbers, at this time.\<close>

definition position_sent :: "'j net_event list \<Rightarrow> double \<Rightarrow> double \<Rightarrow> double \<Rightarrow> double \<Rightarrow> bool" where
  "position_sent es lat lng acc ts \<longleftrightarrow>
    (\<exists>E t k b. NResponse E (Some t) k \<in> set es \<and> httpResponseCode k = HTTP_STATUS_CODE_SUCCESS
       \<and> responseData k = Some b \<and> sends_position (ne_json E) b lat lng acc \<and> ts = of_int (ne_now E))"

lemma field_number: "field_f64 J (Some l) k 0 = (True, x) \<Longrightarrow> number_in J l k x"
  by (simp add: field_f64_def number_in_def split: option.splits)

lemma field_no_number: "fst (field_f64 J (Some l) k 0) = False \<Longrightarrow> \<not> number_in J l k x"
  by (auto simp: field_f64_def number_in_def split: option.splits)

lemma parse_sends:
  assumes "parseHTTPResponse J (Some b) = (0, lat, lng, acc)" and "proper_error J b"
  shows "sends_position J b lat lng acc"
proof -
  let ?p = "jdom_parse J SCHEMA_ALL b"
  have e: "\<not> jis_null J ?p" "jobject_get_exists J ?p ''error'' = None"
    using assms by (auto simp: parseHTTPResponse_def proper_error_def Let_def split: if_splits option.splits)
  obtain o1 x1 where 1: "field_f64 J (jobject_get_exists J ?p ''location'') ''lat'' 0 = (o1, x1)" by fastforce
  obtain o2 x2 where 2: "field_f64 J (jobject_get_exists J ?p ''location'') ''lng'' 0 = (o2, x2)" by fastforce
  obtain o3 x3 where 3: "field_f64 J (Some ?p) ''accuracy'' 0 = (o3, x3)" by fastforce
  have r: "o1" "o2" "lat = x1" "lng = x2" "acc = (if o3 then x3 else 0)"
    using assms(1) e by (auto simp: parseHTTPResponse_def Let_def 1 2 3 split: if_splits)
  obtain l where l: "jobject_get_exists J ?p ''location'' = Some l"
    using 1 r(1) by (cases "jobject_get_exists J ?p ''location''") (simp_all add: field_f64_def)
  have "number_in J l ''lat'' lat" "number_in J l ''lng'' lng"
    using 1 2 r l by (auto intro: field_number)
  moreover have "number_in J ?p ''accuracy'' acc \<or> acc = 0 \<and> (\<nexists>x. number_in J ?p ''accuracy'' x)"
    using 3 r(5) field_number [of J ?p "''accuracy''" x3] field_no_number [of J ?p "''accuracy''"] by (cases o3) auto
  ultimately show ?thesis using e l by (simp add: sends_position_def)
qed

subsection \<open>The fix and its copies\<close>

type_synonym fix_state = "(double \<times> double \<times> double \<times> int) \<times> net_cb list \<times> GeoLocation list"

definition fix_data :: "NetworkPositionData \<Rightarrow> double \<times> double \<times> double \<times> int" where
  "fix_data d = (lastLatitude d, lastLongitude d, lastAccuracy d, lastTimeStamp d)"

definition fix_view :: "NetworkPositionProvider \<Rightarrow> fix_state" where
  "fix_view s = (fix_data (mPositionData s), net_callbacks s, net_stored s)"

lemma fix_data_update [simp]:
  "fix_data (d\<lparr>nwGeolocationKey := k\<rparr>) = fix_data d" "fix_data (d\<lparr>cellInfo := c\<rparr>) = fix_data d"
  "fix_data (d\<lparr>curCellid := i\<rparr>) = fix_data d" "fix_data (d\<lparr>lastAps := a\<rparr>) = fix_data d"
  "fix_data (d\<lparr>wifiAccessPointsList := a\<rparr>) = fix_data d"
  by (simp_all add: fix_data_def)

lemma fix_view_put [simp]:
  "fix_view (s\<lparr>mPositionData := d\<rparr>) = (fix_data d, snd (fix_view s))"
  "(fix_data (mPositionData s), snd (fix_view s)) = fix_view s"
  by (simp_all add: fix_view_def)

lemma fix_view_update [simp]:
  "fix_view (s\<lparr>regs := b\<rparr>) = fix_view s" "fix_view (s\<lparr>net_mock := c\<rparr>) = fix_view s" "fix_view (s\<lparr>http := h\<rparr>) = fix_view s"
  "fix_view (s\<lparr>sBackend := e\<rparr>) = fix_view s" "fix_view (s\<lparr>net_calls := k\<rparr>) = fix_view s"
  "fix_view (s\<lparr>net_timers := ts\<rparr>) = fix_view s" "fix_view (s\<lparr>mTimeoutId := n\<rparr>) = fix_view s"
  "fix_view (s\<lparr>np_enabled := m\<rparr>) = fix_view s" "fix_view (s\<lparr>np_callback := m\<rparr>) = fix_view s"
  "fix_view (s\<lparr>mMockRequestInProgress := m\<rparr>) = fix_view s" "fix_view (s\<lparr>misFirstCellResponse := m\<rparr>) = fix_view s"
  "fix_view (s\<lparr>mProcessRequestInProgress := m\<rparr>) = fix_view s"
  "fix_view (s\<lparr>mFixBackend := g\<rparr>) = fix_view s" "fix_view (s\<lparr>mwifiStatus := m\<rparr>) = fix_view s"
  "fix_view (s\<lparr>mtelephonyPowerd := m\<rparr>) = fix_view s" "fix_view (s\<lparr>mConnectivityStatus := m\<rparr>) = fix_view s"
  by (simp_all add: fix_view_def)

lemma fix_view_ops [simp]:
  "fix_view (snd (currentBackend E s)) = fix_view s" "fix_view (snd (parseCellData J s)) = fix_view s"
  "fix_view (snd (parseWifiData s)) = fix_view s" "fix_view (setCurrentBackend b s) = fix_view s"
  "fix_view (registerForWifiAccessPoints E s) = fix_view s" "fix_view (registerForCellInfo E s) = fix_view s"
  "fix_view (snd (unregisterForWifiAccessPoints E s)) = fix_view s" "fix_view (snd (unregisterForCellInfo E s)) = fix_view s"
  "fix_view (snd (registerServiceStatus E v ck s)) = fix_view s" "fix_view (snd (unregisterServiceStatus E ck s)) = fix_view s"
  "fix_view (snd (lunaServiceCall E u p s)) = fix_view s" "fix_view (np_setCallback cb s) = fix_view s"
  by (simp_all add: currentBackend_def parseCellData_def parseWifiData_def setCurrentBackend_def registerForWifiAccessPoints_def
      registerForCellInfo_def unregisterForWifiAccessPoints_def unregisterForCellInfo_def registerServiceStatus_def
      unregisterServiceStatus_def lunaServiceCall_def np_setCallback_def Let_def case_prod_unfold split: option.split)

lemma fix_view_posts [simp]: "fix_view (snd (networkPostQuery E p k s)) = fix_view s"
  by (simp add: networkPostQuery_def Let_def case_prod_unfold split: option.split)

lemma fix_view_trigger [simp]: "fix_view (snd (triggerPostQuery E s)) = fix_view s"
  by (simp add: triggerPostQuery_def queries Let_def case_prod_unfold split: option.split)

lemma fix_view_handlers [simp]:
  "fix_view (cellDataCb E p s) = fix_view s" "fix_view (np_enable E s) = fix_view s" "fix_view (np_disable s) = fix_view s"
  "fix_view (snd (serviceStatusCb E v up s)) = fix_view s" "fix_view (np_Handle_WifiNotification b s) = fix_view s"
  "fix_view (np_Handle_ConnectivityNotification b s) = fix_view s" "fix_view (np_Handle_TelephonyNotification b s) = fix_view s"
  by (simp_all add: cellDataCb_def onUpdateCellData_def np_enable_def np_disable_def serviceStatusCb_def wifiServiceStatusUpdate_def
      telephonyServiceStatusUpdate_def np_Handle_WifiNotification_def np_Handle_ConnectivityNotification_def
      np_Handle_TelephonyNotification_def Let_def split: option.split)

lemma wifi_cb_fix: "wifiAccessPointsCb E p s = Some s' \<Longrightarrow> fix_view s' = fix_view s"
  by (auto simp: wifiAccessPointsCb_def onUpdateWifiData_def Let_def split: option.splits if_splits)

subsection \<open>The invariant\<close>

text \<open>The last fix, if there is one, the reported fixes and the stored ones come from \<open>R\<close>.\<close>

definition sourced :: "(double \<Rightarrow> double \<Rightarrow> double \<Rightarrow> double \<Rightarrow> bool) \<Rightarrow> fix_state \<Rightarrow> bool" where
  "sourced R = (\<lambda>((lat, lng, acc, ts), cbs, ss). (ts > 0 \<longrightarrow> R lat lng acc (of_int ts))
    \<and> (\<forall>l. NetLocation l ERROR_NONE \<in> set cbs \<longrightarrow> R (mLatitude l) (mLongitude l) (mHorAccuracy l) (mTimeStamp l))
    \<and> (\<forall>l\<in>set ss. R (mLatitude l) (mLongitude l) (mHorAccuracy l) (mTimeStamp l)))"

abbreviation (input) good_fix :: "(double \<Rightarrow> double \<Rightarrow> double \<Rightarrow> double \<Rightarrow> bool) \<Rightarrow> NetworkPositionProvider \<Rightarrow> bool" where
  "good_fix R s \<equiv> sourced R (fix_view s)"

lemma report_last:
  assumes "good_fix R s" and "lastTimeStamp (mPositionData s) > 0 \<or> e \<noteq> ERROR_NONE"
  shows "good_fix R (net_call_back (NetLocation (last_fix (mPositionData s)) e) s)"
  using assms by (auto simp: sourced_def fix_view_def fix_data_def net_call_back_def last_fix_def geo_location_def)

lemma reset_fix: "good_fix R s \<Longrightarrow> good_fix R (upd_pd resetData s)"
  by (simp add: sourced_def fix_view_def fix_data_def resetData_def)

lemma request_fix:
  assumes "good_fix R s"
  shows "good_fix R (snd (np_processRequest E r s))"
proof (cases "mRequestType r")
  case POSITION_CMD
  have "good_fix R (net_call_back (NetLocation (last_fix (mPositionData s)) ERROR_NONE) (snd (currentBackend E s)))"
    if "lastTimeStamp (mPositionData s) > 0"
    using report_last [of R "snd (currentBackend E s)" ERROR_NONE] that assms by simp
  then show ?thesis
    using POSITION_CMD assms
    by (simp add: np_processRequest_def Let_def case_prod_unfold if_distrib [of snd] if_distrib [of fix_view]
        if_distrib [of "sourced R"])
next
  case STOP_POSITION_CMD
  have "good_fix R ((upd_pd resetData t)\<lparr>misFirstCellResponse := True\<rparr>)" if "fix_view t = fix_view s" for t
    using reset_fix [of R t] assms that by simp
  then show ?thesis
    using STOP_POSITION_CMD assms reset_fix [of R "s\<lparr>mMockRequestInProgress := False\<rparr>"]
    by (simp add: np_processRequest_def Let_def)
qed (use assms in \<open>auto simp: np_processRequest_def\<close>)

lemma response_fix:
  assumes "good_fix R s"
    and "\<And>b lat lng acc. httpResponseCode k = HTTP_STATUS_CODE_SUCCESS \<Longrightarrow> responseData k = Some b
      \<Longrightarrow> parseHTTPResponse (ne_json E) (Some b) = (0, lat, lng, acc) \<Longrightarrow> R lat lng acc (of_int (ne_now E))"
  shows "good_fix R (handleResponse E (Some t) k s)"
proof (cases "httpResponseCode k = HTTP_STATUS_CODE_SUCCESS")
  case True
  obtain e lat lng acc where p: "parseHTTPResponse (ne_json E) (responseData k) = (e, lat, lng, acc)"
    by (metis surj_pair)
  have r: "R lat lng acc (of_int (ne_now E))" if "e = 0"
    using assms(2) p True that by (cases "responseData k") (auto simp: parseHTTPResponse_def)
  show ?thesis
    using assms(1) True r
    by (auto simp: handleResponse_def p currentBackend_def net_call_back_def network_fix_def geo_location_def sourced_def
        fix_view_def fix_data_def Let_def split: option.split)
next
  case False
  then show ?thesis
    using assms(1) by (auto simp: handleResponse_def net_call_back_def sourced_def fix_view_def fix_data_def Let_def)
qed

lemma timer_fix:
  assumes "good_fix R s"
  shows "opt_all (good_fix R) (networkUpdateCallback E s)"
  using assms report_last [of R s ERROR_NETWORK_ERROR] by (simp add: networkUpdateCallback_def)

text \<open>What \<open>R\<close> has to know of an event.\<close>

fun reply_in :: "(double \<Rightarrow> double \<Rightarrow> double \<Rightarrow> double \<Rightarrow> bool) \<Rightarrow> 'j net_event \<Rightarrow> bool" where
  "reply_in R (NResponse E (Some t) k) \<longleftrightarrow>
    (\<forall>b lat lng acc. httpResponseCode k = HTTP_STATUS_CODE_SUCCESS \<longrightarrow> responseData k = Some b
      \<longrightarrow> parseHTTPResponse (ne_json E) (Some b) = (0, lat, lng, acc) \<longrightarrow> R lat lng acc (of_int (ne_now E)))"
| "reply_in R e = True"

lemma step_fix:
  assumes "good_fix R s" and "reply_in R e"
  shows "opt_all (good_fix R) (net_step e s)"
proof (cases e)
  case (NRequest E r)
  then show ?thesis using assms request_fix by simp
next
  case (NTimer E)
  then show ?thesis using timer_fix [OF assms(1), of E] assms(1) by simp
next
  case (NWifi E p)
  then show ?thesis using assms wifi_cb_fix [of E p s] by (cases "wifiAccessPointsCb E p s") simp_all
next
  case (NResponse E t k)
  show ?thesis
  proof (cases t)
    case None
    then show ?thesis using assms NResponse by (simp add: handleResponse_def)
  next
    case (Some n)
    then show ?thesis using assms NResponse response_fix [of R s k E n] by simp
  qed
qed (use assms in simp_all)

interpretation net_fixes: step_invariant net_ostep "opt_all (good_fix R)" "reply_in R" for R
  by unfold_locales (auto dest!: step_fix simp: opt_all_def split: option.splits)

subsection \<open>Property\<close>

text \<open>
  C38: the network provider makes up no positions: if the error objects of the replies of a run have codes
  other than 0, every position the provider reports without an error, and every one it writes to its position
  file, was sent in the run by a reply with status 200 whose body has no error object and two convertible
  coordinates, and carries the coordinates, the accuracy and the arrival time of that reply.
\<close>

theorem network_positions_were_sent:
  assumes "net_run es np_init = Some s" and "list_all proper_reply es"
    and "NetLocation l ERROR_NONE \<in> set (net_callbacks s) \<or> l \<in> set (net_stored s)"
  shows "position_sent es (mLatitude l) (mLongitude l) (mHorAccuracy l) (mTimeStamp l)"
proof -
  have "reply_in (position_sent es) e" if "e \<in> set es" for e
  proof (cases "(position_sent es, e)" rule: reply_in.cases)
    case (1 R E t k)
    then have "proper_reply (NResponse E (Some t) k)" using assms(2) that by (auto simp: list_all_iff)
    then have "sends_position (ne_json E) b lat lng acc"
      if "responseData k = Some b" "parseHTTPResponse (ne_json E) (Some b) = (0, lat, lng, acc)" for b lat lng acc
      using that by (intro parse_sends) simp_all
    then show ?thesis using 1 that unfolding position_sent_def by simp blast
  qed simp_all
  then have "list_all (reply_in (position_sent es)) es" by (simp add: list_all_iff)
  moreover have "good_fix (position_sent es) np_init"
    by (simp add: sourced_def fix_view_def fix_data_def np_init_def position_data_init_def)
  ultimately have "opt_all (good_fix (position_sent es)) (net_run es np_init)"
    unfolding net_run_def by (intro net_fixes.run_good) simp_all
  then show ?thesis using assms(1,3) by (auto simp: sourced_def fix_view_def fix_data_def)
qed

definition origin_run :: "json net_event list" where
  "origin_run = [NEnable net_demo, NSetCallback, NRequest net_demo (position_request ''network'' POSITION_CMD),
     NResponse net_demo (Some 1) (demo_reply ''fix''), NRequest net_demo (position_request ''network'' POSITION_CMD)]"

theorem network_positions_were_sent_witness:
  "\<exists>s l. net_run origin_run np_init = Some s
     \<and> net_callbacks s = [NetLocation l ERROR_NONE, NetLocation l ERROR_NONE] \<and> net_stored s = [l] \<and> mLatitude l = 52
     \<and> position_sent origin_run 52 13 40 1700000000000"
proof -
  let ?l = "geo_location 52 13 (-1) 40 1700000000000 (-1) (-1) (-1) (-1)"
  obtain s where s: "net_run origin_run np_init = Some s" by (simp add: net_run_def origin_run_def)
  have "net_callbacks (the (net_run origin_run np_init)) = [NetLocation ?l ERROR_NONE, NetLocation ?l ERROR_NONE]
      \<and> net_stored (the (net_run origin_run np_init)) = [?l]"
    by code_simp
  then have c: "net_callbacks s = [NetLocation ?l ERROR_NONE, NetLocation ?l ERROR_NONE]" "net_stored s = [?l]"
    by (simp_all add: s)
  have "list_all proper_reply origin_run"
    by (simp add: origin_run_def demo_reply_def proper_error_def net_demo_def net_demo_json_def json_api_def)
  from network_positions_were_sent [OF s this, of ?l] show ?thesis
    using s c by (auto simp: geo_location_def)
qed

end
