(* ===== verification/Request_Log.thy ===== *)
theory Request_Log
  imports Location_Prelude
begin

text \<open>
  The log of the requests: \<^verbatim>\<open>printMessageDetails\<close> of \<^verbatim>\<open>LocationService.cpp\<close>, which every method calls
  first. It prints each detail of the message into one buffer of 256 bytes, feeds the line to the logger of
  the request file and some of the lines to the debug log too.
\<close>

text \<open>What the accessors of \<^verbatim>\<open>LSMessage\<close> return, and the name of the handle; a null pointer is \<open>None\<close>.\<close>

record MessageDetails =
  LSMessageGetUniqueToken :: "string option"
  LSMessageGetApplicationID :: "string option"
  LSMessageGetSender :: "string option"
  LSMessageGetSenderServiceName :: "string option"
  LSMessageGetCategory :: "string option"
  LSMessageGetMethod :: "string option"
  LSMessageGetPayload :: "string option"

abbreviation (input) eol :: char where "eol \<equiv> CHR 0x0A"

definition or_else :: "string \<Rightarrow> string option \<Rightarrow> string" where
  "or_else d x = (case x of None \<Rightarrow> d | Some s \<Rightarrow> s)"

text \<open>The lines in the order they are printed, and whether each goes to the debug log.\<close>

definition detail_lines :: "string option \<Rightarrow> string option \<Rightarrow> MessageDetails \<Rightarrow> (bool \<times> string) list" where
  "detail_lines usage service_name m =
    [(True, ''=============== LSMessage Details for '' @ or_else ''NA'' usage @ '' ==============='' @ [eol]),
     (False, ''Connection \"'' @ or_else ''None'' service_name @ ''\"'' @ [eol]),
     (False, ''UniqueToken: '' @ or_else ''NULL'' (LSMessageGetUniqueToken m) @ [eol]),
     (True, ''ApplicationID: '' @ or_else ''NULL'' (LSMessageGetApplicationID m) @ [eol]),
     (False, ''Sender: '' @ or_else ''NULL'' (LSMessageGetSender m) @ [eol]),
     (True, ''SenderServiceName: '' @ or_else ''NULL'' (LSMessageGetSenderServiceName m) @ [eol]),
     (False, ''Category: '' @ or_else ''NULL'' (LSMessageGetCategory m) @ [eol]),
     (True, ''Method: '' @ or_else ''NULL'' (LSMessageGetMethod m) @ [eol]),
     (True, ''Payload: '' @ or_else ''NULL'' (LSMessageGetPayload m) @ [eol]),
     (True, ''=============================================================='' @ [eol])]"

text \<open>What is fed to the request file and what to the debug log: the contents of the buffer, whose last byte ends it.\<close>

definition printMessageDetails ::
  "string option \<Rightarrow> MessageDetails option \<Rightarrow> string option \<Rightarrow> string list \<times> string list" where
  "printMessageDetails usage msg service_name =
    (case msg of
       None \<Rightarrow> ([], [])
     | Some m \<Rightarrow>
         let ls = List.map (\<lambda>(dbg, l). (dbg, strlcpy 256 l)) (detail_lines usage service_name m)
         in (List.map snd ls, List.map snd (filter fst ls)))"

text \<open>No line overflows the buffer, whatever a client sends.\<close>

lemma request_log_bounded: "list_all (\<lambda>l. length l < 256) (fst (printMessageDetails usage msg h))"
  by (simp add: printMessageDetails_def detail_lines_def length_strlcpy split: option.split)

lemma debug_log_is_part:
  "set (snd (printMessageDetails usage msg h)) \<subseteq> set (fst (printMessageDetails usage msg h))"
  by (auto simp: printMessageDetails_def Let_def split: option.split intro: rev_image_eqI)

text \<open>A payload of 246 bytes or more loses the end of its line, so that the closing line of the file is glued to it.\<close>

lemma long_payload_loses_line_end:
  assumes "LSMessageGetPayload m = Some p" and "246 \<le> length p"
  shows "fst (printMessageDetails usage (Some m) h) ! 8 = ''Payload: '' @ take 246 p"
  using assms by (simp add: printMessageDetails_def detail_lines_def or_else_def strlcpy_def nth_Cons' take_Cons')

end
