(* ===== verification/Test_Json.thy ===== *)
theory Test_Json
  imports Net_Claims Gps_Config
begin

text \<open>
  Instances of the parameters for the repository's unit tests: a reader of JSON texts behind the accessors
  of \<^theory_text>\<open>Luna_Json\<close>, so that the tests run on the texts they are written with, and base64 decoders for
  an alphabet. The reader knows what the tests need: no escapes in strings and no exponents.
\<close>

subsection \<open>JSON texts\<close>

abbreviation (input) quote :: char where "quote \<equiv> CHR 0x22"

definition json_space :: "char \<Rightarrow> bool" where
  "json_space c \<longleftrightarrow> c = CHR 0x20 \<or> c = CHR 0x09 \<or> c = CHR 0x0A \<or> c = CHR 0x0D"

definition skip :: "string \<Rightarrow> string" where
  "skip s = dropWhile json_space s"

definition json_digit :: "char \<Rightarrow> bool" where
  "json_digit c \<longleftrightarrow> digit_of c \<noteq> None \<and> the (digit_of c) < 10"

fun read_string :: "string \<Rightarrow> (string \<times> string) option" where
  "read_string [] = None"
| "read_string (c # s) =
    (if c = quote then Some ([], s)
     else if c = CHR 0x5C then None
     else map_option (\<lambda>(v, t). (c # v, t)) (read_string s))"

definition read_number :: "string \<Rightarrow> (json \<times> string) option" where
  "read_number s =
    (let (neg, r) = (case s of c # r \<Rightarrow> if c = CHR ''-'' then (True, r) else (False, s) | [] \<Rightarrow> (False, s));
         ds = takeWhile json_digit r; t = dropWhile json_digit r;
         i = digits_val 10 0 ds
     in if ds = [] then None
        else (case t of
            c # u \<Rightarrow>
              if c = CHR ''.'' \<and> takeWhile json_digit u \<noteq> [] then
                (let fs = takeWhile json_digit u;
                     r = of_int i + of_int (digits_val 10 0 fs) / 10 ^ length fs
                 in Some (JReal (if neg then - r else r), dropWhile json_digit u))
              else Some (JInt (if neg then - i else i), t)
          | [] \<Rightarrow> Some (JInt (if neg then - i else i), t)))"

text \<open>The first argument bounds the nesting and the length of the lists; the text itself is enough.\<close>

fun read_value :: "string \<Rightarrow> string \<Rightarrow> (json \<times> string) option"
  and read_fields :: "string \<Rightarrow> (string \<times> json) list \<Rightarrow> string \<Rightarrow> (json \<times> string) option"
  and read_items :: "string \<Rightarrow> json list \<Rightarrow> string \<Rightarrow> (json \<times> string) option" where
  "read_value [] s = None"
| "read_value (_ # f) s =
    (case skip s of
       [] \<Rightarrow> None
     | c # r \<Rightarrow>
         if c = quote then map_option (\<lambda>(v, t). (JStr v, t)) (read_string r)
         else if c = CHR ''{'' then
           (case skip r of
              [] \<Rightarrow> None
            | d # u \<Rightarrow> if d = CHR ''}'' then Some (JObj [], u) else read_fields f [] (d # u))
         else if c = CHR ''['' then
           (case skip r of
              [] \<Rightarrow> None
            | d # u \<Rightarrow> if d = CHR '']'' then Some (JArr [], u) else read_items f [] (d # u))
         else if has_prefix ''true'' (c # r) then Some (JBool True, drop 3 r)
         else if has_prefix ''false'' (c # r) then Some (JBool False, drop 4 r)
         else if has_prefix ''null'' (c # r) then Some (JNull, drop 3 r)
         else read_number (c # r))"
| "read_fields [] fs s = None"
| "read_fields (_ # f) fs s =
    (case skip s of
       [] \<Rightarrow> None
     | q # r \<Rightarrow>
         if q \<noteq> quote then None
         else (case read_string r of
                 None \<Rightarrow> None
               | Some (k, t) \<Rightarrow>
                   (case skip t of
                      [] \<Rightarrow> None
                    | c # u \<Rightarrow>
                        if c \<noteq> CHR 0x3A then None
                        else (case read_value f u of
                                None \<Rightarrow> None
                              | Some (v, w) \<Rightarrow>
                                  (case skip w of
                                     [] \<Rightarrow> None
                                   | d # x \<Rightarrow>
                                       if d = CHR 0x2C then read_fields f (fs @ [(k, v)]) x
                                       else if d = CHR ''}'' then Some (JObj (fs @ [(k, v)]), x) else None)))))"
| "read_items [] vs s = None"
| "read_items (_ # f) vs s =
    (case read_value f s of
       None \<Rightarrow> None
     | Some (v, w) \<Rightarrow>
         (case skip w of
            [] \<Rightarrow> None
          | d # x \<Rightarrow>
              if d = CHR 0x2C then read_items f (vs @ [v]) x
              else if d = CHR '']'' then Some (JArr (vs @ [v]), x) else None))"

definition json_text :: "string \<Rightarrow> json" where
  "json_text s = (case read_value s s of None \<Rightarrow> JNull | Some (v, t) \<Rightarrow> if skip t = [] then v else JNull)"

definition text_api :: "json pbnjson" where
  "text_api = (json_api [])\<lparr>jdom_parse := (\<lambda>_ p. json_text p)\<rparr>"

lemma json_text_examples:
  "json_text ''{\"a\": [1, -2.5], \"b\":{ }}'' = JObj [(''a'', JArr [JInt 1, JReal (- (5 / 2))]), (''b'', JObj [])]"
  "json_text ''{\"a\"'' = JNull" "json_text ''not json'' = JNull" "json_text [] = JNull"
  by code_simp+

subsection \<open>Base64\<close>

definition standard_alphabet :: string where
  "standard_alphabet = ''ABCDEFGHIJKLMNOPQRSTUVWXYZabcdefghijklmnopqrstuvwxyz0123456789+/''"

definition lg_alphabet :: string where
  "lg_alphabet = ''ABCDEFGHIJKLMNOPQ!@#$%WXYZabcdefghijklmnopqrstuvwxyz0123456789+/''"

fun position_in :: "string \<Rightarrow> nat \<Rightarrow> char \<Rightarrow> nat option" where
  "position_in [] i c = None"
| "position_in (a # as) i c = (if a = c then Some i else position_in as (Suc i) c)"

fun join_sextets :: "nat list \<Rightarrow> nat list" where
  "join_sextets (a # b # c # d # r) = (a * 4 + b div 16) # (b mod 16 * 16 + c div 4) # (c mod 4 * 64 + d) # join_sextets r"
| "join_sextets [a, b, c] = [a * 4 + b div 16, b mod 16 * 16 + c div 4]"
| "join_sextets [a, b] = [a * 4 + b div 16]"
| "join_sextets _ = []"

definition base64_decode :: "string \<Rightarrow> string \<Rightarrow> string" where
  "base64_decode alphabet s = List.map char_of (join_sextets (List.map_filter (position_in alphabet 0) s))"

definition test_base64 :: base64 where
  "test_base64 = \<lparr>g_base64_decode = base64_decode standard_alphabet, locSecurityBase64DecodeData = (\<lambda>s. Some (base64_decode lg_alphabet s))\<rparr>"

end
