(* ===== verification/Test_Watch.thy ===== *)
theory Test_Watch
  imports Test_Json Connection_Observer
begin

text \<open>
  The unit tests of the connection manager's status and of the resume signals
  (\<^verbatim>\<open>tests/test_connmgr_status.cpp\<close>, \<^verbatim>\<open>tests/test_sleepd_signals.cpp\<close>): each test function is the
  conjunction of what it asserts, and each holds of the model.
\<close>

subsection \<open>test_connmgr_status.cpp\<close>

text \<open>The call with its out-variables, which keep their contents when it fails.\<close>

definition connmgr_call :: "string option \<Rightarrow> bool \<times> int \<Rightarrow> bool \<times> bool \<times> int" where
  "connmgr_call payload out =
    (case connmgrParseDataNetwork text_api payload of
       None \<Rightarrow> (False, out) | Some (up, type) \<Rightarrow> (True, up, connmgr_num type))"

definition WIFI_ONLINE :: string where
  "WIFI_ONLINE =
    ''{\"returnValue\":true,\"isInternetConnectionAvailable\":true,'' @
    ''\"wifi\":{\"state\":\"connected\",\"onInternet\":\"yes\",\"interfaceName\":\"wlan0\"},'' @
    ''\"wan\":{\"connectedContexts\":[],\"connected\":false},'' @
    ''\"wired\":{\"plugged\":false,\"state\":\"disconnected\"},\"subscribed\":true}''"

definition WIFI_NOT_YET_ONLINE :: string where
  "WIFI_NOT_YET_ONLINE =
    ''{\"returnValue\":true,\"isInternetConnectionAvailable\":false,'' @
    ''\"wifi\":{\"state\":\"connected\",\"onInternet\":\"no\"},'' @
    ''\"wired\":{\"plugged\":false,\"state\":\"disconnected\"}}''"

definition test_wifi :: bool where
  "test_wifi \<longleftrightarrow>
    connmgr_call (Some WIFI_ONLINE) (False, - 1) = (True, True, connmgr_num CONNMGR_NETWORK_WIFI) \<and>
    connmgr_call (Some WIFI_NOT_YET_ONLINE) (True, connmgr_num CONNMGR_NETWORK_WIFI)
      = (True, False, connmgr_num CONNMGR_NETWORK_WIFI)"

definition test_mobile_and_wired :: bool where
  "test_mobile_and_wired \<longleftrightarrow>
    connmgr_call (Some (''{\"returnValue\":true,\"isInternetConnectionAvailable\":true,'' @
      ''\"wifi\":{\"state\":\"disconnected\"},'' @
      ''\"wan\":{\"connected\":true,\"connectedContexts\":[\"internet\"]}}'')) (False, - 1)
      = (True, True, connmgr_num CONNMGR_NETWORK_MOBILE) \<and>
    connmgr_call (Some (''{\"returnValue\":true,\"isInternetConnectionAvailable\":true,'' @
      ''\"wifi\":{\"state\":\"disconnected\"},'' @
      ''\"wired\":{\"plugged\":true,\"state\":\"connected\"}}'')) (True, connmgr_num CONNMGR_NETWORK_MOBILE)
      = (True, True, connmgr_num CONNMGR_NETWORK_WIFI) \<and>
    connmgr_call (Some ''{\"returnValue\":true,\"isInternetConnectionAvailable\":false}'') (True, connmgr_num CONNMGR_NETWORK_WIFI)
      = (True, False, connmgr_num CONNMGR_NETWORK_MOBILE)"

text \<open>The calls without an out-variable (the last two of the source) have no counterpart: the model has no such pointers.\<close>

definition test_not_a_status :: bool where
  "test_not_a_status \<longleftrightarrow> list_all (\<lambda>p. connmgr_call p (True, 42) = (False, True, 42))
    [Some ''{\"returnValue\":false,\"errorCode\":-1,\"errorText\":\"Service does not exist\"}'',
     Some ''{\"returnValue\":false,\"isInternetConnectionAvailable\":true}'',
     Some ''{\"returnValue\":true}'',
     Some ''{\"returnValue\":true,\"isInternetConnectionAvailable\":\"yes\"}'',
     Some ''{\"isInternetConnectionAvailable\":true}'',
     Some ''[]'', Some ''not json'', Some '''', None]"

definition test_link_state_is_matched_exactly :: bool where
  "test_link_state_is_matched_exactly \<longleftrightarrow> list_all
    (\<lambda>p. fst (connmgr_call (Some p) (False, - 1)) \<and> snd (snd (connmgr_call (Some p) (False, - 1))) = connmgr_num CONNMGR_NETWORK_MOBILE)
    [''{\"returnValue\":true,\"isInternetConnectionAvailable\":true,'' @ ''\"wifi\":{\"state\":\"connectedish\"}}'',
     ''{\"returnValue\":true,\"isInternetConnectionAvailable\":true,'' @ ''\"wifi\":{\"state\":\"connect\"}}'',
     ''{\"returnValue\":true,\"isInternetConnectionAvailable\":true,'' @ ''\"wifi\":{\"state\":true},\"wired\":\"connected\"}'']"

lemma connmgr_tests_pass: "test_wifi" "test_mobile_and_wired" "test_not_a_status" "test_link_state_is_matched_exactly"
  by code_simp+

subsection \<open>test_sleepd_signals.cpp\<close>

definition test_parse_resume_type :: bool where
  "test_parse_resume_type \<longleftrightarrow> list_all (\<lambda>(p, n). sleepdParseResumeType text_api p = n)
    [(Some ''{\"resumetype\":0}'', 0), (Some ''{\"resumetype\":1}'', 1), (Some ''{\"resumetype\":2}'', 2),
     (Some ''{\"resumetype\": 2, \"extra\": true}'', 2),
     (Some ''{\"returnValue\":true}'', - 1), (Some ''{}'', - 1), (Some ''[]'', - 1), (Some ''not json'', - 1),
     (Some '''', - 1), (None, - 1), (Some ''{\"resumetype\":\"2\"}'', - 1)]"

definition test_only_kernel_resume_is_a_wake :: bool where
  "test_only_kernel_resume_is_a_wake \<longleftrightarrow>
    sleepdResumeIsKernelWake SLEEPD_RESUME_KERNEL \<and>
    \<not> sleepdResumeIsKernelWake SLEEPD_RESUME_ACTIVITY \<and>
    \<not> sleepdResumeIsKernelWake SLEEPD_RESUME_ABORT_SUSPEND \<and>
    \<not> sleepdResumeIsKernelWake (- 1) \<and> \<not> sleepdResumeIsKernelWake 42 \<and>
    \<not> sleepdResumeIsKernelWake (sleepdParseResumeType text_api (Some ''{\"resumetype\":2}'')) \<and>
    sleepdResumeIsKernelWake (sleepdParseResumeType text_api (Some ''{\"resumetype\":0}''))"

lemma sleepd_tests_pass: "test_parse_resume_type" "test_only_kernel_resume_is_a_wake"
  by code_simp+

end
