(* ===== verification/Test_Gps.thy ===== *)
theory Test_Gps
  imports Gps_Config Ntp Http
begin

text \<open>
  The unit tests of the GPS side: \<^verbatim>\<open>tests/test_gps_cfg.cpp\<close>, \<^verbatim>\<open>tests/test_gps_defaults.cpp\<close>,
  \<^verbatim>\<open>tests/test_ntp_packet.cpp\<close> and \<^verbatim>\<open>tests/test_xtra_download.cpp\<close>. Each test function is the
  conjunction of its checks, and each holds of the model.
\<close>

subsection \<open>test_gps_cfg.cpp\<close>

text \<open>
  The probe of the tests is a string field with a value behind it; here the string is the host and the
  value the port of a configuration, both zero at first.
\<close>

definition probe :: GPSServiceConfig where
  "probe = (loadDefaults 0)\<lparr>mSUPLHost := [], mSUPLVer := 0, mSUPLPort := 0\<rparr>"

definition host_entry :: "string \<times> param_ptr" where "host_entry = (''SUPL_HOST'', PStr (\<lambda>s. mSUPLHost_update (\<lambda>_. s)))"
definition ver_entry :: "string \<times> param_ptr" where "ver_entry = (''SUPL_VER'', PNum mSUPLVer_update)"
definition port_entry :: "string \<times> param_ptr" where "port_entry = (''SUPL_PORT'', PNum mSUPLPort_update)"

definition longline :: string where
  "longline = ''SUPL_HOST='' @ replicate 290 (CHR ''A'') @ [newline]"

definition test_string_value_is_bounded :: bool where
  "test_string_value_is_bounded \<longleftrightarrow>
    (let p = gps_read_conf (Some longline) [host_entry, ver_entry] (probe\<lparr>mSUPLPort := 0xa5\<rparr>)
     in mSUPLPort p = 0xa5 \<and> length (mSUPLHost p) < GPS_MAX_PARAM_STRING \<and> take 1 (mSUPLHost p) = ''A'')"

definition conf_text :: string where
  "conf_text = ''  SUPL_HOST =   supl.example.org  '' @ [newline] @ ''SUPL_VER=0x20000'' @ [newline] @ ''SUPL_PORT=7276'' @ [newline]
    @ ''line without equals sign'' @ [newline] @ ''='' @ [newline] @ ''TRAILING_KEY='' @ [newline]"

definition test_values_parse_and_trim :: bool where
  "test_values_parse_and_trim \<longleftrightarrow>
    (let p = gps_read_conf (Some conf_text) [host_entry, ver_entry, port_entry] probe
     in mSUPLHost p = ''supl.example.org'' \<and> mSUPLVer p = 0x20000 \<and> mSUPLPort p = 7276)"

definition test_null_literal_clears_string :: bool where
  "test_null_literal_clears_string \<longleftrightarrow>
    mSUPLHost (gps_read_conf (Some (''SUPL_HOST=NULL'' @ [newline])) [host_entry] (probe\<lparr>mSUPLHost := ''preset''\<rparr>)) = []"

definition test_missing_file_is_noop :: bool where
  "test_missing_file_is_noop \<longleftrightarrow> mSUPLVer (gps_read_conf None [ver_entry] (probe\<lparr>mSUPLVer := 42\<rparr>)) = 42"

lemma gps_cfg_tests_pass: "test_string_value_is_bounded" "test_values_parse_and_trim" "test_null_literal_clears_string"
  "test_missing_file_is_noop"
  by code_simp+

subsection \<open>test_gps_defaults.cpp\<close>

definition is_https :: "string \<Rightarrow> bool" where
  "is_https url = has_prefix ''https://'' url"

definition test_xtra_servers_are_https :: bool where
  "test_xtra_servers_are_https \<longleftrightarrow>
    (let conf = gps_service_config 0 None in is_https (mXtraServer1 conf) \<and> is_https (mXtraServer2 conf) \<and> is_https (mXtraServer3 conf))"

lemma gps_defaults_tests_pass: "test_xtra_servers_are_https"
  by code_simp

subsection \<open>test_ntp_packet.cpp\<close>

definition ntp_packet_size :: nat where
  "ntp_packet_size = sum_list (List.map snd ntp_packet)"

definition ntp_packet_test :: bool where
  "ntp_packet_test \<longleftrightarrow>
    (let offset = map_of (field_offsets 0 ntp_packet)
     in ntp_packet_size = 48 \<and> offset ''rootDelay'' = Some 4 \<and> offset ''originateTimeStampSecs'' = Some 24 \<and>
        offset ''receiveTimeStampSeqs'' = Some 32 \<and> offset ''transmitTimeStampSecs'' = Some 40)"

lemma ntp_packet_tests_pass: "ntp_packet_test"
  by code_simp

subsection \<open>test_xtra_download.cpp\<close>

text \<open>
  The tests replace the HTTP library: the task keeps a pointer to the server it was prepared for (here its
  number), and the calls are counted, here in the task.
\<close>

record test_server =
  prepareFails :: bool
  requestFails :: bool
  curlOk :: bool
  test_status :: int
  body :: "string option"

definition GOOD :: test_server where
  "GOOD = \<lparr>prepareFails = False, requestFails = False, curlOk = True, test_status = 200, body = Some ''xtra''\<rparr>"

record test_task = HttpReqTask +
  message :: string
  gPrepareCalls :: nat
  gRequests :: nat

type_synonym servers = "(string \<times> test_server) list"

definition server_at :: "servers \<Rightarrow> string \<Rightarrow> test_server" where
  "server_at ss url = (case map_of ss url of None \<Rightarrow> GOOD | Some s \<Rightarrow> s)"

definition test_prepare :: "servers \<Rightarrow> string \<Rightarrow> test_task \<Rightarrow> bool \<times> test_task" where
  "test_prepare ss url t =
    (\<not> prepareFails (server_at ss url), t\<lparr>gPrepareCalls := Suc (gPrepareCalls t), message := url\<rparr>)"

definition test_add_request :: "servers \<Rightarrow> test_task \<Rightarrow> bool \<times> test_task" where
  "test_add_request ss t =
    (let server = server_at ss (message t);
         t1 = t\<lparr>gRequests := Suc (gRequests t), responseData := None, responseSize := 0, curlResultOk := True, httpResponseCode := 0\<rparr>
     in if requestFails server then (False, t1)
        else
          let t2 = t1\<lparr>curlResultOk := curlOk server, httpResponseCode := test_status server\<rparr>
          in (True, case body server of None \<Rightarrow> t2 | Some b \<Rightarrow> t2\<lparr>responseData := Some b, responseSize := length b\<rparr>))"

definition URLS :: "string list" where "URLS = [''0'', ''1'', ''2'']"

definition run_xtra :: "test_server list \<Rightarrow> bool \<times> test_task" where
  "run_xtra ss =
    (let servers = zip URLS ss;
         H = \<lparr>xh_prep = test_prepare servers, xh_add = (\<lambda>_. test_add_request servers)\<rparr>;
         t = \<lparr>responseData = None, responseSize = 0, curlResultOk = True, httpResponseCode = 0, message = [],
              gPrepareCalls = 0, gRequests = 0\<rparr>
     in case fetchXtraData H (Some t) URLS of (r, t') \<Rightarrow> (r, the t'))"

definition nothing_left :: "test_task \<Rightarrow> bool" where
  "nothing_left t \<longleftrightarrow> responseData t = None \<and> responseSize t = 0"

definition test_first_server_answers :: bool where
  "test_first_server_answers \<longleftrightarrow>
    (case run_xtra [GOOD, GOOD, GOOD] of (r, t) \<Rightarrow>
      r \<and> gRequests t = 1 \<and> responseSize t = 4 \<and> map_option (take 4) (responseData t) = Some ''xtra'')"

definition test_prepare_failing_moves_to_next_server :: bool where
  "test_prepare_failing_moves_to_next_server \<longleftrightarrow>
    (case run_xtra [GOOD\<lparr>prepareFails := True\<rparr>, GOOD, GOOD] of (r, t) \<Rightarrow> r \<and> gPrepareCalls t = 2 \<and> gRequests t = 1)"

definition test_prepare_always_failing_stops :: bool where
  "test_prepare_always_failing_stops \<longleftrightarrow>
    (case run_xtra (replicate 3 (GOOD\<lparr>prepareFails := True\<rparr>)) of (r, t) \<Rightarrow>
      \<not> r \<and> gPrepareCalls t = 3 \<and> gRequests t = 0 \<and> nothing_left t)"

definition test_request_failing_moves_to_next_server :: bool where
  "test_request_failing_moves_to_next_server \<longleftrightarrow>
    (case run_xtra [GOOD\<lparr>requestFails := True\<rparr>, GOOD, GOOD] of (r, t) \<Rightarrow> r \<and> gRequests t = 2)"

definition test_error_page_is_not_handed_on :: bool where
  "test_error_page_is_not_handed_on \<longleftrightarrow>
    (case run_xtra [GOOD\<lparr>test_status := 503, body := Some ''<html>down</html>''\<rparr>,
                    GOOD\<lparr>test_status := 404, body := Some ''<html>gone</html>''\<rparr>, GOOD\<lparr>body := Some ''good''\<rparr>] of
       (r, t) \<Rightarrow> r \<and> gRequests t = 3 \<and> responseData t = Some ''good'')"

definition test_only_error_pages_leave_nothing :: bool where
  "test_only_error_pages_leave_nothing \<longleftrightarrow>
    (case run_xtra (replicate 3 (GOOD\<lparr>test_status := 500\<rparr>)) of (r, t) \<Rightarrow> \<not> r \<and> gRequests t = 3 \<and> nothing_left t)"

text \<open>The three errors of the transfer differ only in their curl codes, of which the code tests for success.\<close>

definition test_cut_off_transfer_is_not_handed_on :: bool where
  "test_cut_off_transfer_is_not_handed_on \<longleftrightarrow>
    (case run_xtra (replicate 3 (GOOD\<lparr>curlOk := False\<rparr>)) of (r, t) \<Rightarrow> \<not> r \<and> nothing_left t)"

definition test_empty_body_is_not_handed_on :: bool where
  "test_empty_body_is_not_handed_on \<longleftrightarrow>
    (case run_xtra [GOOD\<lparr>body := None\<rparr>, GOOD\<lparr>body := Some ''''\<rparr>, GOOD] of (r, t) \<Rightarrow> r \<and> gRequests t = 3)"

text \<open>Without a task nothing is called: the task that would count the calls is not there either.\<close>

definition test_no_task :: bool where
  "test_no_task \<longleftrightarrow>
    \<not> fst (fetchXtraData \<lparr>xh_prep = test_prepare [], xh_add = (\<lambda>_. test_add_request [])\<rparr> None URLS)"

lemma xtra_tests_pass:
  "test_first_server_answers" "test_prepare_failing_moves_to_next_server" "test_prepare_always_failing_stops"
  "test_request_failing_moves_to_next_server" "test_error_page_is_not_handed_on" "test_only_error_pages_leave_nothing"
  "test_cut_off_transfer_is_not_handed_on" "test_empty_body_is_not_handed_on" "test_no_task"
  by code_simp+

end
