(* ===== verification/Test_Network.thy ===== *)
theory Test_Network
  imports Test_Json Net_Privacy
begin

text \<open>
  The unit tests of the network provider: \<^verbatim>\<open>tests/test_network_backend.cpp\<close>,
  \<^verbatim>\<open>tests/test_network_position.cpp\<close> and \<^verbatim>\<open>tests/test_network_bssid_log.cpp\<close>. Each test function is
  the conjunction of its checks, and each holds of the model. A buffer is empty where no URL was built. The
  hash tables are walked in the order of insertion; the checks of the log do not depend on it.
\<close>

subsection \<open>test_network_backend.cpp\<close>

definition test_parse_names :: bool where
  "test_parse_names \<longleftrightarrow>
    parseNetworkLocationBackend (Some ''google'') = Google \<and>
    list_all (\<lambda>n. parseNetworkLocationBackend n = BeaconDB) [Some ''beacondb'', None, Some '''', Some ''Google''] \<and>
    networkLocationBackendName Google = ''google'' \<and> networkLocationBackendName BeaconDB = ''beacondb''"

definition test_beacondb_needs_no_key :: bool where
  "test_beacondb_needs_no_key \<longleftrightarrow>
    (let t = networkLocationBackendUrl BeaconDB
     in t = ''https://api.beacondb.net/v1/geolocate'' \<and>
        list_all (\<lambda>k. buildGeolocateUrl (Some t) k 256 = Some ''https://api.beacondb.net/v1/geolocate'') [None, Some ''''])"

definition test_google_takes_the_key :: bool where
  "test_google_takes_the_key \<longleftrightarrow>
    buildGeolocateUrl (Some (networkLocationBackendUrl Google)) (Some ''AIzaSy-abc_123'') 256
      = Some ''https://www.googleapis.com/geolocation/v1/geolocate?key=AIzaSy-abc_123''"

definition test_google_key_is_trimmed :: bool where
  "test_google_key_is_trimmed \<longleftrightarrow>
    buildGeolocateUrl (Some (networkLocationBackendUrl Google)) (Some ('' key123'' @ [newline])) 256
      = Some ''https://www.googleapis.com/geolocation/v1/geolocate?key=key123''"

definition test_google_refuses_without_a_usable_key :: bool where
  "test_google_refuses_without_a_usable_key \<longleftrightarrow>
    list_all (\<lambda>k. buildGeolocateUrl (Some (networkLocationBackendUrl Google)) k 256 = None)
      [None, Some '''', Some ('' '' @ [newline]), Some ''abc&x=1'', Some ''ab cd'']"

definition test_too_long_is_refused :: bool where
  "test_too_long_is_refused \<longleftrightarrow>
    (let t = networkLocationBackendUrl BeaconDB; need = length t + 1;
         g = networkLocationBackendUrl Google; withKey = length g - 2 + length ''key123'' + 1
     in buildGeolocateUrl (Some t) None 30 = None \<and>
        buildGeolocateUrl (Some t) None need \<noteq> None \<and> buildGeolocateUrl (Some t) None (need - 1) = None \<and>
        buildGeolocateUrl (Some g) (Some ''key123'') withKey \<noteq> None \<and>
        buildGeolocateUrl (Some g) (Some ''key123'') (withKey - 1) = None \<and>
        buildGeolocateUrl (Some g) (Some (replicate 300 (CHR ''k''))) 256 = None)"

definition test_mock_address_taken_as_is :: bool where
  "test_mock_address_taken_as_is \<longleftrightarrow>
    buildGeolocateUrl (Some ''http://127.0.0.1:5005/nlp?'') (Some '''') 256 = Some ''http://127.0.0.1:5005/nlp?''"

definition test_headers_name_the_client :: bool where
  "test_headers_name_the_client \<longleftrightarrow>
    list_ex (\<lambda>h. has_prefix ''User-Agent: '' h \<and> length h > 12) kGeolocateHeaders \<and>
    ''Content-Type: application/json'' \<in> set kGeolocateHeaders \<and> length kGeolocateHeaders = 4"

definition kWspConf :: string where
  "kWspConf =
    ''{'' @ [newline, CHR 0x09] @ ''\"wpsName\": \"google\",'' @ [newline, CHR 0x09] @
    ''\"apiKey\": \"dGVzdC1nb29nbGUta2V5Cg==\",'' @ [newline, CHR 0x09] @
    ''\"services\": [ { \"features\": [\"geocode\", \"reverseGeocode\"],'' @ [newline, CHR 0x09, CHR 0x09] @
    ''\"url\": \"https://maps.googleapis.com/maps/api/geocode/json?\" } ]'' @ [newline] @ ''}'' @ [newline]"

abbreviation (input) config_key :: "string option \<Rightarrow> string option" where
  "config_key c \<equiv> geolocationKeyFromConfig test_base64 text_api c"

definition test_key_from_config :: bool where
  "test_key_from_config \<longleftrightarrow>
    config_key (Some kWspConf) = Some (''test-google-key'' @ [newline]) \<and>
    buildGeolocateUrl (Some (networkLocationBackendUrl Google)) (config_key (Some kWspConf)) 256
      = Some ''https://www.googleapis.com/geolocation/v1/geolocate?key=test-google-key''"

text \<open>The text of \<^verbatim>\<open>files/etc/wsp.conf\<close>, line by line, as it is shipped.\<close>

definition shipped_wsp_conf :: string where
  "shipped_wsp_conf = concat (List.map (\<lambda>(n, l). replicate (8 * n) (CHR 0x20) @ l @ [newline])
    [(0, ''{''),
     (1, ''\"wpsName\": \"google\",''),
     (1, ''\"apiKey\": \"\",''),
     (1, ''\"services\": [''),
     (2, ''{''),
     (3, ''\"features\": [\"geocode\", \"reverseGeocode\"],''),
     (3, ''\"url\": \"https://maps.googleapis.com/maps/api/geocode/json?\"''),
     (2, ''}''),
     (1, '']''),
     (0, ''}'')])"

fun strstr :: "string \<Rightarrow> string \<Rightarrow> bool" where
  "strstr p [] = (p = [])"
| "strstr p (c # s) = (if has_prefix p (c # s) then True else strstr p s)"

definition test_shipped_config_has_no_key :: bool where
  "test_shipped_config_has_no_key \<longleftrightarrow>
    config_key (Some shipped_wsp_conf) = None \<and> strstr ''\"apiKey\": \"\"'' shipped_wsp_conf"

definition test_key_from_plain_file :: bool where
  "test_key_from_plain_file \<longleftrightarrow> config_key (Some (''a2%5M#Iz'' @ [newline])) = Some ''key123''"

definition test_no_key_in_config :: bool where
  "test_no_key_in_config \<longleftrightarrow>
    list_all (\<lambda>c. config_key c = None)
      [None, Some '''', Some ''{\"wpsName\": \"google\"}'', Some ''{\"apiKey\": \"\"}'', Some ''{\"apiKey\": 12}'',
       Some ''{\"apiKey\": \"!!!\"}'', Some (replicate 4096 (CHR ''Q''))]"

lemma backend_tests_pass:
  "test_parse_names" "test_beacondb_needs_no_key" "test_google_takes_the_key" "test_google_key_is_trimmed"
  "test_google_refuses_without_a_usable_key" "test_too_long_is_refused" "test_mock_address_taken_as_is"
  "test_headers_name_the_client" "test_key_from_config" "test_shipped_config_has_no_key" "test_key_from_plain_file"
  by code_simp+

lemma not_json: "json_text (replicate (Suc n) (CHR ''Q'')) = JNull"
  by (simp add: json_text_def skip_def json_space_def read_number_def json_digit_def digit_of_def)

lemma too_long_for_a_key: "config_key (Some (replicate 4096 (CHR ''Q''))) = None"
  using not_json [of 4095] by (simp add: geolocationKeyFromConfig_def text_api_def json_api_def Let_def del: replicate_Suc)

lemma no_key_in_config_passes: "test_no_key_in_config"
proof -
  have "list_all (\<lambda>c. config_key c = None)
      [None, Some '''', Some ''{\"wpsName\": \"google\"}'', Some ''{\"apiKey\": \"\"}'', Some ''{\"apiKey\": 12}'',
       Some ''{\"apiKey\": \"!!!\"}'']"
    by code_simp
  then show ?thesis using too_long_for_a_key by (simp only: test_no_key_in_config_def list.pred_inject simp_thms)
qed

subsection \<open>test_network_position.cpp\<close>

text \<open>The provider of the tests has a callback; the fake callback's fields are what was called back.\<close>

definition test_net :: "json net_env" where
  "test_net = net_demo\<lparr>ne_json := text_api\<rparr>"

definition fresh_provider :: NetworkPositionProvider where
  "fresh_provider = np_setCallback True np_init"

definition startRequest :: "NetworkPositionProvider \<Rightarrow> NetworkPositionProvider" where
  "startRequest p = p\<lparr>np_enabled := True, mProcessRequestInProgress := True\<rparr>"

definition setLastFix :: "double \<Rightarrow> double \<Rightarrow> double \<Rightarrow> int \<Rightarrow> NetworkPositionProvider \<Rightarrow> NetworkPositionProvider" where
  "setLastFix lat lon acc t p =
    upd_pd (\<lambda>d. d\<lparr>lastLatitude := lat, lastLongitude := lon, lastAccuracy := acc, lastTimeStamp := t\<rparr>) p"

definition setFixBackend :: "NetworkLocationBackend \<Rightarrow> NetworkPositionProvider \<Rightarrow> NetworkPositionProvider" where
  "setFixBackend b p = p\<lparr>mFixBackend := b\<rparr>"

definition fix_time :: "NetworkPositionProvider \<Rightarrow> int" where
  "fix_time p = lastTimeStamp (mPositionData p)"

definition setLastTimeStamp :: "int \<Rightarrow> NetworkPositionProvider \<Rightarrow> NetworkPositionProvider" where
  "setLastTimeStamp t p = upd_pd (\<lambda>d. d\<lparr>lastTimeStamp := t\<rparr>) p"

definition respond :: "string \<Rightarrow> int \<Rightarrow> NetworkPositionProvider \<Rightarrow> NetworkPositionProvider" where
  "respond b status p =
    handleResponse test_net (Some 1) (empty_task\<lparr>httpResponseCode := status, responseData := Some b, responseSize := length b\<rparr>) p"

definition positionRequest :: PositionRequest where
  "positionRequest = position_request ''network'' POSITION_CMD"

definition second_client :: "NetworkPositionProvider \<Rightarrow> NetworkPositionProvider" where
  "second_client p = snd (np_processRequest test_net positionRequest p)"

definition calls_made :: "NetworkPositionProvider \<Rightarrow> nat" where
  "calls_made p = length (net_callbacks p)"

definition last_call :: "NetworkPositionProvider \<Rightarrow> GeoLocation \<times> ErrorCodes" where
  "last_call p = (case rev (net_callbacks p) of [] \<Rightarrow> (geo_default, ERROR_NONE) | NetLocation l e # _ \<Rightarrow> (l, e))"

definition kFix :: string where
  "kFix = ''{\"location\":{\"lat\":52.3731,\"lng\":4.8922},\"accuracy\":30.0}''"

definition kNotFound :: string where
  "kNotFound =
    ''{\"error\":{\"errors\":[{\"domain\":\"geolocation\",\"reason\":\"notFound\",'' @
    ''\"message\":\"Not found\"}],\"code\":404,\"message\":\"Not found\"}}''"

definition test_no_fix_yet_reports_nothing :: bool where
  "test_no_fix_yet_reports_nothing \<longleftrightarrow> calls_made (second_client (startRequest fresh_provider)) = 0"

definition test_last_fix_reported_with_its_time :: bool where
  "test_last_fix_reported_with_its_time \<longleftrightarrow>
    (let p = second_client (setLastFix 48.8584 2.2945 25 1700000000123 (startRequest fresh_provider)); (l, e) = last_call p
     in calls_made p = 1 \<and> e = ERROR_NONE \<and> mLatitude l = 48.8584 \<and> mLongitude l = 2.2945 \<and> mHorAccuracy l = 25
      \<and> mTimeStamp l = 1700000000123)"

definition test_server_fix_keeps_its_time :: bool where
  "test_server_fix_keeps_its_time \<longleftrightarrow>
    (let p = respond kFix 200 fresh_provider; (l, e) = last_call p; stored = fix_time p;
         q = second_client (startRequest p); (l2, e2) = last_call q
     in calls_made p = 1 \<and> e = ERROR_NONE \<and> stored \<ge> ne_now test_net \<and> mTimeStamp l = of_int stored
      \<and> calls_made q = 2 \<and> mLatitude l2 = 52.3731 \<and> mTimeStamp l2 = of_int stored)"

definition test_confirmed_fix_is_refreshed :: bool where
  "test_confirmed_fix_is_refreshed \<longleftrightarrow>
    (let p = respond kFix 200 fresh_provider; old = fix_time p - 3600000;
         q = respond kFix 200 (setLastTimeStamp old p)
     in calls_made p = 1 \<and> calls_made q = 1 \<and> fix_time q > old)"

definition test_not_found_is_no_fix :: bool where
  "test_not_found_is_no_fix \<longleftrightarrow>
    (let p = respond kNotFound 404 fresh_provider in calls_made p = 1 \<and> snd (last_call p) \<noteq> ERROR_NONE \<and> fix_time p = 0)"

definition test_reply_without_position_is_no_fix :: bool where
  "test_reply_without_position_is_no_fix \<longleftrightarrow>
    (let p = respond ''{\"location\":{\"lat\":52.1},\"accuracy\":30.0}'' 200 (respond ''{\"accuracy\":30.0}'' 200 fresh_provider)
     in calls_made p = 0 \<and> fix_time p = 0)"

definition test_position_without_accuracy :: bool where
  "test_position_without_accuracy \<longleftrightarrow>
    (let p = respond ''{\"location\":{\"lat\":52.5,\"lng\":4.5}}'' 200 fresh_provider; (l, e) = last_call p
     in calls_made p = 1 \<and> e = ERROR_NONE \<and> mLatitude l = 52.5 \<and> mHorAccuracy l = 0)"

definition test_fix_from_other_backend_not_reported :: bool where
  "test_fix_from_other_backend_not_reported \<longleftrightarrow>
    calls_made (second_client (setFixBackend Google (setLastFix 48.8584 2.2945 25 1700000000123 (startRequest fresh_provider)))) = 0"

lemma position_tests_pass:
  "test_no_fix_yet_reports_nothing" "test_last_fix_reported_with_its_time" "test_server_fix_keeps_its_time"
  "test_confirmed_fix_is_refreshed" "test_not_found_is_no_fix" "test_reply_without_position_is_no_fix"
  "test_position_without_accuracy" "test_fix_from_other_backend_not_reported"
  by code_simp+

subsection \<open>test_network_bssid_log.cpp\<close>

text \<open>The regular expression of the test: six pairs of hexadecimal digits, joined by colons or hyphens.\<close>

definition hex_digit :: "char \<Rightarrow> bool" where
  "hex_digit c \<longleftrightarrow> char_in (CHR ''0'') c (CHR ''9'') \<or> char_in (CHR ''a'') c (CHR ''f'') \<or> char_in (CHR ''A'') c (CHR ''F'')"

fun address_here :: "nat \<Rightarrow> string \<Rightarrow> bool" where
  "address_here 0 (a # b # s) = (hex_digit a \<and> hex_digit b)"
| "address_here (Suc n) (a # b # c # s) = (if c = CHR 0x3A \<or> c = CHR ''-'' then hex_digit a \<and> hex_digit b \<and> address_here n s else False)"
| "address_here _ _ = False"

fun has_address :: "string \<Rightarrow> bool" where
  "has_address [] = False"
| "has_address (c # s) = (if address_here 5 (c # s) then True else has_address s)"

definition log_text :: "log_line list \<Rightarrow> string" where
  "log_text ls = concat (List.map (\<lambda>l. show_line l @ [newline]) ls)"

definition kFirst :: string where "kFirst = ''aa:bb:cc:00:00:01''"
definition kSecond :: string where "kSecond = ''aa:bb:cc:00:00:02''"
definition kThird :: string where "kThird = ''aa:bb:cc:00:00:03''"

text \<open>The fake client of the first test keeps the table it is handed; here it is the provider's list.\<close>

definition scan_payload :: string where
  "scan_payload =
    ''{\"foundNetworks\":[{\"networkInfo\":{\"available\":true,'' @
    ''\"bssInfo\":[{\"bssid\":\"'' @ kFirst @ ''\",\"signal\":-55},{\"bssid\":\"'' @ kSecond @ ''\",\"signal\":-70}]}}]}''"

definition test_scan_reply_logs_no_bssid :: bool where
  "test_scan_reply_logs_no_bssid \<longleftrightarrow>
    (case wifiAccessPointsCb test_net scan_payload fresh_provider of
       None \<Rightarrow> False
     | Some p \<Rightarrow>
         (let t = log_text (wifiAccessPointsCb_log as_listed test_net scan_payload fresh_provider)
          in (case wifiAccessPointsList (mPositionData p) of
                None \<Rightarrow> False | Some aps \<Rightarrow> length aps = 2 \<and> kFirst \<in> set (List.map fst aps))
            \<and> strstr ''signalLevel -55'' t \<and> \<not> has_address t))"

text \<open>A query is the object to serialise; the strings in it stand for the text.\<close>

primrec query_strings :: "'j jout \<Rightarrow> string list" where
  "query_strings (OStr s) = [s]"
| "query_strings (OArr xs) = concat (List.map query_strings xs)"
| "query_strings (OObj fs) = concat (List.map snd (List.map (map_prod id query_strings) fs))"
| "query_strings (OBool b) = []" | "query_strings (OInt i) = []" | "query_strings (OReal r) = []" | "query_strings (ODup j) = []"

definition query_has :: "string \<Rightarrow> json jout option \<Rightarrow> bool" where
  "query_has k q = (case q of None \<Rightarrow> False | Some j \<Rightarrow> list_ex (strstr k) (query_strings j))"

text \<open>The two queries of the second test: whether each has its address, and what was logged.\<close>

definition two_queries :: "bool \<times> log_line list" where
  "two_queries =
    (let first = [(kFirst, - 40), (kSecond, - 50)]; second = [(kFirst, - 90), (kThird, - 80)];
         p1 = onUpdateWifiData test_net first np_init; l1 = onUpdateWifiData_log as_listed test_net first np_init;
         l2 = parseWifiData_log as_listed p1; (q1, p2) = createWifiQuery p1;
         p3 = onUpdateWifiData test_net second p2; l3 = onUpdateWifiData_log as_listed test_net second p2;
         l4 = parseWifiData_log as_listed p3; (q2, p4) = createWifiQuery p3
     in (query_has kFirst q1 \<and> query_has kThird q2, l1 @ l2 @ l3 @ l4))"

definition test_query_logs_no_bssid :: bool where
  "test_query_logs_no_bssid \<longleftrightarrow>
    (let t = log_text (snd two_queries)
     in fst two_queries \<and> strstr ''inserting value: '' t
      \<and> strstr ''Existing key is vanished'' t \<and> strstr ''signal change = '' t \<and> \<not> has_address t)"

definition test_address_is_recognised :: bool where
  "test_address_is_recognised \<longleftrightarrow> has_address ''inserting key/value: aa:bb:cc:00:00:01, -40''"

text \<open>What the two queries log, before and after the line with the average.\<close>

definition before_average :: "log_line list" where
  "before_average =
    [LogInt ''###### onUpdateWifiData New value: '' (-40) [], LogInt ''###### onUpdateWifiData New value: '' (-50) [],
     LogText ''triggerPostQuery: no data to post'', LogText ''NetworkPositionProvider::parseWifiData '',
     LogText ''Checking wifi AP list...'', LogText ''Checking mPositionData.lastAps null...'',
     LogText ''Checking mPositionData.last aps not null...'', LogInt ''Existing table size = '' 0 [],
     LogInt ''New table size = '' 2 [], LogInt ''inserting value: '' (-40) [], LogInt ''inserting value: '' (-50) [],
     LogText ''table updation complete'',
     LogInt ''###### onUpdateWifiData New value: '' (-90) [], LogInt ''###### onUpdateWifiData New value: '' (-80) [],
     LogText ''triggerPostQuery: no data to post'', LogText ''NetworkPositionProvider::parseWifiData '',
     LogText ''Checking wifi AP list...'', LogText ''Checking mPositionData.last aps not null...'',
     LogInt ''Existing table size = '' 2 [], LogInt ''New table size = '' 2 [],
     LogInt ''New value: '' (-90) [], LogText ''Found key in existing table'', LogInt ''signal change = '' 50 [],
     LogInt ''New value: '' (-80) [], LogText ''Not found key'', LogInt ''signal change = '' 80 [],
     LogText ''Existing key is vanished in new table'', LogInt ''signal change = '' 50 []]"

definition after_average :: "log_line list" where
  "after_average =
    [LogInt ''inserting value: '' (-90) [], LogInt ''inserting value: '' (-80) [], LogText ''table updation complete'']"

lemma two_queries_log: "two_queries = (True, before_average @ LogReal ''Average signal change = '' 60 # after_average)"
  by code_simp

lemma average_text: "show_line (LogReal ''Average signal change = '' 60) = ''Average signal change = 60.000000''"
proof -
  have "dec_nat 60 = ''60''" "pad_dec 6 0 = ''000000''" by code_simp+
  then show ?thesis by (simp add: printf_f_def round_even_def)
qed

text \<open>A text is searched line by line: no address runs over the end of a line.\<close>

lemma no_address_at_line_end: "\<not> address_here n (newline # b)" "\<not> address_here n (v # newline # b)"
  by (cases n; cases b; cases "tl b"; simp add: hex_digit_def char_in_def)+

lemma address_here_line: "address_here n (a @ newline # b) = address_here n a"
proof (induction n a rule: address_here.induct)
  case (2 n a b' c s)
  then show ?case by simp
qed (simp_all add: no_address_at_line_end)

lemma has_address_line: "has_address (a @ newline # b) \<longleftrightarrow> has_address a \<or> has_address b"
proof (induction a)
  case (Cons c a)
  then show ?case using address_here_line [of 5 "c # a" b] by simp
qed (simp add: no_address_at_line_end)

lemma log_text_split: "log_text (a @ l # b) = log_text a @ show_line l @ [newline] @ log_text b"
  by (simp add: log_text_def)

lemma has_address_log: "has_address (log_text ls) \<longleftrightarrow> list_ex (\<lambda>l. has_address (show_line l)) ls"
  by (induction ls) (simp_all add: log_text_def has_address_line)

lemma has_prefix_strstr: "has_prefix p s \<Longrightarrow> strstr p s"
  by (cases s; cases p) simp_all

lemma strstr_later: "strstr p b \<Longrightarrow> strstr p (a @ b)"
  by (induction a) auto

lemma strstr_line:
  assumes "l \<in> set ls" and "has_prefix p (show_line l)"
  shows "strstr p (log_text ls)"
proof -
  obtain ys zs where ls: "ls = ys @ l # zs" using assms(1) split_list by metis
  have "has_prefix p (show_line l @ [newline] @ log_text zs)" using assms(2) by (auto simp: has_prefix_append)
  then show ?thesis unfolding ls log_text_split by (intro strstr_later has_prefix_strstr)
qed

lemma bssid_log_tests_pass: "test_address_is_recognised" "test_scan_reply_logs_no_bssid" "test_query_logs_no_bssid"
proof -
  show "test_address_is_recognised" "test_scan_reply_logs_no_bssid" by code_simp+
  let ?t = "log_text (snd two_queries)"
  have "\<not> list_ex (\<lambda>l. has_address (show_line l)) (before_average @ after_average)"
    "\<not> has_address ''Average signal change = 60.000000''"
    by code_simp+
  then have "\<not> has_address ?t"
    by (simp add: has_address_log two_queries_log average_text del: show_line.simps has_address.simps)
  moreover have "strstr ''inserting value: '' ?t"
    by (rule strstr_line [of "LogInt ''inserting value: '' (-40) []"]) (simp_all add: two_queries_log before_average_def)
  moreover have "strstr ''Existing key is vanished'' ?t"
    by (rule strstr_line [of "LogText ''Existing key is vanished in new table''"]) (simp_all add: two_queries_log before_average_def)
  moreover have "strstr ''signal change = '' ?t"
    by (rule strstr_line [of "LogInt ''signal change = '' 50 []"]) (simp_all add: two_queries_log before_average_def)
  ultimately show "test_query_logs_no_bssid"
    by (simp only: test_query_logs_no_bssid_def Let_def, simp add: two_queries_log)
qed

end
