(* ===== verification/Test_Store.thy ===== *)
theory Test_Store
  imports Stored_Position
begin

text \<open>
  The unit tests of the preference files and the stored position (\<^verbatim>\<open>tests/test_db_util.cpp\<close>). Each
  test function is the conjunction of its checks, and each holds of the model. The files of this libxml2
  are its documents, or \<open>None\<close> where the text does not parse.
\<close>

type_synonym test_doc = "(string \<times> string option) list"

definition test_xml :: "(test_doc, test_doc option) libxml" where
  "test_xml =
    \<lparr>xmlReadFile = (\<lambda>c. c), xmlDocGetRootElement = (\<lambda>_. True), xml_children = (\<lambda>d. d), xmlNewDoc = (\<lambda>_. Some []),
     xmlNewChild = (\<lambda>k v d. Some (d @ [(k, if v = [] then None else Some v)])),
     xmlUnlinkNode = (\<lambda>i d. take i d @ drop (Suc i) d), xmlSaveFormatFileEnc = (\<lambda>d f. (True, Some (Some d)))\<rparr>"

lemma test_xml_ok: "libxml_ok test_xml" "alloc_ok test_xml"
  by (auto simp: libxml_ok_def alloc_ok_def test_xml_def plain_def)

text \<open>A preference with some entries, written: the results of the calls, the handle and the files.\<close>

definition create_put_commit ::
  "(string \<times> string) list \<Rightarrow> DbErrorCodes list \<times> test_doc DBHandle option \<times> test_doc option files" where
  "create_put_commit kvs =
    (let (c, h) = createPreference test_xml Map.empty (Some ''prefs.xml'') (Some handle_zero) (Some ''Location'') False;
         (rs, h1) = fold (\<lambda>(k, v) (rs, h). let (r, h') = pref_put test_xml h (Some k) v in (rs @ [r], h')) kvs ([], h);
         (r, h2, fs) = pref_commit test_xml h1 Map.empty
     in (c # rs @ [r], h2, fs))"

definition test_create_put_get_roundtrip :: bool where
  "test_create_put_get_roundtrip \<longleftrightarrow>
    (case create_put_commit [(''latitude'', ''12.3456789''), (''longitude'', ''-98.7654321'')] of
       (rs, Some h, fs) \<Rightarrow>
         let (r1, v1, h1) = pref_get test_xml fs (Some h) (Some ''latitude'');
             (r2, v2, h2) = pref_get test_xml fs h1 (Some ''longitude'')
         in rs = [SUCCESS, SUCCESS, SUCCESS, SUCCESS] \<and> doc h = None \<and> r1 = SUCCESS \<and> v1 = Some ''12.3456789'' \<and> r2 = SUCCESS \<and> v2 \<noteq> None
     | _ \<Rightarrow> False)"

definition test_get_missing_key_reports_not_found :: bool where
  "test_get_missing_key_reports_not_found \<longleftrightarrow>
    (let (rs, h, fs) = create_put_commit [(''latitude'', ''1.0'')]; (r, v, h') = pref_get test_xml fs h (Some ''no_such_key'')
     in rs = [SUCCESS, SUCCESS, SUCCESS] \<and> r = KEY_NOT_FOUND \<and> v = None)"

definition test_get_on_absent_file_fails_cleanly :: bool where
  "test_get_on_absent_file_fails_cleanly \<longleftrightarrow>
    (let (r, v, h) = pref_get test_xml Map.empty (Some (handle_zero\<lparr>fileName := Some ''never.xml''\<rparr>)) (Some ''latitude'')
     in r \<noteq> SUCCESS \<and> v = None)"

definition test_get_on_corrupt_file_fails_cleanly :: bool where
  "test_get_on_corrupt_file_fails_cleanly \<longleftrightarrow>
    (let (r, v, h) = pref_get test_xml [''corrupt.xml'' \<mapsto> None] (Some (handle_zero\<lparr>fileName := Some ''corrupt.xml''\<rparr>)) (Some ''latitude'')
     in r \<noteq> SUCCESS \<and> v = None)"

definition test_double_commit_is_safe :: bool where
  "test_double_commit_is_safe \<longleftrightarrow>
    (let (rs, h, fs) = create_put_commit [(''k'', ''v'')]
     in rs = [SUCCESS, SUCCESS, SUCCESS] \<and> fst (pref_commit test_xml h fs) = INIT_ERROR)"

definition test_delete_key_removes_all_duplicates :: bool where
  "test_delete_key_removes_all_duplicates \<longleftrightarrow>
    (let (rs, h, fs) = create_put_commit [(''k'', ''one''), (''k'', ''two''), (''other'', ''kept'')];
         (r, h1, fs1) = deleteKey test_xml fs h (Some ''k'');
         (r1, v1, h2) = pref_get test_xml fs1 h1 (Some ''k'');
         (r2, v2, h3) = pref_get test_xml fs1 h2 (Some ''other'')
     in rs = [SUCCESS, SUCCESS, SUCCESS, SUCCESS, SUCCESS] \<and> r = SUCCESS \<and> r1 = KEY_NOT_FOUND \<and> r2 = SUCCESS)"

lemma preference_tests_pass:
  "test_create_put_get_roundtrip" "test_get_missing_key_reports_not_found" "test_get_on_absent_file_fails_cleanly"
  "test_get_on_corrupt_file_fails_cleanly" "test_double_commit_is_safe" "test_delete_key_removes_all_duplicates"
  by code_simp+

definition amsterdam :: "Position \<times> Accuracy" where
  "amsterdam =
    (position_zero\<lparr>p_timestamp := 1757577600123, p_latitude := 52.3702157, p_longitude := 4.8951679, p_altitude := - 2.5,
       p_speed := 1.5, p_direction := 270\<rparr>, \<lparr>horizAccuracy = 12, vertAccuracy = 8\<rparr>)"

definition test_stored_position_roundtrip :: bool where
  "test_stored_position_roundtrip \<longleftrightarrow>
    (let fs = set_store_position test_xml (fst amsterdam) (snd amsterdam) (Some ''pos.xml'') Map.empty;
         (r, p, a) = get_stored_position test_xml dec_strtod fs (Some ''pos.xml'') (position_zero, accuracy_zero)
     in r = ERROR_NONE \<and> p_timestamp p = 1757577600123 \<and> \<bar>p_latitude p - 52.3702157\<bar> < 1 / 10 ^ 6
      \<and> \<bar>p_longitude p - 4.8951679\<bar> < 1 / 10 ^ 6 \<and> \<bar>horizAccuracy a - 12\<bar> < 1 / 10 ^ 6)"

text \<open>What the test asks of the huge values is that no buffer overflows: what is put fits \<^verbatim>\<open>MAX_LEN\<close>.\<close>

definition test_stored_position_survives_huge_values :: bool where
  "test_stored_position_survives_huge_values \<longleftrightarrow>
    list_all (\<lambda>(k, v). length v < MAX_LEN)
      (stored_fields \<lparr>p_timestamp = 1, p_latitude = 10 ^ 308, p_longitude = - (10 ^ 308), p_altitude = 10 ^ 308, p_speed = 10 ^ 308,
         p_direction = 10 ^ 308, p_climb = 0\<rparr> \<lparr>horizAccuracy = 10 ^ 308, vertAccuracy = 10 ^ 308\<rparr>)"

definition test_stored_position_rejects_partial_file :: bool where
  "test_stored_position_rejects_partial_file \<longleftrightarrow>
    fst (get_stored_position test_xml dec_strtod [''partial.xml'' \<mapsto> Some [(''timestamp'', Some ''5'')]] (Some ''partial.xml'')
      (position_zero, accuracy_zero)) = ERROR_NOT_AVAILABLE"

text \<open>The two calls with a null position or accuracy have no counterpart: the model has no such pointers.\<close>

definition test_null_arguments :: bool where
  "test_null_arguments \<longleftrightarrow>
    fst (get_stored_position test_xml dec_strtod Map.empty None (position_zero, accuracy_zero)) = ERROR_NOT_AVAILABLE \<and>
    fst (pref_put test_xml None (Some ''k'') ''v'') \<noteq> SUCCESS \<and>
    fst (pref_put test_xml (Some handle_zero) None ''v'') \<noteq> SUCCESS \<and>
    fst (pref_get test_xml Map.empty None (Some ''k'')) \<noteq> SUCCESS \<and>
    fst (deleteKey test_xml Map.empty None (Some ''k'')) \<noteq> SUCCESS \<and>
    fst (pref_commit test_xml None Map.empty) = INIT_ERROR \<and>
    fst (createPreference test_xml Map.empty None (Some handle_zero) (Some ''t'') False) = NULL_VALUE \<and>
    fst (deletePreference (Map.empty :: test_doc option files) None) = Inl NULL_VALUE \<and>
    \<not> isFileExists (Map.empty :: test_doc option files) None \<and>
    set_store_position test_xml position_zero accuracy_zero None Map.empty = Map.empty"

lemma stored_fields_bounded: "list_all (\<lambda>(k, v). length v < MAX_LEN) (stored_fields p a)"
  by (simp add: stored_fields_def strlcpy_def min_def)

lemma stored_position_tests_pass:
  "test_stored_position_roundtrip" "test_stored_position_survives_huge_values" "test_stored_position_rejects_partial_file"
  "test_null_arguments"
proof -
  have "storable (fst amsterdam) (snd amsterdam)" by (simp add: storable_def amsterdam_def position_zero_def)
  note r = stored_reads_back [OF test_xml_ok dec_strtod_ok this]
  have "\<bar>p_latitude (fst (stored_again p a p0)) - p_latitude p\<bar> < 1 / 10 ^ 6"
    "\<bar>p_longitude (fst (stored_again p a p0)) - p_longitude p\<bar> < 1 / 10 ^ 6"
    "\<bar>horizAccuracy (snd (stored_again p a p0)) - horizAccuracy a\<bar> < 1 / 10 ^ 6" for p a p0
    using dec_round_near [of 7 "p_latitude p"] dec_round_near [of 7 "p_longitude p"] dec_round_near [of 6 "horizAccuracy a"]
    by (simp_all add: stored_again_def)
  note n = this [of "fst amsterdam" "snd amsterdam" position_zero]
  show "test_stored_position_roundtrip"
    using n unfolding test_stored_position_roundtrip_def Let_def r case_prod_conv
    by (simp add: case_prod_unfold) (simp add: stored_again_def amsterdam_def)
  show "test_stored_position_survives_huge_values"
    unfolding test_stored_position_survives_huge_values_def by (rule stored_fields_bounded)
  show "test_stored_position_rejects_partial_file" by code_simp
  show "test_null_arguments"
    by (simp add: test_null_arguments_def get_stored_position_def pref_put_def pref_get_def deleteKey_def pref_commit_def
        createPreference_def deletePreference_def isFileExists_def set_store_position_def)
qed

end
