(* ===== verification/Spec2Isabelle.thy ===== *)
theory Spec2Isabelle
  imports Schema_Claims Mock_Server Gps_Wan Process_Life Reply_Util Geo_Values Net_Privacy Net_Origin Request_Log
    Test_Watch Test_Gps Test_Network Test_Store
begin

text \<open>
  A model of com.webos.service.location, the location service of webOS: a daemon on the luna bus
  that gives applications positions, satellite data, geofences, geocoding and mock locations, from a
  GPS receiver behind the nyx HAL and from a network server that locates cells and access points.

  \<^bold>\<open>The parts and where they are.\<close> Paths are below \<^verbatim>\<open>src/\<close>.

  \<^item> \<^theory_text>\<open>Location_Prelude\<close>: error codes, requests and positions (\<^verbatim>\<open>include/Location.h\<close>,
    \<^verbatim>\<open>ServiceAgent.h\<close>, \<^verbatim>\<open>PositionRequest.h\<close>, \<^verbatim>\<open>GeoLocation.h\<close>), C string and number
    helpers, flag words, and the locales \<^theory_text>\<open>step_invariant\<close> and \<^theory_text>\<open>machine\<close> that prove the rule
    of invariants once for every component. \<^theory_text>\<open>C_Numbers\<close>: printing and reading decimals.
    \<^theory_text>\<open>Luna_Json\<close>: pbnjson and the luna bus as parameters, with concrete instances for the examples.
  \<^item> \<^theory_text>\<open>Life_Cycle\<close>: wake locks (\<^verbatim>\<open>src/lunaIpc/LifeCycleMonitor.cpp\<close>).
  \<^item> \<^theory_text>\<open>Mock\<close>: mock locations (\<^verbatim>\<open>src/mock\<close>); \<^theory_text>\<open>Mock_Server\<close>: the thread that answers the network
    provider with them (\<^verbatim>\<open>NetworkMockLocation.c\<close>). \<^theory_text>\<open>Stored_Position\<close>: the XML store and the stored
    position (\<^verbatim>\<open>src/utils/db_util.cpp\<close>, \<^verbatim>\<open>Gps_stored_data.cpp\<close>).
  \<^item> \<^theory_text>\<open>Gps_Config\<close>, \<^theory_text>\<open>Ntp\<close>, \<^theory_text>\<open>Http\<close>: the configuration file, the NTP client, the XTRA
    download and the table of HTTP transactions (\<^verbatim>\<open>src/handler/position/gps/gps_cfg.cpp\<close>,
    \<^verbatim>\<open>GPSServiceConfig.cpp\<close>, \<^verbatim>\<open>NtpClient.cpp\<close>, \<^verbatim>\<open>XtraDownload.cpp\<close>,
    \<^verbatim>\<open>src/utils/NetworkRequestManager.cpp\<close>).
  \<^item> \<^theory_text>\<open>Gps_State\<close>, \<^theory_text>\<open>Gps_Provider\<close>, \<^theory_text>\<open>Gps_Callbacks\<close>: the GPS position provider, its HAL
    wrappers and callbacks (\<^verbatim>\<open>GPSPositionProvider.cpp\<close>, \<^verbatim>\<open>GPSNyxInterface.cpp\<close>,
    \<^verbatim>\<open>HandlerBase.cpp\<close>, \<^verbatim>\<open>src/handler/Satellite.cpp\<close>); \<^theory_text>\<open>Gps_Machine\<close> runs them over events.
    \<^theory_text>\<open>Gps_Wan\<close>: the WAN service and the data connection (\<^verbatim>\<open>GpsWanInterface.cpp\<close>).
  \<^item> \<^theory_text>\<open>Net_Backend\<close>, \<^theory_text>\<open>Net_Provider\<close>: the network position provider
    (\<^verbatim>\<open>src/handler/position/network\<close>). \<^theory_text>\<open>Provider_Interface\<close>: the locale of what both providers
    promise the service, interpreted on both. \<^theory_text>\<open>Net_Log\<close>: what the network provider logs on its way
    through scans, \<^theory_text>\<open>Net_Privacy\<close>: that up to the order of the lines it does not depend on the addresses in
    them (the locale \<^theory_text>\<open>unwinding\<close>, of two runs that put out the same). \<^theory_text>\<open>Net_Origin\<close>: that the positions
    the network provider reports and stores are those the server sent.
  \<^item> \<^theory_text>\<open>Connection_Observer\<close>: the replies of the wifi, connection and telephony services and the
    resume signal (\<^verbatim>\<open>ConnectionStateObserver.cpp\<close>, \<^verbatim>\<open>ConnmgrStatus.cpp\<close>,
    \<^verbatim>\<open>SleepdSignals.cpp\<close>). \<^theory_text>\<open>Geocoding\<close>: \<^verbatim>\<open>src/handler/lbs/geoservices\<close>.
  \<^item> \<^theory_text>\<open>Service_State\<close>, \<^theory_text>\<open>Service_Geofence\<close>, \<^theory_text>\<open>Service_Updates\<close>, \<^theory_text>\<open>Service_Methods\<close>,
    \<^theory_text>\<open>Service_Handlers\<close>: the service itself (\<^verbatim>\<open>src/lunaIpc/LocationService.cpp\<close>,
    \<^verbatim>\<open>LunaLocationServiceUtil.cpp\<close>, \<^verbatim>\<open>JsonUtility.cpp\<close>); \<^theory_text>\<open>Service_Machine\<close> runs its
    methods, timers, idle functions, both providers and the watcher as one machine.
    \<^theory_text>\<open>Schemas\<close>: the schemas of the requests (\<^verbatim>\<open>include/LunaLocationServiceUtil.h\<close>,
    \<^verbatim>\<open>include/JsonUtility.h\<close>) and the locale of a pbnjson that validates them. \<^theory_text>\<open>Process_Life\<close>: the
    start and the end of the process (\<^verbatim>\<open>Main.cpp\<close>, \<^verbatim>\<open>LocationService::init\<close> and \<^verbatim>\<open>deinit\<close>) and the
    watcher's registrations. \<^theory_text>\<open>Reply_Util\<close>: helpers nothing calls. \<^theory_text>\<open>Request_Log\<close>:
    the log of the requests. \<^theory_text>\<open>Geo_Values\<close>: the geographic value objects
    (\<^verbatim>\<open>src/utils/GeoLocation.cpp\<close>, \<^verbatim>\<open>GeoAddress.cpp\<close>).
  \<^item> \<^theory_text>\<open>Test_Watch\<close>, \<^theory_text>\<open>Test_Gps\<close>, \<^theory_text>\<open>Test_Network\<close>, \<^theory_text>\<open>Test_Store\<close>: the repository's own unit tests (\<^verbatim>\<open>tests\<close>),
    each a definition over the model that is proved to hold; \<^theory_text>\<open>Test_Json\<close> reads the JSON texts they are written with.

  \<^bold>\<open>How state and operations correspond.\<close> A class is a record with the names of its fields, a handler a
  function of the same name from the state to the state after it. What the code calls outside the
  repository (nyx, libxml2, pbnjson, luna-service2, luna-prefs, libcurl behind loc-utils, clocks, timers
  and random numbers) is an environment record, an argument of the operations that use it; calls with an
  effect outside are traces in the state (such as the positions the providers give to
  \<^verbatim>\<open>set_store_position\<close>, which \<^theory_text>\<open>Stored_Position\<close> models down to the file). Errors are values of the code's enumerations, undefined
  behaviour (a null pointer used) is \<open>None\<close>. Machine integers that serve as flags are words. A \<open>double\<close>
  is a rational, so results are those of exact arithmetic; \<^verbatim>\<open>time_t\<close> has 64 bits. The order in which glib walks a
  hash table is a parameter of \<^theory_text>\<open>Net_Log\<close>, the one place where it can be seen. Counters are unbounded; that the count of
  wake locks stays within a C \<^verbatim>\<open>int\<close> is proved for runs of fewer than 2^31 events. A run is the fold of a step function over a
  list of events, each with its own environment; the two threads around the mock server are also a
  transition relation, with the same reachable states.

  \<^bold>\<open>What the lemmas show.\<close> \<^theory_text>\<open>Gps_Props\<close> and \<^theory_text>\<open>Net_Props\<close> prove the invariants of the providers,
  \<^theory_text>\<open>Gps_Claims\<close> and \<^theory_text>\<open>Net_Claims\<close> their properties: the engine runs exactly for its requests,
  requests refine a small table, the timer of a network request is the one remembered, answers and fixes are
  reported on change, unchanged scans are not posted again, the log says no address, no position is made up. \<^theory_text>\<open>Service_Props\<close> and \<^theory_text>\<open>Service_Good\<close>
  prove the bookkeeping of the service under every method, callback and reply; \<^theory_text>\<open>Service_Machine\<close>
  carries it over every step. \<^theory_text>\<open>Service_Claims\<close> states what clients get from it: balanced lists,
  answered time outs, throttled replies, geofence slots. \<^theory_text>\<open>Handler_Claims\<close> is about what a user
  switches: handler states, the cached position, mock locations and a kernel resume. \<^theory_text>\<open>Delivery\<close> follows
  a fix from the HAL to every client in one run, \<^theory_text>\<open>Service_Ambient\<close> proves what no method changes: the
  listeners' agreement on the connections and that no wake lock is taken. \<^theory_text>\<open>Schema_Claims\<close> derives from the
  schemas that no call runs into undefined behaviour, that calls are answered and that geofences are on the
  globe. The other components have their properties at their end. Every property with a hypothesis is
  followed by a concrete run it applies to.

  \<^bold>\<open>Bounds and termination.\<close> The NTP client's server loop recurses over the list of servers; the search for a
  geofence id makes \<^verbatim>\<open>MAX_GEOFENCE_ID\<close> draws as the code does; every other loop is a recursion over the
  list it walks. No definition needs fuel.

  \<^bold>\<open>Not modelled.\<close> Failing allocations (a null from \<^verbatim>\<open>jobject_create\<close> or \<^verbatim>\<open>new(nothrow)\<close>), failing replies,
  logging (but for \<^theory_text>\<open>Net_Log\<close> and \<^theory_text>\<open>Request_Log\<close>) and its files, mutexes (every handler is one step; the worker, the download threads and the mock
  server's thread interleave at the steps of their loops) and the rounding of \<^verbatim>\<open>double\<close>, its NaN and
  infinities. The mock providers are one global list in the code; each position provider and the mock server's
  machine carry a copy of which only their own entry is used. The web service's transactions are kept apart from
  the network provider's: the table they share in the code is keyed by task, so neither sees the other's entries.
  Getters are the fields of records. Tools and generated bus files hold no logic of the service.
\<close>

end
